(* ===== verification/Prelude.thy ===== *)
theory Prelude
  imports Main "HOL-Library.Word"
begin

text \<open>
  Shared vocabulary of the development: the byte-level types the Go sources use, the failures a
  Go function can end with (a returned error, a run-time panic, a process exit), sequencing of
  fallible computations, and the generic facts about lists, options and words on which the
  component theories rest.  The collections \<open>res_simps\<close> and \<open>bytes_simps\<close> carry the shared
  simplification rules.
\<close>

unbundle bit_operations_syntax

named_theorems res_simps "rules for fallible computations"
named_theorems bytes_simps "rules for byte strings, addresses and masks"

section \<open>Types\<close>

type_synonym byte = "8 word"
type_synonym uint16 = "16 word"

text \<open>
  A Go \<open>net.IP\<close> is a byte slice; the nil slice and the empty slice behave alike for every use in
  the sources, so both are the empty list.  A \<open>peer.ID\<close> is a Go string holding the raw bytes of
  a multihash.
\<close>

type_synonym IP = "byte list"
type_synonym peer_id = "byte list"

text \<open>\<open>[]byte(s)\<close> for a Go string.\<close>

definition bytes_of :: "string \<Rightarrow> byte list" where
  "bytes_of s = map (\<lambda>c. of_char c) s"

section \<open>Failures\<close>

datatype go_panic =
    TypeAssertion
  | SliceBounds
  | IndexOutOfRange
  | NilFuncCall
  | NilMapWrite
  | NilDereference
  | DivideByZero
  | ClosedChannel
  | ExplicitPanic string

datatype go_error =
    ErrExt string                    \<comment> \<open>an error value made by code outside the repository\<close>
  | ErrUnknownPeer string
  | ErrAmbiguousPrefix string nat
  | ErrNoSuchPeer
  | ErrExpectedArgs nat
  | ErrNoSuchAction
  | ErrUnsupportedProtocol string
  | ErrTrailingComponents
  | ErrNotFound
  | ErrParseCIDR string
  | ErrDestAddress
  | ErrWrapped string go_error
  | ErrEOF
  | ErrClosed
  | ErrAFNoSupport
  | ErrDeadlineExceeded
  | ErrCtxCanceled
  | ErrCtxDeadline
  | ErrText string
  | ErrNoSuchHost
  | ErrLameReferral
  | ErrCannotUnmarshalDNSMessage
  | ErrCannotMarshalDNSMessage
  | ErrServerMisbehaving
  | ErrInvalidDNSResponse
  | ErrNoAnswerFromDNSServer
  | ErrServerTemporarilyMisbehaving
  | ErrCanceled
  | ErrTimeout
  | ErrNumericPort
  | ErrNoSuitableAddress
  | ErrMissingAddress
  | ErrUnknownNetwork string
  | OpError go_error
  | DNSError go_error string string bool bool bool
      \<comment> \<open>the error whose text it carries, name, server, is it a timeout, temporary, not found\<close>

text \<open>
  How a computation can end without a value: an error it returns, a panic, or a call of
  \<open>log.Fatal\<close>, which ends the process.
\<close>

datatype failure = Error go_error | Panic go_panic | Fatal string

type_synonym 'a res = "failure + 'a"

definition bind_res :: "'a res \<Rightarrow> ('a \<Rightarrow> 'b res) \<Rightarrow> 'b res" where
  "bind_res m f = (case m of Inl e \<Rightarrow> Inl e | Inr x \<Rightarrow> f x)"

lemma bind_res_Inr [simp, res_simps]: "bind_res (Inr x) f = f x"
  by (simp add: bind_res_def)

lemma bind_res_Inl [simp, res_simps]: "bind_res (Inl e) f = Inl e"
  by (simp add: bind_res_def)

lemma bind_res_eq_Inr_iff [res_simps]:
  "bind_res m f = Inr y \<longleftrightarrow> (\<exists>x. m = Inr x \<and> f x = Inr y)"
  by (cases m) auto

lemma bind_res_eq_Inl_iff:
  "bind_res m f = Inl e \<longleftrightarrow> m = Inl e \<or> (\<exists>x. m = Inr x \<and> f x = Inl e)"
  by (cases m) auto

text \<open>A loop that appends \<open>f x\<close> for every element and returns at the first failure.\<close>

fun mapM_res :: "('a \<Rightarrow> 'b res) \<Rightarrow> 'a list \<Rightarrow> 'b list res" where
  "mapM_res f [] = Inr []"
| "mapM_res f (x # xs) = bind_res (f x) (\<lambda>y. bind_res (mapM_res f xs) (\<lambda>ys. Inr (y # ys)))"

lemma mapM_res_Inr_iff:
  "mapM_res f xs = Inr ys \<longleftrightarrow> list_all2 (\<lambda>x y. f x = Inr y) xs ys"
proof (induction xs arbitrary: ys)
  case Nil
  then show ?case by auto
next
  case (Cons x xs)
  then show ?case by (cases ys) (auto simp: bind_res_eq_Inr_iff)
qed

lemma mapM_res_length: "mapM_res f xs = Inr ys \<Longrightarrow> length ys = length xs"
  by (simp add: mapM_res_Inr_iff list_all2_lengthD)

lemma mapM_res_first_failure:
  assumes "list_all (\<lambda>x. \<exists>y. f x = Inr y) xs" and "f z = Inl e"
  shows "mapM_res f (xs @ z # zs) = Inl e"
  using assms by (induction xs) auto

section \<open>Lists and words\<close>

lemma nth_Suc_Cons_numeral [bytes_simps]: "(x # xs) ! numeral n = xs ! (pred_numeral n)"
  by (simp add: nth_Cons')

lemma list_eq_iff_nth_less:
  "length xs = n \<Longrightarrow> length ys = n \<Longrightarrow> (\<And>i. i < n \<Longrightarrow> xs ! i = ys ! i) \<Longrightarrow> xs = ys"
  by (simp add: nth_equalityI)

lemma length4_conv: "length xs = 4 \<longleftrightarrow> (\<exists>a b c d. xs = [a, b, c, d])"
  by (auto simp: numeral_eq_Suc length_Suc_conv)

lemma length2_conv: "length xs = 2 \<longleftrightarrow> (\<exists>a b. xs = [a, b])"
  by (auto simp: numeral_eq_Suc length_Suc_conv)

lemma xor_cancel_left [simp]: "(a :: 'a :: len word) XOR (a XOR b) = b"
  by (simp add: xor.assoc [symmetric])

lemma xor_left_inject [simp]: "(a :: 'a :: len word) XOR b = a XOR c \<longleftrightarrow> b = c"
  by (metis xor_cancel_left)

lemma find_Some_mem: "List.find P xs = Some x \<Longrightarrow> x \<in> set xs \<and> P x"
  by (auto simp: find_Some_iff)

lemma find_map_None_iff: "List.find P xs = None \<longleftrightarrow> (\<forall>x \<in> set xs. \<not> P x)"
  by (auto simp: find_None_iff)

end
