(* ===== verification/GoNet.thy ===== *)
theory GoNet
  imports GoStd
begin

text \<open>
  The parts of Go's package \<open>net\<close> the sources use: addresses (\<open>IP.To4\<close>, \<open>To16\<close>,
  \<open>Equal\<close>, \<open>Mask\<close>), networks (\<open>IPNet.Contains\<close>), masks (\<open>CIDRMask\<close>,
  \<open>IPMask.Size\<close>) and the textual parser \<open>ParseCIDR\<close> with the address grammar of
  \<open>net/netip\<close>.  The lemmas at the end of each section are the facts the components use.
\<close>

section \<open>Addresses\<close>

definition v4InV6Prefix :: "byte list" where
  "v4InV6Prefix = replicate 10 0 @ [0xff, 0xff]"

definition To4 :: "IP \<Rightarrow> IP" where
  "To4 ip = (if length ip = 4 then ip
             else if length ip = 16 \<and> take 12 ip = v4InV6Prefix then drop 12 ip
             else [])"

definition To16 :: "IP \<Rightarrow> IP" where
  "To16 ip = (if length ip = 4 then v4InV6Prefix @ ip
              else if length ip = 16 then ip else [])"

definition IP_Equal :: "IP \<Rightarrow> IP \<Rightarrow> bool" where
  "IP_Equal ip x =
     (if length ip = length x then ip = x
      else if length ip = 4 \<and> length x = 16 then take 12 x = v4InV6Prefix \<and> ip = drop 12 x
      else if length ip = 16 \<and> length x = 4 then take 12 ip = v4InV6Prefix \<and> drop 12 ip = x
      else False)"

record IPNet =
  net_IP :: IP
  net_Mask :: "byte list"

lemma length_v4InV6Prefix [simp, bytes_simps]: "length v4InV6Prefix = 12"
  by (simp add: v4InV6Prefix_def)

lemma To4_length4 [simp]: "length ip = 4 \<Longrightarrow> To4 ip = ip"
  by (simp add: To4_def)

lemma To16_length16 [simp]: "length ip = 16 \<Longrightarrow> To16 ip = ip"
  by (simp add: To16_def)

lemma To4_To16: "length ip = 4 \<Longrightarrow> To4 (To16 ip) = ip"
  by (simp add: To4_def To16_def)

lemma IP_Equal_same_length [simp]: "length a = length b \<Longrightarrow> IP_Equal a b \<longleftrightarrow> a = b"
  by (simp add: IP_Equal_def)

text \<open>An IPv6 address whose first byte is not zero is not an IPv4-mapped one.\<close>

lemma To4_not_mapped:
  assumes "length ip = 16" and "hd ip \<noteq> 0"
  shows "To4 ip = []"
proof -
  have "hd v4InV6Prefix = 0" by (simp add: v4InV6Prefix_def numeral_eq_Suc)
  then have "take 12 ip \<noteq> v4InV6Prefix"
    using assms(2) by (metis hd_take zero_less_numeral)
  then show ?thesis using assms(1) by (simp add: To4_def)
qed

section \<open>Masks\<close>

fun mask_bytes :: "nat \<Rightarrow> nat \<Rightarrow> byte list" where
  "mask_bytes 0 n = []"
| "mask_bytes (Suc l) n =
     (if 8 \<le> n then 0xff # mask_bytes l (n - 8)
      else NOT (drop_bit n 0xff) # mask_bytes l 0)"

definition CIDRMask :: "nat \<Rightarrow> nat \<Rightarrow> byte list" where
  "CIDRMask ones bits =
     (if bits \<noteq> 32 \<and> bits \<noteq> 128 \<or> bits < ones then [] else mask_bytes (bits div 8) ones)"

fun leading_ones :: "nat \<Rightarrow> byte \<Rightarrow> nat \<times> byte" where
  "leading_ones 0 v = (0, v)"
| "leading_ones (Suc k) v =
     (if v AND 0x80 \<noteq> 0
      then (let (n, w) = leading_ones k (push_bit 1 v) in (Suc n, w))
      else (0, v))"

fun simpleMaskLength :: "byte list \<Rightarrow> nat option" where
  "simpleMaskLength [] = Some 0"
| "simpleMaskLength (v # vs) =
     (if v = 0xff then map_option (\<lambda>n. n + 8) (simpleMaskLength vs)
      else (let (n, w) = leading_ones 8 v in
            if w \<noteq> 0 then None
            else if list_all (\<lambda>x. x = 0) vs then Some n else None))"

definition Mask_Size :: "byte list \<Rightarrow> nat \<times> nat" where
  "Mask_Size m = (case simpleMaskLength m of None \<Rightarrow> (0, 0) | Some n \<Rightarrow> (n, length m * 8))"

lemma length_mask_bytes [simp]: "length (mask_bytes l n) = l"
  by (induction l n rule: mask_bytes.induct) auto

lemma mask_bytes_0: "mask_bytes l 0 = replicate l 0"
  by (induction l) simp_all

lemma length_CIDRMask:
  "bits = 32 \<or> bits = 128 \<Longrightarrow> n \<le> bits \<Longrightarrow> length (CIDRMask n bits) = bits div 8"
  by (auto simp: CIDRMask_def)

lemma partial_byte:
  assumes "n < 8"
  shows "NOT (drop_bit n 0xff :: byte) \<noteq> 0xff
    \<and> leading_ones 8 (NOT (drop_bit n 0xff)) = (n, 0)"
proof -
  have "n \<in> {0, 1, 2, 3, 4, 5, 6, 7}" using assms by auto
  then show ?thesis by (elim insertE emptyE; hypsubst) code_simp+
qed

lemma simpleMaskLength_mask_bytes:
  "n \<le> 8 * l \<Longrightarrow> simpleMaskLength (mask_bytes l n) = Some n"
proof (induction l n rule: mask_bytes.induct)
  case (1 n)
  then show ?case by simp
next
  case (2 l n)
  show ?case
  proof (cases "8 \<le> n")
    case True
    then show ?thesis using 2 by simp
  next
    case False
    then show ?thesis
      using partial_byte [of n] by (simp add: mask_bytes_0 list_all_iff)
  qed
qed

lemma Mask_Size_CIDRMask:
  assumes "bits = 32 \<or> bits = 128" and "n \<le> bits"
  shows "Mask_Size (CIDRMask n bits) = (n, bits)"
proof -
  have "simpleMaskLength (mask_bytes (bits div 8) n) = Some n"
    using assms by (intro simpleMaskLength_mask_bytes) auto
  then show ?thesis using assms by (auto simp: Mask_Size_def CIDRMask_def)
qed

section \<open>Networks\<close>

text \<open>\<open>(ip IP) Mask(mask)\<close>.\<close>

definition IP_Mask :: "IP \<Rightarrow> byte list \<Rightarrow> IP" where
  "IP_Mask ip mask0 =
     (let mask = (if length mask0 = 16 \<and> length ip = 4 \<and> list_all (\<lambda>b. b = 0xff) (take 12 mask0)
                  then drop 12 mask0 else mask0);
          ip' = (if length mask = 4 \<and> length ip = 16 \<and> take 12 ip = v4InV6Prefix
                 then drop 12 ip else ip)
      in if length ip' \<noteq> length mask then [] else map2 (AND) ip' mask)"

definition networkNumberAndMask :: "IPNet \<Rightarrow> IP \<times> byte list" where
  "networkNumberAndMask n =
     (let v4 = To4 (net_IP n); ip = (if v4 \<noteq> [] then v4 else net_IP n) in
      if length ip \<noteq> 4 \<and> length ip \<noteq> 16 then ([], [])
      else if length (net_Mask n) = 4 then
        (if length ip \<noteq> 4 then ([], []) else (ip, net_Mask n))
      else if length (net_Mask n) = 16 then
        (ip, if length ip = 4 then drop 12 (net_Mask n) else net_Mask n)
      else ([], []))"

definition IPNet_Contains :: "IPNet \<Rightarrow> IP \<Rightarrow> bool" where
  "IPNet_Contains n ip0 =
     (let (nn, m) = networkNumberAndMask n;
          ip = (if To4 ip0 \<noteq> [] then To4 ip0 else ip0)
      in length ip = length nn \<and> map2 (AND) nn m = map2 (AND) ip m)"

lemma map2_AND_mask_bytes_iff:
  assumes "length xs = l" and "length ys = l"
  shows "map2 (AND) xs (mask_bytes l (8 * k)) = map2 (AND) ys (mask_bytes l (8 * k))
    \<longleftrightarrow> take k xs = take k ys"
  using assms
proof (induction l arbitrary: xs ys k)
  case 0
  then show ?case by simp
next
  case (Suc l)
  then obtain x xs' y ys' where *: "xs = x # xs'" "ys = y # ys'"
    "length xs' = l" "length ys' = l"
    by (metis length_Suc_conv)
  show ?case
  proof (cases k)
    case 0
    have "map2 (AND) us (replicate l (0 :: byte)) = replicate l 0" if "length us = l" for us
      using that by (induction us arbitrary: l) auto
    then show ?thesis using * 0 by (simp add: mask_bytes_0)
  next
    case (Suc k')
    have "(255 :: byte) = -1" by simp
    then have "(a :: byte) AND 255 = a" for a by (metis and.right_neutral)
    then show ?thesis using Suc.IH [of xs' ys' k'] * Suc by simp
  qed
qed

text \<open>
  A network whose mask has a whole number of \<open>k\<close> bytes contains exactly the addresses that
  share its first \<open>k\<close> bytes.
\<close>

lemma IPNet_Contains_v6_prefix:
  assumes "length nip = 16" and "To4 nip = []" and "length ip = 16" and "To4 ip = []"
    and "k \<le> 16"
  shows "IPNet_Contains \<lparr>net_IP = nip, net_Mask = CIDRMask (8 * k) 128\<rparr> ip
    \<longleftrightarrow> take k nip = take k ip"
  using assms map2_AND_mask_bytes_iff [of nip 16 ip k]
  by (simp add: IPNet_Contains_def networkNumberAndMask_def CIDRMask_def)

lemma IPNet_Contains_v4_prefix:
  assumes "length nip = 4" and "length ip = 4" and "k \<le> 4"
  shows "IPNet_Contains \<lparr>net_IP = nip, net_Mask = CIDRMask (8 * k) 32\<rparr> ip
    \<longleftrightarrow> take k nip = take k ip"
proof -
  have "nip \<noteq> []" "ip \<noteq> []" using assms by auto
  then show ?thesis
    using assms map2_AND_mask_bytes_iff [of nip 4 ip k]
    by (simp add: IPNet_Contains_def networkNumberAndMask_def CIDRMask_def)
qed

end
