(* ===== verification/IdHash.thy ===== *)
theory IdHash
  imports GoNet
begin

text \<open>
  \<open>config/idhash.go\<close>: the addresses and identifiers derived from a peer's ID and from a service
  name.  Every one of its loops folds the bytes of its argument, by exclusive or, into a group of
  \<open>k\<close> consecutive cells of an array; the locale \<open>cell_loop\<close> states that contract once, proves
  what such a loop computes, and is interpreted on each loop of the source.
\<close>

section \<open>The functions of idhash.go\<close>

fun mkBuiltinAddr4_loop :: "nat \<Rightarrow> byte list \<Rightarrow> byte list \<Rightarrow> byte list" where
  "mkBuiltinAddr4_loop i [] a = a"
| "mkBuiltinAddr4_loop i (b # bs) a =
     mkBuiltinAddr4_loop (Suc i) bs (a[i mod 2 + 2 := a ! (i mod 2 + 2) XOR b])"

definition mkBuiltinAddr4 :: "peer_id \<Rightarrow> IP" where
  "mkBuiltinAddr4 p = To4 (mkBuiltinAddr4_loop 0 p [100, 64, 1, 2])"

fun MkNetID_loop :: "nat \<Rightarrow> byte list \<Rightarrow> byte list \<Rightarrow> byte list" where
  "MkNetID_loop i [] r = r"
| "MkNetID_loop i (b # bs) r = MkNetID_loop (Suc i) bs (r[i mod 4 := r ! (i mod 4) XOR b])"

definition MkNetID :: "peer_id \<Rightarrow> byte list" where
  "MkNetID p = MkNetID_loop 0 p [0xde, 0xad, 0xbe, 0xef]"

fun MkServiceID_loop :: "nat \<Rightarrow> byte list \<Rightarrow> byte list \<Rightarrow> byte list" where
  "MkServiceID_loop i [] r = r"
| "MkServiceID_loop i (b # bs) r =
     MkServiceID_loop (Suc i) bs (r[i mod 2 := r ! (i mod 2) XOR (b * of_nat i)])"

definition MkServiceID :: "string \<Rightarrow> byte list" where
  "MkServiceID serviceName = MkServiceID_loop 0 (bytes_of serviceName) [0xff, 0xfe]"

fun mkBuiltinAddr6_loop :: "nat \<Rightarrow> byte list \<Rightarrow> byte list \<Rightarrow> byte list" where
  "mkBuiltinAddr6_loop i [] a = a"
| "mkBuiltinAddr6_loop i (b # bs) a =
     mkBuiltinAddr6_loop (Suc i) bs (a[i mod 4 + 12 := a ! (i mod 4 + 12) XOR b])"

definition mkBuiltinAddr6 :: "peer_id \<Rightarrow> IP" where
  "mkBuiltinAddr6 p =
     (let builtinAddr = mkBuiltinAddr6_loop 0 p
            ([0xfd, 0x00] @ bytes_of ''hyprspace'' @ [0x00, 0x00, 0x00, 0x00, 0x00]);
          netId = MkNetID p
      in To16 (builtinAddr[12 := netId ! 0, 13 := netId ! 1, 14 := netId ! 2, 15 := netId ! 3]))"

definition MkServiceAddr6 :: "peer_id \<Rightarrow> string \<Rightarrow> IP" where
  "MkServiceAddr6 p serviceName =
     (let serviceAddr = [0xfd, 0x00] @ bytes_of ''hyprspsv''
            @ [0x00, 0x00, 0x00, 0x00, 0x00, 0x00];
          netId = MkNetID p;
          a = serviceAddr[10 := netId ! 0, 11 := netId ! 1, 12 := netId ! 2, 13 := netId ! 3];
          svcId = MkServiceID serviceName
      in To16 (a[14 := svcId ! 0, 15 := svcId ! 1]))"

section \<open>Loops that fold bytes into cells\<close>

text \<open>
  The exclusive or of the contributions \<open>g n b\<close> of the bytes whose index \<open>n\<close>, counted from
  \<open>i\<close>, is congruent to \<open>j\<close> modulo \<open>k\<close>.
\<close>

fun lane :: "(nat \<Rightarrow> byte \<Rightarrow> byte) \<Rightarrow> nat \<Rightarrow> nat \<Rightarrow> nat \<Rightarrow> byte list \<Rightarrow> byte" where
  "lane g k i j [] = 0"
| "lane g k i j (b # bs) = (if i mod k = j then g i b else 0) XOR lane g k (Suc i) j bs"

lemma lane_append: "lane g k i j (xs @ ys) = lane g k i j xs XOR lane g k (i + length xs) j ys"
  by (induction xs arbitrary: i) (auto simp: xor.assoc)

lemma lane_update:
  "n < length bs \<Longrightarrow> (i + n) mod k = j \<Longrightarrow>
     lane g k i j (bs[n := b]) = lane g k i j bs XOR g (i + n) (bs ! n) XOR g (i + n) b"
proof (induction bs arbitrary: i n)
  case Nil
  then show ?case by simp
next
  case (Cons c bs)
  show ?case
  proof (cases n)
    case 0
    with Cons.prems have "i mod k = j" by simp
    have "g i b XOR l = (g i c XOR l) XOR (g i c XOR g i b)" for l
      by (metis xor.assoc xor.commute xor_cancel_left)
    then show ?thesis using 0 \<open>i mod k = j\<close> by simp
  next
    case (Suc m)
    with Cons show ?thesis by (simp add: xor.assoc)
  qed
qed

locale cell_loop =
  fixes loop :: "nat \<Rightarrow> byte list \<Rightarrow> byte list \<Rightarrow> byte list"
    and k off :: nat
    and g :: "nat \<Rightarrow> byte \<Rightarrow> byte"
  assumes cells_pos: "0 < k"
    and loop_Nil: "loop i [] a = a"
    and loop_Cons:
      "loop i (b # bs) a = loop (Suc i) bs (a[i mod k + off := a ! (i mod k + off) XOR g i b])"
begin

lemma length_loop: "length (loop i bs a) = length a"
  by (induction bs arbitrary: i a) (simp_all add: loop_Nil loop_Cons)

lemma loop_below: "j < off \<Longrightarrow> loop i bs a ! j = a ! j"
  by (induction bs arbitrary: i a) (simp_all add: loop_Nil loop_Cons)

lemma take_loop: "take off (loop i bs a) = take off a"
  by (rule nth_equalityI) (simp_all add: length_loop loop_below)

lemma loop_cell:
  "off + k \<le> length a \<Longrightarrow> j < k \<Longrightarrow> loop i bs a ! (off + j) = a ! (off + j) XOR lane g k i j bs"
proof (induction bs arbitrary: i a)
  case Nil
  then show ?case by (simp add: loop_Nil)
next
  case (Cons b bs)
  have "i mod k < k" using cells_pos by simp
  then show ?case
    using Cons.prems Cons.IH [of "a[i mod k + off := a ! (i mod k + off) XOR g i b]" "Suc i"]
    by (auto simp: loop_Cons nth_list_update xor.assoc add.commute)
qed

text \<open>
  A change of one argument byte whose contribution changes is visible in the result.
\<close>

lemma loop_update_neq:
  assumes "off + k \<le> length a" and "n < length bs"
    and "g n (bs ! n) \<noteq> g n b"
  shows "loop 0 (bs[n := b]) a \<noteq> loop 0 bs a"
proof
  assume eq: "loop 0 (bs[n := b]) a = loop 0 bs a"
  let ?j = "n mod k"
  have "?j < k" using cells_pos by simp
  then have "lane g k 0 ?j (bs[n := b]) = lane g k 0 ?j bs"
    using eq loop_cell [OF assms(1), of ?j 0 "bs[n := b]"] loop_cell [OF assms(1), of ?j 0 bs]
    by (metis xor_left_inject)
  then have "g n (bs ! n) XOR g n b = 0"
    using lane_update [OF assms(2), of 0 k ?j g b]
    by (metis add_0 xor.right_neutral xor_left_inject)
  then show False using assms(3) by (metis xor.right_neutral xor_cancel_left)
qed

end

interpretation addr4: cell_loop mkBuiltinAddr4_loop 2 2 "\<lambda>_ b. b"
  by unfold_locales simp_all

interpretation netid: cell_loop MkNetID_loop 4 0 "\<lambda>_ b. b"
  by unfold_locales simp_all

interpretation svcid: cell_loop MkServiceID_loop 2 0 "\<lambda>i b. b * of_nat i"
  by unfold_locales simp_all

interpretation addr6: cell_loop mkBuiltinAddr6_loop 4 12 "\<lambda>_ b. b"
  by unfold_locales simp_all

section \<open>Shapes of the results\<close>

definition builtin6_prefix :: "byte list" where
  "builtin6_prefix = [0xfd, 0x00, 0x68, 0x79, 0x70, 0x72, 0x73, 0x70, 0x61, 0x63, 0x65, 0x00]"

definition service6_prefix :: "byte list" where
  "service6_prefix = [0xfd, 0x00, 0x68, 0x79, 0x70, 0x72, 0x73, 0x70, 0x73, 0x76]"

lemma length_MkNetID [simp]: "length (MkNetID p) = 4"
  by (simp add: MkNetID_def netid.length_loop)

lemma length_MkServiceID [simp]: "length (MkServiceID s) = 2"
  by (simp add: MkServiceID_def svcid.length_loop)

lemma length_mkBuiltinAddr4 [simp]: "length (mkBuiltinAddr4 p) = 4"
  by (simp add: mkBuiltinAddr4_def addr4.length_loop)

lemma MkNetID_lanes:
  "MkNetID p = [0xde XOR lane (\<lambda>_ b. b) 4 0 0 p, 0xad XOR lane (\<lambda>_ b. b) 4 0 1 p,
                0xbe XOR lane (\<lambda>_ b. b) 4 0 2 p, 0xef XOR lane (\<lambda>_ b. b) 4 0 3 p]"
  (is "_ = ?rhs")
proof (rule list_eq_iff_nth_less [of _ 4])
  fix i :: nat
  assume "i < 4"
  then have "i \<in> {0, 1, 2, 3}" by auto
  then show "MkNetID p ! i = ?rhs ! i"
    using netid.loop_cell [of "[0xde, 0xad, 0xbe, 0xef]" i 0 p] \<open>i < 4\<close>
    by (auto simp: MkNetID_def)
qed simp_all

lemma mkBuiltinAddr4_lanes:
  "mkBuiltinAddr4 p = [100, 64, 1 XOR lane (\<lambda>_ b. b) 2 0 0 p, 2 XOR lane (\<lambda>_ b. b) 2 0 1 p]"
  (is "_ = ?rhs")
proof (rule list_eq_iff_nth_less [of _ 4])
  fix i :: nat
  assume "i < 4"
  then have "i \<in> {0, 1, 2, 3}" by auto
  then show "mkBuiltinAddr4 p ! i = ?rhs ! i"
    using addr4.loop_cell [of "[100, 64, 1, 2]" 0 0 p] addr4.loop_cell [of "[100, 64, 1, 2]" 1 0 p]
      addr4.loop_below [of i 0 p "[100, 64, 1, 2]"]
    by (auto simp: mkBuiltinAddr4_def addr4.length_loop numeral_eq_Suc)
qed simp_all

lemma mkBuiltinAddr6_eq: "mkBuiltinAddr6 p = builtin6_prefix @ MkNetID p"
proof -
  define init :: "byte list" where
    "init = [0xfd, 0x00] @ bytes_of ''hyprspace'' @ [0x00, 0x00, 0x00, 0x00, 0x00]"
  define a where "a = mkBuiltinAddr6_loop 0 p init"
  have len: "length init = 16" by (simp add: init_def bytes_of_def)
  have pre: "take 12 init = builtin6_prefix"
    by (simp add: init_def bytes_of_def builtin6_prefix_def numeral_eq_Suc)
  have "length a = 16" "take 12 a = builtin6_prefix"
    by (simp_all add: a_def addr6.length_loop len addr6.take_loop pre)
  moreover from this have "length (drop 12 a) = 4" by simp
  then obtain w x y z where "drop 12 a = [w, x, y, z]"
    using length4_conv [of "drop 12 a"] by blast
  ultimately have "a = builtin6_prefix @ [w, x, y, z]" by (metis append_take_drop_id)
  moreover obtain c d e f where "MkNetID p = [c, d, e, f]"
    using length_MkNetID [of p] unfolding length4_conv by blast
  moreover have "mkBuiltinAddr6 p = To16 (a[12 := MkNetID p ! 0, 13 := MkNetID p ! 1,
      14 := MkNetID p ! 2, 15 := MkNetID p ! 3])"
    by (simp only: mkBuiltinAddr6_def Let_def a_def init_def)
  ultimately show ?thesis by (simp add: builtin6_prefix_def)
qed

lemma MkServiceAddr6_eq:
  "MkServiceAddr6 p name = service6_prefix @ MkNetID p @ MkServiceID name"
proof -
  obtain c d e f where "MkNetID p = [c, d, e, f]"
    using length_MkNetID [of p] unfolding length4_conv by blast
  moreover obtain u v where "MkServiceID name = [u, v]"
    using length_MkServiceID [of name] unfolding length2_conv by blast
  ultimately show ?thesis
    by (simp add: MkServiceAddr6_def service6_prefix_def bytes_of_def)
qed

lemma length_prefixes [simp]: "length builtin6_prefix = 12" "length service6_prefix = 10"
  by (simp_all add: builtin6_prefix_def service6_prefix_def)

lemma length_mkBuiltinAddr6 [simp]: "length (mkBuiltinAddr6 p) = 16"
  by (simp add: mkBuiltinAddr6_eq)

lemma length_MkServiceAddr6 [simp]: "length (MkServiceAddr6 p s) = 16"
  by (simp add: MkServiceAddr6_eq)

lemma To4_mkBuiltinAddr6 [simp]: "To4 (mkBuiltinAddr6 p) = []"
  by (rule To4_not_mapped) (simp_all add: mkBuiltinAddr6_eq builtin6_prefix_def)

lemma To4_MkServiceAddr6 [simp]: "To4 (MkServiceAddr6 p s) = []"
  by (rule To4_not_mapped) (simp_all add: MkServiceAddr6_eq service6_prefix_def)

lemma take_derived [simp]:
  "take 12 (mkBuiltinAddr6 p) = builtin6_prefix"
  "take 10 (mkBuiltinAddr6 p) = take 10 builtin6_prefix"
  "take 10 (MkServiceAddr6 p s) = service6_prefix"
  by (simp_all add: mkBuiltinAddr6_eq MkServiceAddr6_eq)

lemmas idhash_lengths = length_MkNetID length_MkServiceID length_mkBuiltinAddr4
  length_mkBuiltinAddr6 length_MkServiceAddr6 length_prefixes

end
