(* ===== verification/GoCIDR.thy ===== *)
theory GoCIDR
  imports GoNet
begin

text \<open>
  \<open>net.ParseCIDR\<close> with the address grammar of \<open>net/netip\<close> (\<open>ParseAddr\<close>,
  \<open>parseIPv4Fields\<close>, \<open>parseIPv6\<close>).  The error texts are not kept apart: a string that
  does not parse is \<open>ErrParseCIDR\<close> of that string, as the library returns.  The lemmas show that
  what parses is a well-formed network that contains the parsed address.
\<close>

section \<open>Digits\<close>

definition digit_val :: "char \<Rightarrow> nat option" where
  "digit_val c = (let n = of_char c in if (48 :: nat) \<le> n \<and> n \<le> 57 then Some (n - 48) else None)"

definition hex_val :: "char \<Rightarrow> nat option" where
  "hex_val c = (let n = of_char c in
     if (48 :: nat) \<le> n \<and> n \<le> 57 then Some (n - 48)
     else if 97 \<le> n \<and> n \<le> 102 then Some (n - 87)
     else if 65 \<le> n \<and> n \<le> 70 then Some (n - 55) else None)"

definition is_hex :: "char \<Rightarrow> bool" where
  "is_hex c \<longleftrightarrow> hex_val c \<noteq> None"

fun dec_val :: "nat \<Rightarrow> string \<Rightarrow> nat option" where
  "dec_val acc [] = Some acc"
| "dec_val acc (c # cs) =
     (case digit_val c of None \<Rightarrow> None | Some d \<Rightarrow> dec_val (acc * 10 + d) cs)"

definition dtoi :: "string \<Rightarrow> nat option" where
  "dtoi s = (if s = [] then None else dec_val 0 s)"

section \<open>Addresses\<close>

datatype netip_Addr = Addr4 "byte list" | Addr6 "byte list" string

fun Zone :: "netip_Addr \<Rightarrow> string" where
  "Zone (Addr4 _) = []"
| "Zone (Addr6 _ z) = z"

fun BitLen :: "netip_Addr \<Rightarrow> nat" where
  "BitLen (Addr4 _) = 32"
| "BitLen (Addr6 _ _) = 128"

fun As16 :: "netip_Addr \<Rightarrow> byte list" where
  "As16 (Addr4 b) = v4InV6Prefix @ b"
| "As16 (Addr6 b _) = b"

definition parse_octet :: "string \<Rightarrow> byte option" where
  "parse_octet s =
     (if s = [] \<or> (1 < length s \<and> hd s = CHR ''0'') then None
      else (case dec_val 0 s of
              None \<Rightarrow> None
            | Some n \<Rightarrow> if 255 < n then None else Some (of_nat n)))"

definition parseIPv4Fields :: "string \<Rightarrow> byte list option" where
  "parseIPv4Fields s =
     (case map parse_octet (Split s CHR ''.'') of
        [Some a, Some b, Some c, Some d] \<Rightarrow> Some [a, b, c, d]
      | _ \<Rightarrow> None)"

fun hex_acc :: "uint16 \<Rightarrow> string \<Rightarrow> uint16" where
  "hex_acc acc [] = acc"
| "hex_acc acc (c # cs) =
     hex_acc (push_bit 4 acc + (case hex_val c of None \<Rightarrow> 0 | Some d \<Rightarrow> of_nat d)) cs"

definition hex_group :: "string \<Rightarrow> byte list" where
  "hex_group ds = (let v = hex_acc 0 ds in [ucast (drop_bit 8 v), ucast v])"

text \<open>
  The loop of \<open>parseIPv6\<close>: \<open>ip\<close> is the part of the address filled so far, \<open>ell\<close> the
  position of the ellipsis; the result is the text left, the bytes and the ellipsis.
\<close>

function parseIPv6_loop ::
  "string \<Rightarrow> byte list \<Rightarrow> nat option \<Rightarrow> (string \<times> byte list \<times> nat option) option" where
  "parseIPv6_loop s ip ell =
     (if 16 \<le> length ip then Some (s, ip, ell)
      else let ds = takeWhile is_hex s;
               rest = dropWhile is_hex s
           in
      if 4 < length ds \<or> ds = [] then None
      else if rest \<noteq> [] \<and> hd rest = CHR ''.'' then
        (if ell = None \<and> length ip \<noteq> 12 then None
         else if 16 < length ip + 4 then None
         else (case parseIPv4Fields s of
                 None \<Rightarrow> None | Some f \<Rightarrow> Some ([], ip @ f, ell)))
      else let ip' = ip @ hex_group ds in
        (case rest of
           [] \<Rightarrow> Some ([], ip', ell)
         | c # s1 \<Rightarrow>
             if c \<noteq> CHR '':'' then None
             else if s1 = [] then None
             else if hd s1 = CHR '':'' then
               (if ell \<noteq> None then None
                else if tl s1 = [] then Some ([], ip', Some (length ip'))
                else parseIPv6_loop (tl s1) ip' (Some (length ip')))
             else parseIPv6_loop s1 ip' ell))"
  by pat_completeness auto
termination
  by (relation "measure (\<lambda>(s, ip, ell). 16 - length ip)") (auto simp: hex_group_def Let_def)

declare parseIPv6_loop.simps [simp del]

definition parseIPv6 :: "string \<Rightarrow> netip_Addr option" where
  "parseIPv6 s0 =
     (let s = takeWhile (\<lambda>c. c \<noteq> CHR ''%'') s0;
          zoned = CHR ''%'' \<in> set s0;
          zone = tl (dropWhile (\<lambda>c. c \<noteq> CHR ''%'') s0)
      in
      if zoned \<and> zone = [] then None
      else let z = (if zoned then zone else []);
               lead = HasPrefix s ''::'';
               s1 = (if lead then drop 2 s else s);
               ell = (if lead then Some 0 else None)
      in
      if lead \<and> s1 = [] then Some (Addr6 (replicate 16 0) z)
      else (case parseIPv6_loop s1 [] ell of
              None \<Rightarrow> None
            | Some (rest, ip, ell') \<Rightarrow>
                if rest \<noteq> [] then None
                else if length ip < 16 then
                  (case ell' of
                     None \<Rightarrow> None
                   | Some e \<Rightarrow>
                       Some (Addr6 (take e ip @ replicate (16 - length ip) 0 @ drop e ip) z))
                else if ell' \<noteq> None then None
                else Some (Addr6 ip z)))"

definition ParseAddr :: "string \<Rightarrow> netip_Addr option" where
  "ParseAddr s =
     (case dropWhile (\<lambda>c. c \<noteq> CHR ''.'' \<and> c \<noteq> CHR '':'' \<and> c \<noteq> CHR ''%'') s of
        [] \<Rightarrow> None
      | c # _ \<Rightarrow>
          if c = CHR ''.'' then map_option Addr4 (parseIPv4Fields s)
          else if c = CHR '':'' then parseIPv6 s
          else None)"

section \<open>ParseCIDR\<close>

definition ParseCIDR :: "string \<Rightarrow> (IP \<times> IPNet) res" where
  "ParseCIDR s =
     (let addr = takeWhile (\<lambda>c. c \<noteq> CHR ''/'') s;
          tail = dropWhile (\<lambda>c. c \<noteq> CHR ''/'') s;
          fail = Inl (Error (ErrParseCIDR s))
      in
      if tail = [] then fail
      else (case ParseAddr addr of
              None \<Rightarrow> fail
            | Some ip \<Rightarrow>
                if Zone ip \<noteq> [] then fail
                else (case dtoi (tl tail) of
                        None \<Rightarrow> fail
                      | Some n \<Rightarrow>
                          if BitLen ip < n then fail
                          else let m = CIDRMask n (BitLen ip) in
                            Inr (As16 ip,
                                 \<lparr>net_IP = IP_Mask (As16 ip) m, net_Mask = m\<rparr>))))"

text \<open>
  A network in the form \<open>ParseCIDR\<close> returns: a four-byte or a sixteen-byte base address with
  a canonical mask of the same length and no host bits.
\<close>

definition wf_net :: "IPNet \<Rightarrow> bool" where
  "wf_net n \<longleftrightarrow>
     (\<exists>k bits. (bits = 32 \<or> bits = 128) \<and> k \<le> bits \<and> net_Mask n = CIDRMask k bits
        \<and> length (net_IP n) = bits div 8)
     \<and> map2 (AND) (net_IP n) (net_Mask n) = net_IP n"

lemma parseIPv4Fields_length: "parseIPv4Fields s = Some f \<Longrightarrow> length f = 4"
  by (auto simp: parseIPv4Fields_def split: list.splits option.splits)

lemma length_hex_group [simp]: "length (hex_group ds) = 2"
  by (simp add: hex_group_def Let_def)

text \<open>What one round of the loop does, by the shape of the text after the hexadecimal group.\<close>

lemma parseIPv6_loop_cases:
  assumes "parseIPv6_loop s ip ell = Some (r, ip', ell')" and "\<not> 16 \<le> length ip"
  obtains (v4) f where "16 \<ge> length ip + 4" "parseIPv4Fields s = Some f" "ip' = ip @ f" "ell' = ell"
  | (fin) ds where "ip' = ip @ hex_group ds" "ell' = ell"
  | (ell_end) ds where "ip' = ip @ hex_group ds" "ell' = Some (length ip')"
  | (ell_more) ds t where "parseIPv6_loop t (ip @ hex_group ds)
       (Some (length (ip @ hex_group ds))) = Some (r, ip', ell')" "length t < length s"
  | (more) ds t where "parseIPv6_loop t (ip @ hex_group ds) ell = Some (r, ip', ell')"
      "length t < length s"
proof -
  define ds where "ds = takeWhile is_hex s"
  define rest where "rest = dropWhile is_hex s"
  have len: "length rest \<le> length s" by (simp add: rest_def length_dropWhile_le)
  note eq = assms(1) [unfolded parseIPv6_loop.simps [of s ip ell] Let_def,
      folded ds_def rest_def]
  show ?thesis
  proof (cases "rest \<noteq> [] \<and> hd rest = CHR ''.''")
    case True
    with eq assms(2) show ?thesis
      by (intro v4 [of "the (parseIPv4Fields s)"]) (auto split: if_splits option.splits)
  next
    case False
    show ?thesis
    proof (cases rest)
      case Nil
      with False eq assms(2) show ?thesis by (intro fin [of ds]) (auto split: if_splits)
    next
      case (Cons c s1)
      then have lt: "length s1 < length s" and lt2: "length (tl s1) < length s"
        using len by auto
      have eq1: "s1 \<noteq> []" "(if hd s1 = CHR '':'' then
           (if ell \<noteq> None then None
            else if tl s1 = [] then Some ([], ip @ hex_group ds, Some (length (ip @ hex_group ds)))
            else parseIPv6_loop (tl s1) (ip @ hex_group ds) (Some (length (ip @ hex_group ds))))
         else parseIPv6_loop s1 (ip @ hex_group ds) ell) = Some (r, ip', ell')"
        using False eq assms(2) Cons by (auto split: if_splits)
      consider "hd s1 \<noteq> CHR '':''" | "hd s1 = CHR '':''" "tl s1 = []"
        | "hd s1 = CHR '':''" "tl s1 \<noteq> []" by blast
      then show ?thesis
      proof cases
        case 1
        with eq1 lt show ?thesis by (intro more [of s1 ds]) auto
      next
        case 2
        with eq1 show ?thesis by (intro ell_end [of ds]) (auto split: if_splits)
      next
        case 3
        with eq1 lt2 show ?thesis by (intro ell_more [of "tl s1" ds]) (auto split: if_splits)
      qed
    qed
  qed
qed

lemma parseIPv6_loop_length:
  assumes "parseIPv6_loop s ip ell = Some (r, ip', ell')" and "length ip \<le> 16"
    and "even (length ip)" and "\<And>e. ell = Some e \<Longrightarrow> e \<le> length ip"
  shows "length ip' \<le> 16 \<and> (\<forall>e. ell' = Some e \<longrightarrow> e \<le> length ip')"
  using assms
proof (induction "length s" arbitrary: s ip ell rule: less_induct)
  case less
  show ?case
  proof (cases "16 \<le> length ip")
    case True
    then show ?thesis using less.prems by (auto simp: parseIPv6_loop.simps [of s ip ell])
  next
    case False
    with \<open>even (length ip)\<close> have le: "length ip + 2 \<le> 16" by (auto elim!: evenE)
    from less.prems(1) False show ?thesis
    proof (cases rule: parseIPv6_loop_cases)
      case (v4 f)
      then show ?thesis using less.prems(4) parseIPv4Fields_length [of s f] by fastforce
    next
      case (fin ds)
      then show ?thesis using le less.prems(4) by fastforce
    next
      case (ell_end ds)
      then show ?thesis using le by simp
    next
      case (ell_more ds t)
      show ?thesis
        by (rule less.hyps [OF ell_more(2) ell_more(1)]) (use le less.prems(3) in auto)
    next
      case (more ds t)
      show ?thesis
        by (rule less.hyps [OF more(2) more(1)]) (use le less.prems(3,4) in fastforce)+
    qed
  qed
qed

lemma parseIPv6_length:
  assumes "parseIPv6 s = Some (Addr6 b z)"
  shows "length b = 16"
proof -
  have "length ip' \<le> 16 \<and> (\<forall>e. ell' = Some e \<longrightarrow> e \<le> length ip')"
    if "parseIPv6_loop t [] ell = Some (r, ip', ell')" "ell \<in> {None, Some 0}" for t ell r ip' ell'
    using parseIPv6_loop_length [OF that(1)] that(2) by auto
  then show ?thesis
    using assms
    by (auto simp: parseIPv6_def Let_def split: if_splits option.splits; fastforce)
qed

lemma parseIPv6_not_Addr4: "parseIPv6 s \<noteq> Some (Addr4 b)"
  by (auto simp: parseIPv6_def Let_def split: if_splits option.splits)

lemma ParseAddr_length:
  "ParseAddr s = Some ad \<Longrightarrow>
     case ad of Addr4 b \<Rightarrow> length b = 4 | Addr6 b z \<Rightarrow> length b = 16"
  by (cases ad) (auto simp: ParseAddr_def split: list.splits if_splits
      simp: parseIPv6_not_Addr4 dest: parseIPv4Fields_length parseIPv6_length)

lemma map2_AND_idem:
  "length xs = length m \<Longrightarrow> map2 (AND) (map2 (AND) xs m) m = map2 (AND) xs (m :: byte list)"
  by (induction xs m rule: list_induct2) (auto simp: and.assoc)

lemma ParseCIDR_wf:
  assumes "ParseCIDR s = Inr (ip, n)"
  shows "wf_net n"
proof -
  let ?mask = "tl (dropWhile (\<lambda>c. c \<noteq> CHR ''/'') s)"
  obtain ad where ad: "ParseAddr (takeWhile (\<lambda>c. c \<noteq> CHR ''/'') s) = Some ad"
    using assms by (auto simp: ParseCIDR_def Let_def split: if_splits option.splits)
  obtain k where dk: "dtoi ?mask = Some k"
    using assms ad by (auto simp: ParseCIDR_def Let_def split: if_splits option.splits)
  have k: "k \<le> BitLen ad"
    and n: "n = \<lparr>net_IP = IP_Mask (As16 ad) (CIDRMask k (BitLen ad)),
                 net_Mask = CIDRMask k (BitLen ad)\<rparr>"
    using assms ad dk by (auto simp: ParseCIDR_def Let_def split: if_splits)
  show ?thesis
  proof (cases ad)
    case (Addr4 b)
    then have b: "length b = 4" using ParseAddr_length [OF ad] by simp
    have "length (CIDRMask k 32) = 4" using k Addr4 length_CIDRMask [of 32 k] by simp
    then show ?thesis
      using Addr4 b k n unfolding wf_net_def
      by (intro conjI exI [of "\<lambda>k. \<exists>bits. _ k bits" k] exI [of _ "32 :: nat"])
        (auto simp: IP_Mask_def map2_AND_idem)
  next
    case (Addr6 b z)
    then have b: "length b = 16" using ParseAddr_length [OF ad] by simp
    have "length (CIDRMask k 128) = 16" using k Addr6 length_CIDRMask [of 128 k] by simp
    then show ?thesis
      using Addr6 b k n unfolding wf_net_def
      by (intro conjI exI [of "\<lambda>k. \<exists>bits. _ k bits" k] exI [of _ "128 :: nat"])
        (auto simp: IP_Mask_def map2_AND_idem)
  qed
qed

end
