(* ===== verification/Config.thy ===== *)
theory Config
  imports IdHash GoCIDR
begin

text \<open>
  \<open>config/config.go\<close>: the configuration of a node, its construction by \<open>Read\<close>, the peer
  look-ups and the route look-ups.  What is outside the repository is a parameter: the file and
  JSON layer, the key, multibase, multiaddr and peer-ID libraries (record \<open>config_env\<close>) and
  the prefix trie of the package \<open>cidranger\<close> (record \<open>ranger\<close>, with its documented behaviour
  as the predicate \<open>ranger_spec\<close>).  A schema value is the generated struct \<open>schema.Config\<close>;
  its \<open>services\<close> map is the list of its entries in the order Go's \<open>range\<close> visits them, which
  is arbitrary.
\<close>

section \<open>Data\<close>

record Peer =
  ID :: peer_id
  Name :: string
  BuiltinAddr4 :: IP
  BuiltinAddr6 :: IP

record RouteTableEntry =
  rte_Net :: IPNet
  Target :: Peer

text \<open>\<open>func (rte RouteTableEntry) Network()\<close>.\<close>

definition Network :: "RouteTableEntry \<Rightarrow> IPNet" where
  "Network rte = rte_Net rte"

text \<open>
  A value of the interface type \<open>cidranger.RangerEntry\<close>: both \<open>RouteTableEntry\<close> and
  \<open>*RouteTableEntry\<close> implement it, and a type assertion tells them apart.
\<close>

datatype ranger_entry = RTEVal RouteTableEntry | RTEPtr RouteTableEntry

fun entry_rte :: "ranger_entry \<Rightarrow> RouteTableEntry" where
  "entry_rte (RTEVal e) = e"
| "entry_rte (RTEPtr e) = e"

definition entry_Network :: "ranger_entry \<Rightarrow> IPNet" where
  "entry_Network e = Network (entry_rte e)"

text \<open>\<open>n.(RouteTableEntry)\<close> and \<open>n.(*RouteTableEntry)\<close>.\<close>

fun assert_RTE :: "ranger_entry \<Rightarrow> RouteTableEntry res" where
  "assert_RTE (RTEVal e) = Inr e"
| "assert_RTE (RTEPtr e) = Inl (Panic TypeAssertion)"

fun assert_RTEPtr :: "ranger_entry \<Rightarrow> RouteTableEntry res" where
  "assert_RTEPtr (RTEPtr e) = Inr e"
| "assert_RTEPtr (RTEVal e) = Inl (Panic TypeAssertion)"

record 'r ranger =
  NewPCTrieRanger :: 'r
  rg_Insert :: "'r \<Rightarrow> ranger_entry \<Rightarrow> go_error option \<times> 'r"
  rg_Remove :: "'r \<Rightarrow> IPNet \<Rightarrow> go_error option \<times> 'r"
  ContainingNetworks :: "'r \<Rightarrow> IP \<Rightarrow> go_error + ranger_entry list"
  CoveredNetworks :: "'r \<Rightarrow> IPNet \<Rightarrow> go_error + ranger_entry list"

record 'r PeerLookup =
  ByRoute :: 'r
  ByName :: "string \<rightharpoonup> Peer"
  ByNetID :: "byte list \<rightharpoonup> Peer"

record 'ma Service =
  svc_Target :: 'ma
  EnableWhitelist :: bool
  Whitelist :: "peer_id set"
  Blacklist :: "peer_id set"

record ('ma, 'key, 'r) Config =
  Path :: string
  Interface :: string
  ListenAddresses :: "'ma list"
  BootstrapPeers :: "'ma list"
  Peers :: "Peer list"
  PeerLookup :: "'r PeerLookup"
  PrivateKey :: 'key
  cfg_BuiltinAddr4 :: IP
  cfg_BuiltinAddr6 :: IP
  Services :: "string \<rightharpoonup> 'ma Service"
  FilterPrivateAddresses :: bool
  Domain :: string

section \<open>The generated schema and the environment of Read\<close>

record schema_Peer =
  sp_Id :: string
  sp_Name :: string
  sp_Routes :: "string list"

record schema_Service =
  ss_Target :: string
  ss_EnableWhitelist :: bool
  ss_Whitelist :: "string list"
  ss_Blacklist :: "string list"

record schema_Config =
  sc_PrivateKey :: string
  sc_ListenAddresses :: "string list"
  sc_Peers :: "schema_Peer list"
  sc_Services :: "(string \<times> schema_Service) list"
  sc_FilterPrivateAddresses :: bool
  sc_Domain :: string
  sc_BootstrapPeers :: "string list"

record ('ma, 'key, 'r) config_env =
  os_ReadFile :: "string \<Rightarrow> go_error + byte list"
  json_Unmarshal :: "byte list \<Rightarrow> go_error + schema_Config"
  multibase_Decode :: "string \<Rightarrow> go_error + byte list"
  UnmarshalPrivateKey :: "byte list \<Rightarrow> go_error + 'key"
  IDFromPrivateKey :: "'key \<Rightarrow> go_error + peer_id"
  NewMultiaddr :: "string \<Rightarrow> go_error + 'ma"
  peer_Decode :: "string \<Rightarrow> go_error + peer_id"
  peer_String :: "peer_id \<Rightarrow> string"
  unicode_ToLower :: "string \<Rightarrow> string"
  ranger :: "'r ranger"

text \<open>An error of an external call, returned to the caller as it is.\<close>

definition check :: "go_error + 'a \<Rightarrow> 'a res" where
  "check m = (case m of Inl e \<Rightarrow> Inl (Error e) | Inr x \<Rightarrow> Inr x)"

lemma check_eq_Inr_iff [simp]: "check m = Inr x \<longleftrightarrow> m = Inr x"
  by (auto simp: check_def split: sum.splits)

section \<open>Look-ups of peers\<close>

fun FindPeer :: "Peer list \<Rightarrow> peer_id \<Rightarrow> Peer option" where
  "FindPeer [] needle = None"
| "FindPeer (p # ps) needle = (if ID p = needle then Some p else FindPeer ps needle)"

fun FindPeerByName :: "Peer list \<Rightarrow> string \<Rightarrow> Peer option" where
  "FindPeerByName [] needle = None"
| "FindPeerByName (p # ps) needle = (if Name p = needle then Some p else FindPeerByName ps needle)"

fun FindPeerByIDPrefix_loop ::
  "(peer_id \<Rightarrow> string) \<Rightarrow> Peer list \<Rightarrow> string \<Rightarrow> Peer option \<Rightarrow> nat \<Rightarrow> Peer option \<times> nat" where
  "FindPeerByIDPrefix_loop str [] needle match count = (match, count)"
| "FindPeerByIDPrefix_loop str (p # ps) needle match count =
     (if HasPrefix (str (ID p)) needle
      then FindPeerByIDPrefix_loop str ps needle (Some p) (Suc count)
      else FindPeerByIDPrefix_loop str ps needle match count)"

definition FindPeerByIDPrefix ::
  "(peer_id \<Rightarrow> string) \<Rightarrow> Peer list \<Rightarrow> string \<Rightarrow> Peer option res" where
  "FindPeerByIDPrefix str peers needle =
     (let (match, count) = FindPeerByIDPrefix_loop str peers needle None 0 in
      if 1 < count then Inl (Error (ErrAmbiguousPrefix needle count)) else Inr match)"

definition FindPeerByCLIRef ::
  "(peer_id \<Rightarrow> string) \<Rightarrow> Peer list \<Rightarrow> string \<Rightarrow> Peer option res" where
  "FindPeerByCLIRef str peers needle =
     (if needle = [] then Inr None
      else if HasPrefix needle ''@'' then
        (let name = TrimPrefix needle ''@'' in Inr (FindPeerByName peers name))
      else FindPeerByIDPrefix str peers needle)"

section \<open>Look-ups of routes\<close>

text \<open>
  The warning printed for every candidate when there are several: the arguments of
  \<open>Printf\<close> are evaluated, the type assertion among them.
\<close>

fun warn_duplicates :: "ranger_entry list \<Rightarrow> unit res" where
  "warn_duplicates [] = Inr ()"
| "warn_duplicates (n # ns) = bind_res (assert_RTE n) (\<lambda>_. warn_duplicates ns)"

definition pick_route :: "go_error + ranger_entry list \<Rightarrow> RouteTableEntry option res" where
  "pick_route found =
     (case found of
        Inl err \<Rightarrow> Inr None
      | Inr networks \<Rightarrow>
          if networks = [] then Inr None
          else bind_res (if 1 < length networks then warn_duplicates networks else Inr ())
                 (\<lambda>_. bind_res (assert_RTEPtr (networks ! 0)) (\<lambda>rte. Inr (Some rte))))"

definition FindRoute ::
  "'r ranger \<Rightarrow> ('ma, 'key, 'r) Config \<Rightarrow> IPNet \<Rightarrow> RouteTableEntry option res" where
  "FindRoute R cfg needle = pick_route (CoveredNetworks R (ByRoute (PeerLookup cfg)) needle)"

definition FindRouteForIP ::
  "'r ranger \<Rightarrow> ('ma, 'key, 'r) Config \<Rightarrow> IP \<Rightarrow> RouteTableEntry option res" where
  "FindRouteForIP R cfg needle =
     pick_route (ContainingNetworks R (ByRoute (PeerLookup cfg)) needle)"

section \<open>Read\<close>

definition insert_route :: "'r ranger \<Rightarrow> IPNet \<Rightarrow> Peer \<Rightarrow> 'r \<Rightarrow> 'r" where
  "insert_route R n p r = snd (rg_Insert R r (RTEPtr \<lparr>rte_Net = n, Target = p\<rparr>))"

fun Read_routes :: "'r ranger \<Rightarrow> Peer \<Rightarrow> string list \<Rightarrow> 'r \<Rightarrow> 'r res" where
  "Read_routes R p [] r = Inr r"
| "Read_routes R p (s # ss) r =
     (case ParseCIDR s of
        Inl _ \<Rightarrow> Inl (Fatal s)
      | Inr (_, network) \<Rightarrow> Read_routes R p ss (insert_route R network p r))"

definition Read_peer ::
  "('ma, 'key, 'r) config_env \<Rightarrow> schema_Peer \<Rightarrow> 'r PeerLookup \<Rightarrow> (Peer \<times> 'r PeerLookup) res" where
  "Read_peer env configPeer lk =
     bind_res (check (peer_Decode env (sp_Id configPeer))) (\<lambda>pid.
     let p = \<lparr>ID = pid, Name = sp_Name configPeer,
              BuiltinAddr4 = mkBuiltinAddr4 pid, BuiltinAddr6 = mkBuiltinAddr6 pid\<rparr>;
         R = ranger env
     in bind_res (Read_routes R p (sp_Routes configPeer) (ByRoute lk)) (\<lambda>r.
     let r4 = insert_route R \<lparr>net_IP = BuiltinAddr4 p, net_Mask = CIDRMask 32 32\<rparr> p r;
         r6 = insert_route R \<lparr>net_IP = BuiltinAddr6 p, net_Mask = CIDRMask 128 128\<rparr> p r4;
         byName = (if sp_Name configPeer \<noteq> []
                   then (ByName lk)(ToLower (unicode_ToLower env) (sp_Name configPeer) \<mapsto> p)
                   else ByName lk)
     in Inr (p, \<lparr>ByRoute = r6, ByName = byName,
                 ByNetID = (ByNetID lk)(drop 12 (BuiltinAddr6 p) \<mapsto> p)\<rparr>)))"

fun Read_peers ::
  "('ma, 'key, 'r) config_env \<Rightarrow> schema_Peer list \<Rightarrow> 'r PeerLookup
     \<Rightarrow> (Peer list \<times> 'r PeerLookup) res" where
  "Read_peers env [] lk = Inr ([], lk)"
| "Read_peers env (c # cs) lk =
     bind_res (Read_peer env c lk) (\<lambda>(p, lk1).
     bind_res (Read_peers env cs lk1) (\<lambda>(ps, lk2). Inr (p # ps, lk2)))"

fun Read_acl :: "(peer_id \<Rightarrow> string) \<Rightarrow> Peer list \<Rightarrow> string list \<Rightarrow> peer_id set \<Rightarrow> peer_id set res" where
  "Read_acl str peers [] acc = Inr acc"
| "Read_acl str peers (s # ss) acc =
     bind_res (FindPeerByCLIRef str peers s) (\<lambda>found.
       case found of
         None \<Rightarrow> Inl (Error (ErrUnknownPeer s))
       | Some cfgPeer \<Rightarrow> Read_acl str peers ss (insert (ID cfgPeer) acc))"

fun Read_services ::
  "('ma, 'key, 'r) config_env \<Rightarrow> Peer list \<Rightarrow> (string \<times> schema_Service) list
     \<Rightarrow> (string \<rightharpoonup> 'ma Service) \<Rightarrow> (string \<rightharpoonup> 'ma Service) res" where
  "Read_services env peers [] acc = Inr acc"
| "Read_services env peers ((name, service) # rest) acc =
     bind_res (check (NewMultiaddr env (ss_Target service))) (\<lambda>addr.
     bind_res (Read_acl (peer_String env) peers (ss_Whitelist service) {}) (\<lambda>whitelist.
     bind_res (Read_acl (peer_String env) peers (ss_Blacklist service) {}) (\<lambda>blacklist.
     Read_services env peers rest
       (acc(name \<mapsto> \<lparr>svc_Target = addr, EnableWhitelist = ss_EnableWhitelist service,
                     Whitelist = whitelist, Blacklist = blacklist\<rparr>)))))"

definition Read :: "('ma, 'key, 'r) config_env \<Rightarrow> string \<Rightarrow> ('ma, 'key, 'r) Config res" where
  "Read env path =
     bind_res (check (os_ReadFile env path)) (\<lambda>in_bytes.
     bind_res (check (json_Unmarshal env in_bytes)) (\<lambda>input.
     bind_res (check (multibase_Decode env (sc_PrivateKey input))) (\<lambda>keyBytes.
     bind_res (check (UnmarshalPrivateKey env keyBytes)) (\<lambda>pk.
     bind_res (check (IDFromPrivateKey env pk)) (\<lambda>peerID.
     bind_res (mapM_res (\<lambda>s. check (NewMultiaddr env s)) (sc_ListenAddresses input)) (\<lambda>listen.
     bind_res (Read_peers env (sc_Peers input)
        \<lparr>ByRoute = NewPCTrieRanger (ranger env), ByName = Map.empty, ByNetID = Map.empty\<rparr>)
        (\<lambda>(peers, lookup).
     bind_res (Read_services env peers (sc_Services input) Map.empty) (\<lambda>services.
     bind_res (mapM_res (\<lambda>s. check (NewMultiaddr env s)) (sc_BootstrapPeers input)) (\<lambda>boot.
     Inr \<lparr>Path = path, Interface = [], ListenAddresses = listen, BootstrapPeers = boot,
          Peers = peers, PeerLookup = lookup, PrivateKey = pk,
          cfg_BuiltinAddr4 = mkBuiltinAddr4 peerID, cfg_BuiltinAddr6 = mkBuiltinAddr6 peerID,
          Services = services,
          FilterPrivateAddresses = sc_FilterPrivateAddresses input,
          Domain = (if sc_Domain input = [] then ''hyprspace'' else sc_Domain input)\<rparr>)))))))))"

section \<open>Membership in the peer list\<close>

text \<open>
  Several components decide whether a remote peer is one of the configured ones, each with its own
  loop.  The contract they share: the answer is membership of the ID in the list.
\<close>

locale peer_directory =
  fixes known :: "Peer list \<Rightarrow> peer_id \<Rightarrow> bool"
  assumes known_iff: "known ps x \<longleftrightarrow> x \<in> ID ` set ps"
begin

lemma known_Nil: "\<not> known [] x"
  by (simp add: known_iff)

lemma known_append: "known (ps @ qs) x \<longleftrightarrow> known ps x \<or> known qs x"
  by (auto simp: known_iff)

lemma known_cong: "set ps = set qs \<Longrightarrow> known ps x = known qs x"
  by (simp add: known_iff)

lemma known_mem: "p \<in> set ps \<Longrightarrow> known ps (ID p)"
  by (simp add: known_iff)

lemma known_unique: "(\<And>ps x. other ps x \<longleftrightarrow> x \<in> ID ` set ps) \<Longrightarrow> known = other"
  by (intro ext) (simp add: known_iff)

end

lemma FindPeer_eq_find: "FindPeer ps x = List.find (\<lambda>p. ID p = x) ps"
  by (induction ps) auto

lemma FindPeerByName_eq_find: "FindPeerByName ps x = List.find (\<lambda>p. Name p = x) ps"
  by (induction ps) auto

lemma FindPeer_None_iff: "FindPeer ps x = None \<longleftrightarrow> x \<notin> ID ` set ps"
  by (induction ps) auto

lemma FindPeer_SomeD: "FindPeer ps x = Some p \<Longrightarrow> p \<in> set ps \<and> ID p = x"
  by (induction ps) (auto split: if_splits)

lemma FindPeerByName_SomeD: "FindPeerByName ps x = Some p \<Longrightarrow> p \<in> set ps \<and> Name p = x"
  by (induction ps) (auto split: if_splits)

interpretation findpeer: peer_directory "\<lambda>ps x. FindPeer ps x \<noteq> None"
  by unfold_locales (metis FindPeer_None_iff)

section \<open>References to peers\<close>

lemma FindPeerByIDPrefix_loop_eq:
  "FindPeerByIDPrefix_loop str ps needle m c =
     (let ms = filter (\<lambda>p. HasPrefix (str (ID p)) needle) ps in
      (if ms = [] then m else Some (last ms), c + length ms))"
  by (induction ps arbitrary: m c) (auto simp: Let_def)

lemma FindPeerByIDPrefix_matches:
  "FindPeerByIDPrefix str ps needle =
     (case filter (\<lambda>p. HasPrefix (str (ID p)) needle) ps of
        [] \<Rightarrow> Inr None
      | [p] \<Rightarrow> Inr (Some p)
      | ms \<Rightarrow> Inl (Error (ErrAmbiguousPrefix needle (length ms))))"
  by (auto simp: FindPeerByIDPrefix_def FindPeerByIDPrefix_loop_eq Let_def split: list.split)

lemma FindPeerByIDPrefix_SomeD:
  assumes "FindPeerByIDPrefix str ps needle = Inr (Some p)"
  shows "p \<in> set ps \<and> HasPrefix (str (ID p)) needle"
proof -
  have "filter (\<lambda>p. HasPrefix (str (ID p)) needle) ps = [p]"
    using assms by (auto simp: FindPeerByIDPrefix_matches split: list.splits)
  then have "p \<in> set (filter (\<lambda>p. HasPrefix (str (ID p)) needle) ps)" by simp
  then show ?thesis by simp
qed

lemma FindPeerByCLIRef_mem:
  "FindPeerByCLIRef str ps needle = Inr (Some p) \<Longrightarrow> p \<in> set ps"
  by (auto simp: FindPeerByCLIRef_def Let_def split: if_splits
      dest: FindPeerByName_SomeD FindPeerByIDPrefix_SomeD)

lemma Read_acl_known:
  "Read_acl str ps ss acc = Inr acl \<Longrightarrow> acl \<subseteq> acc \<union> ID ` set ps"
  by (induction ss arbitrary: acc)
    (fastforce simp: bind_res_eq_Inr_iff split: option.splits dest: FindPeerByCLIRef_mem)+

section \<open>The documented behaviour of the route table\<close>

text \<open>
  A network the trie keys by its own bytes: well-formed, and not an IPv4-mapped IPv6 one, which the
  trie files under IPv4.
\<close>

definition plain_net :: "IPNet \<Rightarrow> bool" where
  "plain_net n \<longleftrightarrow> wf_net n \<and> (length (net_IP n) = 4 \<or> To4 (net_IP n) = [])"

definition IPNet_Covers :: "IPNet \<Rightarrow> IPNet \<Rightarrow> bool" where
  "IPNet_Covers n m \<longleftrightarrow> length (net_Mask n) = length (net_Mask m)
     \<and> fst (Mask_Size (net_Mask n)) \<le> fst (Mask_Size (net_Mask m)) \<and> IPNet_Contains n (net_IP m)"

text \<open>
  The documentation of \<open>cidranger\<close>: the table holds one entry per network, \<open>Insert\<close>
  replaces the entry of its network, \<open>Remove\<close> deletes it, \<open>ContainingNetworks\<close> returns
  the entries whose network contains an address and \<open>CoveredNetworks\<close> those whose network lies
  within a network.  \<open>good\<close> is the trie's invariant and \<open>ents\<close> its contents.
\<close>

definition ranger_spec :: "'r ranger \<Rightarrow> ('r \<Rightarrow> bool) \<Rightarrow> ('r \<Rightarrow> ranger_entry list) \<Rightarrow> bool" where
  "ranger_spec R good ents \<longleftrightarrow>
     good (NewPCTrieRanger R) \<and> ents (NewPCTrieRanger R) = []
   \<and> (\<forall>r e. good r \<longrightarrow> plain_net (entry_Network e) \<longrightarrow>
        fst (rg_Insert R r e) = None \<and> good (snd (rg_Insert R r e))
      \<and> set (ents (snd (rg_Insert R r e)))
          = insert e {x \<in> set (ents r). entry_Network x \<noteq> entry_Network e})
   \<and> (\<forall>r n. good r \<longrightarrow> plain_net n \<longrightarrow>
        fst (rg_Remove R r n) = None \<and> good (snd (rg_Remove R r n))
      \<and> set (ents (snd (rg_Remove R r n))) = {x \<in> set (ents r). entry_Network x \<noteq> n})
   \<and> (\<forall>r ip. good r \<longrightarrow> length ip = 4 \<or> length ip = 16 \<longrightarrow>
        (\<exists>ns. ContainingNetworks R r ip = Inr ns \<and> distinct ns
           \<and> set ns = {e \<in> set (ents r). IPNet_Contains (entry_Network e) ip}))
   \<and> (\<forall>r n. good r \<longrightarrow> plain_net n \<longrightarrow>
        (\<exists>ns. CoveredNetworks R r n = Inr ns \<and> distinct ns
           \<and> set ns = {e \<in> set (ents r). IPNet_Covers n (entry_Network e)}))"

text \<open>A table with exactly this behaviour: a list with one entry per network.\<close>

definition list_ranger :: "ranger_entry list ranger" where
  "list_ranger = \<lparr>
     NewPCTrieRanger = [],
     rg_Insert = (\<lambda>r e. (None, e # filter (\<lambda>x. entry_Network x \<noteq> entry_Network e) r)),
     rg_Remove = (\<lambda>r n. (None, filter (\<lambda>x. entry_Network x \<noteq> n) r)),
     ContainingNetworks = (\<lambda>r ip. Inr (filter (\<lambda>e. IPNet_Contains (entry_Network e) ip) r)),
     CoveredNetworks = (\<lambda>r n. Inr (filter (\<lambda>e. IPNet_Covers n (entry_Network e)) r))\<rparr>"

lemma list_ranger_spec: "ranger_spec list_ranger distinct (\<lambda>r. r)"
  by (auto simp: ranger_spec_def list_ranger_def)

lemma ranger_new:
  "ranger_spec R good ents \<Longrightarrow> good (NewPCTrieRanger R) \<and> ents (NewPCTrieRanger R) = []"
  by (simp add: ranger_spec_def)

lemma ranger_insert:
  "ranger_spec R good ents \<Longrightarrow> good r \<Longrightarrow> plain_net (entry_Network e) \<Longrightarrow>
     fst (rg_Insert R r e) = None \<and> good (snd (rg_Insert R r e))
   \<and> set (ents (snd (rg_Insert R r e)))
        = insert e {x \<in> set (ents r). entry_Network x \<noteq> entry_Network e}"
  by (simp add: ranger_spec_def)

lemma ranger_remove:
  "ranger_spec R good ents \<Longrightarrow> good r \<Longrightarrow> plain_net n \<Longrightarrow>
     fst (rg_Remove R r n) = None \<and> good (snd (rg_Remove R r n))
   \<and> set (ents (snd (rg_Remove R r n))) = {x \<in> set (ents r). entry_Network x \<noteq> n}"
  by (simp add: ranger_spec_def)

lemma ranger_containing:
  "ranger_spec R good ents \<Longrightarrow> good r \<Longrightarrow> length ip = 4 \<or> length ip = 16 \<Longrightarrow>
     \<exists>ns. ContainingNetworks R r ip = Inr ns \<and> distinct ns
        \<and> set ns = {e \<in> set (ents r). IPNet_Contains (entry_Network e) ip}"
  by (elim disjE) (simp_all add: ranger_spec_def)

lemma ranger_covered:
  "ranger_spec R good ents \<Longrightarrow> good r \<Longrightarrow> plain_net n \<Longrightarrow>
     \<exists>ns. CoveredNetworks R r n = Inr ns \<and> distinct ns
        \<and> set ns = {e \<in> set (ents r). IPNet_Covers n (entry_Network e)}"
  by (simp add: ranger_spec_def)

section \<open>Route look-up over the table\<close>

text \<open>Every entry the program stores is a pointer to an entry for a configured peer.\<close>

definition route_table_ok :: "Peer list \<Rightarrow> ranger_entry list \<Rightarrow> bool" where
  "route_table_ok peers es \<longleftrightarrow>
     (\<forall>e \<in> set es. \<exists>rte. e = RTEPtr rte \<and> Target rte \<in> set peers \<and> plain_net (rte_Net rte))"

lemma pick_route_none: "pick_route (Inr []) = Inr None"
  by (simp add: pick_route_def)

lemma pick_route_one: "pick_route (Inr [RTEPtr e]) = Inr (Some e)"
  by (simp add: pick_route_def)

lemma pick_route_many:
  assumes "1 < length ns" and "\<And>e. e \<in> set ns \<Longrightarrow> \<exists>rte. e = RTEPtr rte"
  shows "pick_route (Inr ns) = Inl (Panic TypeAssertion)"
proof -
  obtain n ns' where "ns = n # ns'" using assms(1) by (cases ns) auto
  moreover obtain rte where "n = RTEPtr rte" using assms(2) \<open>ns = n # ns'\<close> by auto
  ultimately show ?thesis using assms(1) by (simp add: pick_route_def)
qed

lemma card_le_1_cases:
  assumes "distinct ns" and "set ns = S"
  shows "card S = 0 \<Longrightarrow> ns = []" and "card S = Suc 0 \<Longrightarrow> \<exists>x. ns = [x] \<and> S = {x}"
    and "1 < card S \<Longrightarrow> 1 < length ns"
proof -
  have len: "length ns = card S" using distinct_card [OF assms(1)] assms(2) by simp
  show "ns = []" if "card S = 0" using len that by simp
  show "\<exists>x. ns = [x] \<and> S = {x}" if "card S = Suc 0"
  proof -
    obtain x where "ns = [x]" using len \<open>card S = Suc 0\<close> by (cases ns) auto
    then show ?thesis using assms(2) by auto
  qed
  show "1 < length ns" if "1 < card S" using len that by simp
qed

text \<open>
  The three outcomes of \<open>FindRouteForIP\<close>, by the number of entries that contain the address.
\<close>

lemma FindRouteForIP_outcomes:
  assumes "ranger_spec R good ents" and "good (ByRoute (PeerLookup cfg))"
    and "length ip = 4 \<or> length ip = 16"
    and "route_table_ok (Peers cfg) (ents (ByRoute (PeerLookup cfg)))"
  defines "S \<equiv> {e \<in> set (ents (ByRoute (PeerLookup cfg))). IPNet_Contains (entry_Network e) ip}"
  shows "card S = 0 \<Longrightarrow> FindRouteForIP R cfg ip = Inr None"
    and "card S = Suc 0 \<Longrightarrow>
      \<exists>rte. FindRouteForIP R cfg ip = Inr (Some rte) \<and> S = {RTEPtr rte} \<and> Target rte \<in> set (Peers cfg)"
    and "1 < card S \<Longrightarrow> FindRouteForIP R cfg ip = Inl (Panic TypeAssertion)"
proof -
  obtain ns where ns: "ContainingNetworks R (ByRoute (PeerLookup cfg)) ip = Inr ns"
    "distinct ns" "set ns = S"
    using ranger_containing [OF assms(1-3)] unfolding S_def by blast
  have ptr: "\<exists>rte. e = RTEPtr rte \<and> Target rte \<in> set (Peers cfg)" if "e \<in> S" for e
    using that assms(4) unfolding S_def route_table_ok_def by blast
  note cases = card_le_1_cases [OF ns(2,3)]
  show "FindRouteForIP R cfg ip = Inr None" if "card S = 0"
    using cases(1) that by (simp add: FindRouteForIP_def ns(1) pick_route_none)
  show "\<exists>rte. FindRouteForIP R cfg ip = Inr (Some rte) \<and> S = {RTEPtr rte}
      \<and> Target rte \<in> set (Peers cfg)" if one: "card S = Suc 0"
  proof -
    obtain x where x: "ns = [x]" "S = {x}" using cases(2) [OF one] by blast
    then obtain rte where "x = RTEPtr rte" "Target rte \<in> set (Peers cfg)" using ptr by blast
    with x ns(1) show ?thesis by (simp add: FindRouteForIP_def pick_route_one)
  qed
  show "FindRouteForIP R cfg ip = Inl (Panic TypeAssertion)" if many: "1 < card S"
    unfolding FindRouteForIP_def ns(1)
    by (rule pick_route_many) (use cases(3) [OF many] ptr ns(3) in auto)
qed

section \<open>What Read builds\<close>

definition host4 :: "Peer \<Rightarrow> IPNet" where
  "host4 p = \<lparr>net_IP = BuiltinAddr4 p, net_Mask = CIDRMask 32 32\<rparr>"

definition host6 :: "Peer \<Rightarrow> IPNet" where
  "host6 p = \<lparr>net_IP = BuiltinAddr6 p, net_Mask = CIDRMask 128 128\<rparr>"

definition derived_peer :: "Peer \<Rightarrow> bool" where
  "derived_peer p \<longleftrightarrow>
     BuiltinAddr4 p = mkBuiltinAddr4 (ID p) \<and> BuiltinAddr6 p = mkBuiltinAddr6 (ID p)"

text \<open>The configured networks are ones the trie keys by their own bytes.\<close>

definition plain_routes :: "schema_Peer list \<Rightarrow> bool" where
  "plain_routes cs \<longleftrightarrow>
     (\<forall>c \<in> set cs. \<forall>s \<in> set (sp_Routes c). \<forall>ip n. ParseCIDR s = Inr (ip, n) \<longrightarrow> plain_net n)"

lemma map2_AND_full:
  "length xs = l \<Longrightarrow> n = 8 * l \<Longrightarrow> map2 (AND) xs (mask_bytes l n) = xs"
proof (induction xs arbitrary: l n)
  case Nil
  then show ?case by simp
next
  case (Cons x xs)
  have "(255 :: byte) = -1" by simp
  then have "x AND 255 = x" by (metis and.right_neutral)
  with Cons show ?case by auto
qed

lemma plain_host4: "derived_peer p \<Longrightarrow> plain_net (host4 p)"
  unfolding plain_net_def wf_net_def host4_def derived_peer_def
  by (intro conjI exI [of "\<lambda>k. \<exists>bits. _ k bits" 32] exI [of _ "32 :: nat"])
    (simp_all add: CIDRMask_def map2_AND_full)

lemma plain_host6: "derived_peer p \<Longrightarrow> plain_net (host6 p)"
  unfolding plain_net_def wf_net_def host6_def derived_peer_def
  by (intro conjI exI [of "\<lambda>k. \<exists>bits. _ k bits" 128] exI [of _ "128 :: nat"])
    (simp_all add: CIDRMask_def map2_AND_full)

text \<open>
  The state of the table between two insertions: its entries are pointers to plain entries with
  targets in \<open>ps\<close>, and it has an entry for each network of \<open>ns\<close>.
\<close>

definition table_state ::
  "('r \<Rightarrow> bool) \<Rightarrow> ('r \<Rightarrow> ranger_entry list) \<Rightarrow> Peer set \<Rightarrow> IPNet set \<Rightarrow> 'r \<Rightarrow> bool" where
  "table_state good ents ps ns r \<longleftrightarrow> good r
     \<and> (\<forall>e \<in> set (ents r). \<exists>rte. e = RTEPtr rte \<and> Target rte \<in> ps \<and> plain_net (rte_Net rte))
     \<and> ns \<subseteq> entry_Network ` set (ents r)"

lemma table_state_insert:
  assumes "ranger_spec R good ents" and "table_state good ents ps ns r" and "plain_net n"
  shows "table_state good ents (insert p ps) (insert n ns) (insert_route R n p r)"
proof -
  let ?e = "RTEPtr \<lparr>rte_Net = n, Target = p\<rparr>"
  have net: "entry_Network ?e = n" by (simp add: entry_Network_def Network_def)
  have ins: "good (insert_route R n p r)"
    "set (ents (insert_route R n p r)) = insert ?e {x \<in> set (ents r). entry_Network x \<noteq> n}"
    using ranger_insert [OF assms(1), of r ?e] assms(2,3) net
    by (auto simp: insert_route_def table_state_def)
  have "insert n ns \<subseteq> entry_Network ` set (ents (insert_route R n p r))"
    using assms(2) net unfolding table_state_def ins(2) by fastforce
  then show ?thesis
    using assms(2,3) ins by (auto simp: table_state_def)
qed

lemma table_state_mono:
  "table_state good ents ps ns r \<Longrightarrow> ps \<subseteq> ps' \<Longrightarrow> ns' \<subseteq> ns \<Longrightarrow> table_state good ents ps' ns' r"
  unfolding table_state_def by blast

lemma Read_routes_state:
  assumes "ranger_spec R good ents" and "Read_routes R p ss r = Inr r'"
    and "table_state good ents (insert p ps) ns r"
    and "\<And>s ip n. s \<in> set ss \<Longrightarrow> ParseCIDR s = Inr (ip, n) \<Longrightarrow> plain_net n"
  shows "table_state good ents (insert p ps) ns r'"
  using assms(2-4)
proof (induction ss arbitrary: r)
  case Nil
  then show ?case by simp
next
  case (Cons s ss)
  then obtain ip n where p: "ParseCIDR s = Inr (ip, n)"
    and rest: "Read_routes R p ss (insert_route R n p r) = Inr r'"
    by (auto split: sum.splits prod.splits)
  have "plain_net n" using Cons.prems(3) p by auto
  then have "table_state good ents (insert p ps) ns (insert_route R n p r)"
    using table_state_insert [OF assms(1) Cons.prems(2), of n p]
    by (auto intro: table_state_mono)
  then show ?case using Cons.IH [OF rest] Cons.prems(3) by auto
qed

lemma Read_peer_derived:
  "Read_peer env c lk = Inr (p, lk') \<Longrightarrow>
     derived_peer p \<and> Name p = sp_Name c \<and> peer_Decode env (sp_Id c) = Inr (ID p)"
  by (auto simp: Read_peer_def bind_res_eq_Inr_iff Let_def derived_peer_def)

lemma Read_peer_state:
  assumes "ranger_spec (ranger env) good ents" and "Read_peer env c lk = Inr (p, lk')"
    and "table_state good ents ps ns (ByRoute lk)" and "plain_routes [c]"
  shows "table_state good ents (insert p ps) (insert (host4 p) (insert (host6 p) ns)) (ByRoute lk')"
proof -
  obtain r where r: "Read_routes (ranger env) p (sp_Routes c) (ByRoute lk) = Inr r"
    and lk': "ByRoute lk' = insert_route (ranger env) (host6 p) p
                (insert_route (ranger env) (host4 p) p r)"
    using assms(2)
    by (auto simp: Read_peer_def bind_res_eq_Inr_iff Let_def host4_def host6_def)
  have d: "derived_peer p" using Read_peer_derived [OF assms(2)] by simp
  have "table_state good ents (insert p ps) ns r"
    using Read_routes_state [OF assms(1) r, of ps ns] assms(3,4)
    by (auto simp: plain_routes_def intro: table_state_mono)
  note step4 = table_state_insert [OF assms(1) this plain_host4 [OF d], of p]
  note step6 = table_state_insert [OF assms(1) step4 plain_host6 [OF d], of p]
  then show ?thesis unfolding lk' by (auto intro: table_state_mono)
qed

lemma Read_peers_state:
  assumes "ranger_spec (ranger env) good ents" and "Read_peers env cs lk = Inr (peers, lk')"
    and "table_state good ents ps ns (ByRoute lk)" and "plain_routes cs"
  shows "table_state good ents (ps \<union> set peers)
           (ns \<union> host4 ` set peers \<union> host6 ` set peers) (ByRoute lk')"
  using assms(2-4)
proof (induction cs arbitrary: lk peers ps ns)
  case Nil
  then show ?case by simp
next
  case (Cons c cs)
  obtain p lk1 qs where p: "Read_peer env c lk = Inr (p, lk1)"
    and qs: "Read_peers env cs lk1 = Inr (qs, lk')" and peers: "peers = p # qs"
    using Cons.prems(1) by (auto simp: bind_res_eq_Inr_iff)
  have "plain_routes [c]" "plain_routes cs" using Cons.prems(3) by (auto simp: plain_routes_def)
  then show ?case
    using Cons.IH [OF qs Read_peer_state [OF assms(1) p Cons.prems(2)]]
    by (auto simp: peers insert_commute Un_commute)
qed

lemma Read_peers_derived:
  "Read_peers env cs lk = Inr (peers, lk') \<Longrightarrow>
     list_all2 (\<lambda>c p. derived_peer p \<and> Name p = sp_Name c \<and> peer_Decode env (sp_Id c) = Inr (ID p))
       cs peers"
proof (induction cs arbitrary: lk peers)
  case Nil
  then show ?case by simp
next
  case (Cons c cs)
  then show ?case by (fastforce simp: bind_res_eq_Inr_iff dest: Read_peer_derived)
qed

text \<open>The stages of a successful \<open>Read\<close>.\<close>

lemma ReadE:
  assumes "Read env path = Inr cfg"
  obtains b input kb pk me where "os_ReadFile env path = Inr b" "json_Unmarshal env b = Inr input"
    "multibase_Decode env (sc_PrivateKey input) = Inr kb"
    "UnmarshalPrivateKey env kb = Inr pk" "IDFromPrivateKey env pk = Inr me"
    "PrivateKey cfg = pk"
    "Read_peers env (sc_Peers input)
       \<lparr>ByRoute = NewPCTrieRanger (ranger env), ByName = Map.empty, ByNetID = Map.empty\<rparr>
       = Inr (Peers cfg, PeerLookup cfg)"
    "Read_services env (Peers cfg) (sc_Services input) Map.empty = Inr (Services cfg)"
    "cfg_BuiltinAddr4 cfg = mkBuiltinAddr4 me" "cfg_BuiltinAddr6 cfg = mkBuiltinAddr6 me"
    "Domain cfg = (if sc_Domain input = [] then ''hyprspace'' else sc_Domain input)"
  using assms unfolding Read_def by (auto simp: bind_res_eq_Inr_iff)

lemma drop_mkBuiltinAddr6: "drop 12 (mkBuiltinAddr6 pid) = MkNetID pid"
  by (simp add: mkBuiltinAddr6_eq)

lemma Read_peer_ByNetID:
  "Read_peer env c lk = Inr (p, lk') \<Longrightarrow> ByNetID lk' = (ByNetID lk)(MkNetID (ID p) \<mapsto> p)"
  by (auto simp: Read_peer_def bind_res_eq_Inr_iff Let_def drop_mkBuiltinAddr6)

lemma Read_peers_ByNetID:
  "Read_peers env cs lk = Inr (peers, lk') \<Longrightarrow>
     ByNetID lk' = ByNetID lk ++ map_of (rev (map (\<lambda>p. (MkNetID (ID p), p)) peers))"
proof (induction cs arbitrary: lk peers)
  case Nil
  then show ?case by simp
next
  case (Cons c cs)
  obtain p lk1 qs where p: "Read_peer env c lk = Inr (p, lk1)"
    and qs: "Read_peers env cs lk1 = Inr (qs, lk')" and peers: "peers = p # qs"
    using Cons.prems by (auto simp: bind_res_eq_Inr_iff)
  show ?case
    unfolding Cons.IH [OF qs] Read_peer_ByNetID [OF p] by (simp add: peers)
qed

lemma Read_peer_ByName:
  "Read_peer env c lk = Inr (p, lk') \<Longrightarrow>
     ByName lk' = (if Name p = [] then ByName lk
       else (ByName lk)(ToLower (unicode_ToLower env) (Name p) \<mapsto> p))"
  by (auto simp: Read_peer_def bind_res_eq_Inr_iff Let_def)

lemma Read_peers_ByName:
  "Read_peers env cs lk = Inr (peers, lk') \<Longrightarrow>
     ByName lk' = ByName lk ++ map_of (rev (map (\<lambda>p. (ToLower (unicode_ToLower env) (Name p), p))
       (filter (\<lambda>p. Name p \<noteq> []) peers)))"
proof (induction cs arbitrary: lk peers)
  case Nil
  then show ?case by simp
next
  case (Cons c cs)
  obtain p lk1 qs where p: "Read_peer env c lk = Inr (p, lk1)"
    and qs: "Read_peers env cs lk1 = Inr (qs, lk')" and peers: "peers = p # qs"
    using Cons.prems by (auto simp: bind_res_eq_Inr_iff)
  show ?case
    unfolding Cons.IH [OF qs] Read_peer_ByName [OF p] by (simp add: peers)
qed

lemma Read_services_acl_known:
  assumes "Read_services env peers svs acc = Inr services"
    and "\<And>name sv. acc name = Some sv \<Longrightarrow> Whitelist sv \<union> Blacklist sv \<subseteq> ID ` set peers"
    and "services name = Some sv"
  shows "Whitelist sv \<union> Blacklist sv \<subseteq> ID ` set peers"
  using assms
proof (induction svs arbitrary: acc)
  case Nil
  then show ?case by simp
next
  case (Cons ns svs)
  obtain name' service where ns: "ns = (name', service)" by (cases ns)
  obtain addr w b where
    w: "Read_acl (peer_String env) peers (ss_Whitelist service) {} = Inr w" and
    b: "Read_acl (peer_String env) peers (ss_Blacklist service) {} = Inr b" and
    rest: "Read_services env peers svs
       (acc(name' \<mapsto> \<lparr>svc_Target = addr, EnableWhitelist = ss_EnableWhitelist service,
                     Whitelist = w, Blacklist = b\<rparr>)) = Inr services"
    using Cons.prems(1) ns by (auto simp: bind_res_eq_Inr_iff)
  show ?case
    by (rule Cons.IH [OF rest _ Cons.prems(3)])
      (use Cons.prems(2) Read_acl_known [OF w] Read_acl_known [OF b] in \<open>auto split: if_splits\<close>)
qed

end
