(* ===== verification/ConfigProps.thy ===== *)
theory ConfigProps
  imports Config
begin

text \<open>
  The properties of \<open>config/config.go\<close> and \<open>config/idhash.go\<close>: derived addresses,
  peer references, route look-up and what \<open>Read\<close> builds.  The sample data of the first section
  are the concrete inputs at which the properties with hypotheses are instantiated.
\<close>

section \<open>Sample data\<close>

definition wit_peer :: "peer_id \<Rightarrow> string \<Rightarrow> Peer" where
  "wit_peer pid name = \<lparr>ID = pid, Name = name,
     BuiltinAddr4 = mkBuiltinAddr4 pid, BuiltinAddr6 = mkBuiltinAddr6 pid\<rparr>"

definition wit_cfg :: "Peer list \<Rightarrow> ranger_entry list \<Rightarrow> (unit, unit, ranger_entry list) Config" where
  "wit_cfg peers routes = \<lparr>Path = [], Interface = ''hs0'', ListenAddresses = [],
     BootstrapPeers = [], Peers = peers,
     PeerLookup = \<lparr>ByRoute = routes, ByName = Map.empty, ByNetID = Map.empty\<rparr>,
     PrivateKey = (), cfg_BuiltinAddr4 = [], cfg_BuiltinAddr6 = [], Services = Map.empty,
     FilterPrivateAddresses = False, Domain = ''hyprspace''\<rparr>"

definition wit_net8 :: IPNet where
  "wit_net8 = \<lparr>net_IP = [10, 0, 0, 0], net_Mask = CIDRMask 8 32\<rparr>"

definition wit_net16 :: IPNet where
  "wit_net16 = \<lparr>net_IP = [10, 1, 0, 0], net_Mask = CIDRMask 16 32\<rparr>"

lemma wit_masks: "CIDRMask 8 32 = [255, 0, 0, 0]" "CIDRMask 16 32 = [255, 255, 0, 0]"
  by code_simp+

lemma plain_wit_net8: "plain_net wit_net8"
  unfolding plain_net_def wf_net_def wit_net8_def
  by (intro conjI exI [of "\<lambda>k. \<exists>bits. _ k bits" 8] exI [of _ "32 :: nat"])
    (simp_all add: wit_masks)

lemma plain_wit_net16: "plain_net wit_net16"
  unfolding plain_net_def wf_net_def wit_net16_def
  by (intro conjI exI [of "\<lambda>k. \<exists>bits. _ k bits" 16] exI [of _ "32 :: nat"])
    (simp_all add: wit_masks)

definition wit_schema :: schema_Config where
  "wit_schema = \<lparr>sc_PrivateKey = ''zKey'', sc_ListenAddresses = [''/ip4/0.0.0.0/tcp/8001''],
     sc_Peers = [\<lparr>sp_Id = ''A'', sp_Name = ''Alice'', sp_Routes = [''10.0.0.0/8'']\<rparr>,
                 \<lparr>sp_Id = ''B'', sp_Name = [], sp_Routes = []\<rparr>],
     sc_Services = [(''web'', \<lparr>ss_Target = ''/tcp/8080'', ss_EnableWhitelist = True,
                       ss_Whitelist = [''@Alice''], ss_Blacklist = [''B'']\<rparr>)],
     sc_FilterPrivateAddresses = False, sc_Domain = [], sc_BootstrapPeers = []\<rparr>"

definition wit_env :: "(string, unit, ranger_entry list) config_env" where
  "wit_env = \<lparr>os_ReadFile = (\<lambda>_. Inr []), json_Unmarshal = (\<lambda>_. Inr wit_schema),
     multibase_Decode = (\<lambda>_. Inr []), UnmarshalPrivateKey = (\<lambda>_. Inr ()),
     IDFromPrivateKey = (\<lambda>_. Inr [1, 2, 3]), NewMultiaddr = (\<lambda>s. Inr s),
     peer_Decode = (\<lambda>s. Inr (bytes_of s)), peer_String = (\<lambda>p. if p = [65] then ''A'' else ''B''),
     unicode_ToLower = (\<lambda>s. s), ranger = list_ranger\<rparr>"

lemma wit_cidr: "ParseCIDR ''10.0.0.0/8'' = Inr (v4InV6Prefix @ [10, 0, 0, 0], wit_net8)"
  by code_simp

lemma wit_plain_routes: "plain_routes (sc_Peers wit_schema)"
  by (simp add: plain_routes_def wit_schema_def wit_cidr plain_wit_net8)

lemma wit_Read: "\<exists>cfg. Read wit_env ''c.json'' = Inr cfg"
proof -
  have "\<not> isl (Read wit_env ''c.json'')"
    by (simp add: Read_def wit_env_def wit_schema_def check_def Read_peer_def wit_cidr Let_def
        FindPeerByCLIRef_def FindPeerByIDPrefix_def bytes_of_def HasPrefix_def TrimPrefix_def)
  then show ?thesis by (metis sum.collapse(2))
qed

section \<open>Properties of the configuration\<close>

text \<open>
  C11: \<open>FindRouteForIP\<close>, over a route table with the documented behaviour whose entries are the
  ones the program stores: with no entry containing the address it finds nothing, and with exactly
  one it returns that entry, whose target is a configured peer.
\<close>

theorem find_route_unique:
  assumes "ranger_spec R good ents" and "good (ByRoute (PeerLookup cfg))"
    and "length ip = 4 \<or> length ip = 16"
    and "route_table_ok (Peers cfg) (ents (ByRoute (PeerLookup cfg)))"
    and "S = {e \<in> set (ents (ByRoute (PeerLookup cfg))). IPNet_Contains (entry_Network e) ip}"
    and "card S \<le> 1"
  shows "FindRouteForIP R cfg ip
      = Inr (if S = {} then None else Some (entry_rte (the_elem S)))
    \<and> (S \<noteq> {} \<longrightarrow> Target (entry_rte (the_elem S)) \<in> set (Peers cfg))"
proof (cases "card S = 0")
  case True
  moreover have "finite S" using assms(5) by simp
  ultimately have "S = {}" by simp
  then show ?thesis using FindRouteForIP_outcomes(1) [OF assms(1-4)] assms(5) by simp
next
  case False
  with assms(6) have "card S = Suc 0" by simp
  then obtain rte where "FindRouteForIP R cfg ip = Inr (Some rte)" "S = {RTEPtr rte}"
    "Target rte \<in> set (Peers cfg)"
    using FindRouteForIP_outcomes(2) [OF assms(1-4)] assms(5) by blast
  then show ?thesis by simp
qed

theorem find_route_unique_witness:
  "FindRouteForIP list_ranger
     (wit_cfg [wit_peer [7] ''a''] [RTEPtr \<lparr>rte_Net = wit_net8, Target = wit_peer [7] ''a''\<rparr>])
     [10, 2, 3, 4] = Inr (Some \<lparr>rte_Net = wit_net8, Target = wit_peer [7] ''a''\<rparr>)"
proof -
  let ?e = "RTEPtr \<lparr>rte_Net = wit_net8, Target = wit_peer [7] ''a''\<rparr>"
  let ?cfg = "wit_cfg [wit_peer [7] ''a''] [?e]"
  have "IPNet_Contains wit_net8 [10, 2, 3, 4]" by code_simp
  then have S: "{?e} = {e \<in> set (ByRoute (PeerLookup ?cfg)).
      IPNet_Contains (entry_Network e) [10, 2, 3, 4]}"
    by (auto simp: wit_cfg_def entry_Network_def Network_def)
  have ok: "route_table_ok (Peers ?cfg) (ByRoute (PeerLookup ?cfg))"
    by (simp add: route_table_ok_def wit_cfg_def plain_wit_net8)
  have "distinct (ByRoute (PeerLookup ?cfg))" by (simp add: wit_cfg_def)
  then show ?thesis
    using find_route_unique [OF list_ranger_spec _ _ ok S] by simp
qed

text \<open>
  C39: where two entries of the route table contain the address (a network and a wider one, say),
  \<open>FindRouteForIP\<close> panics: the warning about duplicate routes asserts the value type on entries
  that are stored as pointers.
\<close>

theorem find_route_overlap_panics:
  assumes "ranger_spec R good ents" and "good (ByRoute (PeerLookup cfg))"
    and "length ip = 4 \<or> length ip = 16"
    and "route_table_ok (Peers cfg) (ents (ByRoute (PeerLookup cfg)))"
    and "e1 \<in> set (ents (ByRoute (PeerLookup cfg)))" and "IPNet_Contains (entry_Network e1) ip"
    and "e2 \<in> set (ents (ByRoute (PeerLookup cfg)))" and "IPNet_Contains (entry_Network e2) ip"
    and "e1 \<noteq> e2"
  shows "FindRouteForIP R cfg ip = Inl (Panic TypeAssertion)"
proof (rule FindRouteForIP_outcomes(3) [OF assms(1-4)])
  let ?S = "{e \<in> set (ents (ByRoute (PeerLookup cfg))). IPNet_Contains (entry_Network e) ip}"
  have "{e1, e2} \<subseteq> ?S" using assms(5-8) by auto
  then have "card {e1, e2} \<le> card ?S" by (intro card_mono) auto
  then show "1 < card ?S" using assms(9) by simp
qed

theorem find_route_overlap_panics_witness:
  "FindRouteForIP list_ranger
     (wit_cfg [wit_peer [7] ''a''] [RTEPtr \<lparr>rte_Net = wit_net8, Target = wit_peer [7] ''a''\<rparr>,
        RTEPtr \<lparr>rte_Net = wit_net16, Target = wit_peer [7] ''a''\<rparr>])
     [10, 1, 3, 4] = Inl (Panic TypeAssertion)"
proof -
  let ?e1 = "RTEPtr \<lparr>rte_Net = wit_net8, Target = wit_peer [7] ''a''\<rparr>"
  let ?e2 = "RTEPtr \<lparr>rte_Net = wit_net16, Target = wit_peer [7] ''a''\<rparr>"
  let ?cfg = "wit_cfg [wit_peer [7] ''a''] [?e1, ?e2]"
  have neq: "wit_net8 \<noteq> wit_net16" by (simp add: wit_net8_def wit_net16_def)
  have "IPNet_Contains wit_net8 [10, 1, 3, 4]" "IPNet_Contains wit_net16 [10, 1, 3, 4]"
    by code_simp+
  moreover have "route_table_ok (Peers ?cfg) (ByRoute (PeerLookup ?cfg))"
    by (simp add: route_table_ok_def wit_cfg_def plain_wit_net8 plain_wit_net16)
  ultimately show ?thesis
    using find_route_overlap_panics [OF list_ranger_spec, of ?cfg "[10, 1, 3, 4]" ?e1 ?e2] neq
    by (simp add: wit_cfg_def entry_Network_def Network_def)
qed

text \<open>
  C3: a successful \<open>Read\<close> leaves a route table in which every entry is a pointer to an entry for
  a configured peer, and in which the built-in IPv4 and IPv6 address of every configured peer has a
  host route.
\<close>

theorem Read_route_table:
  assumes "ranger_spec (ranger env) good ents" and "Read env path = Inr cfg"
    and "os_ReadFile env path = Inr b" and "json_Unmarshal env b = Inr input"
    and "plain_routes (sc_Peers input)"
  shows "good (ByRoute (PeerLookup cfg))
    \<and> route_table_ok (Peers cfg) (ents (ByRoute (PeerLookup cfg)))
    \<and> (\<forall>p \<in> set (Peers cfg). \<forall>n \<in> {\<lparr>net_IP = mkBuiltinAddr4 (ID p), net_Mask = CIDRMask 32 32\<rparr>,
          \<lparr>net_IP = mkBuiltinAddr6 (ID p), net_Mask = CIDRMask 128 128\<rparr>}.
        \<exists>e \<in> set (ents (ByRoute (PeerLookup cfg))). entry_Network e = n)"
proof -
  let ?lk0 = "\<lparr>ByRoute = NewPCTrieRanger (ranger env), ByName = Map.empty, ByNetID = Map.empty\<rparr>"
  have peers: "Read_peers env (sc_Peers input) ?lk0 = Inr (Peers cfg, PeerLookup cfg)"
    using assms(2-4) by (auto elim: ReadE)
  have "table_state good ents {} {} (ByRoute ?lk0)"
    using ranger_new [OF assms(1)] by (simp add: table_state_def)
  note st = Read_peers_state [OF assms(1) peers this assms(5)]
  have "derived_peer p" if "p \<in> set (Peers cfg)" for p
    using that Read_peers_derived [OF peers] by (auto simp: list_all2_conv_all_nth in_set_conv_nth)
  then have "host4 p = \<lparr>net_IP = mkBuiltinAddr4 (ID p), net_Mask = CIDRMask 32 32\<rparr>
      \<and> host6 p = \<lparr>net_IP = mkBuiltinAddr6 (ID p), net_Mask = CIDRMask 128 128\<rparr>"
    if "p \<in> set (Peers cfg)" for p
    using that by (simp add: host4_def host6_def derived_peer_def)
  with st show ?thesis
    unfolding table_state_def route_table_ok_def by fastforce
qed

theorem Read_route_table_witness:
  "\<exists>cfg. Read wit_env ''c.json'' = Inr cfg
     \<and> route_table_ok (Peers cfg) (ByRoute (PeerLookup cfg))"
proof -
  obtain cfg where "Read wit_env ''c.json'' = Inr cfg" using wit_Read by blast
  then show ?thesis
    using Read_route_table [of wit_env distinct "\<lambda>r. r" "''c.json''" cfg "[]" wit_schema]
      list_ranger_spec wit_plain_routes
    by (auto simp: wit_env_def)
qed

text \<open>
  A peer reference of the command line resolves by name after an \<open>@\<close>, to the first peer of
  that name, and otherwise by prefix of the textual peer ID: to the only peer with that prefix, to
  nothing when there is none, and to the ambiguity error with the number of matches when there are
  several.  The empty reference matches nothing.
\<close>

theorem FindPeerByCLIRef_spec:
  "FindPeerByCLIRef str peers needle =
     (case needle of
        [] \<Rightarrow> Inr None
      | c # rest \<Rightarrow>
          if c = CHR ''@'' then Inr (List.find (\<lambda>p. Name p = rest) peers)
          else (let ms = filter (\<lambda>p. \<exists>t. str (ID p) = needle @ t) peers in
            if length ms = 0 then Inr None
            else if length ms = 1 then Inr (Some (hd ms))
            else Inl (Error (ErrAmbiguousPrefix needle (length ms)))))"
proof (cases needle)
  case Nil
  then show ?thesis by (simp add: FindPeerByCLIRef_def)
next
  case (Cons c rest)
  show ?thesis
    unfolding FindPeerByCLIRef_def FindPeerByName_eq_find FindPeerByIDPrefix_matches
      HasPrefix_iff [of "str _"]
    by (auto simp: Cons HasPrefix_def TrimPrefix_def Let_def split: list.splits)
qed

text \<open>
  C35: every peer ID on an access list of a service that \<open>Read\<close> returns is the ID of a configured
  peer: a reference that names no peer, or several, makes \<open>Read\<close> fail.
\<close>

theorem Read_services_acl:
  assumes "Read env path = Inr cfg" and "Services cfg name = Some sv"
  shows "Whitelist sv \<union> Blacklist sv \<subseteq> ID ` set (Peers cfg)"
  using assms(1)
proof (rule ReadE)
  fix input
  assume "Read_services env (Peers cfg) (sc_Services input) Map.empty = Inr (Services cfg)"
  note known = Read_services_acl_known [OF this]
  show ?thesis using known [of name sv] assms(2) by simp
qed

lemma wit_Read_services:
  "Read wit_env ''c.json'' = Inr cfg \<Longrightarrow> \<exists>sv. Services cfg ''web'' = Some sv"
  by (auto simp: Read_def wit_env_def wit_schema_def check_def bind_res_eq_Inr_iff)

theorem Read_services_acl_witness:
  "\<exists>cfg sv. Read wit_env ''c.json'' = Inr cfg \<and> Services cfg ''web'' = Some sv
     \<and> Whitelist sv \<union> Blacklist sv \<subseteq> ID ` set (Peers cfg)"
proof -
  obtain cfg where cfg: "Read wit_env ''c.json'' = Inr cfg" using wit_Read by blast
  then obtain sv where "Services cfg ''web'' = Some sv" using wit_Read_services by blast
  then show ?thesis using cfg Read_services_acl by blast
qed

text \<open>
  C34: what \<open>Read\<close> builds from the peer entries: the peers in the order of the file, each with the
  addresses derived from its ID; the index by network ID and the index by lower-cased name, in
  which the last of several peers with the same key wins and unnamed peers do not occur; and
  \<open>hyprspace\<close> as the domain when none is given.
\<close>

theorem Read_peer_indexes:
  assumes "Read env path = Inr cfg" and "os_ReadFile env path = Inr b"
    and "json_Unmarshal env b = Inr input"
  shows "list_all2 (\<lambda>c p. peer_Decode env (sp_Id c) = Inr (ID p) \<and> Name p = sp_Name c
        \<and> BuiltinAddr4 p = mkBuiltinAddr4 (ID p) \<and> BuiltinAddr6 p = mkBuiltinAddr6 (ID p))
        (sc_Peers input) (Peers cfg)
    \<and> ByNetID (PeerLookup cfg) = map_of (rev (map (\<lambda>p. (MkNetID (ID p), p)) (Peers cfg)))
    \<and> ByName (PeerLookup cfg)
        = map_of (rev (map (\<lambda>p. (ToLower (unicode_ToLower env) (Name p), p))
            (filter (\<lambda>p. Name p \<noteq> []) (Peers cfg))))
    \<and> Domain cfg = (if sc_Domain input = [] then ''hyprspace'' else sc_Domain input)"
proof -
  let ?lk0 = "\<lparr>ByRoute = NewPCTrieRanger (ranger env), ByName = Map.empty, ByNetID = Map.empty\<rparr>"
  have peers: "Read_peers env (sc_Peers input) ?lk0 = Inr (Peers cfg, PeerLookup cfg)"
    and dom: "Domain cfg = (if sc_Domain input = [] then ''hyprspace'' else sc_Domain input)"
    using assms by (auto elim: ReadE)
  from Read_peers_derived [OF peers]
  have "list_all2 (\<lambda>c p. peer_Decode env (sp_Id c) = Inr (ID p) \<and> Name p = sp_Name c
        \<and> BuiltinAddr4 p = mkBuiltinAddr4 (ID p) \<and> BuiltinAddr6 p = mkBuiltinAddr6 (ID p))
        (sc_Peers input) (Peers cfg)"
    by (rule list_all2_mono) (auto simp: derived_peer_def)
  then show ?thesis
    using Read_peers_ByNetID [OF peers] Read_peers_ByName [OF peers] dom by simp
qed

theorem Read_peer_indexes_witness:
  "\<exists>cfg. Read wit_env ''c.json'' = Inr cfg \<and> length (Peers cfg) = 2
     \<and> Domain cfg = ''hyprspace''"
proof -
  obtain cfg where cfg: "Read wit_env ''c.json'' = Inr cfg" using wit_Read by blast
  have "os_ReadFile wit_env ''c.json'' = Inr []" "json_Unmarshal wit_env [] = Inr wit_schema"
    by (simp_all add: wit_env_def)
  note props = Read_peer_indexes [OF cfg this]
  have "length (sc_Peers wit_schema) = length (Peers cfg)"
    by (rule list_all2_lengthD [OF conjunct1 [OF props]])
  moreover have "Domain cfg = (if sc_Domain wit_schema = [] then ''hyprspace'' else sc_Domain wit_schema)"
    using props by blast
  ultimately show ?thesis using cfg by (simp add: wit_schema_def)
qed

section \<open>Derived addresses\<close>

text \<open>
  C36: the addresses derived from peer IDs lie in the documented ranges, whatever the peer and the
  service: built-in IPv4 addresses in \<open>100.64.0.0/16\<close>, built-in IPv6 addresses in
  \<open>fd00:6879:7072:7370:6163:6500::/96\<close> and service addresses in
  \<open>fd00:6879:7072:7370:7376::/80\<close>; and no built-in address lies in the service range.
\<close>

theorem derived_address_ranges:
  "IPNet_Contains \<lparr>net_IP = [100, 64, 0, 0], net_Mask = CIDRMask 16 32\<rparr> (mkBuiltinAddr4 p)
   \<and> IPNet_Contains \<lparr>net_IP = builtin6_prefix @ [0, 0, 0, 0], net_Mask = CIDRMask 96 128\<rparr>
       (mkBuiltinAddr6 p)
   \<and> IPNet_Contains \<lparr>net_IP = service6_prefix @ [0, 0, 0, 0, 0, 0], net_Mask = CIDRMask 80 128\<rparr>
       (MkServiceAddr6 p s)
   \<and> \<not> IPNet_Contains \<lparr>net_IP = service6_prefix @ [0, 0, 0, 0, 0, 0], net_Mask = CIDRMask 80 128\<rparr>
       (mkBuiltinAddr6 q)"
proof -
  have t4: "To4 (builtin6_prefix @ [0, 0, 0, 0]) = []"
    "To4 (service6_prefix @ [0, 0, 0, 0, 0, 0]) = []"
    by (rule To4_not_mapped; simp add: builtin6_prefix_def service6_prefix_def)+
  have "IPNet_Contains \<lparr>net_IP = [100, 64, 0, 0], net_Mask = CIDRMask 16 32\<rparr> (mkBuiltinAddr4 p)"
    using IPNet_Contains_v4_prefix [of "[100, 64, 0, 0]" "mkBuiltinAddr4 p" 2]
    by (simp add: mkBuiltinAddr4_lanes)
  moreover have "IPNet_Contains
      \<lparr>net_IP = builtin6_prefix @ [0, 0, 0, 0], net_Mask = CIDRMask 96 128\<rparr> (mkBuiltinAddr6 p)"
    using IPNet_Contains_v6_prefix [of "builtin6_prefix @ [0, 0, 0, 0]" "mkBuiltinAddr6 p" 12] t4
    by simp
  moreover have "IPNet_Contains
      \<lparr>net_IP = service6_prefix @ [0, 0, 0, 0, 0, 0], net_Mask = CIDRMask 80 128\<rparr>
      (MkServiceAddr6 p s)"
    using IPNet_Contains_v6_prefix [of "service6_prefix @ [0, 0, 0, 0, 0, 0]" "MkServiceAddr6 p s" 10]
      t4 by simp
  moreover have "\<not> IPNet_Contains
      \<lparr>net_IP = service6_prefix @ [0, 0, 0, 0, 0, 0], net_Mask = CIDRMask 80 128\<rparr>
      (mkBuiltinAddr6 q)"
    using IPNet_Contains_v6_prefix [of "service6_prefix @ [0, 0, 0, 0, 0, 0]" "mkBuiltinAddr6 q" 10]
      t4 by (simp add: builtin6_prefix_def service6_prefix_def)
  ultimately show ?thesis by blast
qed

text \<open>
  C37: a service address carries the network ID of its peer in bytes 10 to 13 and the service ID in
  bytes 14 and 15, so that two service addresses are equal exactly when both parts are; a built-in
  IPv6 address carries the same network ID in its last four bytes.
\<close>

theorem service_address_roundtrip:
  "take 4 (drop 10 (MkServiceAddr6 p s)) = MkNetID p
   \<and> drop 14 (MkServiceAddr6 p s) = MkServiceID s
   \<and> (MkServiceAddr6 p s = MkServiceAddr6 q t \<longleftrightarrow> MkNetID p = MkNetID q \<and> MkServiceID s = MkServiceID t)
   \<and> drop 12 (mkBuiltinAddr6 p) = MkNetID p"
  by (simp add: MkServiceAddr6_eq mkBuiltinAddr6_eq)

text \<open>
  Changing any one byte of a peer ID changes its network ID, hence its built-in IPv6 address,
  and changes its built-in IPv4 address.
\<close>

theorem derived_address_single_byte:
  assumes "n < length p" and "p ! n \<noteq> b"
  shows "MkNetID (p[n := b]) \<noteq> MkNetID p
    \<and> mkBuiltinAddr6 (p[n := b]) \<noteq> mkBuiltinAddr6 p
    \<and> mkBuiltinAddr4 (p[n := b]) \<noteq> mkBuiltinAddr4 p"
proof -
  have "MkNetID (p[n := b]) \<noteq> MkNetID p"
    unfolding MkNetID_def by (rule netid.loop_update_neq) (use assms in simp_all)
  moreover have "mkBuiltinAddr4 (p[n := b]) \<noteq> mkBuiltinAddr4 p"
    using addr4.loop_update_neq [of "[100, 64, 1, 2]" n p b] assms
    by (simp add: mkBuiltinAddr4_def addr4.length_loop)
  ultimately show ?thesis by (simp add: mkBuiltinAddr6_eq)
qed

theorem derived_address_single_byte_witness:
  "MkNetID ([18, 32, 5][1 := 33]) \<noteq> MkNetID [18, 32, 5]"
  using derived_address_single_byte [of 1 "[18, 32, 5]" 33] by simp

text \<open>
  The first character of a service name has no influence on its service ID, since the loop
  multiplies byte \<open>i\<close> by \<open>i\<close>: two services whose names differ only there share one ID
  and, on every peer, one service address.
\<close>

theorem service_id_ignores_first_character:
  "MkServiceID (c # rest) = MkServiceID (d # rest)
   \<and> MkServiceAddr6 p (c # rest) = MkServiceAddr6 p (d # rest)"
proof -
  have "MkServiceID (c # rest) = MkServiceID (d # rest)"
    by (simp add: MkServiceID_def bytes_of_def)
  then show ?thesis by (simp add: MkServiceAddr6_eq)
qed

end
