(* ===== verification/Streams.thy ===== *)
theory Streams
  imports Config
begin

text \<open>
  The stream layer of \<open>node/node.go\<close>: the table of active streams (\<open>getActiveStream\<close>,
  \<open>insertActiveStream\<close>, \<open>expireActiveStream\<close>), the packet reader \<open>streamHandler\<close> and the
  packet writer \<open>sendPacket\<close>.  A libp2p stream is what it delivers: a list of chunks, each what
  one \<open>Read\<close> can return at most; a \<open>Read\<close> with nothing left fails.  The goroutines that share
  the table are a step relation whose steps are the critical sections of \<open>activeStreamsLock\<close>.
\<close>

section \<open>Protocol identifiers of p2p/node.go\<close>

definition ProtocolV0 :: string where
  "ProtocolV0 = ''/hyprspace/0.0.1''"

definition ProtocolV1 :: string where
  "ProtocolV1 = ''/hyprspace/1''"

definition Protocols :: "string list" where
  "Protocols = [ProtocolV1, ProtocolV0]"

section \<open>The table of active streams\<close>

type_synonym stream_id = nat

record active_table =
  activeStreams :: "peer_id \<rightharpoonup> stream_id"

definition getActiveStream :: "peer_id \<Rightarrow> active_table \<Rightarrow> stream_id option" where
  "getActiveStream pid t = activeStreams t pid"

definition insertActiveStream :: "peer_id \<Rightarrow> stream_id \<Rightarrow> active_table \<Rightarrow> bool \<times> active_table" where
  "insertActiveStream pid ss t =
     (case activeStreams t pid of
        Some _ \<Rightarrow> (False, t)
      | None \<Rightarrow> (True, t\<lparr>activeStreams := (activeStreams t)(pid \<mapsto> ss)\<rparr>))"

definition expireActiveStream :: "peer_id \<Rightarrow> active_table \<Rightarrow> active_table" where
  "expireActiveStream pid t = t\<lparr>activeStreams := (activeStreams t)(pid := None)\<rparr>"

text \<open>
  What the users of the table rely on: an insertion never replaces an entry and reports whether it
  made one, and an expiry removes the entry of its key only.
\<close>

locale once_table =
  fixes get :: "'k \<Rightarrow> 't \<Rightarrow> 'v option"
    and ins :: "'k \<Rightarrow> 'v \<Rightarrow> 't \<Rightarrow> bool \<times> 't"
    and expire :: "'k \<Rightarrow> 't \<Rightarrow> 't"
  assumes ins_present: "get k t = Some v \<Longrightarrow> ins k w t = (False, t)"
    and ins_absent: "get k t = None \<Longrightarrow>
      fst (ins k v t) \<and> get j (snd (ins k v t)) = (if j = k then Some v else get j t)"
    and get_expire: "get j (expire k t) = (if j = k then None else get j t)"
begin

lemma ins_True_iff: "fst (ins k v t) \<longleftrightarrow> get k t = None"
  using ins_present ins_absent by (cases "get k t") fastforce+

lemma get_after_ins:
  "get j (snd (ins k v t)) = (if j = k \<and> get k t = None then Some v else get j t)"
  using ins_present [of k t _ v] ins_absent [of k t v j] by (cases "get k t") auto

lemma ins_keeps: "get j t = Some w \<Longrightarrow> get j (snd (ins k v t)) = Some w"
  by (auto simp: get_after_ins)

lemma expire_ins:
  "get k t = None \<Longrightarrow> get j (expire k (snd (ins k v t))) = get j t"
  by (simp add: get_expire get_after_ins)

end

interpretation act: once_table getActiveStream insertActiveStream expireActiveStream
  by unfold_locales
    (auto simp: getActiveStream_def insertActiveStream_def expireActiveStream_def split: option.splits)

section \<open>Reading packets: streamHandler\<close>

type_synonym chunks = "byte list list"

fun stream_Read :: "nat \<Rightarrow> chunks \<Rightarrow> (byte list \<times> chunks) option" where
  "stream_Read k [] = None"
| "stream_Read k (c # cs) =
     (if length c \<le> k then Some (c, cs) else Some (take k c, drop k c # cs))"

text \<open>Overwriting part of a buffer, as \<open>Read(buf[off:])\<close> does.\<close>

definition fill :: "byte list \<Rightarrow> nat \<Rightarrow> byte list \<Rightarrow> byte list" where
  "fill buf off d = take off buf @ d @ drop (off + length d) buf"

definition chunk_measure :: "chunks \<Rightarrow> nat" where
  "chunk_measure cs = length cs + sum_list (map length cs)"

lemma stream_Read_measure:
  "stream_Read k cs = Some (d, cs') \<Longrightarrow> 0 < k \<Longrightarrow> chunk_measure cs' < chunk_measure cs"
  by (cases cs) (auto simp: chunk_measure_def split: if_splits)

text \<open>
  The inner loop: the buffer is the slice \<open>packet\<close>; slicing it at \<open>packet[plen:size]\<close> panics when
  \<open>size\<close> exceeds its capacity.
\<close>

function read_body ::
  "byte list \<Rightarrow> uint16 \<Rightarrow> uint16 \<Rightarrow> chunks \<Rightarrow> (byte list \<times> chunks) res" where
  "read_body packet plen sz cs =
     (if plen < sz then
        (if length packet < unat sz then Inl (Panic SliceBounds)
         else (case stream_Read (unat sz - unat plen) cs of
                 None \<Rightarrow> Inl (Error ErrEOF)
               | Some (d, cs') \<Rightarrow>
                   read_body (fill packet (unat plen) d) (plen + of_nat (length d)) sz cs'))
      else Inr (packet, cs))"
  by pat_completeness auto
termination
  by (relation "measure (\<lambda>(packet, plen, sz, cs). chunk_measure cs)")
    (auto simp: word_less_nat_alt intro: stream_Read_measure)

declare read_body.simps [simp del]

lemma read_body_measure:
  "read_body packet plen sz cs = Inr (packet', cs') \<Longrightarrow> chunk_measure cs' \<le> chunk_measure cs"
proof (induction packet plen sz cs rule: read_body.induct)
  case (1 packet plen sz cs)
  show ?case
  proof (cases "plen < sz")
    case True
    then obtain d cs1 where rd: "stream_Read (unat sz - unat plen) cs = Some (d, cs1)"
      and fits: "\<not> length packet < unat sz"
      and rest: "read_body (fill packet (unat plen) d) (plen + of_nat (length d)) sz cs1
         = Inr (packet', cs')"
      using "1.prems" by (auto simp: read_body.simps [of packet plen] split: if_splits option.splits)
    have "chunk_measure cs1 < chunk_measure cs"
      using stream_Read_measure [OF rd] True by (simp add: word_less_nat_alt)
    then show ?thesis using "1.IH" [OF True fits rd refl rest] by simp
  next
    case False
    then show ?thesis using "1.prems" by (simp add: read_body.simps [of packet plen])
  qed
qed

text \<open>
  The outer loop: the packets written to the TUN device, and how the loop ended.  The header buffer
  \<open>packetSize\<close> keeps its contents between rounds.  \<open>deadline n\<close> says whether call \<open>n\<close> of
  \<open>SetWriteDeadline\<close> succeeds.
\<close>

function read_packets ::
  "(nat \<Rightarrow> bool) \<Rightarrow> nat \<Rightarrow> byte list \<Rightarrow> byte list \<Rightarrow> chunks \<Rightarrow> byte list list \<times> failure" where
  "read_packets deadline n packetSize packet cs =
     (case stream_Read 2 cs of
        None \<Rightarrow> ([], Error ErrEOF)
      | Some (d, cs1) \<Rightarrow>
          let packetSize' = fill packetSize 0 d;
              sz = uint16_le packetSize'
          in (case read_body packet 0 sz cs1 of
                Inl f \<Rightarrow> ([], f)
              | Inr (packet', cs2) \<Rightarrow>
                  if \<not> deadline n then ([], Error (ErrExt ''deadline''))
                  else let (ws, f) = read_packets deadline (Suc n) packetSize' packet' cs2
                       in (take (unat sz) packet' # ws, f)))"
  by pat_completeness auto
termination
proof (relation "measure (\<lambda>(deadline, n, packetSize, packet, cs). chunk_measure cs)",
    goal_cases)
  case 1
  then show ?case by simp
next
  case (2 deadline n packetSize packet cs x d cs1 ps sz y packet' cs2)
  have "chunk_measure cs1 < chunk_measure cs" using 2 by (intro stream_Read_measure) auto
  moreover have "chunk_measure cs2 \<le> chunk_measure cs1" using 2 by (intro read_body_measure) auto
  ultimately show ?case by simp
qed

declare read_packets.simps [simp del]

datatype handler_start = HandlerReset | HandlerReading bool

text \<open>
  \<open>streamHandler\<close> up to its loop: the check of the remote peer and the insertion into the table;
  the flag says whether an expiry is deferred.  \<open>streamHandler_exit\<close> is that deferred call.
\<close>

definition streamHandler_enter ::
  "Peer list \<Rightarrow> string \<Rightarrow> peer_id \<Rightarrow> stream_id \<Rightarrow> active_table \<Rightarrow> handler_start \<times> active_table" where
  "streamHandler_enter peers proto remotePeerID stream t =
     (case FindPeer peers remotePeerID of
        None \<Rightarrow> (HandlerReset, t)
      | Some _ \<Rightarrow>
          if proto \<noteq> ProtocolV0 then
            (let (inserted, t') = insertActiveStream remotePeerID stream t
             in (HandlerReading inserted, t'))
          else (HandlerReading False, t))"

definition streamHandler_exit :: "peer_id \<Rightarrow> bool \<Rightarrow> active_table \<Rightarrow> active_table" where
  "streamHandler_exit remotePeerID inserted t =
     (if inserted then expireActiveStream remotePeerID t else t)"

text \<open>The loop of \<open>streamHandler\<close> with its buffers of 1420 and 2 bytes.\<close>

definition streamHandler_loop :: "(nat \<Rightarrow> bool) \<Rightarrow> chunks \<Rightarrow> byte list list \<times> failure" where
  "streamHandler_loop deadline cs = read_packets deadline 0 [0, 0] (replicate 1420 0) cs"

section \<open>Writing packets: sendPacket\<close>

datatype send_effect =
    Wrote stream_id "byte list"
  | ClosedStream stream_id
  | GoRediscover
  | GoStreamHandler stream_id

text \<open>What the calls into libp2p return in one run of \<open>sendPacket\<close>.\<close>

record send_env =
  act_len_ok :: bool
  act_pkt_ok :: bool
  act_deadline_ok :: bool
  NewStream :: "go_error + stream_id"
  new_deadline_ok :: bool
  new_len_ok :: bool
  new_pkt_ok :: bool

definition frame_len :: "nat \<Rightarrow> byte list" where
  "frame_len plen = put_uint16_le (of_nat plen)"

definition send_active ::
  "send_env \<Rightarrow> peer_id \<Rightarrow> stream_id \<Rightarrow> byte list \<Rightarrow> nat \<Rightarrow> active_table
     \<Rightarrow> bool \<times> send_effect list \<times> active_table" where
  "send_active env dst ms packet plen t =
     (let done_len = (if act_len_ok env then [Wrote ms (frame_len plen)] else []);
          done_pkt = (if act_len_ok env \<and> act_pkt_ok env then [Wrote ms (take plen packet)] else [])
      in if act_len_ok env \<and> act_pkt_ok env \<and> act_deadline_ok env
         then (True, done_len @ done_pkt, t)
         else (False, done_len @ done_pkt @ [ClosedStream ms], expireActiveStream dst t))"

definition send_new :: "send_env \<Rightarrow> byte list \<Rightarrow> nat \<Rightarrow> send_effect list" where
  "send_new env packet plen =
     (case NewStream env of
        Inl err \<Rightarrow> [GoRediscover]
      | Inr stream \<Rightarrow>
          if \<not> new_deadline_ok env then [ClosedStream stream]
          else if \<not> new_len_ok env then [ClosedStream stream]
          else if \<not> new_pkt_ok env then [Wrote stream (frame_len plen), ClosedStream stream]
          else [Wrote stream (frame_len plen), Wrote stream (take plen packet),
                GoStreamHandler stream])"

definition sendPacket ::
  "send_env \<Rightarrow> peer_id \<Rightarrow> byte list \<Rightarrow> nat \<Rightarrow> active_table \<Rightarrow> send_effect list \<times> active_table" where
  "sendPacket env dst packet plen t =
     (case getActiveStream dst t of
        Some ms \<Rightarrow>
          (let (ok, effs, t') = send_active env dst ms packet plen t in
           if ok then (effs, t') else (effs @ send_new env packet plen, t'))
      | None \<Rightarrow> (send_new env packet plen, t))"

section \<open>The goroutines that share the table\<close>

text \<open>
  The state the goroutines share: the table, the streams a handler is about to be started for (an
  incoming stream, or one \<open>sendPacket\<close> opened and passed to \<open>go node.streamHandler\<close>), the handlers
  in their loop with the flag \<open>inserted\<close>, and the runs of \<open>sendPacket\<close> between
  \<open>getActiveStream\<close> and the end of their writes.
\<close>

record node_state =
  table :: active_table
  opened :: "(stream_id \<times> peer_id \<times> string) set"
  running :: "stream_id \<rightharpoonup> peer_id \<times> bool"
  sending :: "(peer_id \<times> stream_id) set"
  used_ids :: "stream_id set"

definition node_init :: node_state where
  "node_init = \<lparr>table = \<lparr>activeStreams = Map.empty\<rparr>, opened = {}, running = Map.empty,
     sending = {}, used_ids = {}\<rparr>"

definition handler_runs :: "handler_start \<Rightarrow> peer_id \<Rightarrow> (peer_id \<times> bool) option" where
  "handler_runs h pid = (case h of HandlerReset \<Rightarrow> None | HandlerReading ins \<Rightarrow> Some (pid, ins))"

inductive node_step :: "Peer list \<Rightarrow> node_state \<Rightarrow> node_state \<Rightarrow> bool" for peers where
  stream_opened:
    "sid \<notin> used_ids s \<Longrightarrow>
     node_step peers s (s\<lparr>opened := insert (sid, pid, proto) (opened s),
       used_ids := insert sid (used_ids s)\<rparr>)"
| handler_enters:
    "(sid, pid, proto) \<in> opened s \<Longrightarrow>
     streamHandler_enter peers proto pid sid (table s) = (h, t') \<Longrightarrow>
     node_step peers s (s\<lparr>table := t', opened := opened s - {(sid, pid, proto)},
       running := (running s)(sid := handler_runs h pid)\<rparr>)"
| handler_exits:
    "running s sid = Some (pid, ins) \<Longrightarrow>
     node_step peers s (s\<lparr>table := streamHandler_exit pid ins (table s),
       running := (running s)(sid := None)\<rparr>)"
| send_looks_up:
    "getActiveStream dst (table s) = Some ms \<Longrightarrow>
     node_step peers s (s\<lparr>sending := insert (dst, ms) (sending s)\<rparr>)"
| send_succeeds:
    "(dst, ms) \<in> sending s \<Longrightarrow> node_step peers s (s\<lparr>sending := sending s - {(dst, ms)}\<rparr>)"
| send_fails:
    "(dst, ms) \<in> sending s \<Longrightarrow>
     node_step peers s (s\<lparr>table := expireActiveStream dst (table s),
       sending := sending s - {(dst, ms)}\<rparr>)"

inductive_cases node_step_E: "node_step peers s s'"

inductive node_reachable :: "Peer list \<Rightarrow> node_state \<Rightarrow> bool" for peers where
  reach_init: "node_reachable peers node_init"
| reach_step: "node_reachable peers s \<Longrightarrow> node_step peers s s' \<Longrightarrow> node_reachable peers s'"

text \<open>Every entry of the table is a stream whose handler is running and will expire it.\<close>

definition table_live :: "Peer list \<Rightarrow> node_state \<Rightarrow> bool" where
  "table_live peers s \<longleftrightarrow>
     (\<forall>pid sid. getActiveStream pid (table s) = Some sid
        \<longrightarrow> running s sid = Some (pid, True) \<and> FindPeer peers pid \<noteq> None)"

text \<open>Streams are told apart: an opened stream has no handler yet and all were once new.\<close>

definition ids_fresh :: "node_state \<Rightarrow> bool" where
  "ids_fresh s \<longleftrightarrow>
     (\<forall>sid x. (sid, x) \<in> opened s \<longrightarrow> sid \<in> used_ids s \<and> running s sid = None)
     \<and> (\<forall>sid y. running s sid = Some y \<longrightarrow> sid \<in> used_ids s)
     \<and> (\<forall>sid x y. (sid, x) \<in> opened s \<longrightarrow> (sid, y) \<in> opened s \<longrightarrow> x = y)"

lemma ids_freshD:
  assumes "ids_fresh s"
  shows "(sid, x) \<in> opened s \<Longrightarrow> sid \<in> used_ids s" "(sid, x) \<in> opened s \<Longrightarrow> running s sid = None"
    and "running s sid = Some y \<Longrightarrow> sid \<in> used_ids s"
    and "(sid, x) \<in> opened s \<Longrightarrow> (sid, x') \<in> opened s \<Longrightarrow> x = x'"
  using assms unfolding ids_fresh_def by metis+

lemma ids_fresh_step:
  assumes "node_step peers s s'" and "ids_fresh s"
  shows "ids_fresh s'"
  using assms
proof cases
  case (stream_opened sid pid proto)
  then have "running s sid = None" using ids_freshD(3) [OF assms(2)] by (cases "running s sid") auto
  then show ?thesis using stream_opened assms(2) unfolding ids_fresh_def by auto
next
  case (handler_enters sid pid proto h t')
  show ?thesis
    unfolding ids_fresh_def
  proof (intro conjI allI impI)
    fix i x y
    assume "(i, x) \<in> opened s'"
    then have i: "(i, x) \<in> opened s" "(i, x) \<noteq> (sid, pid, proto)" using handler_enters by auto
    then have "i \<noteq> sid" using ids_freshD(4) [OF assms(2)] handler_enters(2) by metis
    then show "i \<in> used_ids s'" "running s' i = None"
      using ids_freshD(1,2) [OF assms(2) i(1)] handler_enters(1) by simp_all
    assume "(i, y) \<in> opened s'"
    then show "x = y" using ids_freshD(4) [OF assms(2) i(1)] handler_enters(1) by simp
  next
    fix i y
    assume "running s' i = Some y"
    then show "i \<in> used_ids s'"
      using ids_freshD [OF assms(2)] handler_enters(1,2) by (cases "i = sid") auto
  qed
qed (auto simp: ids_fresh_def split: if_splits)

lemma streamHandler_enter_table:
  assumes "streamHandler_enter peers proto pid sid t = (h, t')"
  shows "getActiveStream q t' = Some sid' \<Longrightarrow> getActiveStream q t = Some sid'
    \<or> (q = pid \<and> sid' = sid \<and> h = HandlerReading True \<and> FindPeer peers pid \<noteq> None)"
    and "h = HandlerReset \<longleftrightarrow> FindPeer peers pid = None"
    and "h = HandlerReset \<Longrightarrow> t' = t"
    and "proto = ProtocolV0 \<Longrightarrow> t' = t"
  using assms act.get_after_ins [of q pid sid t] act.ins_True_iff [of pid sid t]
  by (auto simp: streamHandler_enter_def split: option.splits if_splits prod.splits)

lemma table_live_step:
  assumes "node_step peers s s'" and "table_live peers s" and "ids_fresh s"
  shows "table_live peers s'"
  using assms
proof cases
  case (handler_enters sid pid proto h t')
  have "running s sid = None" using handler_enters assms(3) by (auto simp: ids_fresh_def)
  then show ?thesis
    using handler_enters assms(2) streamHandler_enter_table(1) [OF handler_enters(3)]
    by (fastforce simp: table_live_def handler_runs_def)
next
  case (handler_exits sid pid ins)
  then show ?thesis
    using assms(2) by (auto simp: table_live_def streamHandler_exit_def act.get_expire split: if_splits)
qed (auto simp: table_live_def act.get_expire split: if_splits)

lemma reachable_invariant: "node_reachable peers s \<Longrightarrow> table_live peers s \<and> ids_fresh s"
proof (induction rule: node_reachable.induct)
  case reach_init
  then show ?case by (simp add: table_live_def ids_fresh_def node_init_def getActiveStream_def)
next
  case (reach_step s s')
  then show ?case using table_live_step ids_fresh_step by blast
qed

end
