(* ===== verification/StreamsProps.thy ===== *)
theory StreamsProps
  imports Streams "HOL-Library.Sublist"
begin

text \<open>
  Properties of the stream layer of \<open>node/node.go\<close>: the framing of packets survives any division
  of the stream into reads that keeps headers whole, what the reader hands to the TUN device is
  bounded, and the table of active streams agrees with the running handlers under every
  interleaving.
\<close>

section \<open>Framing\<close>

definition frame :: "byte list \<Rightarrow> byte list" where
  "frame p = frame_len (length p) @ p"

text \<open>The offsets at which a list of chunks ends, the first chunk starting at \<open>off\<close>.\<close>

fun cuts :: "nat \<Rightarrow> chunks \<Rightarrow> nat set" where
  "cuts off [] = {}"
| "cuts off (c # cs) = insert (off + length c) (cuts (off + length c) cs)"

text \<open>The offsets at which the frames of a list of packets start.\<close>

fun frame_starts :: "nat \<Rightarrow> byte list list \<Rightarrow> nat set" where
  "frame_starts off [] = {}"
| "frame_starts off (p # ps) = insert off (frame_starts (off + 2 + length p) ps)"

text \<open>No chunk ends between the two bytes of a frame's header, and no read is empty.\<close>

definition headers_whole :: "byte list list \<Rightarrow> chunks \<Rightarrow> bool" where
  "headers_whole pkts cs \<longleftrightarrow> [] \<notin> set cs \<and> (\<forall>h \<in> frame_starts 0 pkts. Suc h \<notin> cuts 0 cs)"

lemma cuts_ge: "x \<in> cuts off cs \<Longrightarrow> off \<le> x"
  by (induction cs arbitrary: off) force+

lemma stream_Read_concat:
  assumes "stream_Read k cs = Some (d, cs')"
  shows "concat cs = d @ concat cs'" and "length d \<le> k"
    and "[] \<notin> set cs \<Longrightarrow> [] \<notin> set cs'"
    and "cuts (off + length d) cs' \<subseteq> cuts off cs"
  using assms by (cases cs; auto split: if_splits)+

lemma length_fill [simp]: "off + length d \<le> length buf \<Longrightarrow> length (fill buf off d) = length buf"
  by (simp add: fill_def)

lemma take_fill:
  "off + length d \<le> length buf \<Longrightarrow> take (off + length d) (fill buf off d) = take off buf @ d"
  by (simp add: fill_def)

lemma unat_of_nat_uint16: "n < 65536 \<Longrightarrow> unat (of_nat n :: uint16) = n"
  by (simp add: unat_of_nat take_bit_nat_eq_self)

text \<open>One read of a body that is delivered in non-empty pieces: a non-empty prefix of it.\<close>

lemma stream_Read_body:
  assumes "concat cs = body @ rest" and "[] \<notin> set cs" and "body \<noteq> []"
  obtains d cs1 where "stream_Read (length body) cs = Some (d, cs1)"
    and "body = d @ drop (length d) body" and "concat cs1 = drop (length d) body @ rest"
proof -
  obtain c cs0 where "cs = c # cs0" using assms by (cases cs) auto
  then obtain d cs1 where rd: "stream_Read (length body) cs = Some (d, cs1)"
    using assms by (cases "length c \<le> length body") auto
  note rdc = stream_Read_concat [OF rd]
  have "take (length d) (body @ rest) = d" using rdc(1) assms(1) by simp
  then have "take (length d) body = d" using rdc(2) by simp
  then have "body = d @ drop (length d) body"
    using append_take_drop_id [of "length d" body] by simp
  moreover have "concat cs1 = drop (length d) body @ rest"
    using rdc(1,2) assms(1) by (metis append_eq_conv_conj drop_append diff_is_0_eq drop_0)
  ultimately show thesis using that rd by blast
qed

lemma unat_advance:
  fixes plen sz :: uint16
  assumes "unat plen + n \<le> unat sz"
  shows "unat (plen + of_nat n) = unat plen + n"
proof -
  have "unat sz < 65536" using unsigned_less [of sz] by simp
  moreover from this have "unat (of_nat n :: uint16) = n"
    using assms by (intro unat_of_nat_uint16) simp
  ultimately show ?thesis using assms by (subst unat_add_lem [THEN iffD1]) simp_all
qed

text \<open>Reading a body delivered in any non-empty pieces.\<close>

lemma read_body_complete:
  assumes "concat cs = body @ rest" and "[] \<notin> set cs"
    and "unat sz = unat plen + length body" and "unat sz \<le> length packet"
  shows "\<exists>packet' cs'. read_body packet plen sz cs = Inr (packet', cs')
    \<and> concat cs' = rest \<and> [] \<notin> set cs' \<and> length packet' = length packet
    \<and> take (unat sz) packet' = take (unat plen) packet @ body
    \<and> (\<forall>off. cuts (off + length body) cs' \<subseteq> cuts off cs)"
  using assms
proof (induction packet plen sz cs arbitrary: body rule: read_body.induct)
  case (1 packet plen sz cs)
  show ?case
  proof (cases "plen < sz")
    case False
    then have "body = []" using "1.prems"(3) by (simp add: word_less_nat_alt)
    then show ?thesis
      using False 1 by (intro exI [of _ packet] exI [of _ cs]) (simp add: read_body.simps [of packet plen])
  next
    case True
    have k: "unat sz - unat plen = length body" "body \<noteq> []"
      using "1.prems"(3) True by (auto simp: word_less_nat_alt)
    obtain d cs1 where rd: "stream_Read (unat sz - unat plen) cs = Some (d, cs1)"
      and body: "body = d @ drop (length d) body" and cs1: "concat cs1 = drop (length d) body @ rest"
      using stream_Read_body [OF "1.prems"(1,2) k(2)] k(1) by metis
    note rdc = stream_Read_concat [OF rd]
    have fits: "\<not> length packet < unat sz" using "1.prems"(4) by simp
    have ld: "unat plen + length d \<le> unat sz" using "1.prems"(3) rdc(2) k by simp
    note plen' = unat_advance [OF ld]
    obtain packet' cs' where IH:
      "read_body (fill packet (unat plen) d) (plen + of_nat (length d)) sz cs1 = Inr (packet', cs')"
      "concat cs' = rest" "[] \<notin> set cs'" "length packet' = length (fill packet (unat plen) d)"
      "take (unat sz) packet' = take (unat plen + length d) (fill packet (unat plen) d)
         @ drop (length d) body"
      "\<And>off. cuts (off + length (drop (length d) body)) cs' \<subseteq> cuts off cs1"
      using "1.IH" [OF True fits rd refl, of "drop (length d) body"] cs1 "1.prems" rdc ld plen' k
      by fastforce
    have "cuts (off + length body) cs' \<subseteq> cuts off cs" for off
      using IH(6) [of "off + length d"] rdc(4) [of off] rdc(2) k by auto
    moreover have "take (unat sz) packet' = take (unat plen) packet @ body"
      using IH(5) take_fill [of "unat plen" d packet] ld fits body by simp
    moreover have "read_body packet plen sz cs = Inr (packet', cs')"
      using True fits rd IH(1) by (simp add: read_body.simps [of packet plen])
    ultimately show ?thesis using IH ld fits by (intro exI [of _ packet'] exI [of _ cs']) simp
  qed
qed

text \<open>A header delivered in one piece.\<close>

lemma stream_Read_header:
  assumes "concat cs = h @ rest" and "length h = 2" and "[] \<notin> set cs" and "Suc off \<notin> cuts off cs"
  obtains cs1 where "stream_Read 2 cs = Some (h, cs1)"
proof -
  obtain c cs0 where cs: "cs = c # cs0" using assms(1,2) by (cases cs) auto
  then have "length c \<noteq> 1" "c \<noteq> []" using assms(3,4) by auto
  then have "2 \<le> length c" by (cases c rule: remdups_adj.cases) auto
  then obtain d cs1 where rd: "stream_Read 2 cs = Some (d, cs1)" and "length d = 2"
    using cs by (cases "length c \<le> 2") auto
  moreover have "d = h"
    using stream_Read_concat(1) [OF rd] \<open>length d = 2\<close> assms(1,2) by simp
  ultimately show thesis using that by blast
qed

lemma read_packets_frames:
  assumes "concat cs = concat (map frame pkts)" and "[] \<notin> set cs"
    and "\<And>h. h \<in> frame_starts off pkts \<Longrightarrow> Suc h \<notin> cuts off cs"
    and "\<And>p. p \<in> set pkts \<Longrightarrow> length p \<le> 1420"
    and "length packet = 1420" and "length packetSize = 2" and "\<And>n. deadline n"
  shows "read_packets deadline n packetSize packet cs = (pkts, Error ErrEOF)"
  using assms
proof (induction pkts arbitrary: cs off n packet packetSize)
  case Nil
  then have "cs = []" by (cases cs) auto
  then show ?case by (simp add: read_packets.simps)
next
  case (Cons p pkts)
  let ?rest = "concat (map frame pkts)" and ?sz = "of_nat (length p) :: uint16"
  have "length p \<le> 1420" using Cons.prems(4) by simp
  then have sz: "unat ?sz = length p" by (intro unat_of_nat_uint16) simp
  have hdr: "concat cs = frame_len (length p) @ p @ ?rest" "length (frame_len (length p)) = 2"
    using Cons.prems(1) by (simp_all add: frame_def [of p] frame_len_def)
  obtain cs1 where rd: "stream_Read 2 cs = Some (frame_len (length p), cs1)"
    using stream_Read_header [OF hdr Cons.prems(2), of off] Cons.prems(3) [of off] by auto
  note rdc = stream_Read_concat [OF rd]
  have fill: "fill packetSize 0 (frame_len (length p)) = frame_len (length p)"
    using Cons.prems(6) hdr(2) by (simp add: fill_def)
  have "concat cs1 = p @ ?rest" "[] \<notin> set cs1" using rdc(1,3) hdr Cons.prems(2) by auto
  then obtain packet' cs' where body: "read_body packet 0 ?sz cs1 = Inr (packet', cs')"
    "concat cs' = ?rest" "[] \<notin> set cs'" "length packet' = length packet"
    "take (unat ?sz) packet' = p" "\<And>o'. cuts (o' + length p) cs' \<subseteq> cuts o' cs1"
    using read_body_complete [of cs1 p ?rest ?sz 0 packet] sz \<open>length p \<le> 1420\<close> Cons.prems(5) by auto
  have "cuts (off + 2 + length p) cs' \<subseteq> cuts off cs"
    using body(6) [of "off + 2"] rdc(4) [of off] hdr(2) by auto
  then have "read_packets deadline (Suc n) (frame_len (length p)) packet' cs' = (pkts, Error ErrEOF)"
    using Cons.prems(3-) body hdr(2)
    by (intro Cons.IH [of cs' "off + 2 + length p"]) auto
  then show ?case
    using rd fill body Cons.prems(7) [of n] by (simp add: read_packets.simps [of deadline n] Let_def frame_len_def)
qed

section \<open>What a run of sendPacket writes\<close>

fun written :: "stream_id \<Rightarrow> send_effect list \<Rightarrow> byte list" where
  "written sid [] = []"
| "written sid (Wrote s d # es) = (if s = sid then d @ written sid es else written sid es)"
| "written sid (e # es) = written sid es"

text \<open>Packets the dispatch loop hands to \<open>sendPacket\<close> one after the other, with their lengths.\<close>

fun sendPackets ::
  "send_env \<Rightarrow> peer_id \<Rightarrow> (byte list \<times> nat) list \<Rightarrow> active_table \<Rightarrow> send_effect list \<times> active_table" where
  "sendPackets env dst [] t = ([], t)"
| "sendPackets env dst ((packet, plen) # ps) t =
     (let (es, t') = sendPacket env dst packet plen t;
          (es', t'') = sendPackets env dst ps t'
      in (es @ es', t''))"

lemma written_append [simp]: "written sid (es @ es') = written sid es @ written sid es'"
  by (induction es rule: written.induct) auto

definition payload :: "byte list \<times> nat \<Rightarrow> byte list" where
  "payload p = take (snd p) (fst p)"

definition active_ok :: "send_env \<Rightarrow> bool" where
  "active_ok env \<longleftrightarrow> act_len_ok env \<and> act_pkt_ok env \<and> act_deadline_ok env"

lemma sendPackets_active:
  assumes "getActiveStream dst t = Some ms" and "active_ok env"
    and "\<And>p. p \<in> set ps \<Longrightarrow> snd p \<le> length (fst p)"
  shows "written ms (fst (sendPackets env dst ps t)) = concat (map (frame \<circ> payload) ps)
    \<and> snd (sendPackets env dst ps t) = t"
  using assms(3)
proof (induction ps)
  case Nil
  then show ?case by simp
next
  case (Cons p ps)
  obtain packet plen where p: "p = (packet, plen)" by force
  have "sendPacket env dst packet plen t = ([Wrote ms (frame_len plen), Wrote ms (take plen packet)], t)"
    using assms(1,2) by (simp add: sendPacket_def send_active_def active_ok_def)
  moreover have "frame (payload p) = frame_len plen @ take plen packet"
    using Cons.prems [of p] p by (simp add: frame_def payload_def min_absorb2)
  ultimately show ?case using Cons p by (auto split: prod.splits)
qed

text \<open>
  C1: Packets handed to \<open>sendPacket\<close> while an active stream to the destination exists and its
  writes succeed arrive, at the \<open>streamHandler\<close> reading that stream, as the same packets in the
  same order, each written to the TUN device once and whole: for every way the transport divides
  the stream into reads, as long as no read ends between the two bytes of a length header.
\<close>

theorem packets_roundtrip:
  assumes "getActiveStream dst t = Some ms" and "active_ok env"
    and "\<forall>p \<in> set ps. snd p \<le> length (fst p) \<and> snd p \<le> 1420"
    and "concat cs = written ms (fst (sendPackets env dst ps t))"
    and "headers_whole (map payload ps) cs"
  shows "streamHandler_loop (\<lambda>n. True) cs = (map payload ps, Error ErrEOF)"
proof -
  have "concat cs = concat (map frame (map payload ps))"
    using sendPackets_active [OF assms(1,2)] assms(3,4) by simp
  then show ?thesis
    unfolding streamHandler_loop_def
    using assms(3,5) by (intro read_packets_frames [where off = 0])
      (auto simp: headers_whole_def payload_def min_absorb2)
qed

definition wit_send_env :: send_env where
  "wit_send_env = \<lparr>act_len_ok = True, act_pkt_ok = True, act_deadline_ok = True,
     NewStream = Inr 9, new_deadline_ok = True, new_len_ok = True, new_pkt_ok = True\<rparr>"

definition wit_table :: active_table where
  "wit_table = \<lparr>activeStreams = [[7] \<mapsto> 5]\<rparr>"

theorem packets_roundtrip_witness:
  "streamHandler_loop (\<lambda>n. True) [[3, 0, 0x45], [1], [2, 1, 0], [0x60]]
     = ([[0x45, 1, 2], [0x60]], Error ErrEOF)"
  using packets_roundtrip [of "[7]" wit_table 5 wit_send_env "[([0x45, 1, 2, 0], 3), ([0x60], 1)]"
      "[[3, 0, 0x45], [1], [2, 1, 0], [0x60]]"]
  by (simp add: wit_table_def wit_send_env_def getActiveStream_def active_ok_def headers_whole_def
      payload_def sendPacket_def send_active_def frame_len_def put_uint16_le_def)

section \<open>What the reader writes to the device\<close>

lemma small_frame_len:
  assumes "n < 256"
  shows "frame_len n = [of_nat n, 0]"
proof -
  have "unat (ucast (of_nat n :: uint16) :: byte) = unat (of_nat n :: byte)"
    using assms by (simp add: unat_of_nat unsigned_ucast_eq take_bit_nat_eq_self)
  moreover have "unat (ucast (drop_bit 8 (of_nat n :: uint16)) :: byte) = 0"
    using assms by (simp add: unat_of_nat unsigned_ucast_eq take_bit_nat_eq_self
        unsigned_drop_bit_eq drop_bit_nat_def)
  ultimately show ?thesis
    by (simp add: frame_len_def put_uint16_le_def word_unat_eq_iff)
qed

lemma read_body_one:
  assumes "p \<noteq> []" and "length p \<le> length packet" and "length p < 256"
  shows "read_body packet 0 (of_nat (length p)) [x # p]
    = Inr (fill packet 0 (x # butlast p), [[last p]])"
proof -
  let ?sz = "of_nat (length p) :: uint16"
  have sz: "unat ?sz = length p" using assms(3) by (intro unat_of_nat_uint16) simp
  have pos: "0 < ?sz" using assms(1) sz by (simp add: word_less_nat_alt)
  have "stream_Read (length p) [x # p] = Some (x # butlast p, [[last p]])"
    using assms(1) by (cases p rule: rev_cases) simp_all
  moreover have "(of_nat (length (x # butlast p)) :: uint16) = ?sz" using assms(1) by simp
  ultimately show ?thesis
    using sz pos assms(2) by (simp add: read_body.simps [of packet 0] read_body.simps [of _ ?sz])
qed

lemma read_body_length:
  "read_body packet plen sz cs = Inr (packet', cs') \<Longrightarrow> length packet' = length packet"
proof (induction packet plen sz cs rule: read_body.induct)
  case (1 packet plen sz cs)
  show ?case
  proof (cases "plen < sz")
    case False
    then show ?thesis using "1.prems" by (simp add: read_body.simps [of packet plen])
  next
    case True
    then obtain d cs1 where rd: "stream_Read (unat sz - unat plen) cs = Some (d, cs1)"
      and fits: "\<not> length packet < unat sz"
      and rest: "read_body (fill packet (unat plen) d) (plen + of_nat (length d)) sz cs1
         = Inr (packet', cs')"
      using "1.prems" by (auto simp: read_body.simps [of packet plen] split: if_splits option.splits)
    have "unat plen + length d \<le> length packet"
      using stream_Read_concat(2) [OF rd] True fits by (simp add: word_less_nat_alt)
    then show ?thesis using "1.IH" [OF True fits rd refl rest] by simp
  qed
qed

lemma read_body_failure:
  "read_body packet plen sz cs = Inl f \<Longrightarrow> f = Error ErrEOF \<or> f = Panic SliceBounds \<and> length packet < unat sz"
proof (induction packet plen sz cs rule: read_body.induct)
  case (1 packet plen sz cs)
  consider "length packet < unat sz \<and> f = Panic SliceBounds" | "f = Error ErrEOF"
    | d cs1 where "plen < sz" "\<not> length packet < unat sz"
      "stream_Read (unat sz - unat plen) cs = Some (d, cs1)"
      "read_body (fill packet (unat plen) d) (plen + of_nat (length d)) sz cs1 = Inl f"
    using "1.prems" by (auto simp: read_body.simps [of packet plen] split: if_splits option.splits)
  then show ?case
  proof cases
    case 3
    have "unat plen + length d \<le> length packet"
      using stream_Read_concat(2) [OF 3(3)] 3(1,2) by (simp add: word_less_nat_alt)
    then show ?thesis using "1.IH" [OF 3(1,2,3) refl 3(4)] by simp
  qed simp_all
qed

lemma read_packets_bounds:
  assumes "length packet = 1420"
  shows "(\<forall>p \<in> set (fst (read_packets deadline n packetSize packet cs)). length p \<le> 1420)
    \<and> snd (read_packets deadline n packetSize packet cs)
        \<in> {Error ErrEOF, Error (ErrExt ''deadline''), Panic SliceBounds}"
  using assms
proof (induction deadline n packetSize packet cs rule: read_packets.induct)
  case (1 deadline n packetSize packet cs)
  show ?case
  proof (cases "stream_Read 2 cs")
    case None
    then show ?thesis by (simp add: read_packets.simps)
  next
    case (Some rd)
    obtain d cs1 where rd: "rd = (d, cs1)" by force
    let ?ps = "fill packetSize 0 d"
    show ?thesis
    proof (cases "read_body packet 0 (uint16_le ?ps) cs1")
      case (Inl f)
      then show ?thesis
        using Some rd read_body_failure [OF Inl] by (auto simp: read_packets.simps [of deadline n] Let_def)
    next
      case (Inr r)
      obtain packet' cs2 where r: "r = (packet', cs2)" by force
      then have len: "length packet' = 1420" using Inr read_body_length "1.prems" by fastforce
      then have "deadline n \<Longrightarrow> ?thesis"
        using Some rd Inr r "1.IH" [OF Some rd [symmetric] refl refl Inr r [symmetric]] len
        by (auto simp: read_packets.simps [of deadline n] Let_def split: prod.splits)
      then show ?thesis
        using Some rd Inr r by (cases "deadline n") (simp_all add: read_packets.simps [of deadline n] Let_def)
    qed
  qed
qed


text \<open>
  A length header above 1420 makes \<open>streamHandler\<close> panic: \<open>packet[plen:size]\<close> is sliced
  beyond the capacity of the buffer before anything of the body is read, so any configured peer
  can end the process with two bytes.
\<close>

theorem oversized_header_panics:
  assumes "1420 < sz"
  shows "streamHandler_loop deadline ((put_uint16_le sz @ rest) # cs) = ([], Panic SliceBounds)"
proof -
  have "1420 < unat sz" using assms by (simp add: word_less_nat_alt)
  moreover obtain cs1 where "stream_Read 2 ((put_uint16_le sz @ rest) # cs) = Some (put_uint16_le sz, cs1)"
    by (cases "rest = []") auto
  moreover have "0 < sz" using assms by (simp add: word_less_nat_alt)
  ultimately show ?thesis
    by (simp add: streamHandler_loop_def read_packets.simps read_body.simps [of _ 0] fill_def Let_def)
qed

theorem oversized_header_panics_witness:
  "streamHandler_loop (\<lambda>n. True) [[0x8d, 0x05]] = ([], Panic SliceBounds)"
proof -
  have "put_uint16_le 0x58d = [0x8d, 0x05]" by code_simp
  then show ?thesis
    using oversized_header_panics [where sz = "0x58d" and rest = "[]" and cs = "[]"] by simp
qed

text \<open>
  A length header that reaches the reader in two pieces loses a byte: \<open>stream.Read(packetSize)\<close>
  may return after the first byte, the size is decoded from that byte and the stale second one, and
  the header's second byte becomes the first byte of the packet.  For a packet shorter than 256
  bytes on a fresh stream, the packet written to the device is a zero byte followed by all but the
  last byte of the packet that was sent.
\<close>

theorem split_header_desynchronises:
  assumes "p \<noteq> []" and "length p < 256" and "deadline 0"
  shows "concat [[of_nat (length p)], 0 # p] = frame p
    \<and> hd (fst (streamHandler_loop deadline [[of_nat (length p)], 0 # p])) = 0 # butlast p"
proof
  let ?b = "of_nat (length p) :: byte" and ?sz = "of_nat (length p) :: uint16"
  have sz: "unat ?sz = length p" using assms(2) by (intro unat_of_nat_uint16) simp
  have len: "frame_len (length p) = [?b, 0]"
    using small_frame_len [OF assms(2)] .
  then show "concat [[?b], 0 # p] = frame p" by (simp add: frame_def)
  have "uint16_le [?b, 0] = ?sz" using arg_cong [OF len, of uint16_le] by (simp add: frame_len_def)
  moreover have "read_body (replicate 1420 0) 0 ?sz [0 # p]
      = Inr (fill (replicate 1420 0) 0 (0 # butlast p), [[last p]])"
    using read_body_one [of p "replicate 1420 0"] assms(1,2) by simp
  moreover have "take (length p) (fill (replicate 1420 0) 0 (0 # butlast p)) = 0 # butlast p"
    using take_fill [of 0 "0 # butlast p" "replicate 1420 0"] assms(1,2) by simp
  ultimately show "hd (fst (streamHandler_loop deadline [[?b], 0 # p])) = 0 # butlast p"
    using assms(3) sz
    by (simp add: streamHandler_loop_def read_packets.simps [of deadline 0] fill_def [of "[0, 0]"]
        Let_def split: prod.splits)
qed

theorem split_header_desynchronises_witness:
  "hd (fst (streamHandler_loop (\<lambda>n. True) [[3], [0, 0x45, 1, 2]])) = [0, 0x45, 1]"
  using split_header_desynchronises [of "[0x45, 1, 2]" "\<lambda>n. True"] by simp

section \<open>Outcomes of sendPacket\<close>

text \<open>
  What a list of effects may do with streams when it carries the frame \<open>f\<close>: each stream gets a
  prefix of \<open>f\<close>, is closed if that is not all of it, and is handed to a handler only with all of
  it and open.
\<close>

definition frame_effects :: "byte list \<Rightarrow> send_effect list \<Rightarrow> bool" where
  "frame_effects f effs \<longleftrightarrow> (\<forall>sid. prefix (written sid effs) f
     \<and> (written sid effs \<notin> {[], f} \<longrightarrow> ClosedStream sid \<in> set effs)
     \<and> (GoStreamHandler sid \<in> set effs \<longrightarrow> written sid effs = f \<and> ClosedStream sid \<notin> set effs))"

fun touched :: "send_effect list \<Rightarrow> stream_id set" where
  "touched [] = {}"
| "touched (Wrote s d # es) = insert s (touched es)"
| "touched (ClosedStream s # es) = insert s (touched es)"
| "touched (GoStreamHandler s # es) = insert s (touched es)"
| "touched (GoRediscover # es) = touched es"

lemma not_touched:
  "sid \<notin> touched es \<Longrightarrow> written sid es = [] \<and> ClosedStream sid \<notin> set es \<and> GoStreamHandler sid \<notin> set es"
  by (induction es rule: touched.induct) auto

lemma frame_effects_append:
  assumes "frame_effects f es" and "frame_effects f es'" and "touched es \<inter> touched es' = {}"
  shows "frame_effects f (es @ es')"
  unfolding frame_effects_def
proof
  fix sid
  have "sid \<notin> touched es \<or> sid \<notin> touched es'" using assms(3) by blast
  then show "prefix (written sid (es @ es')) f
     \<and> (written sid (es @ es') \<notin> {[], f} \<longrightarrow> ClosedStream sid \<in> set (es @ es'))
     \<and> (GoStreamHandler sid \<in> set (es @ es')
          \<longrightarrow> written sid (es @ es') = f \<and> ClosedStream sid \<notin> set (es @ es'))"
    using assms(1,2) not_touched [of sid es] not_touched [of sid es'] unfolding frame_effects_def by auto
qed

lemma send_new_effects:
  "frame_len plen @ take plen packet = f \<Longrightarrow> frame_effects f (send_new env packet plen)"
  by (auto simp: frame_effects_def send_new_def split: sum.splits)

lemma send_active_effects:
  "frame_len plen @ take plen packet = f
     \<Longrightarrow> frame_effects f (fst (snd (send_active env dst ms packet plen t)))"
  by (auto simp: frame_effects_def send_active_def Let_def)



section \<open>The table under every interleaving\<close>

lemma table_liveD:
  "table_live peers s \<Longrightarrow> getActiveStream pid (table s) = Some sid
     \<Longrightarrow> running s sid = Some (pid, True) \<and> FindPeer peers pid \<noteq> None"
  by (simp add: table_live_def)

text \<open>A stream from a configured peer without an active stream becomes the active one.\<close>

lemma open_and_enter:
  assumes "node_reachable peers s" and "FindPeer peers pid \<noteq> None"
    and "sid \<notin> used_ids s" and "opened s = {}" and "getActiveStream pid (table s) = None"
  shows "node_reachable peers (s\<lparr>table := \<lparr>activeStreams = (activeStreams (table s))(pid \<mapsto> sid)\<rparr>,
     running := (running s)(sid \<mapsto> (pid, True)), used_ids := insert sid (used_ids s)\<rparr>)"
proof -
  let ?s = "s\<lparr>opened := {(sid, pid, ProtocolV1)}, used_ids := insert sid (used_ids s)\<rparr>"
  have "node_step peers s ?s" using stream_opened [OF assms(3), of peers pid ProtocolV1] assms(4) by simp
  moreover have "streamHandler_enter peers ProtocolV1 pid sid (table ?s)
      = (HandlerReading True, \<lparr>activeStreams = (activeStreams (table s))(pid \<mapsto> sid)\<rparr>)"
    using assms(2,5) by (auto simp: streamHandler_enter_def insertActiveStream_def getActiveStream_def
        ProtocolV0_def ProtocolV1_def)
  ultimately have "node_reachable peers (?s\<lparr>table := \<lparr>activeStreams = (activeStreams (table s))(pid \<mapsto> sid)\<rparr>,
      opened := {}, running := (running s)(sid \<mapsto> (pid, True))\<rparr>)"
    using handler_enters [of sid pid ProtocolV1 ?s peers] reach_step [OF reach_step [OF assms(1)]]
    by (simp add: handler_runs_def)
  then show ?thesis using assms(4) by (cases s) simp
qed

definition wit_peers :: "Peer list" where
  "wit_peers = [\<lparr>ID = [7], Name = ''a'', BuiltinAddr4 = [], BuiltinAddr6 = []\<rparr>]"

definition wit_node :: "stream_id \<Rightarrow> node_state" where
  "wit_node sid = \<lparr>table = \<lparr>activeStreams = [[7] \<mapsto> sid]\<rparr>, opened = {},
     running = [sid \<mapsto> ([7], True)], sending = {}, used_ids = {sid}\<rparr>"

lemma wit_node_reachable: "node_reachable wit_peers (wit_node sid)"
  using open_and_enter [OF reach_init, of wit_peers "[7]" sid]
  by (simp add: node_init_def wit_node_def wit_peers_def getActiveStream_def)

lemma wit_node_get: "getActiveStream [7] (table (wit_node sid)) = Some sid"
  by (simp add: wit_node_def getActiveStream_def)

text \<open>
  C5: In every reachable state of the goroutines that share \<open>activeStreams\<close>, an entry of the table
  belongs to a configured peer and its stream has a handler reading it that will expire it: senders
  never find a stream nobody reads, and one stream is active for one peer only.
\<close>

theorem active_streams_live:
  assumes "node_reachable peers s" and "getActiveStream pid (table s) = Some sid"
  shows "running s sid = Some (pid, True) \<and> FindPeer peers pid \<noteq> None
    \<and> (\<forall>pid'. getActiveStream pid' (table s) = Some sid \<longrightarrow> pid' = pid)"
proof -
  note live = table_liveD [OF conjunct1 [OF reachable_invariant [OF assms(1)]]]
  show ?thesis using live [OF assms(2)] live by fastforce
qed

theorem active_streams_live_witness:
  "running (wit_node 1) 1 = Some ([7], True) \<and> getActiveStream [7] (table (wit_node 1)) = Some 1"
proof
  show "running (wit_node 1) 1 = Some ([7], True)"
    using active_streams_live [OF wit_node_reachable, of "[7]" 1] by (simp add: wit_node_get)
  show "getActiveStream [7] (table (wit_node 1)) = Some 1" by (rule wit_node_get)
qed

text \<open>
  The expiry deferred by a handler removes whatever stream is active for its peer: after a
  failed write has expired stream 1 and stream 2 has become active, the end of the handler of
  stream 1 removes the entry of stream 2, whose handler goes on running with nobody sending on it.
\<close>

theorem stale_expiry_removes_newer_stream:
  assumes "FindPeer peers pid \<noteq> None"
  shows "\<exists>s s'. node_reachable peers s \<and> node_step peers s s'
    \<and> getActiveStream pid (table s) = Some 2 \<and> running s' 2 = Some (pid, True)
    \<and> getActiveStream pid (table s') = None"
proof (intro exI conjI)
  let ?t = "\<lambda>i. \<lparr>activeStreams = [pid \<mapsto> i]\<rparr>" and ?e = "\<lparr>activeStreams = Map.empty\<rparr>"
  let ?s1 = "\<lparr>table = ?t 1, opened = {}, running = [1 \<mapsto> (pid, True)], sending = {}, used_ids = {1}\<rparr>"
  let ?s2 = "?s1\<lparr>sending := {(pid, 1)}\<rparr>"
  let ?s3 = "?s1\<lparr>table := ?e\<rparr>"
  let ?s5 = "\<lparr>table = ?t 2, opened = {}, running = [1 \<mapsto> (pid, True), 2 \<mapsto> (pid, True)],
     sending = {}, used_ids = {2, 1}\<rparr>"
  let ?s6 = "\<lparr>table = ?e, opened = {}, running = [2 \<mapsto> (pid, True)], sending = {}, used_ids = {2, 1}\<rparr>"
  have "node_reachable peers ?s1"
    using open_and_enter [OF reach_init assms, of 1] by (simp add: node_init_def getActiveStream_def)
  moreover have "node_step peers ?s1 ?s2"
    using send_looks_up [of pid ?s1 1] by (simp add: getActiveStream_def)
  moreover have "node_step peers ?s2 ?s3"
    using send_fails [of pid 1 ?s2] by (simp add: expireActiveStream_def)
  ultimately have "node_reachable peers ?s3" by (blast intro: reach_step)
  then show "node_reachable peers ?s5"
    using open_and_enter [of peers ?s3 pid 2] assms by (simp add: getActiveStream_def)
  show "node_step peers ?s5 ?s6"
    using handler_exits [of ?s5 1 pid True]
    by (simp add: streamHandler_exit_def expireActiveStream_def fun_upd_twist)
qed (simp_all add: getActiveStream_def)

theorem stale_expiry_removes_newer_stream_witness:
  "\<exists>s s'. node_reachable wit_peers s \<and> node_step wit_peers s s'
    \<and> getActiveStream [7] (table s) = Some 2 \<and> running s' 2 = Some ([7], True)
    \<and> getActiveStream [7] (table s') = None"
  using stale_expiry_removes_newer_stream [of wit_peers "[7]"] by (simp add: wit_peers_def)

end
