(* ===== verification/Pipe.thy ===== *)
theory Pipe
  imports Streams
begin

text \<open>
  \<open>svc/pipe.go\<close> and \<open>svc/wrapper.go\<close>: the goroutines that copy bytes between the two ends of a
  proxied connection.  The Go interface \<open>streamable\<close> is the locale \<open>streamable\<close>; \<open>pipe\<close> and
  \<open>toChan\<close> are definitions over any implementation of it, and their correctness is proved once
  for every pair of implementations.
\<close>

section \<open>Streams and their wrapper\<close>

text \<open>One end of a connection: what it will deliver, what was written to it, and whether it is closed.\<close>

record net_stream =
  s_in :: chunks
  s_out :: "byte list"
  s_closed :: bool

definition strm_Read :: "nat \<Rightarrow> net_stream \<Rightarrow> (byte list \<times> net_stream) option" where
  "strm_Read k s = (case stream_Read k (s_in s) of None \<Rightarrow> None | Some (d, cs) \<Rightarrow> Some (d, s\<lparr>s_in := cs\<rparr>))"

definition strm_Write :: "byte list \<Rightarrow> net_stream \<Rightarrow> net_stream" where
  "strm_Write d s = s\<lparr>s_out := s_out s @ d\<rparr>"

definition strm_Close :: "net_stream \<Rightarrow> net_stream" where
  "strm_Close s = s\<lparr>s_closed := True\<rparr>"

record StreamWrapper =
  Stream :: net_stream

definition WrapStream :: "net_stream \<Rightarrow> StreamWrapper" where
  "WrapStream s = \<lparr>Stream = s\<rparr>"

definition sw_LocalAddr :: "StreamWrapper \<Rightarrow> unit res" where
  "sw_LocalAddr sw = Inl (Panic (ExplicitPanic ''unimplemented''))"

definition sw_RemoteAddr :: "StreamWrapper \<Rightarrow> unit res" where
  "sw_RemoteAddr sw = Inl (Panic (ExplicitPanic ''unimplemented''))"

definition sw_Close :: "StreamWrapper \<Rightarrow> StreamWrapper" where
  "sw_Close sw = \<lparr>Stream = strm_Close (Stream sw)\<rparr>"

definition sw_Read :: "nat \<Rightarrow> StreamWrapper \<Rightarrow> (byte list \<times> StreamWrapper) option" where
  "sw_Read k sw = (case strm_Read k (Stream sw) of None \<Rightarrow> None | Some (d, s) \<Rightarrow> Some (d, \<lparr>Stream = s\<rparr>))"

definition sw_Write :: "byte list \<Rightarrow> StreamWrapper \<Rightarrow> StreamWrapper" where
  "sw_Write d sw = \<lparr>Stream = strm_Write d (Stream sw)\<rparr>"

text \<open>The deadlines are passed on; \<open>setter\<close> is the method of the libp2p stream.\<close>

definition sw_SetDeadline :: "(int \<Rightarrow> net_stream \<Rightarrow> go_error option) \<Rightarrow> int \<Rightarrow> StreamWrapper \<Rightarrow> go_error option" where
  "sw_SetDeadline setter t sw = setter t (Stream sw)"

definition sw_SetReadDeadline :: "(int \<Rightarrow> net_stream \<Rightarrow> go_error option) \<Rightarrow> int \<Rightarrow> StreamWrapper \<Rightarrow> go_error option" where
  "sw_SetReadDeadline setter t sw = setter t (Stream sw)"

definition sw_SetWriteDeadline :: "(int \<Rightarrow> net_stream \<Rightarrow> go_error option) \<Rightarrow> int \<Rightarrow> StreamWrapper \<Rightarrow> go_error option" where
  "sw_SetWriteDeadline setter t sw = setter t (Stream sw)"

section \<open>The interface\<close>

text \<open>
  What the copying code relies on: a \<open>Read\<close> delivers the next bytes that are to come and fails
  only when none are left, a \<open>Write\<close> adds to what was written, and neither disturbs the other.
\<close>

locale streamable =
  fixes rd :: "nat \<Rightarrow> 's \<Rightarrow> (byte list \<times> 's) option"
    and wr :: "byte list \<Rightarrow> 's \<Rightarrow> 's"
    and content :: "'s \<Rightarrow> byte list"
    and out :: "'s \<Rightarrow> byte list"
  assumes rd_Some: "rd k s = Some (d, s') \<Longrightarrow> content s = d @ content s' \<and> out s' = out s \<and> length d \<le> k"
    and rd_None: "rd k s = None \<Longrightarrow> content s = []"
    and out_wr: "out (wr d s) = out s @ d"
    and content_wr: "content (wr d s) = content s"

definition strm_content :: "net_stream \<Rightarrow> byte list" where
  "strm_content s = concat (s_in s)"

lemma stream_Read_Some:
  "stream_Read k cs = Some (d, cs') \<Longrightarrow> concat cs = d @ concat cs' \<and> length d \<le> k"
  by (cases cs) (auto split: if_splits)

lemma stream_Read_None: "stream_Read k cs = None \<longleftrightarrow> cs = []"
  by (cases cs) auto

interpretation strm: streamable strm_Read strm_Write strm_content s_out
  by unfold_locales
    (auto simp: strm_Read_def strm_Write_def strm_content_def stream_Read_None
      dest: stream_Read_Some split: option.splits)

interpretation wrapped: streamable sw_Read sw_Write "strm_content \<circ> Stream" "s_out \<circ> Stream"
  using strm.rd_Some strm.rd_None strm.out_wr strm.content_wr
  by unfold_locales (fastforce simp: sw_Read_def sw_Write_def split: option.splits)+

section \<open>toChan and pipe\<close>

text \<open>
  The state of one \<open>pipe\<close>: the two ends, for each the value its \<open>toChan\<close> goroutine is blocked on
  sending over the unbuffered channel (\<open>Some None\<close> is the final \<open>nil\<close>), whether that goroutine has
  left its loop, and whether \<open>pipe\<close> has returned.
\<close>

record ('a, 'b) pipe_state =
  end1 :: 'a
  end2 :: 'b
  chan1 :: "byte list option option"
  chan2 :: "byte list option option"
  stopped1 :: bool
  stopped2 :: bool
  returned :: bool

definition pipe_start :: "'a \<Rightarrow> 'b \<Rightarrow> ('a, 'b) pipe_state" where
  "pipe_start s1 s2 = \<lparr>end1 = s1, end2 = s2, chan1 = None, chan2 = None,
     stopped1 = False, stopped2 = False, returned = False\<rparr>"

text \<open>
  One round of the loop of \<open>toChan\<close> up to its next send: the end of the stream, the value to send,
  whether the loop was left.
\<close>

definition toChan_round ::
  "(nat \<Rightarrow> 's \<Rightarrow> (byte list \<times> 's) option) \<Rightarrow> 's \<Rightarrow> 's \<times> byte list option option \<times> bool" where
  "toChan_round rd s =
     (case rd 1024 s of
        None \<Rightarrow> (s, Some None, True)
      | Some (d, s') \<Rightarrow> (s', if 0 < length d then Some (Some d) else None, False))"

text \<open>The scheduler lets a reader goroutine make a round, or \<open>pipe\<close> take a case of its \<open>select\<close>.\<close>

datatype pipe_action = Read1 | Read2 | Select1 | Select2

fun pipe_act ::
  "(nat \<Rightarrow> 'a \<Rightarrow> (byte list \<times> 'a) option) \<Rightarrow> (byte list \<Rightarrow> 'a \<Rightarrow> 'a)
   \<Rightarrow> (nat \<Rightarrow> 'b \<Rightarrow> (byte list \<times> 'b) option) \<Rightarrow> (byte list \<Rightarrow> 'b \<Rightarrow> 'b)
   \<Rightarrow> pipe_action \<Rightarrow> ('a, 'b) pipe_state \<Rightarrow> ('a, 'b) pipe_state" where
  "pipe_act rd1 wr1 rd2 wr2 Read1 p =
     (if stopped1 p \<or> chan1 p \<noteq> None then p
      else (let (s, c, stop) = toChan_round rd1 (end1 p)
            in p\<lparr>end1 := s, chan1 := c, stopped1 := stop\<rparr>))"
| "pipe_act rd1 wr1 rd2 wr2 Read2 p =
     (if stopped2 p \<or> chan2 p \<noteq> None then p
      else (let (s, c, stop) = toChan_round rd2 (end2 p)
            in p\<lparr>end2 := s, chan2 := c, stopped2 := stop\<rparr>))"
| "pipe_act rd1 wr1 rd2 wr2 Select1 p =
     (if returned p then p
      else (case chan1 p of
              None \<Rightarrow> p
            | Some None \<Rightarrow> p\<lparr>chan1 := None, returned := True\<rparr>
            | Some (Some d) \<Rightarrow> p\<lparr>chan1 := None, end2 := wr2 d (end2 p)\<rparr>))"
| "pipe_act rd1 wr1 rd2 wr2 Select2 p =
     (if returned p then p
      else (case chan2 p of
              None \<Rightarrow> p
            | Some None \<Rightarrow> p\<lparr>chan2 := None, returned := True\<rparr>
            | Some (Some d) \<Rightarrow> p\<lparr>chan2 := None, end1 := wr1 d (end1 p)\<rparr>))"

definition pipe_run ::
  "(nat \<Rightarrow> 'a \<Rightarrow> (byte list \<times> 'a) option) \<Rightarrow> (byte list \<Rightarrow> 'a \<Rightarrow> 'a)
   \<Rightarrow> (nat \<Rightarrow> 'b \<Rightarrow> (byte list \<times> 'b) option) \<Rightarrow> (byte list \<Rightarrow> 'b \<Rightarrow> 'b)
   \<Rightarrow> pipe_action list \<Rightarrow> 'a \<Rightarrow> 'b \<Rightarrow> ('a, 'b) pipe_state" where
  "pipe_run rd1 wr1 rd2 wr2 sched s1 s2 = fold (pipe_act rd1 wr1 rd2 wr2) sched (pipe_start s1 s2)"

text \<open>The bytes a reader goroutine holds.\<close>

fun in_flight :: "byte list option option \<Rightarrow> byte list" where
  "in_flight (Some (Some d)) = d"
| "in_flight _ = []"

section \<open>Copying is faithful\<close>

locale pipe_ends = a: streamable rd1 wr1 content1 out1 + b: streamable rd2 wr2 content2 out2
  for rd1 :: "nat \<Rightarrow> 'a \<Rightarrow> (byte list \<times> 'a) option" and wr1 content1 out1
    and rd2 :: "nat \<Rightarrow> 'b \<Rightarrow> (byte list \<times> 'b) option" and wr2 content2 out2
begin

text \<open>
  Nothing is lost, duplicated or reordered: what was written to one end, what is in flight and what
  the other end has still to deliver make up what it had to deliver; a goroutine that has stopped
  has delivered everything; and \<open>pipe\<close> returns only after one direction is complete.
\<close>

definition pipe_ok :: "'a \<Rightarrow> 'b \<Rightarrow> ('a, 'b) pipe_state \<Rightarrow> bool" where
  "pipe_ok s1 s2 p \<longleftrightarrow>
     (\<exists>f1 f2. out2 (end2 p) = out2 s2 @ f1 \<and> content1 s1 = f1 @ in_flight (chan1 p) @ content1 (end1 p)
        \<and> out1 (end1 p) = out1 s1 @ f2 \<and> content2 s2 = f2 @ in_flight (chan2 p) @ content2 (end2 p)
        \<and> (stopped1 p \<longrightarrow> in_flight (chan1 p) = [] \<and> content1 (end1 p) = [])
        \<and> (stopped2 p \<longrightarrow> in_flight (chan2 p) = [] \<and> content2 (end2 p) = [])
        \<and> (chan1 p = Some None \<longrightarrow> stopped1 p) \<and> (chan2 p = Some None \<longrightarrow> stopped2 p)
        \<and> (returned p \<longrightarrow> stopped1 p \<or> stopped2 p))"

lemma pipe_ok_start: "pipe_ok s1 s2 (pipe_start s1 s2)"
  by (simp add: pipe_ok_def pipe_start_def)

lemma pipe_ok_Read1: "pipe_ok s1 s2 p \<Longrightarrow> pipe_ok s1 s2 (pipe_act rd1 wr1 rd2 wr2 Read1 p)"
proof (cases "rd1 1024 (end1 p)")
  case None
  assume "pipe_ok s1 s2 p"
  then show ?thesis
    using None a.rd_None [OF None] by (auto simp: pipe_ok_def toChan_round_def)
next
  case (Some x)
  assume "pipe_ok s1 s2 p"
  then show ?thesis
    using Some a.rd_Some [of 1024 "end1 p"] by (cases x) (auto simp: pipe_ok_def toChan_round_def)
qed

lemma pipe_ok_Read2: "pipe_ok s1 s2 p \<Longrightarrow> pipe_ok s1 s2 (pipe_act rd1 wr1 rd2 wr2 Read2 p)"
proof (cases "rd2 1024 (end2 p)")
  case None
  assume "pipe_ok s1 s2 p"
  then show ?thesis
    using None b.rd_None [OF None] by (auto simp: pipe_ok_def toChan_round_def)
next
  case (Some x)
  assume "pipe_ok s1 s2 p"
  then show ?thesis
    using Some b.rd_Some [of 1024 "end2 p"] by (cases x) (auto simp: pipe_ok_def toChan_round_def)
qed

lemma pipe_ok_Select1: "pipe_ok s1 s2 p \<Longrightarrow> pipe_ok s1 s2 (pipe_act rd1 wr1 rd2 wr2 Select1 p)"
  by (auto simp: pipe_ok_def b.out_wr b.content_wr split: option.splits)

lemma pipe_ok_Select2: "pipe_ok s1 s2 p \<Longrightarrow> pipe_ok s1 s2 (pipe_act rd1 wr1 rd2 wr2 Select2 p)"
  by (auto simp: pipe_ok_def a.out_wr a.content_wr split: option.splits)

lemma pipe_ok_act: "pipe_ok s1 s2 p \<Longrightarrow> pipe_ok s1 s2 (pipe_act rd1 wr1 rd2 wr2 x p)"
  by (cases x) (simp_all only: pipe_ok_Read1 pipe_ok_Read2 pipe_ok_Select1 pipe_ok_Select2)

lemma pipe_ok_run: "pipe_ok s1 s2 (pipe_run rd1 wr1 rd2 wr2 sched s1 s2)"
proof -
  have "pipe_ok s1 s2 p \<Longrightarrow> pipe_ok s1 s2 (fold (pipe_act rd1 wr1 rd2 wr2) sched p)" for p
    by (induction sched arbitrary: p) (simp_all add: pipe_ok_act del: pipe_act.simps)
  then show ?thesis using pipe_ok_start by (simp add: pipe_run_def)
qed

lemma pipe_faithful:
  "\<exists>f1 f2. out2 (end2 (pipe_run rd1 wr1 rd2 wr2 sched s1 s2)) = out2 s2 @ f1
    \<and> out1 (end1 (pipe_run rd1 wr1 rd2 wr2 sched s1 s2)) = out1 s1 @ f2
    \<and> (\<exists>r. content1 s1 = f1 @ r) \<and> (\<exists>r. content2 s2 = f2 @ r)
    \<and> (returned (pipe_run rd1 wr1 rd2 wr2 sched s1 s2) \<longrightarrow> f1 = content1 s1 \<or> f2 = content2 s2)"
  using pipe_ok_run [of s1 s2 sched] unfolding pipe_ok_def by fastforce

end

section \<open>Copying ends\<close>

text \<open>
  An end whose stream is finite has a weight that every \<open>Read\<close> lowers.  A schedule in which the first
  reader and its case of the \<open>select\<close> take turns often enough makes \<open>pipe\<close> return, whatever else
  the schedule does in between.
\<close>

locale finite_end = pipe_ends rd1 wr1 content1 out1 rd2 wr2 content2 out2
  for rd1 :: "nat \<Rightarrow> 'a \<Rightarrow> (byte list \<times> 'a) option" and wr1 content1 out1
    and rd2 :: "nat \<Rightarrow> 'b \<Rightarrow> (byte list \<times> 'b) option" and wr2 content2 out2 +
  fixes weight :: "'a \<Rightarrow> nat"
  assumes weight_rd: "rd1 k s = Some (d, s') \<Longrightarrow> 0 < k \<Longrightarrow> weight s' < weight s"
    and weight_wr: "weight (wr1 d s) = weight s"
begin

definition turns_left :: "('a, 'b) pipe_state \<Rightarrow> nat" where
  "turns_left p =
     (if returned p then 0
      else if stopped1 p then 1
      else 2 * weight (end1 p) + 2 + (if chan1 p = None then 0 else 1))"

definition waits :: "('a, 'b) pipe_state \<Rightarrow> bool" where
  "waits p \<longleftrightarrow> (stopped1 p \<and> \<not> returned p \<longrightarrow> chan1 p = Some None) \<and> (chan1 p = Some None \<longrightarrow> stopped1 p)"

lemma waits_act: "waits p \<Longrightarrow> waits (pipe_act rd1 wr1 rd2 wr2 x p)"
  by (cases x) (auto simp: waits_def toChan_round_def split: option.splits)

lemma turns_left_act:
  "waits p \<Longrightarrow> turns_left (pipe_act rd1 wr1 rd2 wr2 x p) \<le> turns_left p"
proof (cases x)
  case Read1
  then show ?thesis
    using weight_rd [of 1024 "end1 p"] by (fastforce simp: turns_left_def toChan_round_def split: option.splits)
qed (auto simp: turns_left_def waits_def toChan_round_def weight_wr split: option.splits)

lemma turns_left_Read1:
  "waits p \<Longrightarrow> \<not> returned p \<Longrightarrow> chan1 p = None \<Longrightarrow>
     turns_left (pipe_act rd1 wr1 rd2 wr2 Read1 p) < turns_left p"
  using weight_rd [of 1024 "end1 p"]
  by (fastforce simp: turns_left_def waits_def toChan_round_def split: option.splits)

lemma turns_left_Select1:
  "waits p \<Longrightarrow> \<not> returned p \<Longrightarrow> chan1 p \<noteq> None \<Longrightarrow>
     turns_left (pipe_act rd1 wr1 rd2 wr2 Select1 p) < turns_left p"
  by (auto simp: turns_left_def waits_def split: option.splits)

text \<open>The action the first direction waits for: any other one leaves it waiting for the same.\<close>

definition turn :: "('a, 'b) pipe_state \<Rightarrow> pipe_action" where
  "turn p = (if chan1 p = None then Read1 else Select1)"

lemma turns_left_turn:
  "waits p \<Longrightarrow> \<not> returned p \<Longrightarrow> turns_left (pipe_act rd1 wr1 rd2 wr2 (turn p) p) < turns_left p"
  using turns_left_Read1 turns_left_Select1 by (simp add: turn_def del: pipe_act.simps)

lemma other_action:
  "waits p \<Longrightarrow> \<not> returned p \<Longrightarrow> x \<noteq> turn p \<Longrightarrow>
     turns_left (pipe_act rd1 wr1 rd2 wr2 x p) < turns_left p
     \<or> turn (pipe_act rd1 wr1 rd2 wr2 x p) = turn p \<and> \<not> returned (pipe_act rd1 wr1 rd2 wr2 x p)"
  by (cases x) (auto simp: turn_def turns_left_def toChan_round_def split: option.splits if_splits)

lemma turns_left_fold:
  "waits p \<Longrightarrow> waits (fold (pipe_act rd1 wr1 rd2 wr2) xs p)
     \<and> turns_left (fold (pipe_act rd1 wr1 rd2 wr2) xs p) \<le> turns_left p"
  by (induction xs arbitrary: p) (auto simp del: pipe_act.simps intro: order_trans turns_left_act waits_act)

lemma turns_left_round:
  "waits p \<Longrightarrow> \<not> returned p \<Longrightarrow> turn p \<in> set xs \<Longrightarrow>
     turns_left (fold (pipe_act rd1 wr1 rd2 wr2) xs p) < turns_left p"
proof (induction xs arbitrary: p)
  case (Cons x xs)
  let ?q = "pipe_act rd1 wr1 rd2 wr2 x p"
  have rest: "turns_left (fold (pipe_act rd1 wr1 rd2 wr2) xs ?q) \<le> turns_left ?q"
    using turns_left_fold waits_act Cons.prems(1) by blast
  show ?case
  proof (cases "turns_left ?q < turns_left p")
    case True
    then show ?thesis using rest by simp
  next
    case False
    then have "x \<noteq> turn p" using turns_left_turn Cons.prems by blast
    then have "turn ?q = turn p" "\<not> returned ?q" using False other_action Cons.prems(1,2) by blast+
    moreover have "turn p \<in> set xs" using Cons.prems(3) \<open>x \<noteq> turn p\<close> by simp
    ultimately have "turns_left (fold (pipe_act rd1 wr1 rd2 wr2) xs ?q) < turns_left ?q"
      using Cons.IH [of ?q] waits_act [OF Cons.prems(1)] by (simp del: pipe_act.simps)
    then show ?thesis using turns_left_act [OF Cons.prems(1), of x] by (simp del: pipe_act.simps)
  qed
qed simp

lemma fair_rounds_return:
  assumes "waits p" and "turns_left p \<le> length rounds"
    and "\<forall>r \<in> set rounds. Read1 \<in> set r \<and> Select1 \<in> set r"
  shows "returned (fold (pipe_act rd1 wr1 rd2 wr2) (concat rounds) p)"
  using assms
proof (induction rounds arbitrary: p)
  case Nil
  then show ?case by (simp add: turns_left_def split: if_splits)
next
  case (Cons r rounds)
  let ?q = "fold (pipe_act rd1 wr1 rd2 wr2) r p"
  have "turns_left ?q \<le> length rounds"
  proof (cases "returned p")
    case True
    then show ?thesis using turns_left_fold [OF Cons.prems(1), of r] by (simp add: turns_left_def)
  next
    case False
    moreover have "turn p \<in> set r" using Cons.prems(3) by (simp add: turn_def)
    ultimately show ?thesis
      using turns_left_round [OF Cons.prems(1), of r] Cons.prems(2) by fastforce
  qed
  then show ?case using Cons.IH [of ?q] turns_left_fold [OF Cons.prems(1), of r] Cons.prems(3) by simp
qed

lemma pipe_returns:
  assumes "2 * weight s1 + 2 \<le> length rounds"
    and "\<forall>r \<in> set rounds. Read1 \<in> set r \<and> Select1 \<in> set r"
  shows "returned (pipe_run rd1 wr1 rd2 wr2 (concat rounds) s1 s2)"
  unfolding pipe_run_def using assms
  by (intro fair_rounds_return) (simp_all add: waits_def turns_left_def pipe_start_def)

end

interpretation conn_pipe: pipe_ends strm_Read strm_Write strm_content s_out
  sw_Read sw_Write "strm_content \<circ> Stream" "s_out \<circ> Stream"
  by unfold_locales

interpretation conn_pipe_ends: finite_end strm_Read strm_Write strm_content s_out
  sw_Read sw_Write "strm_content \<circ> Stream" "s_out \<circ> Stream" "chunk_measure \<circ> s_in"
  by unfold_locales
    (auto simp: strm_Read_def strm_Write_def dest: stream_Read_measure split: option.splits)

end
