(* ===== verification/Svc.thy ===== *)
theory Svc
  imports Pipe
begin

text \<open>
  The package \<open>svc\<close>: service proxies (\<open>proxy.go\<close>), the service network with its listeners
  (\<open>network.go\<close>) and the stream handler that admits or refuses remote peers (\<open>receiver.go\<close>).
  A \<open>Proxy\<close>'s handler is the closure the source builds, as a value of the datatype \<open>handle\<close>; its
  \<open>Description\<close> is only logged and is left out.  A multiaddr is opaque; \<open>components\<close> lists its
  components in the order \<open>multiaddr.ForEach\<close> visits them.
\<close>

section \<open>Proxies\<close>

record Component =
  Code :: nat
  ProtoName :: string
  RawValue :: "byte list"

definition P_IP4 :: nat where "P_IP4 = 4"
definition P_IP6 :: nat where "P_IP6 = 41"
definition P_TCP :: nat where "P_TCP = 6"

record TCPAddr =
  tcp_IP :: IP
  tcp_Port :: uint16

datatype handle =
    NilHandle
  | RemoteHandle peer_id "byte list"
  | TCPHandle TCPAddr

record Proxy =
  Handle :: handle

definition RemoteServiceProxy :: "peer_id \<Rightarrow> byte list \<Rightarrow> Proxy" where
  "RemoteServiceProxy p svcId = \<lparr>Handle = RemoteHandle p svcId\<rparr>"

definition TCPServiceProxy :: "TCPAddr \<Rightarrow> Proxy" where
  "TCPServiceProxy tcpAddr = \<lparr>Handle = TCPHandle tcpAddr\<rparr>"

text \<open>\<open>binary.BigEndian.Uint16\<close>, which panics on fewer than two bytes.\<close>

definition uint16_be :: "byte list \<Rightarrow> uint16 res" where
  "uint16_be b = (if length b < 2 then Inl (Panic IndexOutOfRange)
     else Inr (ucast (b ! 1) OR push_bit 8 (ucast (b ! 0))))"

text \<open>The variables captured by the callback of \<open>ProxyTo\<close>.\<close>

record ProxyTo_vars =
  pt_proxy :: Proxy
  pt_err :: "go_error option"
  pt_done :: bool
  pt_ipAddr :: IP

definition ProxyTo_cb :: "ProxyTo_vars \<Rightarrow> Component \<Rightarrow> (bool \<times> ProxyTo_vars) res" where
  "ProxyTo_cb v c =
     (if pt_done v then Inr (False, v\<lparr>pt_err := Some ErrTrailingComponents\<rparr>)
      else if Code c = P_IP4 \<or> Code c = P_IP6 then Inr (True, v\<lparr>pt_ipAddr := RawValue c\<rparr>)
      else if Code c = P_TCP then
        bind_res (uint16_be (RawValue c)) (\<lambda>tcpPort.
          Inr (False, v\<lparr>pt_proxy := TCPServiceProxy \<lparr>tcp_IP = pt_ipAddr v, tcp_Port = tcpPort\<rparr>,
            pt_done := True\<rparr>))
      else Inr (False, v\<lparr>pt_err := Some (ErrUnsupportedProtocol (ProtoName c))\<rparr>))"

text \<open>\<open>multiaddr.ForEach\<close>: the callback is called until it returns \<open>false\<close>.\<close>

fun ForEach :: "('v \<Rightarrow> Component \<Rightarrow> (bool \<times> 'v) res) \<Rightarrow> Component list \<Rightarrow> 'v \<Rightarrow> 'v res" where
  "ForEach cb [] v = Inr v"
| "ForEach cb (c # cs) v = bind_res (cb v c) (\<lambda>(go_on, v'). if go_on then ForEach cb cs v' else Inr v')"

definition IPv4 :: "byte \<Rightarrow> byte \<Rightarrow> byte \<Rightarrow> byte \<Rightarrow> IP" where
  "IPv4 a b c d = [0, 0, 0, 0, 0, 0, 0, 0, 0, 0, 0xff, 0xff, a, b, c, d]"

definition ProxyTo :: "('ma \<Rightarrow> Component list) \<Rightarrow> 'ma \<Rightarrow> (Proxy \<times> go_error option) res" where
  "ProxyTo components ma =
     bind_res (ForEach ProxyTo_cb (components ma)
        \<lparr>pt_proxy = \<lparr>Handle = NilHandle\<rparr>, pt_err = None, pt_done = False, pt_ipAddr = IPv4 127 0 0 1\<rparr>)
       (\<lambda>v. Inr (pt_proxy v, pt_err v))"

definition RS_OK :: byte where "RS_OK = 0xf1"
definition RS_NOT_SUPPORTED :: byte where "RS_NOT_SUPPORTED = 0xf2"
definition RS_NOT_AUTHORIZED :: byte where "RS_NOT_AUTHORIZED = 0xf3"

definition svc_Protocol :: string where
  "svc_Protocol = ''/hyprspace/service/0.0.1''"

text \<open>What a handler does with its connection, in order.\<close>

datatype proxy_event =
    OpenedStream peer_id string
  | WroteStream "byte list"
  | DialedTCP TCPAddr
  | Piped
  | ClosedStreamEnd
  | ClosedConn

text \<open>What the calls of one handler return; \<open>env_status\<close> is what \<open>stream.Read\<close> of one byte yields.\<close>

record handle_env =
  env_open :: bool
  env_write :: bool
  env_status :: "byte option"
  env_dial :: bool

fun run_handle :: "handle_env \<Rightarrow> handle \<Rightarrow> proxy_event list res" where
  "run_handle env NilHandle = Inl (Panic NilFuncCall)"
| "run_handle env (RemoteHandle p svcId) =
     Inr (if \<not> env_open env then [ClosedConn]
      else if \<not> env_write env then [OpenedStream p svc_Protocol, ClosedStreamEnd, ClosedConn]
      else (case env_status env of
              None \<Rightarrow> [OpenedStream p svc_Protocol, WroteStream svcId, ClosedStreamEnd, ClosedConn]
            | Some s \<Rightarrow>
                if s \<noteq> RS_OK
                then [OpenedStream p svc_Protocol, WroteStream svcId, ClosedStreamEnd, ClosedConn]
                else [OpenedStream p svc_Protocol, WroteStream svcId, Piped, ClosedStreamEnd, ClosedConn]))"
| "run_handle env (TCPHandle tcpAddr) =
     Inr (if \<not> env_dial env then [ClosedConn]
      else [DialedTCP tcpAddr, Piped, ClosedStreamEnd, ClosedConn])"

text \<open>
  \<open>ServeFunc\<close>: every accepted connection is handed to a new run of the handler, until \<open>Accept\<close>
  fails.  The argument lists what the runs will meet, one per connection.
\<close>

definition ServeFunc :: "Proxy \<Rightarrow> handle_env list \<Rightarrow> proxy_event list list res" where
  "ServeFunc p conns = mapM_res (\<lambda>env. run_handle env (Handle p)) conns"

section \<open>The service network\<close>

record 'ma ServiceNetwork =
  sn_self :: "byte list"
  NetworkRange :: IPNet
  activeAddrs :: "byte list set"
  activePorts :: "byte list \<rightharpoonup> uint16 set"
  listeners :: "byte list \<rightharpoonup> Proxy"
  services :: "byte list \<rightharpoonup> 'ma Service"

definition NewServiceNetwork :: "('ma, 'key, 'r) Config \<Rightarrow> 'ma ServiceNetwork res" where
  "NewServiceNetwork cfg =
     (if length (cfg_BuiltinAddr6 cfg) < 16 then Inl (Panic SliceBounds)
      else Inr \<lparr>sn_self = take 4 (drop 12 (cfg_BuiltinAddr6 cfg)),
        NetworkRange = \<lparr>net_IP = [0xfd, 0x00] @ bytes_of ''hyprspsv'' @ [0, 0, 0, 0, 0, 0],
          net_Mask = CIDRMask 80 128\<rparr>,
        activeAddrs = {}, activePorts = Map.empty, listeners = Map.empty, services = Map.empty\<rparr>)"

text \<open>
  The copying goroutine \<open>NewServiceNetwork\<close> starts: the packets the service stack emits, as they
  are written to the TUN device.  The buffer is reused, and all of it is written each time.
\<close>

fun svc_copy_loop :: "byte list \<Rightarrow> byte list list \<Rightarrow> byte list list" where
  "svc_copy_loop buffer [] = []"
| "svc_copy_loop buffer (pkt # pkts) =
     (let buffer' = fill buffer 0 pkt in buffer' # svc_copy_loop buffer' pkts)"

text \<open>\<open>sn.config.Services[serviceName]\<close> of a missing name is the zero \<open>Service\<close>, the same as no entry for
  every reader of \<open>services\<close>.\<close>

definition Register ::
  "('ma, 'key, 'r) Config \<Rightarrow> string \<Rightarrow> Proxy \<Rightarrow> 'ma ServiceNetwork \<Rightarrow> 'ma ServiceNetwork" where
  "Register cfg serviceName proxy sn =
     (let svcId = MkServiceID serviceName in
      sn\<lparr>listeners := (listeners sn)(svcId \<mapsto> proxy),
         services := (services sn)(svcId := Services cfg serviceName)\<rparr>)"

datatype listen_event =
    AddAddress "byte list"
  | Serve "byte list" uint16 Proxy

definition EnsureListener ::
  "('ma, 'key, 'r) Config \<Rightarrow> (byte list \<Rightarrow> uint16 \<Rightarrow> go_error option) \<Rightarrow> byte list \<Rightarrow> uint16
    \<Rightarrow> 'ma ServiceNetwork \<Rightarrow> (bool \<times> listen_event list \<times> 'ma ServiceNetwork) res" where
  "EnsureListener cfg listenTCP addr port sn =
     (if addr \<in> activeAddrs sn \<and> port \<in> (case activePorts sn addr of None \<Rightarrow> {} | Some ps \<Rightarrow> ps)
      then Inr (True, [], sn)
      else
        let registerAddr = (addr \<notin> activeAddrs sn);
            netId = take 4 (drop 10 addr);
            svcId = take 2 (drop 14 addr);
            proxy =
              (if netId = sn_self sn then listeners sn svcId
               else (case ByNetID (PeerLookup cfg) netId of
                       Some p \<Rightarrow> Some (RemoteServiceProxy (ID p) svcId)
                     | None \<Rightarrow> Some \<lparr>Handle = NilHandle\<rparr>))
        in (case proxy of
              None \<Rightarrow> Inr (False, [], sn)
            | Some px \<Rightarrow>
                let sn1 = (if registerAddr
                      then sn\<lparr>activeAddrs := insert addr (activeAddrs sn),
                              activePorts := (activePorts sn)(addr \<mapsto> {})\<rparr>
                      else sn);
                    evs = (if registerAddr then [AddAddress addr] else [])
                in (case activePorts sn1 addr of
                      None \<Rightarrow> Inl (Panic NilMapWrite)
                    | Some ports \<Rightarrow>
                        (case listenTCP addr port of
                           Some e \<Rightarrow> Inl (Panic (ExplicitPanic ''listen''))
                         | None \<Rightarrow>
                             Inr (True, evs @ [Serve addr port px],
                               sn1\<lparr>activePorts := (activePorts sn1)(addr \<mapsto> insert port ports)\<rparr>)))))"

section \<open>The stream handler\<close>

definition isRemoteBlocked :: "'ma ServiceNetwork \<Rightarrow> byte list \<Rightarrow> peer_id \<Rightarrow> bool" where
  "isRemoteBlocked sn svcId remotePeer =
     (case services sn svcId of
        None \<Rightarrow> False
      | Some sv \<Rightarrow> remotePeer \<in> Blacklist sv \<or> (EnableWhitelist sv \<and> remotePeer \<notin> Whitelist sv))"

datatype svc_event =
    SvcReset
  | SvcWrote byte
  | SvcHandled handle
  | SvcClosed

text \<open>
  The handler on a stream that delivers \<open>cs\<close>; \<open>write_ok\<close> says whether its write of the status
  succeeds.  A buffer of two zero bytes receives whatever one \<open>Read\<close> yields.
\<close>

definition svc_streamHandler ::
  "Peer list \<Rightarrow> 'ma ServiceNetwork \<Rightarrow> bool \<Rightarrow> peer_id \<Rightarrow> chunks \<Rightarrow> svc_event list res" where
  "svc_streamHandler peers sn write_ok remote cs =
     (case FindPeer peers remote of
        None \<Rightarrow> Inr [SvcReset]
      | Some _ \<Rightarrow>
          (case stream_Read 2 cs of
             None \<Rightarrow> Inr [SvcClosed]
           | Some (d, cs') \<Rightarrow>
               let svcId = fill [0, 0] 0 d in
               (case listeners sn svcId of
                  Some proxy \<Rightarrow>
                    if isRemoteBlocked sn svcId remote then
                      Inr (if write_ok then [SvcWrote RS_NOT_AUTHORIZED, SvcClosed] else [SvcClosed])
                    else if \<not> write_ok then Inr [SvcClosed]
                    else if Handle proxy = NilHandle then Inl (Panic NilFuncCall)
                    else Inr [SvcWrote RS_OK, SvcHandled (Handle proxy), SvcClosed]
                | None \<Rightarrow>
                    Inr (if write_ok then [SvcWrote RS_NOT_SUPPORTED, SvcClosed] else [SvcClosed]))))"

section \<open>Facts\<close>

lemmas code_defs = P_IP4_def P_IP6_def P_TCP_def
lemmas status_defs = RS_OK_def RS_NOT_SUPPORTED_def RS_NOT_AUTHORIZED_def

lemma svc_parts:
  "take 4 (drop 10 (MkServiceAddr6 p s)) = MkNetID p"
  "take 2 (drop 14 (MkServiceAddr6 p s)) = MkServiceID s"
  by (simp_all add: MkServiceAddr6_eq)

text \<open>The two tables of listening sockets agree.\<close>

definition sn_inv :: "'ma ServiceNetwork \<Rightarrow> bool" where
  "sn_inv sn \<longleftrightarrow> activeAddrs sn = dom (activePorts sn)"

lemma sn_inv_New: "NewServiceNetwork cfg = Inr sn \<Longrightarrow> sn_inv sn"
  by (auto simp: NewServiceNetwork_def sn_inv_def split: if_splits)

lemma sn_inv_Register: "sn_inv sn \<Longrightarrow> sn_inv (Register cfg s p sn)"
  by (simp add: sn_inv_def Register_def Let_def)

text \<open>The listener \<open>EnsureListener\<close> starts for an address that has none on the port.\<close>

definition listener_for :: "('ma, 'key, 'r) Config \<Rightarrow> 'ma ServiceNetwork \<Rightarrow> byte list \<Rightarrow> Proxy option" where
  "listener_for cfg sn addr =
     (let netId = take 4 (drop 10 addr); svcId = take 2 (drop 14 addr) in
      if netId = sn_self sn then listeners sn svcId
      else (case ByNetID (PeerLookup cfg) netId of
              Some p \<Rightarrow> Some (RemoteServiceProxy (ID p) svcId)
            | None \<Rightarrow> Some \<lparr>Handle = NilHandle\<rparr>))"

definition listening :: "'ma ServiceNetwork \<Rightarrow> byte list \<Rightarrow> uint16 \<Rightarrow> bool" where
  "listening sn addr port \<longleftrightarrow> (\<exists>ps. activePorts sn addr = Some ps \<and> port \<in> ps)"

lemma EnsureListener_listening:
  "sn_inv sn \<Longrightarrow> listening sn addr port \<Longrightarrow> EnsureListener cfg listenTCP addr port sn = Inr (True, [], sn)"
  by (auto simp: EnsureListener_def listening_def sn_inv_def)

lemma EnsureListener_unknown:
  "sn_inv sn \<Longrightarrow> \<not> listening sn addr port \<Longrightarrow> listener_for cfg sn addr = None \<Longrightarrow>
     EnsureListener cfg listenTCP addr port sn = Inr (False, [], sn)"
  by (auto simp: EnsureListener_def listening_def listener_for_def Let_def split: option.splits if_splits)

lemma EnsureListener_starts:
  assumes "sn_inv sn" and "\<not> listening sn addr port" and "listener_for cfg sn addr = Some px"
    and "listenTCP addr port = None"
  shows "\<exists>sn'. EnsureListener cfg listenTCP addr port sn
      = Inr (True, (if addr \<in> activeAddrs sn then [] else [AddAddress addr]) @ [Serve addr port px], sn')
    \<and> sn_inv sn' \<and> listeners sn' = listeners sn \<and> services sn' = services sn \<and> sn_self sn' = sn_self sn
    \<and> (\<forall>a q. listening sn' a q \<longleftrightarrow> listening sn a q \<or> (a = addr \<and> q = port))"
proof (cases "activePorts sn addr")
  case None
  then have "addr \<notin> activeAddrs sn" using assms(1) by (auto simp: sn_inv_def)
  then show ?thesis
    using assms None
    by (auto simp: EnsureListener_def listening_def listener_for_def sn_inv_def Let_def)
next
  case (Some ps)
  then have "addr \<in> activeAddrs sn" "port \<notin> ps" using assms(1,2) by (auto simp: sn_inv_def listening_def)
  then show ?thesis
    using assms Some
    by (auto simp: EnsureListener_def listening_def listener_for_def sn_inv_def Let_def)
qed

end
