(* ===== verification/SvcProps.thy ===== *)
theory SvcProps
  imports Svc ConfigProps
begin

text \<open>
  Properties of the service network: which listener an address gets, who is admitted to a service,
  that a client and the peer it contacts agree on the outcome, what \<open>ProxyTo\<close> makes of a target
  address, and that a proxied connection copies its bytes faithfully.
\<close>

section \<open>Admission\<close>

text \<open>Who may use a service.\<close>

definition admits :: "'ma Service \<Rightarrow> peer_id \<Rightarrow> bool" where
  "admits sv remote \<longleftrightarrow> remote \<notin> Blacklist sv \<and> (EnableWhitelist sv \<longrightarrow> remote \<in> Whitelist sv)"

text \<open>
  C6: The stream handler passes a connection to the proxy of a service only for a configured peer
  that is not on the service's blacklist and, if the whitelist is enabled, is on the whitelist; and
  it writes the status \<open>RS_OK\<close> in exactly those runs in which it hands the connection over.
\<close>

theorem handled_only_if_admitted:
  assumes "svc_streamHandler peers sn write_ok remote cs = Inr evs"
  shows "(SvcHandled h \<in> set evs \<longrightarrow> (\<exists>p. p \<in> set peers \<and> ID p = remote)
      \<and> (\<exists>svcId proxy. listeners sn svcId = Some proxy \<and> Handle proxy = h
            \<and> (\<forall>sv. services sn svcId = Some sv \<longrightarrow> admits sv remote)))
    \<and> (SvcWrote RS_OK \<in> set evs \<longleftrightarrow> (\<exists>h. SvcHandled h \<in> set evs))"
proof -
  consider "\<forall>e \<in> set evs. e \<in> {SvcReset, SvcClosed, SvcWrote RS_NOT_AUTHORIZED, SvcWrote RS_NOT_SUPPORTED}"
    | svcId proxy where "evs = [SvcWrote RS_OK, SvcHandled (Handle proxy), SvcClosed]"
      "FindPeer peers remote \<noteq> None" "listeners sn svcId = Some proxy" "\<not> isRemoteBlocked sn svcId remote"
    using assms by (auto simp: svc_streamHandler_def Let_def split: option.splits if_splits)
  then show ?thesis
  proof cases
    case 1
    then show ?thesis by (auto simp: status_defs)
  next
    case 2
    then have "\<exists>p. p \<in> set peers \<and> ID p = remote" by (auto dest: FindPeer_SomeD)
    moreover have "\<forall>sv. services sn svcId = Some sv \<longrightarrow> admits sv remote"
      using 2(4) by (auto simp: isRemoteBlocked_def admits_def)
    ultimately show ?thesis using 2 by auto
  qed
qed

definition wit_proxy :: Proxy where
  "wit_proxy = \<lparr>Handle = TCPHandle \<lparr>tcp_IP = [127, 0, 0, 1], tcp_Port = 80\<rparr>\<rparr>"

definition wit_service :: "unit Service" where
  "wit_service = \<lparr>svc_Target = (), EnableWhitelist = True, Whitelist = {[7]}, Blacklist = {}\<rparr>"

definition wit_sn :: "unit ServiceNetwork" where
  "wit_sn = \<lparr>sn_self = MkNetID [1, 2, 3], NetworkRange = \<lparr>net_IP = [], net_Mask = []\<rparr>,
     activeAddrs = {}, activePorts = Map.empty, listeners = [[5, 6] \<mapsto> wit_proxy],
     services = [[5, 6] \<mapsto> wit_service]\<rparr>"

theorem handled_only_if_admitted_witness:
  "SvcHandled (Handle wit_proxy)
     \<in> {e. \<exists>evs. svc_streamHandler [wit_peer [7] ''a''] wit_sn True [7] [[5, 6]] = Inr evs \<and> e \<in> set evs}
   \<and> admits wit_service [7]"
proof -
  have run: "svc_streamHandler [wit_peer [7] ''a''] wit_sn True [7] [[5, 6]]
      = Inr [SvcWrote RS_OK, SvcHandled (Handle wit_proxy), SvcClosed]"
    by (simp add: svc_streamHandler_def wit_peer_def wit_sn_def wit_proxy_def wit_service_def
        isRemoteBlocked_def fill_def)
  from handled_only_if_admitted [OF run, of "Handle wit_proxy"] obtain svcId proxy where
    "listeners wit_sn svcId = Some proxy" "\<forall>sv. services wit_sn svcId = Some sv \<longrightarrow> admits sv [7]"
    by auto
  then have "admits wit_service [7]" by (auto simp: wit_sn_def split: if_splits)
  then show ?thesis using run by auto
qed

text \<open>
  C7: A session between the proxy of a remote service on one node and the stream handler of the
  node that registered the service: the two bytes the client writes identify the service whatever
  its name, the client pipes the connection exactly when the serving node handed it to the
  registered proxy, and that happens exactly when the peer is admitted.
\<close>

theorem remote_session_agrees:
  assumes "FindPeer peers client \<noteq> None" and "Handle proxy \<noteq> NilHandle"
    and "Services cfg name = Some sv"
    and "env_open env" and "env_write env"
    and "sn = Register cfg name proxy snb"
    and "RemoteServiceProxy server (MkServiceID name) = remote"
  shows "\<exists>status evs. svc_streamHandler peers sn True client [MkServiceID name] = Inr (SvcWrote status # evs)
    \<and> (SvcHandled (Handle proxy) \<in> set evs \<longleftrightarrow> admits sv client)
    \<and> (\<exists>pevs. run_handle (env\<lparr>env_status := Some status\<rparr>) (Handle remote) = Inr pevs
         \<and> WroteStream (MkServiceID name) \<in> set pevs \<and> last pevs = ClosedConn
         \<and> (Piped \<in> set pevs \<longleftrightarrow> admits sv client))"
proof -
  have rd: "stream_Read 2 [MkServiceID name] = Some (MkServiceID name, [])" by simp
  have fill: "fill [0, 0] 0 (MkServiceID name) = MkServiceID name" by (simp add: fill_def)
  obtain p where p: "FindPeer peers client = Some p" using assms(1) by blast
  show ?thesis
  proof (cases "admits sv client")
    case True
    then have "svc_streamHandler peers sn True client [MkServiceID name]
        = Inr [SvcWrote RS_OK, SvcHandled (Handle proxy), SvcClosed]"
      using p assms(2,3,6) rd fill
      by (simp add: svc_streamHandler_def isRemoteBlocked_def admits_def Register_def Let_def)
    then show ?thesis
      using True assms(4,5,7) by (auto simp: RemoteServiceProxy_def)
  next
    case False
    then have "svc_streamHandler peers sn True client [MkServiceID name]
        = Inr [SvcWrote RS_NOT_AUTHORIZED, SvcClosed]"
      using p assms(3,6) rd fill
      by (simp add: svc_streamHandler_def isRemoteBlocked_def admits_def Register_def Let_def)
    then show ?thesis
      using False assms(4,5,7) by (auto simp: RemoteServiceProxy_def status_defs)
  qed
qed

definition wit_svc_cfg :: "(unit, unit, ranger_entry list) Config" where
  "wit_svc_cfg = (wit_cfg [wit_peer [7] ''a''] [])\<lparr>Services := [''web'' \<mapsto> wit_service]\<rparr>"

definition wit_handle_env :: handle_env where
  "wit_handle_env = \<lparr>env_open = True, env_write = True, env_status = None, env_dial = True\<rparr>"

theorem remote_session_agrees_witness:
  "\<exists>status evs. svc_streamHandler [wit_peer [7] ''a''] (Register wit_svc_cfg ''web'' wit_proxy wit_sn)
      True [7] [MkServiceID ''web''] = Inr (SvcWrote status # evs)
    \<and> SvcHandled (Handle wit_proxy) \<in> set evs"
proof -
  have "FindPeer [wit_peer [7] ''a''] [7] \<noteq> None" "Handle wit_proxy \<noteq> NilHandle"
    "Services wit_svc_cfg ''web'' = Some wit_service" "env_open wit_handle_env" "env_write wit_handle_env"
    by (simp_all add: wit_peer_def wit_proxy_def wit_svc_cfg_def wit_handle_env_def)
  moreover have "admits wit_service [7]" by (simp add: admits_def wit_service_def)
  ultimately show ?thesis
    using remote_session_agrees [where snb = wit_sn and server = "[8]", OF _ _ _ _ _ refl refl] by blast
qed

section \<open>Listeners\<close>

text \<open>
  C16: What \<open>EnsureListener\<close> does on every branch: an address and port it already serves are left
  alone; an address in the node's own part of the range is served by the proxy registered under its
  service ID, or refused without any change when there is none; an address of another node is served
  by a remote proxy for the peer with that network ID and the service ID of the address; and a new
  listener is recorded for its address and port only.
\<close>

theorem EnsureListener_spec:
  assumes "sn_inv sn" and "listenTCP addr port = None"
    and "EnsureListener cfg listenTCP addr port sn = Inr (ok, evs, sn')"
  shows "if listening sn addr port then (ok, evs, sn') = (True, [], sn)
    else if take 4 (drop 10 addr) = sn_self sn \<and> listeners sn (take 2 (drop 14 addr)) = None
      then (ok, evs, sn') = (False, [], sn)
    else ok \<and> (\<exists>px. last evs = Serve addr port px
           \<and> (take 4 (drop 10 addr) = sn_self sn \<longrightarrow> listeners sn (take 2 (drop 14 addr)) = Some px)
           \<and> (\<forall>p. take 4 (drop 10 addr) \<noteq> sn_self sn
                \<and> ByNetID (PeerLookup cfg) (take 4 (drop 10 addr)) = Some p
                \<longrightarrow> px = RemoteServiceProxy (ID p) (take 2 (drop 14 addr))))
         \<and> sn_inv sn' \<and> listeners sn' = listeners sn \<and> services sn' = services sn
         \<and> (\<forall>a q. listening sn' a q \<longleftrightarrow> listening sn a q \<or> (a = addr \<and> q = port))"
proof (cases "listening sn addr port")
  case True
  then show ?thesis using EnsureListener_listening [OF assms(1) True, of cfg listenTCP] assms(3) by simp
next
  case False
  show ?thesis
  proof (cases "listener_for cfg sn addr")
    case None
    then have "take 4 (drop 10 addr) = sn_self sn \<and> listeners sn (take 2 (drop 14 addr)) = None"
      by (auto simp: listener_for_def Let_def split: if_splits option.splits)
    then show ?thesis
      using EnsureListener_unknown [OF assms(1) False None, of listenTCP] assms(3) False by simp
  next
    case (Some px)
    then have "\<not> (take 4 (drop 10 addr) = sn_self sn \<and> listeners sn (take 2 (drop 14 addr)) = None)"
      by (auto simp: listener_for_def Let_def)
    then show ?thesis
      using EnsureListener_starts [of sn addr port cfg px listenTCP, OF assms(1) False Some assms(2)] assms(3) False Some
      by (auto simp: listener_for_def Let_def split: if_splits)
  qed
qed

theorem EnsureListener_spec_witness:
  "\<exists>evs sn'. EnsureListener wit_svc_cfg (\<lambda>a q. None) (service6_prefix @ MkNetID [1, 2, 3] @ [5, 6]) 80 wit_sn
      = Inr (True, evs, sn') \<and> last evs = Serve (service6_prefix @ MkNetID [1, 2, 3] @ [5, 6]) 80 wit_proxy"
proof -
  let ?a = "service6_prefix @ MkNetID [1, 2, 3] @ [5, 6]"
  have inv: "sn_inv wit_sn" and no: "\<not> listening wit_sn ?a 80"
    by (simp_all add: wit_sn_def sn_inv_def listening_def)
  have "listener_for wit_svc_cfg wit_sn ?a = Some wit_proxy"
    by (simp add: listener_for_def wit_sn_def)
  then obtain evs sn' where run: "EnsureListener wit_svc_cfg (\<lambda>a q. None) ?a 80 wit_sn = Inr (True, evs, sn')"
    using EnsureListener_starts [of wit_sn ?a 80 wit_svc_cfg wit_proxy "\<lambda>a q. None", OF inv no _ refl] by blast
  then show ?thesis
    using EnsureListener_spec [where listenTCP = "\<lambda>a q. None", OF inv refl run] no by (auto simp: wit_sn_def)
qed

text \<open>
  An address whose network ID is neither the node's own nor a configured peer's still gets a
  listener, whose proxy has no handler: the first connection to it panics.
\<close>

theorem unknown_network_id_panics:
  assumes "sn_inv sn" and "take 4 (drop 10 addr) \<noteq> sn_self sn"
    and "ByNetID (PeerLookup cfg) (take 4 (drop 10 addr)) = None"
    and "\<not> listening sn addr port" and "listenTCP addr port = None"
  shows "\<exists>evs px sn'. EnsureListener cfg listenTCP addr port sn = Inr (True, evs @ [Serve addr port px], sn')
    \<and> ServeFunc px (conn # conns) = Inl (Panic NilFuncCall)"
proof -
  have "listener_for cfg sn addr = Some \<lparr>Handle = NilHandle\<rparr>"
    using assms(2,3) by (simp add: listener_for_def)
  then show ?thesis
    using EnsureListener_starts [of sn addr port cfg _ listenTCP, OF assms(1,4) _ assms(5)] by (fastforce simp: ServeFunc_def)
qed

theorem unknown_network_id_panics_witness:
  "\<exists>evs px sn'. EnsureListener wit_svc_cfg (\<lambda>a q. None) (service6_prefix @ [9, 9, 9, 9, 5, 6]) 80 wit_sn
      = Inr (True, evs @ [Serve (service6_prefix @ [9, 9, 9, 9, 5, 6]) 80 px], sn')
    \<and> ServeFunc px [wit_handle_env] = Inl (Panic NilFuncCall)"
proof -
  have "MkNetID [1, 2, 3] \<noteq> [9, 9, 9, 9]" by code_simp
  then show ?thesis
    by (intro unknown_network_id_panics)
      (simp_all add: wit_sn_def sn_inv_def listening_def wit_svc_cfg_def wit_cfg_def)
qed

section \<open>Targets\<close>

lemma ForEach_ips:
  assumes "list_all (\<lambda>c. Code c = P_IP4 \<or> Code c = P_IP6) ips" and "\<not> pt_done v"
  shows "ForEach ProxyTo_cb (ips @ cs) v
    = ForEach ProxyTo_cb cs (v\<lparr>pt_ipAddr := last (pt_ipAddr v # map RawValue ips)\<rparr>)"
  using assms by (induction ips arbitrary: v) (auto simp: ProxyTo_cb_def)

text \<open>
  \<open>ProxyTo\<close> on a target whose components are IP addresses up to some point: if a TCP component
  follows, the proxy dials the last IP address, or 127.0.0.1 when there is none, at the port in the
  component, whatever comes after it; if any other component follows, the error names its protocol;
  and if nothing follows, a proxy without a handler is returned with no error.
\<close>

theorem ProxyTo_spec:
  assumes "components ma = ips @ rest" and "list_all (\<lambda>c. Code c = P_IP4 \<or> Code c = P_IP6) ips"
  shows "(case rest of
       [] \<Rightarrow> ProxyTo components ma = Inr (\<lparr>Handle = NilHandle\<rparr>, None)
     | c # trailing \<Rightarrow>
         (Code c = P_TCP \<and> length (RawValue c) = 2 \<longrightarrow>
            ProxyTo components ma = Inr (TCPServiceProxy
              \<lparr>tcp_IP = last (IPv4 127 0 0 1 # map RawValue ips),
               tcp_Port = word_cat (RawValue c ! 0) (RawValue c ! 1)\<rparr>, None))
       \<and> (Code c \<notin> {P_IP4, P_IP6, P_TCP} \<longrightarrow>
            ProxyTo components ma = Inr (\<lparr>Handle = NilHandle\<rparr>, Some (ErrUnsupportedProtocol (ProtoName c)))))"
proof -
  have port: "(word_cat (a :: byte) (b :: byte) :: uint16) = ucast b OR push_bit 8 (ucast a)" for a b
    by (rule bit_word_eqI) (auto simp: bit_simps not_le dest: bit_imp_le_length)
  let ?v = "\<lparr>pt_proxy = \<lparr>Handle = NilHandle\<rparr>, pt_err = None, pt_done = False, pt_ipAddr = IPv4 127 0 0 1\<rparr>"
  have "ProxyTo components ma = bind_res (ForEach ProxyTo_cb rest
      (?v\<lparr>pt_ipAddr := last (IPv4 127 0 0 1 # map RawValue ips)\<rparr>)) (\<lambda>v. Inr (pt_proxy v, pt_err v))"
    using ForEach_ips [OF assms(2), of ?v rest] assms(1) by (simp add: ProxyTo_def)
  then show ?thesis
    by (cases rest) (auto simp: ProxyTo_cb_def uint16_be_def port code_defs)
qed

definition wit_components :: "Component list \<Rightarrow> Component list" where
  "wit_components cs = cs"

theorem ProxyTo_spec_witness:
  "ProxyTo wit_components [\<lparr>Code = 4, ProtoName = ''ip4'', RawValue = [10, 0, 0, 1]\<rparr>,
       \<lparr>Code = 6, ProtoName = ''tcp'', RawValue = [0x1f, 0x90]\<rparr>,
       \<lparr>Code = 6, ProtoName = ''tcp'', RawValue = [0, 1]\<rparr>]
     = Inr (TCPServiceProxy \<lparr>tcp_IP = [10, 0, 0, 1], tcp_Port = 8080\<rparr>, None)"
proof -
  have "(word_cat (0x1f :: byte) (0x90 :: byte) :: uint16) = 8080" by code_simp
  then show ?thesis
    using ProxyTo_spec [of wit_components "[\<lparr>Code = 4, ProtoName = ''ip4'', RawValue = [10, 0, 0, 1]\<rparr>,
       \<lparr>Code = 6, ProtoName = ''tcp'', RawValue = [0x1f, 0x90]\<rparr>,
       \<lparr>Code = 6, ProtoName = ''tcp'', RawValue = [0, 1]\<rparr>]"
       "[\<lparr>Code = 4, ProtoName = ''ip4'', RawValue = [10, 0, 0, 1]\<rparr>]"]
    by (simp add: wit_components_def code_defs)
qed

section \<open>Copying\<close>





text \<open>
  The goroutine that copies the service stack's packets to the TUN device writes its whole
  buffer of 1420 bytes for every packet, whatever the packet's size: the packet, followed by what
  earlier packets left in the buffer.
\<close>

theorem svc_copy_writes_buffer:
  assumes "\<forall>p \<in> set pkts. length p \<le> length buffer"
  shows "list_all2 (\<lambda>p w. length w = length buffer \<and> take (length p) w = p) pkts (svc_copy_loop buffer pkts)"
proof -
  have "length p \<le> length b \<Longrightarrow> length (fill b 0 p) = length b \<and> take (length p) (fill b 0 p) = p" for b p
    by (simp add: fill_def)
  then show ?thesis
    using assms
  proof (induction pkts arbitrary: buffer)
    case (Cons p pkts)
    then show ?case using Cons.IH [of "fill buffer 0 p"] by (simp add: Let_def)
  qed simp
qed

theorem svc_copy_writes_buffer_witness:
  "list_all2 (\<lambda>p w. length w = length [0, 0, 0, 0 :: byte] \<and> take (length p) w = p) [[1, 2, 3], [4]]
      (svc_copy_loop [0, 0, 0, 0] [[1, 2, 3], [4]])
   \<and> svc_copy_loop [0, 0, 0, 0] [[1, 2, 3], [4]] = [[1, 2, 3, 0], [4, 2, 3, 0]]"
proof
  show "list_all2 (\<lambda>p w. length w = length [0, 0, 0, 0 :: byte] \<and> take (length p) w = p) [[1, 2, 3], [4]]
      (svc_copy_loop [0, 0, 0, 0] [[1, 2, 3], [4]])"
    by (rule svc_copy_writes_buffer) simp
qed (simp add: fill_def Let_def)

end
