(* ===== verification/Dns.thy ===== *)
theory Dns
  imports Config
begin

text \<open>
  The package \<open>dns\<close>: the zone's domain, the records of a node, the query handler of the magic DNS
  server, the address and port it listens on, and the configuration of systemd-resolved.  The DNS
  library contributes the record types; what of a message the code writes (\<open>Answer\<close>, \<open>Extra\<close>) is the
  record \<open>Msg\<close>.  Parameters, in the record \<open>dns_env\<close>: the base-36 form of a peer ID, \<open>peer.Decode\<close>,
  \<open>peer.ID.String\<close>, \<open>os.Hostname\<close> and the Unicode part of \<open>strings.ToLower\<close>.
\<close>

section \<open>Records\<close>

datatype rr_type = TypeA | TypeAAAA | TypeCNAME | TypeTXT | TypeOther nat

text \<open>The class of every record is \<open>ClassINET\<close> and is left out.\<close>

record RR_Header =
  rr_Name :: string
  Rrtype :: rr_type
  Ttl :: nat

datatype RR =
    RR_CNAME RR_Header string
  | RR_A RR_Header IP
  | RR_AAAA RR_Header IP
  | RR_TXT RR_Header "string list"

record Question =
  q_Name :: string
  Qtype :: rr_type

record Msg =
  Answer :: "RR list"
  Extra :: "RR list"

record dns_env =
  cid36 :: "peer_id \<Rightarrow> string"
  dns_Decode :: "string \<Rightarrow> go_error + peer_id"
  dns_String :: "peer_id \<Rightarrow> string"
  Hostname :: "go_error + string"
  dns_uni :: "string \<Rightarrow> string"

section \<open>Names\<close>

definition domainSuffix :: "('ma, 'key, 'r) Config \<Rightarrow> string" where
  "domainSuffix cfg =
     (if Interface cfg = ''hyprspace'' then Domain cfg @ ''.''
      else Interface cfg @ ''.'' @ Domain cfg @ ''.'')"

definition withDomainSuffix :: "('ma, 'key, 'r) Config \<Rightarrow> string \<Rightarrow> string" where
  "withDomainSuffix cfg str = str @ ''.'' @ domainSuffix cfg"

section \<open>Answers\<close>

definition mkAliasRecord ::
  "dns_env \<Rightarrow> ('ma, 'key, 'r) Config \<Rightarrow> string \<Rightarrow> string \<Rightarrow> peer_id \<Rightarrow> RR" where
  "mkAliasRecord env cfg alias serviceName p =
     (let cid = cid36 env p;
          aliasWithSvc = (if serviceName = [] then alias else serviceName @ ''.'' @ alias);
          cidWithSvc = (if serviceName = [] then cid else serviceName @ ''.'' @ cid)
      in RR_CNAME \<lparr>rr_Name = withDomainSuffix cfg aliasWithSvc, Rrtype = TypeCNAME, Ttl = 0\<rparr>
           (withDomainSuffix cfg cidWithSvc))"

definition mkIDRecord4 :: "dns_env \<Rightarrow> ('ma, 'key, 'r) Config \<Rightarrow> peer_id \<Rightarrow> IP \<Rightarrow> RR" where
  "mkIDRecord4 env cfg p addr =
     RR_A \<lparr>rr_Name = withDomainSuffix cfg (cid36 env p), Rrtype = TypeA, Ttl = 86400\<rparr> (To4 addr)"

definition mkIDRecord6 :: "dns_env \<Rightarrow> ('ma, 'key, 'r) Config \<Rightarrow> peer_id \<Rightarrow> string \<Rightarrow> IP \<Rightarrow> RR" where
  "mkIDRecord6 env cfg p serviceName addr =
     (let cid = cid36 env p;
          addrWithSvc = (if serviceName = [] then addr else MkServiceAddr6 p serviceName);
          cidWithSvc = (if serviceName = [] then cid else serviceName @ ''.'' @ cid)
      in RR_AAAA \<lparr>rr_Name = withDomainSuffix cfg cidWithSvc, Rrtype = TypeAAAA, Ttl = 86400\<rparr>
           (To16 addrWithSvc))"

definition writeResponse :: "dns_env \<Rightarrow> Question \<Rightarrow> peer_id \<Rightarrow> IP \<Rightarrow> Msg \<Rightarrow> Msg" where
  "writeResponse env q p addr msg =
     msg\<lparr>Answer := Answer msg @ [RR_A \<lparr>rr_Name = q_Name q, Rrtype = TypeA, Ttl = 0\<rparr> (To4 addr)],
         Extra := Extra msg
           @ [RR_TXT \<lparr>rr_Name = q_Name q, Rrtype = TypeTXT, Ttl = 0\<rparr> [dns_String env p, cid36 env p]]\<rparr>"

section \<open>The query handler\<close>

text \<open>The address records of one node: no A record when a service is asked for.\<close>

definition node_records ::
  "dns_env \<Rightarrow> ('ma, 'key, 'r) Config \<Rightarrow> peer_id \<Rightarrow> string \<Rightarrow> IP \<Rightarrow> IP \<Rightarrow> RR list" where
  "node_records env cfg p svc a4 a6 =
     (if svc = [] then [mkIDRecord4 env cfg p a4] else []) @ [mkIDRecord6 env cfg p svc a6]"

text \<open>The service and the node a question's name asks for, if it has one or two labels.\<close>

definition split_name :: "('ma, 'key, 'r) Config \<Rightarrow> string \<Rightarrow> (string \<times> string) option" where
  "split_name cfg name =
     (case Split (TrimSuffix name (''.'' @ domainSuffix cfg)) (CHR ''.'') of
        [svc, node] \<Rightarrow> Some (svc, node)
      | [node] \<Rightarrow> Some ([], node)
      | _ \<Rightarrow> None)"

definition hostname_of :: "dns_env \<Rightarrow> string" where
  "hostname_of env = (case Hostname env of Inl e \<Rightarrow> [] | Inr h \<Rightarrow> h)"

definition answer_name ::
  "dns_env \<Rightarrow> ('ma, 'key, 'r) Config \<Rightarrow> peer_id \<Rightarrow> string \<Rightarrow> string \<Rightarrow> RR list" where
  "answer_name env cfg self svc node =
     (case dns_Decode env node of
        Inr qpeer \<Rightarrow>
          if qpeer = self then node_records env cfg self svc (cfg_BuiltinAddr4 cfg) (cfg_BuiltinAddr6 cfg)
          else (case FindPeer (Peers cfg) qpeer of
                  Some p \<Rightarrow> node_records env cfg (ID p) svc (BuiltinAddr4 p) (BuiltinAddr6 p)
                | None \<Rightarrow> [])
      | Inl e \<Rightarrow>
          let qName = ToLower (dns_uni env) node in
          if qName = ToLower (dns_uni env) (hostname_of env) then
            mkAliasRecord env cfg qName svc self
              # node_records env cfg self svc (cfg_BuiltinAddr4 cfg) (cfg_BuiltinAddr6 cfg)
          else (case ByName (PeerLookup cfg) qName of
                  Some p \<Rightarrow> mkAliasRecord env cfg qName svc (ID p)
                    # node_records env cfg (ID p) svc (BuiltinAddr4 p) (BuiltinAddr6 p)
                | None \<Rightarrow> []))"

text \<open>The loop over the questions; \<open>None\<close> is the early return, after which no reply is written.\<close>

fun handle_questions ::
  "dns_env \<Rightarrow> ('ma, 'key, 'r) Config \<Rightarrow> peer_id \<Rightarrow> Question list \<Rightarrow> RR list \<Rightarrow> RR list option" where
  "handle_questions env cfg self [] ans = Some ans"
| "handle_questions env cfg self (q # qs) ans =
     (if Qtype q = TypeA \<or> Qtype q = TypeAAAA then
        (case split_name cfg (q_Name q) of
           None \<Rightarrow> None
         | Some (svc, node) \<Rightarrow>
             handle_questions env cfg self qs (ans @ answer_name env cfg self svc node))
      else handle_questions env cfg self qs ans)"

definition dns_query ::
  "dns_env \<Rightarrow> ('ma, 'key, 'r) Config \<Rightarrow> peer_id \<Rightarrow> Question list \<Rightarrow> Msg option" where
  "dns_query env cfg self qs =
     (case handle_questions env cfg self qs [] of
        None \<Rightarrow> None
      | Some ans \<Rightarrow> Some \<lparr>Answer = ans, Extra = []\<rparr>)"

section \<open>Where the server listens\<close>

fun server_addr_loop :: "nat \<Rightarrow> byte list \<Rightarrow> byte list \<Rightarrow> byte list" where
  "server_addr_loop i [] a = a"
| "server_addr_loop i (b # bs) a =
     server_addr_loop (Suc i) bs (a[i mod 3 + 1 := a ! (i mod 3 + 1) XOR b])"

fun server_port_loop :: "byte list \<Rightarrow> uint16 \<Rightarrow> uint16" where
  "server_port_loop [] port = port"
| "server_port_loop (b # bs) port = server_port_loop bs ((port + ucast b) mod 40000 + 5000)"

definition dnsServerAddr :: "('ma, 'key, 'r) Config \<Rightarrow> byte list" where
  "dnsServerAddr cfg = server_addr_loop 0 (bytes_of (Interface cfg)) [127, 80, 1, 53]"

definition dnsServerPort :: "('ma, 'key, 'r) Config \<Rightarrow> uint16" where
  "dnsServerPort cfg = server_port_loop (bytes_of (Interface cfg)) 5380"

interpretation dnsaddr: cell_loop server_addr_loop 3 1 "\<lambda>_ b. b"
  by unfold_locales simp_all

section \<open>systemd-resolved\<close>

datatype resolved_call =
    SetLinkDNSEx int "byte list" uint16
  | SetLinkDomains int string
  | SetLinkDNSSEC int string
  | SetLinkDNSOverTLS int string
  | SetLinkLLMNR int string
  | SetLinkMulticastDNS int string

record resolved_env =
  resolved_NewConn :: "go_error option"
  dns_LinkByName :: "string \<Rightarrow> go_error + int"
  resolved_call :: "resolved_call \<Rightarrow> go_error option"

definition resolved_calls :: "('ma, 'key, 'r) Config \<Rightarrow> int \<Rightarrow> byte list \<Rightarrow> uint16 \<Rightarrow> resolved_call list" where
  "resolved_calls cfg linkID addr port =
     [SetLinkDNSEx linkID addr port, SetLinkDomains linkID (domainSuffix cfg), SetLinkDNSSEC linkID ''no'',
      SetLinkDNSOverTLS linkID ''no'', SetLinkLLMNR linkID ''no'', SetLinkMulticastDNS linkID ''no'']"

text \<open>The calls that were made and the first error.\<close>

fun run_calls :: "(resolved_call \<Rightarrow> go_error option) \<Rightarrow> resolved_call list
    \<Rightarrow> resolved_call list \<times> go_error option" where
  "run_calls call [] = ([], None)"
| "run_calls call (c # cs) =
     (case call c of
        Some e \<Rightarrow> ([c], Some (ErrWrapped ''Failed to configure systemd-resolved'' e))
      | None \<Rightarrow> (let (done', r) = run_calls call cs in (c # done', r)))"

definition configureSystemdResolved ::
  "resolved_env \<Rightarrow> ('ma, 'key, 'r) Config \<Rightarrow> byte list \<Rightarrow> uint16 \<Rightarrow> resolved_call list \<times> go_error option" where
  "configureSystemdResolved renv cfg addr port =
     (case resolved_NewConn renv of
        Some e \<Rightarrow> ([], Some (ErrWrapped ''Failed to connect to D-Bus'' e))
      | None \<Rightarrow>
          (case dns_LinkByName renv (Interface cfg) of
             Inl e \<Rightarrow> ([], Some (ErrWrapped ''Failed to get link ID'' e))
           | Inr linkID \<Rightarrow> run_calls (resolved_call renv) (resolved_calls cfg linkID addr port)))"

text \<open>
  \<open>MagicDnsServer\<close>: the zone the handler is registered for, the servers (network, address, port) in
  the order they are started, and the calls that configure the resolver.
\<close>

definition MagicDnsServer ::
  "resolved_env \<Rightarrow> ('ma, 'key, 'r) Config
     \<Rightarrow> string \<times> (string \<times> byte list \<times> uint16) list \<times> resolved_call list" where
  "MagicDnsServer renv cfg =
     (domainSuffix cfg,
      map (\<lambda>netType. (netType, dnsServerAddr cfg, dnsServerPort cfg)) [''tcp'', ''udp''],
      fst (configureSystemdResolved renv cfg (dnsServerAddr cfg) (dnsServerPort cfg)))"

section \<open>Facts\<close>

lemma split_name_node:
  "CHR ''.'' \<notin> set node \<Longrightarrow> split_name cfg (withDomainSuffix cfg node) = Some ([], node)"
  using TrimSuffix_append [of node "''.'' @ domainSuffix cfg"]
  by (simp add: split_name_def withDomainSuffix_def Split_no_sep)

lemma split_name_service:
  assumes "CHR ''.'' \<notin> set node" and "CHR ''.'' \<notin> set svc"
  shows "split_name cfg (withDomainSuffix cfg (svc @ ''.'' @ node)) = Some (svc, node)"
  using TrimSuffix_append [of "svc @ ''.'' @ node" "''.'' @ domainSuffix cfg"] assms
  by (simp add: split_name_def withDomainSuffix_def Split_append_sep Split_no_sep)

lemma split_name_None_iff:
  "split_name cfg name = None \<longleftrightarrow> 2 \<le> count_list (TrimSuffix name (''.'' @ domainSuffix cfg)) (CHR ''.'')"
proof -
  let ?parts = "Split (TrimSuffix name (''.'' @ domainSuffix cfg)) (CHR ''.'')"
  have "split_name cfg name = None \<longleftrightarrow> 3 \<le> length ?parts"
    using Split_not_Nil [of "TrimSuffix name (''.'' @ domainSuffix cfg)" "CHR ''.''"]
    by (auto simp: split_name_def numeral_3_eq_3 Suc_le_eq split: list.splits)
  then show ?thesis by (simp add: Split_length)
qed

lemma handle_questions_append:
  "handle_questions env cfg self qs ans = map_option ((@) ans) (handle_questions env cfg self qs [])"
proof (induction qs arbitrary: ans)
  case (Cons q qs)
  show ?case
    by (simp split: option.splits)
      (metis (no_types, lifting) Cons.IH append.assoc append_Nil option.map_comp option.map_cong comp_apply)
qed simp

lemma run_calls_prefix:
  "\<exists>rest. cs = fst (run_calls call cs) @ rest"
  by (induction cs) (auto split: option.splits prod.splits)

lemma run_calls_ok: "(\<And>c. c \<in> set cs \<Longrightarrow> call c = None) \<Longrightarrow> run_calls call cs = (cs, None)"
  by (induction cs) (auto split: option.splits prod.splits)

lemma port_step:
  assumes "port < 45000"
  shows "unat ((port + ucast (b :: byte)) mod 40000 + 5000 :: uint16)
      = (unat port + unat b) mod 40000 + 5000"
proof -
  have p: "unat port < 45000" using assms by (simp add: word_less_nat_alt)
  have b: "unat b < 256" using unsigned_less [of b] by simp
  then have u: "unat (ucast b :: uint16) = unat b" by (simp add: unsigned_ucast_eq take_bit_nat_eq_self)
  have "unat (port + ucast b) = unat port + unat b"
    using p b u by (subst unat_add_lem [THEN iffD1]) simp_all
  moreover have "(unat port + unat b) mod 40000 < 40000" by simp
  ultimately show ?thesis
    by (subst unat_add_lem [THEN iffD1]) (simp_all add: unat_mod)
qed

lemma port_step_bounds:
  assumes "port < 45000"
  shows "5000 \<le> (port + ucast (b :: byte)) mod 40000 + 5000
    \<and> (port + ucast (b :: byte)) mod 40000 + (5000 :: uint16) < 45000"
  using port_step [OF assms, of b] by (simp add: word_less_nat_alt word_le_nat_alt)

lemma server_port_loop_bounds:
  "port < 45000 \<Longrightarrow> 5000 \<le> port \<Longrightarrow> 5000 \<le> server_port_loop bs port \<and> server_port_loop bs port < 45000"
proof (induction bs arbitrary: port)
  case (Cons b bs)
  then show ?case using port_step_bounds [of port b] by simp
qed simp

end
