(* ===== verification/Tun.thy ===== *)
theory Tun
  imports GoCIDR
begin

text \<open>
  The package \<open>tun\<close>: device options and their application, and the three platform back ends.  An
  \<open>Option\<close> is the closure the constructor builds, as a value of a datatype; running one changes the
  state of the operating system's link through \<open>netlink\<close> (Linux) or through the commands
  \<open>ifconfig\<close> (Darwin) and \<open>netsh\<close> (Windows), each of which may fail as the environment says.
\<close>

section \<open>Options\<close>

datatype Option =
    NilOption
  | Address string
  | MTU nat
  | DestAddress string
  | Route IPNet
  | RemoveRoute IPNet

text \<open>\<open>Apply\<close> for any back end: nil options are skipped, the first error stops it.\<close>

fun Apply :: "(Option \<Rightarrow> 't \<Rightarrow> go_error option \<times> 't) \<Rightarrow> Option list \<Rightarrow> 't \<Rightarrow> go_error option \<times> 't" where
  "Apply run [] t = (None, t)"
| "Apply run (opt # opts) t =
     (if opt = NilOption then Apply run opts t
      else (case run opt t of
              (Some err, t') \<Rightarrow> (Some err, t')
            | (None, t') \<Rightarrow> Apply run opts t'))"

section \<open>Linux\<close>

text \<open>The kernel's view of the link: its MTU, its addresses, its routes with their priority, its state.\<close>

record link =
  link_name :: string
  link_mtu :: nat
  link_addrs :: "string list"
  link_routes :: "(IPNet \<times> nat) list"
  link_up :: bool

datatype link_op =
    LinkSetMTU nat
  | AddrAdd string
  | RouteAdd IPNet nat
  | RouteDel IPNet nat
  | LinkSetUp
  | LinkSetDown

fun link_effect :: "link_op \<Rightarrow> link \<Rightarrow> link" where
  "link_effect (LinkSetMTU m) l = l\<lparr>link_mtu := m\<rparr>"
| "link_effect (AddrAdd a) l = l\<lparr>link_addrs := link_addrs l @ [a]\<rparr>"
| "link_effect (RouteAdd n prio) l = l\<lparr>link_routes := link_routes l @ [(n, prio)]\<rparr>"
| "link_effect (RouteDel n prio) l = l\<lparr>link_routes := remove1 (n, prio) (link_routes l)\<rparr>"
| "link_effect LinkSetUp l = l\<lparr>link_up := True\<rparr>"
| "link_effect LinkSetDown l = l\<lparr>link_up := False\<rparr>"

text \<open>
  What \<open>netlink\<close> answers: whether the link is found, whether an address parses, and whether an
  operation is refused in the current state.
\<close>

record netlink =
  nl_LinkByName :: "string \<Rightarrow> go_error option"
  nl_ParseAddr :: "string \<Rightarrow> go_error option"
  nl_refuses :: "link_op \<Rightarrow> link \<Rightarrow> go_error option"

definition with_link :: "netlink \<Rightarrow> link_op \<Rightarrow> link \<Rightarrow> go_error option \<times> link" where
  "with_link nl op t =
     (case nl_LinkByName nl (link_name t) of
        Some err \<Rightarrow> (Some err, t)
      | None \<Rightarrow>
          (case nl_refuses nl op t of
             Some err \<Rightarrow> (Some err, t)
           | None \<Rightarrow> (None, link_effect op t)))"

definition setMTU :: "netlink \<Rightarrow> nat \<Rightarrow> link \<Rightarrow> go_error option \<times> link" where
  "setMTU nl mtu t = with_link nl (LinkSetMTU mtu) t"

definition setAddress :: "netlink \<Rightarrow> string \<Rightarrow> link \<Rightarrow> go_error option \<times> link" where
  "setAddress nl address t =
     (case nl_ParseAddr nl address of
        Some err \<Rightarrow> (Some err, t)
      | None \<Rightarrow> with_link nl (AddrAdd address) t)"

definition setDestAddress :: "string \<Rightarrow> link \<Rightarrow> go_error option \<times> link" where
  "setDestAddress address t = (Some ErrDestAddress, t)"

definition addRoute :: "netlink \<Rightarrow> IPNet \<Rightarrow> link \<Rightarrow> go_error option \<times> link" where
  "addRoute nl network t = with_link nl (RouteAdd network 3000) t"

definition delRoute :: "netlink \<Rightarrow> IPNet \<Rightarrow> link \<Rightarrow> go_error option \<times> link" where
  "delRoute nl network t = with_link nl (RouteDel network 3000) t"

definition Up :: "netlink \<Rightarrow> link \<Rightarrow> go_error option \<times> link" where
  "Up nl t = with_link nl LinkSetUp t"

definition Down :: "netlink \<Rightarrow> link \<Rightarrow> go_error option \<times> link" where
  "Down nl t = with_link nl LinkSetDown t"

fun run_option :: "netlink \<Rightarrow> Option \<Rightarrow> link \<Rightarrow> go_error option \<times> link" where
  "run_option nl NilOption t = (None, t)"
| "run_option nl (Address a) t = setAddress nl a t"
| "run_option nl (MTU m) t = setMTU nl m t"
| "run_option nl (DestAddress a) t = setDestAddress a t"
| "run_option nl (Route n) t = addRoute nl n t"
| "run_option nl (RemoveRoute n) t = delRoute nl n t"

text \<open>\<open>New\<close>: \<open>water\<close> creates the interface or fails; the options are applied to it.\<close>

definition tun_New ::
  "netlink \<Rightarrow> (string \<Rightarrow> go_error + link) \<Rightarrow> string \<Rightarrow> Option list \<Rightarrow> go_error option \<times> link option" where
  "tun_New nl water_New name opts =
     (case water_New name of
        Inl err \<Rightarrow> (Some err, None)
      | Inr iface \<Rightarrow> (let (err, t) = Apply (run_option nl) opts iface in (err, Some t)))"

text \<open>\<open>Delete\<close>: the error, and whether the link was deleted.\<close>

definition tun_Delete :: "netlink \<Rightarrow> (string \<Rightarrow> go_error option) \<Rightarrow> string \<Rightarrow> go_error option" where
  "tun_Delete nl linkDel name =
     (case nl_LinkByName nl name of Some err \<Rightarrow> Some err | None \<Rightarrow> linkDel name)"

section \<open>Darwin and Windows\<close>

text \<open>
  The back ends that run commands: the fields of the struct \<open>TUN\<close> and the argument vectors run so
  far.  \<open>exec_err\<close> says how a command ends.  Neither defines \<open>addRoute\<close> or \<open>delRoute\<close>, which
  \<open>options.go\<close> calls: there is no value of \<open>Route\<close> or \<open>RemoveRoute\<close> on these platforms.
\<close>

record cmd_tun =
  ct_name :: string
  ct_MTU :: string
  ct_Src :: string
  ct_Dst :: string
  ct_ran :: "string list list"

definition run_cmd :: "(string list \<Rightarrow> go_error option) \<Rightarrow> string list \<Rightarrow> cmd_tun \<Rightarrow> go_error option \<times> cmd_tun" where
  "run_cmd exec_err args t = (exec_err args, t\<lparr>ct_ran := ct_ran t @ [args]\<rparr>)"

definition ifconfig :: "(string list \<Rightarrow> go_error option) \<Rightarrow> string list \<Rightarrow> cmd_tun \<Rightarrow> go_error option \<times> cmd_tun" where
  "ifconfig ex args t = run_cmd ex (''ifconfig'' # args) t"

definition darwin_setMTU :: "(string list \<Rightarrow> go_error option) \<Rightarrow> string \<Rightarrow> cmd_tun \<Rightarrow> go_error option \<times> cmd_tun" where
  "darwin_setMTU ex mtu t = ifconfig ex [ct_name t, ''mtu'', mtu] t"

definition darwin_setAddress :: "string \<Rightarrow> cmd_tun \<Rightarrow> go_error option \<times> cmd_tun" where
  "darwin_setAddress address t = (None, t\<lparr>ct_Src := address\<rparr>)"

definition darwin_setDestAddress :: "string \<Rightarrow> cmd_tun \<Rightarrow> go_error option \<times> cmd_tun" where
  "darwin_setDestAddress address t = (None, t\<lparr>ct_Dst := address\<rparr>)"

definition darwin_Up :: "(string list \<Rightarrow> go_error option) \<Rightarrow> cmd_tun \<Rightarrow> go_error option \<times> cmd_tun" where
  "darwin_Up ex t = ifconfig ex [ct_name t, ''inet'', ct_Src t, ct_Dst t, ''up''] t"

definition darwin_Down :: "(string list \<Rightarrow> go_error option) \<Rightarrow> cmd_tun \<Rightarrow> go_error option \<times> cmd_tun" where
  "darwin_Down ex t = ifconfig ex [ct_name t, ''down''] t"

definition netsh :: "(string list \<Rightarrow> go_error option) \<Rightarrow> string list \<Rightarrow> cmd_tun \<Rightarrow> go_error option \<times> cmd_tun" where
  "netsh ex args t = run_cmd ex (''netsh'' # args) t"

definition windows_setMTU :: "string \<Rightarrow> cmd_tun \<Rightarrow> go_error option \<times> cmd_tun" where
  "windows_setMTU mtu t = (None, t\<lparr>ct_MTU := mtu\<rparr>)"

definition windows_setAddress :: "string \<Rightarrow> cmd_tun \<Rightarrow> go_error option \<times> cmd_tun" where
  "windows_setAddress address t = (None, t\<lparr>ct_Src := address\<rparr>)"

definition windows_setDestAddress :: "string \<Rightarrow> cmd_tun \<Rightarrow> go_error option \<times> cmd_tun" where
  "windows_setDestAddress address t = (Some ErrDestAddress, t)"

definition windows_setupMTU :: "(string list \<Rightarrow> go_error option) \<Rightarrow> string \<Rightarrow> cmd_tun \<Rightarrow> go_error option \<times> cmd_tun" where
  "windows_setupMTU ex mtu t =
     netsh ex [''interface'', ''ipv4'', ''set'', ''subinterface'', ct_name t, ''mtu='', mtu] t"

definition windows_setupAddress :: "(string list \<Rightarrow> go_error option) \<Rightarrow> string \<Rightarrow> cmd_tun \<Rightarrow> go_error option \<times> cmd_tun" where
  "windows_setupAddress ex address t =
     netsh ex [''interface'', ''ip'', ''set'', ''address'', ''name='', ct_name t, ''static'', address] t"

text \<open>The options that exist on Darwin and Windows; an MTU's decimal form is the parameter \<open>show_nat\<close>.\<close>

fun darwin_run_option ::
  "(string list \<Rightarrow> go_error option) \<Rightarrow> (nat \<Rightarrow> string) \<Rightarrow> Option \<Rightarrow> cmd_tun \<Rightarrow> go_error option \<times> cmd_tun" where
  "darwin_run_option ex show_nat (Address a) t = darwin_setAddress a t"
| "darwin_run_option ex show_nat (MTU m) t = darwin_setMTU ex (show_nat m) t"
| "darwin_run_option ex show_nat (DestAddress a) t = darwin_setDestAddress a t"
| "darwin_run_option ex show_nat _ t = (None, t)"

fun windows_run_option ::
  "(nat \<Rightarrow> string) \<Rightarrow> Option \<Rightarrow> cmd_tun \<Rightarrow> go_error option \<times> cmd_tun" where
  "windows_run_option show_nat (Address a) t = windows_setAddress a t"
| "windows_run_option show_nat (MTU m) t = windows_setMTU (show_nat m) t"
| "windows_run_option show_nat (DestAddress a) t = windows_setDestAddress a t"
| "windows_run_option show_nat _ t = (None, t)"

text \<open>\<open>New\<close> on Darwin: \<open>water_New\<close> names the interface; the options are applied to the new struct.\<close>

definition darwin_New ::
  "(string list \<Rightarrow> go_error option) \<Rightarrow> (nat \<Rightarrow> string) \<Rightarrow> go_error + string \<Rightarrow> Option list
     \<Rightarrow> go_error + (go_error option \<times> cmd_tun)" where
  "darwin_New ex show_nat water_New opts =
     (case water_New of
        Inl err \<Rightarrow> Inl err
      | Inr ifname \<Rightarrow>
          Inr (Apply (darwin_run_option ex show_nat) opts
            \<lparr>ct_name = ifname, ct_MTU = [], ct_Src = [], ct_Dst = [], ct_ran = []\<rparr>))"

definition darwin_Delete :: "string \<Rightarrow> go_error option" where
  "darwin_Delete name = Some (ErrText ''removing an interface is unsupported under mac'')"

definition windows_Up :: "cmd_tun \<Rightarrow> go_error option \<times> cmd_tun" where
  "windows_Up t = (None, t)"

definition windows_Down :: "cmd_tun \<Rightarrow> go_error option \<times> cmd_tun" where
  "windows_Down t = (None, t)"

definition windows_Delete :: "(string list \<Rightarrow> go_error option) \<Rightarrow> string \<Rightarrow> cmd_tun \<Rightarrow> go_error option \<times> cmd_tun" where
  "windows_Delete ex name t = netsh ex [''interface'', ''set'', ''interface'', ''name='', name, ''disable''] t"

text \<open>\<open>New\<close> on Windows: the options first set \<open>Src\<close> and \<open>MTU\<close> in the struct.\<close>

definition windows_New ::
  "(string list \<Rightarrow> go_error option) \<Rightarrow> (nat \<Rightarrow> string) \<Rightarrow> (string \<Rightarrow> IP \<Rightarrow> go_error + string) \<Rightarrow> string
     \<Rightarrow> Option list \<Rightarrow> go_error option \<times> cmd_tun" where
  "windows_New ex show_nat water_New name opts =
     (case Apply (windows_run_option show_nat) opts \<lparr>ct_name = [], ct_MTU = [], ct_Src = [], ct_Dst = [], ct_ran = []\<rparr> of
        (Some err, t0) \<Rightarrow> (Some err, t0)
      | (None, t0) \<Rightarrow>
     (case ParseCIDR (ct_Src t0) of
        Inl _ \<Rightarrow> (Some (ErrParseCIDR (ct_Src t0)), t0)
      | Inr (ip, _) \<Rightarrow>
          let t1 = snd (netsh ex [''interface'', ''set'', ''interface'', ''name='', name, ''enable''] t0)
          in (case water_New name ip of
                Inl err \<Rightarrow> (Some err, t1)
              | Inr ifname \<Rightarrow>
                  (case windows_setupAddress ex (ct_Src t1) (t1\<lparr>ct_name := ifname\<rparr>) of
                     (Some err, t2) \<Rightarrow> (Some err, t2)
                   | (None, t2) \<Rightarrow> windows_setupMTU ex (ct_MTU t2) t2))))"

section \<open>Facts\<close>

lemma Apply_append:
  "Apply run (xs @ ys) t =
     (case Apply run xs t of (Some e, t') \<Rightarrow> (Some e, t') | (None, t') \<Rightarrow> Apply run ys t')"
  by (induction xs arbitrary: t) (auto split: option.splits prod.splits)

text \<open>
  On Darwin and Windows the struct has one source address: of the two addresses \<open>Run\<close> gives, only the
  second, the IPv6 one, is kept.
\<close>

lemma only_last_address:
  "snd (Apply (windows_run_option show_nat) [Address a4, Address a6, MTU m] t) = t\<lparr>ct_Src := a6, ct_MTU := show_nat m\<rparr>"
  "ct_Src (snd (Apply (darwin_run_option ex show_nat) [Address a4, Address a6, MTU m] t)) = a6"
  by (simp_all add: windows_setAddress_def windows_setMTU_def darwin_setAddress_def darwin_setMTU_def ifconfig_def
      run_cmd_def split: option.split)

text \<open>A back end that refuses nothing runs every option.\<close>

definition nl_willing :: "netlink \<Rightarrow> bool" where
  "nl_willing nl \<longleftrightarrow> (\<forall>n. nl_LinkByName nl n = None) \<and> (\<forall>a. nl_ParseAddr nl a = None)
     \<and> (\<forall>op l. nl_refuses nl op l = None)"

lemma Apply_routes:
  assumes "nl_willing nl"
  shows "Apply (run_option nl) (map Route nets) t
    = (None, t\<lparr>link_routes := link_routes t @ map (\<lambda>n. (n, 3000)) nets\<rparr>)"
  using assms
  by (induction nets arbitrary: t) (simp_all add: addRoute_def with_link_def nl_willing_def)

text \<open>Whatever fails, the routes that are there are some of those asked for, in their order.\<close>

lemma Apply_routes_prefix:
  "\<exists>done rest. nets = done @ rest
     \<and> snd (Apply (run_option nl) (map Route nets) t)
         = t\<lparr>link_routes := link_routes t @ map (\<lambda>n. (n, 3000)) done\<rparr>
     \<and> (fst (Apply (run_option nl) (map Route nets) t) = None \<longrightarrow> rest = [])"
proof (induction nets arbitrary: t)
  case Nil
  then show ?case by simp
next
  case (Cons n nets)
  consider e where "addRoute nl n t = (Some e, t)"
    | "addRoute nl n t = (None, t\<lparr>link_routes := link_routes t @ [(n, 3000)]\<rparr>)"
    by (cases "nl_LinkByName nl (link_name t)"; cases "nl_refuses nl (RouteAdd n 3000) t")
      (auto simp: addRoute_def with_link_def)
  then show ?case
  proof cases
    case 1
    then show ?thesis by (intro exI [of _ "[]"] exI [of _ "n # nets"]) simp
  next
    case 2
    let ?t = "t\<lparr>link_routes := link_routes t @ [(n, 3000)]\<rparr>"
    from Cons.IH [of ?t] obtain dn rest where "nets = dn @ rest"
      "snd (Apply (run_option nl) (map Route nets) ?t) = ?t\<lparr>link_routes := link_routes ?t @ map (\<lambda>n. (n, 3000)) dn\<rparr>"
      "fst (Apply (run_option nl) (map Route nets) ?t) = None \<longrightarrow> rest = []"
      by (elim exE conjE)
    then show ?thesis using 2 by (intro exI [of _ "n # dn"] exI [of _ rest]) simp
  qed
qed

end
