(* ===== verification/Rpc.thy ===== *)
theory Rpc
  imports Streams Tun
begin

text \<open>
  The package \<open>rpc\<close>: the handlers \<open>Status\<close>, \<open>Route\<close> and \<open>Peers\<close> of the RPC server, the order in
  which it opens its socket, and the client calls.  What the handlers ask of the libp2p host is the
  record \<open>host_view\<close>.  \<open>Route\<close> changes the route table, shared with the running node, and the
  kernel's routes of the TUN device.
\<close>

section \<open>The host\<close>

record 'ma conn =
  RemoteMultiaddr :: 'ma
  RemotePeer :: peer_id
  GetStreams :: "string list"

record 'ma host_view =
  host_ID :: peer_id
  Connected :: "peer_id \<Rightarrow> bool"
  Conns :: "'ma conn list"
  ConnsToPeer :: "peer_id \<Rightarrow> 'ma conn list"
  host_Addrs :: "'ma list"
  LatencyEWMA :: "peer_id \<Rightarrow> string"
  ma_String :: "'ma \<Rightarrow> string"
  id_String :: "peer_id \<Rightarrow> string"
  is_circuit :: "'ma \<Rightarrow> bool"
  p2p_value :: "'ma \<Rightarrow> string option"
  id_Decode :: "string \<Rightarrow> go_error + peer_id"

section \<open>Status and Peers\<close>

record StatusReply =
  PeerID :: string
  SwarmPeersCurrent :: nat
  NetPeersCurrent :: nat
  NetPeerAddrsCurrent :: "string list"
  NetPeersMax :: nat
  ListenAddrs :: "string list"

definition peer_line :: "'ma host_view \<Rightarrow> Peer \<Rightarrow> 'ma conn \<Rightarrow> string" where
  "peer_line H p c =
     ''@'' @ Name p @ '' ('' @ LatencyEWMA H (ID p) @ '') '' @ ma_String H (RemoteMultiaddr c)
       @ ''/p2p/'' @ id_String H (ID p)"

fun Status_loop :: "'ma host_view \<Rightarrow> Peer list \<Rightarrow> nat \<Rightarrow> string list \<Rightarrow> nat \<times> string list" where
  "Status_loop H [] n addrs = (n, addrs)"
| "Status_loop H (p # ps) n addrs =
     (if Connected H (ID p)
      then Status_loop H ps (n + 1) (addrs @ map (peer_line H p) (ConnsToPeer H (ID p)))
      else Status_loop H ps n addrs)"

definition rpc_Status :: "'ma host_view \<Rightarrow> ('m, 'key, 'r) Config \<Rightarrow> StatusReply" where
  "rpc_Status H cfg =
     (let (n, addrs) = Status_loop H (Peers cfg) 0 [] in
      \<lparr>PeerID = id_String H (host_ID H), SwarmPeersCurrent = length (Conns H), NetPeersCurrent = n,
       NetPeerAddrsCurrent = addrs, NetPeersMax = length (Peers cfg),
       ListenAddrs = map (ma_String H) (host_Addrs H)\<rparr>)"

definition rpc_Peers :: "'ma host_view \<Rightarrow> string list" where
  "rpc_Peers H =
     map (\<lambda>c. ma_String H (RemoteMultiaddr c) @ ''/p2p/'' @ id_String H (RemotePeer c)) (Conns H)"

section \<open>Route\<close>

record RouteInfo =
  ri_Network :: IPNet
  TargetName :: string
  TargetAddr :: peer_id
  RelayAddr :: peer_id
  IsRelay :: bool
  IsConnected :: bool

text \<open>
  The inner loop over the streams of one connection: whether the route is relayed, the relay's
  address, and whether \<open>break ConnLoop\<close> was reached.
\<close>

fun stream_loop ::
  "'ma host_view \<Rightarrow> peer_id \<Rightarrow> 'ma \<Rightarrow> string list \<Rightarrow> bool \<times> peer_id \<Rightarrow> (bool \<times> peer_id) \<times> bool" where
  "stream_loop H target addr [] acc = (acc, False)"
| "stream_loop H target addr (s # ss) acc =
     (if s \<in> set Protocols then
        if is_circuit H addr then
          stream_loop H target addr ss
            (True, case p2p_value H addr of
                     None \<Rightarrow> snd acc
                   | Some ra \<Rightarrow> (case id_Decode H ra of Inl e \<Rightarrow> target | Inr p \<Rightarrow> p))
        else ((False, target), True)
      else stream_loop H target addr ss acc)"

fun conn_loop :: "'ma host_view \<Rightarrow> peer_id \<Rightarrow> 'ma conn list \<Rightarrow> bool \<times> peer_id \<Rightarrow> bool \<times> peer_id" where
  "conn_loop H target [] acc = acc"
| "conn_loop H target (c # cs) acc =
     (let (acc', broke) = stream_loop H target (RemoteMultiaddr c) (GetStreams c) acc
      in if broke then acc' else conn_loop H target cs acc')"

definition route_info :: "'ma host_view \<Rightarrow> RouteTableEntry \<Rightarrow> RouteInfo" where
  "route_info H rte =
     (let tid = ID (Target rte);
          connected = Connected H tid;
          (relay, relayAddr) =
            (if connected then conn_loop H tid (ConnsToPeer H tid) (False, tid) else (False, tid))
      in \<lparr>ri_Network = Network rte, TargetName = Name (Target rte), TargetAddr = tid,
          RelayAddr = relayAddr, IsRelay = relay, IsConnected = connected\<rparr>)"

definition AllIPv4 :: IPNet where
  "AllIPv4 = \<lparr>net_IP = [0, 0, 0, 0], net_Mask = CIDRMask 0 32\<rparr>"

definition AllIPv6 :: IPNet where
  "AllIPv6 = \<lparr>net_IP = [0, 0, 0, 0, 0, 0, 0, 0, 0, 0, 0, 0, 0, 0, 0, 0], net_Mask = CIDRMask 0 128\<rparr>"

definition route_show :: "'ma host_view \<Rightarrow> 'r ranger \<Rightarrow> ('m, 'key, 'r) Config \<Rightarrow> RouteInfo list res" where
  "route_show H R cfg =
     bind_res (check (CoveredNetworks R (ByRoute (PeerLookup cfg)) AllIPv4)) (\<lambda>allRoutes4.
     bind_res (check (CoveredNetworks R (ByRoute (PeerLookup cfg)) AllIPv6)) (\<lambda>allRoutes6.
       mapM_res (\<lambda>r. bind_res (assert_RTEPtr r) (\<lambda>rte. Inr (route_info H rte))) (allRoutes4 @ allRoutes6)))"

definition set_routes :: "'r \<Rightarrow> ('m, 'key, 'r) Config \<Rightarrow> ('m, 'key, 'r) Config" where
  "set_routes r cfg = cfg\<lparr>PeerLookup := (PeerLookup cfg)\<lparr>ByRoute := r\<rparr>\<rparr>"

text \<open>The state \<open>Route\<close> changes: the configuration's route table and the TUN device.\<close>

type_synonym ('m, 'key, 'r) rpc_state = "('m, 'key, 'r) Config \<times> link"

definition route_add ::
  "(peer_id \<Rightarrow> string) \<Rightarrow> netlink \<Rightarrow> 'r ranger \<Rightarrow> string list \<Rightarrow> ('m, 'key, 'r) rpc_state
     \<Rightarrow> unit res \<times> ('m, 'key, 'r) rpc_state" where
  "route_add str nl R args s =
     (if length args \<noteq> 2 then (Inl (Error (ErrExpectedArgs 2)), s)
      else case ParseCIDR (args ! 0) of
        Inl f \<Rightarrow> (Inl f, s)
      | Inr (_, network) \<Rightarrow>
          (case FindPeerByCLIRef str (Peers (fst s)) (args ! 1) of
             Inl f \<Rightarrow> (Inl f, s)
           | Inr None \<Rightarrow> (Inl (Error ErrNoSuchPeer), s)
           | Inr (Some target) \<Rightarrow>
               (case Apply (run_option nl) [Route network] (snd s) of
                  (Some err, t') \<Rightarrow> (Inl (Error err), (fst s, t'))
                | (None, t') \<Rightarrow>
                    (Inr (),
                     (set_routes (snd (rg_Insert R (ByRoute (PeerLookup (fst s)))
                         (RTEPtr \<lparr>rte_Net = network, Target = target\<rparr>))) (fst s), t')))))"

definition route_del ::
  "netlink \<Rightarrow> 'r ranger \<Rightarrow> string list \<Rightarrow> ('m, 'key, 'r) rpc_state
     \<Rightarrow> unit res \<times> ('m, 'key, 'r) rpc_state" where
  "route_del nl R args s =
     (if length args \<noteq> 1 then (Inl (Error (ErrExpectedArgs 1)), s)
      else case ParseCIDR (args ! 0) of
        Inl f \<Rightarrow> (Inl f, s)
      | Inr (_, network) \<Rightarrow>
          (case Apply (run_option nl) [RemoveRoute network] (snd s) of
             (Some err, t') \<Rightarrow> (Inl (Error err), (fst s, t'))
           | (None, t') \<Rightarrow>
               let (err, r') = rg_Remove R (ByRoute (PeerLookup (fst s))) network in
               (case err of
                  Some e \<Rightarrow> (Inl (Error e),
                     (set_routes r' (fst s), snd (Apply (run_option nl) [Route network] t')))
                | None \<Rightarrow> (Inr (), (set_routes r' (fst s), t')))))"

datatype route_reply = Routes "RouteInfo list" | Empty

definition rpc_Route ::
  "'ma host_view \<Rightarrow> netlink \<Rightarrow> 'r ranger \<Rightarrow> string \<Rightarrow> string list \<Rightarrow> ('m, 'key, 'r) rpc_state
     \<Rightarrow> route_reply res \<times> ('m, 'key, 'r) rpc_state" where
  "rpc_Route H nl R action args s =
     (if action = ''show'' then (bind_res (route_show H R (fst s)) (\<lambda>rs. Inr (Routes rs)), s)
      else if action = ''add'' then
        (let (r, s') = route_add (id_String H) nl R args s in (bind_res r (\<lambda>_. Inr Empty), s'))
      else if action = ''del'' then
        (let (r, s') = route_del nl R args s in (bind_res r (\<lambda>_. Inr Empty), s'))
      else (Inl (Error ErrNoSuchAction), s))"

section \<open>Server and client\<close>

datatype rpc_event =
    SetUmask nat
  | RemoveSocket string
  | Listen string
  | RestoreUmask
  | Accept

text \<open>
  \<open>RpcServer\<close> up to serving: \<open>remove_err\<close> is the error of \<open>os.Remove\<close> other than that the file is
  missing, \<open>listen_err\<close> that of \<open>Listen\<close>; both end the process.
\<close>

definition RpcServer :: "string option \<Rightarrow> bool \<Rightarrow> bool \<Rightarrow> rpc_event list \<times> unit res" where
  "RpcServer addr remove_err listen_err =
     (case addr of
        None \<Rightarrow> ([], Inl (Fatal ''Failed to parse multiaddr''))
      | Some a \<Rightarrow>
          if remove_err then ([SetUmask 7, RemoveSocket a], Inl (Fatal ''Could not remove old RPC socket''))
          else if listen_err then
            ([SetUmask 7, RemoveSocket a, Listen a, RestoreUmask], Inl (Fatal ''Failed to launch RPC server''))
          else ([SetUmask 7, RemoveSocket a, Listen a, RestoreUmask, Accept], Inr ()))"

text \<open>The client: a failed connection or call ends the process.\<close>

definition rpc_socket :: "string \<Rightarrow> string" where
  "rpc_socket ifname = ''/run/hyprspace-rpc.'' @ ifname @ ''.sock''"

definition rpc_call :: "(string \<Rightarrow> go_error + 'c) \<Rightarrow> ('c \<Rightarrow> string \<Rightarrow> go_error + 'rep) \<Rightarrow> string \<Rightarrow> string \<Rightarrow> 'rep res" where
  "rpc_call dial call ifname method =
     (case dial (rpc_socket ifname) of
        Inl e \<Rightarrow> Inl (Fatal ''Failed to connect to RPC server'')
      | Inr c \<Rightarrow> (case call c method of Inl e \<Rightarrow> Inl (Fatal ''RPC call failed'') | Inr r \<Rightarrow> Inr r))"

section \<open>Facts\<close>

lemma Status_loop_eq:
  "Status_loop H ps n addrs =
     (n + length (filter (\<lambda>p. Connected H (ID p)) ps),
      addrs @ concat (map (\<lambda>p. map (peer_line H p) (ConnsToPeer H (ID p))) (filter (\<lambda>p. Connected H (ID p)) ps)))"
  by (induction ps arbitrary: n addrs) simp_all

text \<open>A connection that carries tunnel traffic.\<close>

definition carries :: "'ma conn \<Rightarrow> bool" where
  "carries c \<longleftrightarrow> (\<exists>s \<in> set (GetStreams c). s \<in> set Protocols)"

lemma stream_loop_idle:
  "\<forall>s \<in> set ss. s \<notin> set Protocols \<Longrightarrow> stream_loop H target addr ss acc = (acc, False)"
  by (induction ss) auto

lemma stream_loop_direct:
  "\<exists>s \<in> set ss. s \<in> set Protocols \<Longrightarrow> \<not> is_circuit H addr \<Longrightarrow>
     stream_loop H target addr ss acc = ((False, target), True)"
  by (induction ss) auto

lemma stream_loop_circuit_True:
  "is_circuit H addr \<Longrightarrow> fst acc \<Longrightarrow> \<exists>ra. stream_loop H target addr ss acc = ((True, ra), False)"
  by (induction ss arbitrary: acc) (auto simp: prod_eq_iff)

lemma stream_loop_circuit:
  "\<exists>s \<in> set ss. s \<in> set Protocols \<Longrightarrow> is_circuit H addr \<Longrightarrow>
     \<exists>ra. stream_loop H target addr ss acc = ((True, ra), False)"
  by (induction ss) (auto intro: stream_loop_circuit_True)

lemma conn_loop_direct:
  assumes "\<exists>c \<in> set cs. carries c \<and> \<not> is_circuit H (RemoteMultiaddr c)"
  shows "conn_loop H target cs acc = (False, target)"
  using assms
proof (induction cs arbitrary: acc)
  case (Cons c cs)
  show ?case
  proof (cases "carries c \<and> \<not> is_circuit H (RemoteMultiaddr c)")
    case True
    then show ?thesis
      using stream_loop_direct [of "GetStreams c" H "RemoteMultiaddr c" target acc] by (simp add: carries_def)
  next
    case False
    then have "\<exists>a. stream_loop H target (RemoteMultiaddr c) (GetStreams c) acc = (a, False)"
      using stream_loop_idle [of "GetStreams c" H target "RemoteMultiaddr c" acc]
        stream_loop_circuit [of "GetStreams c" H "RemoteMultiaddr c" target acc]
      unfolding carries_def by blast
    then show ?thesis using Cons False by auto
  qed
qed simp

lemma conn_loop_relayed:
  assumes "\<forall>c \<in> set cs. carries c \<longrightarrow> is_circuit H (RemoteMultiaddr c)"
  shows "fst (conn_loop H target cs acc) \<longleftrightarrow> fst acc \<or> (\<exists>c \<in> set cs. carries c)"
  using assms
proof (induction cs arbitrary: acc)
  case (Cons c cs)
  show ?case
  proof (cases "carries c")
    case True
    then obtain ra where "stream_loop H target (RemoteMultiaddr c) (GetStreams c) acc = ((True, ra), False)"
      using stream_loop_circuit [of "GetStreams c" H "RemoteMultiaddr c" target acc] Cons.prems
      by (auto simp: carries_def)
    then show ?thesis using Cons True by simp
  next
    case False
    then have "stream_loop H target (RemoteMultiaddr c) (GetStreams c) acc = (acc, False)"
      using stream_loop_idle [of "GetStreams c" H target "RemoteMultiaddr c" acc] by (auto simp: carries_def)
    then show ?thesis using Cons False by simp
  qed
qed simp

lemma conn_loop_none:
  "\<forall>c \<in> set cs. \<not> carries c \<Longrightarrow> conn_loop H target cs acc = acc"
  by (induction cs) (auto simp: carries_def stream_loop_idle)

end
