(* ===== verification/RpcProps.thy ===== *)
theory RpcProps
  imports Rpc ConfigProps
begin

text \<open>
  Properties of the RPC handlers: how a route is reported, and what adding and removing routes does
  to the route table and to the kernel's routes.
\<close>

section \<open>Reporting\<close>

text \<open>
  A route is reported as relayed exactly when its target is connected, some connection to it
  carries a tunnel stream, and every connection that carries one goes through a circuit relay; a route
  that is not relayed names its target as the next hop.
\<close>

theorem route_info_relay:
  "(IsRelay (route_info H rte) \<longleftrightarrow> Connected H (ID (Target rte))
      \<and> (\<exists>c \<in> set (ConnsToPeer H (ID (Target rte))). carries c)
      \<and> (\<forall>c \<in> set (ConnsToPeer H (ID (Target rte))). carries c \<longrightarrow> is_circuit H (RemoteMultiaddr c)))
   \<and> (\<not> IsRelay (route_info H rte) \<longrightarrow> RelayAddr (route_info H rte) = ID (Target rte))
   \<and> IsConnected (route_info H rte) = Connected H (ID (Target rte))
   \<and> ri_Network (route_info H rte) = rte_Net rte"
proof -
  let ?t = "ID (Target rte)" and ?cs = "ConnsToPeer H (ID (Target rte))"
  consider "\<exists>c \<in> set ?cs. carries c \<and> \<not> is_circuit H (RemoteMultiaddr c)"
    | "\<forall>c \<in> set ?cs. \<not> carries c"
    | "\<forall>c \<in> set ?cs. carries c \<longrightarrow> is_circuit H (RemoteMultiaddr c)" "\<exists>c \<in> set ?cs. carries c"
    by blast
  then show ?thesis
  proof cases
    case 1
    then show ?thesis
      using conn_loop_direct [OF 1, of ?t "(False, ?t)"]
      by (auto simp: route_info_def Network_def Let_def)
  next
    case 2
    then show ?thesis
      using conn_loop_none [OF 2, of H ?t "(False, ?t)"]
      by (auto simp: route_info_def Network_def Let_def)
  next
    case 3
    then show ?thesis
      using conn_loop_relayed [OF 3(1), of ?t "(False, ?t)"]
      by (auto simp: route_info_def Network_def Let_def split: prod.splits)
  qed
qed

definition wit_host :: "bool host_view" where
  "wit_host = \<lparr>host_ID = [1], Connected = (\<lambda>p. p = [7]), Conns = [],
     ConnsToPeer = (\<lambda>p. [\<lparr>RemoteMultiaddr = True, RemotePeer = p, GetStreams = [''/hyprspace/1'']\<rparr>]),
     host_Addrs = [], LatencyEWMA = (\<lambda>p. ''1ms''), ma_String = (\<lambda>a. ''/x''), id_String = (\<lambda>p. if p = [7] then ''Qm7'' else ''Qm''),
     is_circuit = id, p2p_value = (\<lambda>a. Some ''r''), id_Decode = (\<lambda>s. Inr [9])\<rparr>"

theorem route_info_relay_witness:
  "IsRelay (route_info wit_host \<lparr>rte_Net = wit_net8, Target = wit_peer [7] ''a''\<rparr>)"
  using route_info_relay [of wit_host "\<lparr>rte_Net = wit_net8, Target = wit_peer [7] ''a''\<rparr>"]
  by (simp add: wit_host_def wit_peer_def carries_def Protocols_def ProtocolV1_def)

section \<open>Adding and removing routes\<close>

lemma apply_route:
  "Apply (run_option nl) [Route n] t = (None, t') \<Longrightarrow> t' = t\<lparr>link_routes := link_routes t @ [(n, 3000)]\<rparr>"
  by (auto simp: addRoute_def with_link_def split: option.splits prod.splits)

lemma apply_remove:
  "Apply (run_option nl) [RemoveRoute n] t = (None, t')
     \<Longrightarrow> t' = t\<lparr>link_routes := remove1 (n, 3000) (link_routes t)\<rparr>"
  by (auto simp: delRoute_def with_link_def split: option.splits prod.splits)

lemma apply_failed:
  "Apply (run_option nl) [Route n] t = (Some e, t') \<Longrightarrow> t' = t"
  "Apply (run_option nl) [RemoveRoute n] t = (Some e, t') \<Longrightarrow> t' = t"
  by (auto simp: addRoute_def delRoute_def with_link_def split: option.splits prod.splits)

lemma route_addE:
  assumes "rpc_Route H nl R ''add'' [cidr, ref] (cfg, dev) = (Inr rep, (cfg', dev'))"
  obtains addr network target where "ParseCIDR cidr = Inr (addr, network)"
    "FindPeerByCLIRef (id_String H) (Peers cfg) ref = Inr (Some target)"
    "dev' = dev\<lparr>link_routes := link_routes dev @ [(network, 3000)]\<rparr>"
    "cfg' = set_routes (snd (rg_Insert R (ByRoute (PeerLookup cfg))
        (RTEPtr \<lparr>rte_Net = network, Target = target\<rparr>))) cfg"
proof -
  have add: "route_add (id_String H) nl R [cidr, ref] (cfg, dev) = (Inr (), (cfg', dev'))"
    using assms by (auto simp: rpc_Route_def bind_res_def split: prod.splits sum.splits)
  then obtain addr network where c: "ParseCIDR cidr = Inr (addr, network)"
    by (cases "ParseCIDR cidr") (auto simp: route_add_def)
  moreover obtain target where t: "FindPeerByCLIRef (id_String H) (Peers cfg) ref = Inr (Some target)"
    using add c by (auto simp: route_add_def split: sum.splits option.splits)
  moreover obtain err d where d: "Apply (run_option nl) [Route network] dev = (err, d)" by force
  moreover have "err = None"
    using add c t d by (cases err) (simp_all add: route_add_def del: Apply.simps)
  ultimately show thesis
    using that add apply_route [of nl network dev d] by (simp add: route_add_def del: Apply.simps)
qed

lemma set_routes_simps [simp]:
  "ByRoute (PeerLookup (set_routes r cfg)) = r" "Peers (set_routes r cfg) = Peers cfg"
  by (simp_all add: set_routes_def)

text \<open>The table after a successful \<open>add\<close>.\<close>

lemma add_table:
  assumes "ranger_spec R good ents" and "good (ByRoute (PeerLookup cfg))"
    and "route_table_ok (Peers cfg) (ents (ByRoute (PeerLookup cfg)))"
    and "plain_net network" and "target \<in> set (Peers cfg)"
    and "cfg' = set_routes (snd (rg_Insert R (ByRoute (PeerLookup cfg))
        (RTEPtr \<lparr>rte_Net = network, Target = target\<rparr>))) cfg"
  shows "good (ByRoute (PeerLookup cfg'))"
    and "route_table_ok (Peers cfg') (ents (ByRoute (PeerLookup cfg')))"
    and "set (ents (ByRoute (PeerLookup cfg'))) = insert (RTEPtr \<lparr>rte_Net = network, Target = target\<rparr>)
        {x \<in> set (ents (ByRoute (PeerLookup cfg))). entry_Network x \<noteq> network}"
proof -
  let ?e = "RTEPtr \<lparr>rte_Net = network, Target = target\<rparr>"
  have en: "entry_Network ?e = network" by (simp add: entry_Network_def Network_def)
  have ins: "good (snd (rg_Insert R (ByRoute (PeerLookup cfg)) ?e))"
    "set (ents (snd (rg_Insert R (ByRoute (PeerLookup cfg)) ?e)))
      = insert ?e {x \<in> set (ents (ByRoute (PeerLookup cfg))). entry_Network x \<noteq> network}"
    using ranger_insert [OF assms(1,2), of ?e] assms(4) en by auto
  then show "good (ByRoute (PeerLookup cfg'))"
    and "set (ents (ByRoute (PeerLookup cfg'))) = insert ?e
        {x \<in> set (ents (ByRoute (PeerLookup cfg))). entry_Network x \<noteq> network}"
    by (simp_all add: assms(6))
  then show "route_table_ok (Peers cfg') (ents (ByRoute (PeerLookup cfg')))"
    using assms(3-5) by (auto simp: route_table_ok_def assms(6))
qed

text \<open>
  C12: After a successful \<open>add\<close> of a route, the kernel routes the network to the device, the table's
  invariants still hold, and packets to an address of the new network that no other route contains go
  to the peer the reference names; but an address that another route contains too makes the next
  look-up panic.
\<close>

theorem route_add_then_lookup:
  assumes "ranger_spec R good ents" and "good (ByRoute (PeerLookup cfg))"
    and "route_table_ok (Peers cfg) (ents (ByRoute (PeerLookup cfg)))"
    and "rpc_Route H nl R ''add'' [cidr, ref] (cfg, dev) = (Inr rep, (cfg', dev'))"
    and "ParseCIDR cidr = Inr (addr, network)" and "plain_net network"
    and "length ip = 4 \<or> length ip = 16" and "IPNet_Contains network ip"
  shows "(network, 3000) \<in> set (link_routes dev')
    \<and> good (ByRoute (PeerLookup cfg')) \<and> route_table_ok (Peers cfg') (ents (ByRoute (PeerLookup cfg')))
    \<and> (\<exists>target. FindPeerByCLIRef (id_String H) (Peers cfg) ref = Inr (Some target)
        \<and> FindRouteForIP R cfg' ip =
            (if \<exists>e \<in> set (ents (ByRoute (PeerLookup cfg))).
                  entry_Network e \<noteq> network \<and> IPNet_Contains (entry_Network e) ip
             then Inl (Panic TypeAssertion)
             else Inr (Some \<lparr>rte_Net = network, Target = target\<rparr>)))"
proof -
  obtain target where t: "FindPeerByCLIRef (id_String H) (Peers cfg) ref = Inr (Some target)"
    and dev: "(network, 3000) \<in> set (link_routes dev')"
    and cfg': "cfg' = set_routes (snd (rg_Insert R (ByRoute (PeerLookup cfg))
        (RTEPtr \<lparr>rte_Net = network, Target = target\<rparr>))) cfg"
    using assms(4,5) by (elim route_addE) auto
  let ?e = "RTEPtr \<lparr>rte_Net = network, Target = target\<rparr>"
  let ?S = "{e \<in> set (ents (ByRoute (PeerLookup cfg'))). IPNet_Contains (entry_Network e) ip}"
  let ?O = "{e \<in> set (ents (ByRoute (PeerLookup cfg))). entry_Network e \<noteq> network \<and> IPNet_Contains (entry_Network e) ip}"
  note tab = add_table [OF assms(1-3,6) FindPeerByCLIRef_mem [OF t] cfg']
  have en: "entry_Network ?e = network" by (simp add: entry_Network_def Network_def)
  have S: "?S = insert ?e ?O" using tab(3) assms(8) en by auto
  have "?e \<notin> ?O" using en by auto
  then have card: "card ?S = Suc (card ?O)" using S by (simp add: card_insert_disjoint)
  note out = FindRouteForIP_outcomes [OF assms(1) tab(1) assms(7) tab(2)]
  have "FindRouteForIP R cfg' ip = (if ?O \<noteq> {} then Inl (Panic TypeAssertion)
      else Inr (Some \<lparr>rte_Net = network, Target = target\<rparr>))"
  proof (cases "?O = {}")
    case True
    then have "card ?S = Suc 0" using card by simp
    then obtain rte where "FindRouteForIP R cfg' ip = Inr (Some rte)" "?S = {RTEPtr rte}"
      using out(2) by blast
    then show ?thesis using S True by auto
  next
    case False
    then have "0 < card ?O" by (simp add: card_gt_0_iff)
    then have "1 < card ?S" using card by simp
    then show ?thesis using out(3) False by simp
  qed
  then show ?thesis using t dev tab(1,2) by auto
qed

definition wit_nl :: netlink where
  "wit_nl = \<lparr>nl_LinkByName = (\<lambda>n. None), nl_ParseAddr = (\<lambda>a. None), nl_refuses = (\<lambda>op l. None)\<rparr>"

definition wit_link :: link where
  "wit_link = \<lparr>link_name = ''hs0'', link_mtu = 1420, link_addrs = [], link_routes = [], link_up = True\<rparr>"

definition wit_routes :: "(unit, unit, ranger_entry list) Config" where
  "wit_routes = wit_cfg [wit_peer [7] ''a''] []"

lemma wit_add:
  "rpc_Route wit_host wit_nl list_ranger ''add'' [''10.0.0.0/8'', ''@a''] (wit_routes, wit_link)
     = (Inr Empty, (set_routes [RTEPtr \<lparr>rte_Net = wit_net8, Target = wit_peer [7] ''a''\<rparr>] wit_routes,
         wit_link\<lparr>link_routes := [(wit_net8, 3000)]\<rparr>))"
proof -
  have c: "ParseCIDR ''10.0.0.0/8'' = Inr ([0, 0, 0, 0, 0, 0, 0, 0, 0, 0, 0xff, 0xff, 10, 0, 0, 0], wit_net8)"
    by code_simp
  have t: "FindPeerByCLIRef (id_String wit_host) (Peers wit_routes) ''@a'' = Inr (Some (wit_peer [7] ''a''))"
    by (simp add: FindPeerByCLIRef_def HasPrefix_def TrimPrefix_def wit_routes_def wit_cfg_def wit_peer_def)
  have a: "Apply (run_option wit_nl) [Route wit_net8] wit_link = (None, wit_link\<lparr>link_routes := [(wit_net8, 3000)]\<rparr>)"
    by (simp add: addRoute_def with_link_def wit_nl_def wit_link_def)
  have "rg_Insert list_ranger (ByRoute (PeerLookup wit_routes)) e = (None, [e])" for e
    by (simp add: list_ranger_def wit_routes_def wit_cfg_def)
  then show ?thesis
    by (simp add: rpc_Route_def route_add_def c t a del: Apply.simps)
qed

theorem route_add_then_lookup_witness:
  "FindRouteForIP list_ranger (set_routes [RTEPtr \<lparr>rte_Net = wit_net8, Target = wit_peer [7] ''a''\<rparr>] wit_routes)
     [10, 1, 2, 3] = Inr (Some \<lparr>rte_Net = wit_net8, Target = wit_peer [7] ''a''\<rparr>)"
proof -
  have "distinct (ByRoute (PeerLookup wit_routes))"
    "route_table_ok (Peers wit_routes) (ByRoute (PeerLookup wit_routes))"
    and empty: "set (ByRoute (PeerLookup wit_routes)) = {}"
    by (simp_all add: wit_routes_def wit_cfg_def route_table_ok_def)
  moreover have "ParseCIDR ''10.0.0.0/8'' = Inr ([0, 0, 0, 0, 0, 0, 0, 0, 0, 0, 0xff, 0xff, 10, 0, 0, 0], wit_net8)"
    "IPNet_Contains wit_net8 [10, 1, 2, 3]"
    by code_simp+
  ultimately obtain target where
    "FindPeerByCLIRef (id_String wit_host) (Peers wit_routes) ''@a'' = Inr (Some target)"
    "FindRouteForIP list_ranger (set_routes [RTEPtr \<lparr>rte_Net = wit_net8, Target = wit_peer [7] ''a''\<rparr>] wit_routes)
      [10, 1, 2, 3] = Inr (Some \<lparr>rte_Net = wit_net8, Target = target\<rparr>)"
    using route_add_then_lookup [OF list_ranger_spec _ _ wit_add _ plain_wit_net8, of _ "[10, 1, 2, 3]"]
    by auto
  then show ?thesis
    by (simp add: FindPeerByCLIRef_def HasPrefix_def TrimPrefix_def wit_routes_def wit_cfg_def wit_peer_def)
qed

text \<open>
  A \<open>Route\<close> call that fails, for whatever reason and whatever its action, changes neither the
  route table nor the device, provided removing an entry from the table does not itself fail.
\<close>

theorem failed_route_call_changes_nothing:
  assumes "\<forall>a n. ParseCIDR (args ! 0) = Inr (a, n) \<longrightarrow> fst (rg_Remove R (ByRoute (PeerLookup cfg)) n) = None"
    and "rpc_Route H nl R action args (cfg, dev) = (Inl f, s')"
  shows "s' = (cfg, dev)"
proof -
  have add: "route_add str nl R args (cfg, dev) = (Inl f, s') \<Longrightarrow> s' = (cfg, dev)" for str f s'
    using apply_failed(1)
    by (fastforce simp: route_add_def simp del: Apply.simps split: if_splits sum.splits option.splits prod.splits)
  have rm: "rg_Remove R (ByRoute (PeerLookup cfg)) n \<noteq> (Some e, r)" if "ParseCIDR (args ! 0) = Inr (a, n)" for a n e r
    using assms(1) that by (metis fst_conv option.distinct(1))
  have del: "route_del nl R args (cfg, dev) = (Inl f, s') \<Longrightarrow> s' = (cfg, dev)" for f s'
    using rm by (auto simp: route_del_def Let_def simp del: Apply.simps dest: apply_failed(2)
        split: if_splits sum.splits option.splits prod.splits)
  show ?thesis
    using assms(2) add del by (auto simp: rpc_Route_def bind_res_def split: if_splits prod.splits sum.splits)
qed

theorem failed_route_call_changes_nothing_witness:
  "rpc_Route wit_host wit_nl list_ranger ''add'' [''10.0.0.0/8''] (wit_routes, wit_link)
     = (Inl (Error (ErrExpectedArgs 2)), (wit_routes, wit_link))"
proof -
  have "\<exists>s'. rpc_Route wit_host wit_nl list_ranger ''add'' [''10.0.0.0/8''] (wit_routes, wit_link)
      = (Inl (Error (ErrExpectedArgs 2)), s')"
    by (simp add: rpc_Route_def route_add_def)
  moreover have "\<forall>a n. ParseCIDR ([''10.0.0.0/8''] ! 0) = Inr (a, n) \<longrightarrow>
      fst (rg_Remove list_ranger (ByRoute (PeerLookup wit_routes)) n) = None"
    by (simp add: list_ranger_def)
  ultimately show ?thesis using failed_route_call_changes_nothing by metis
qed

text \<open>
  Adding a route to a network the table does not have and then removing it gives back the same
  table entries and, if the kernel had no such route before, the same kernel routes.
\<close>

theorem route_add_del_roundtrip:
  assumes "ranger_spec R good ents" and "good (ByRoute (PeerLookup cfg))"
    and "nl_willing nl" and "ParseCIDR cidr = Inr (addr, network)" and "plain_net network"
    and "\<forall>e \<in> set (ents (ByRoute (PeerLookup cfg))). entry_Network e \<noteq> network"
    and "(network, 3000) \<notin> set (link_routes dev)"
    and "rpc_Route H nl R ''add'' [cidr, ref] (cfg, dev) = (Inr rep, s1)"
  shows "\<exists>cfg2. rpc_Route H nl R ''del'' [cidr] s1 = (Inr Empty, (cfg2, dev))
    \<and> set (ents (ByRoute (PeerLookup cfg2))) = set (ents (ByRoute (PeerLookup cfg)))
    \<and> Peers cfg2 = Peers cfg"
proof -
  obtain cfg1 dev1 where s1: "s1 = (cfg1, dev1)" by force
  from assms(8) [unfolded s1] obtain target where
    dev1: "dev1 = dev\<lparr>link_routes := link_routes dev @ [(network, 3000)]\<rparr>" and
    cfg1: "cfg1 = set_routes (snd (rg_Insert R (ByRoute (PeerLookup cfg))
        (RTEPtr \<lparr>rte_Net = network, Target = target\<rparr>))) cfg"
    using assms(4) by (elim route_addE) auto
  let ?e = "RTEPtr \<lparr>rte_Net = network, Target = target\<rparr>"
  have en: "entry_Network ?e = network" by (simp add: entry_Network_def Network_def)
  have ins: "good (ByRoute (PeerLookup cfg1))"
    "set (ents (ByRoute (PeerLookup cfg1))) = insert ?e (set (ents (ByRoute (PeerLookup cfg))))"
    using ranger_insert [OF assms(1,2), of ?e] assms(5,6) en cfg1 by auto
  obtain r' where rm: "rg_Remove R (ByRoute (PeerLookup cfg1)) network = (None, r')"
    "set (ents r') = set (ents (ByRoute (PeerLookup cfg)))"
    using ranger_remove [OF assms(1) ins(1) assms(5)] ins(2) assms(6) en
    by (cases "rg_Remove R (ByRoute (PeerLookup cfg1)) network") auto
  have "Apply (run_option nl) [RemoveRoute network] dev1 = (None, dev)"
    using assms(3,7) by (simp add: dev1 delRoute_def with_link_def nl_willing_def remove1_append)
  then have "rpc_Route H nl R ''del'' [cidr] s1 = (Inr Empty, (set_routes r' cfg1, dev))"
    using rm(1) by (simp add: rpc_Route_def route_del_def s1 assms(4) del: Apply.simps)
  then show ?thesis using rm(2) by (auto simp: cfg1)
qed

theorem route_add_del_roundtrip_witness:
  "\<exists>cfg2. rpc_Route wit_host wit_nl list_ranger ''del'' [''10.0.0.0/8'']
      (set_routes [RTEPtr \<lparr>rte_Net = wit_net8, Target = wit_peer [7] ''a''\<rparr>] wit_routes,
       wit_link\<lparr>link_routes := [(wit_net8, 3000)]\<rparr>) = (Inr Empty, (cfg2, wit_link))
    \<and> set (ByRoute (PeerLookup cfg2)) = {}"
proof -
  have "distinct (ByRoute (PeerLookup wit_routes))" "set (ByRoute (PeerLookup wit_routes)) = {}"
    "nl_willing wit_nl" "(wit_net8, 3000) \<notin> set (link_routes wit_link)"
    by (simp_all add: wit_routes_def wit_cfg_def nl_willing_def wit_nl_def wit_link_def)
  moreover have "ParseCIDR ''10.0.0.0/8'' = Inr ([0, 0, 0, 0, 0, 0, 0, 0, 0, 0, 0xff, 0xff, 10, 0, 0, 0], wit_net8)"
    by code_simp
  ultimately show ?thesis
    using route_add_del_roundtrip [OF list_ranger_spec _ _ _ plain_wit_net8 _ _ wit_add] by auto
qed

section \<open>The route table as an abstract map\<close>

text \<open>
  The specification the \<open>Route\<close> calls implement: a relation between networks and peers that has at most
  the last added peer for a network, and the list of kernel routes.
\<close>

type_synonym abs_routes = "(IPNet \<times> peer_id) set \<times> (IPNet \<times> nat) list"

definition abs_add :: "IPNet \<Rightarrow> peer_id \<Rightarrow> abs_routes \<Rightarrow> abs_routes" where
  "abs_add n p = (\<lambda>(T, K). (insert (n, p) {x \<in> T. fst x \<noteq> n}, K @ [(n, 3000)]))"

definition abs_del :: "IPNet \<Rightarrow> abs_routes \<Rightarrow> abs_routes" where
  "abs_del n = (\<lambda>(T, K). ({x \<in> T. fst x \<noteq> n}, remove1 (n, 3000) K))"

definition abs_call :: "(peer_id \<Rightarrow> string) \<Rightarrow> Peer list \<Rightarrow> string \<times> string list \<Rightarrow> abs_routes \<Rightarrow> abs_routes" where
  "abs_call str peers c =
     (case (fst c, ParseCIDR (snd c ! 0), FindPeerByCLIRef str peers (snd c ! 1)) of
        (act, Inr (_, n), target) \<Rightarrow>
          if act = ''add'' then (case target of Inr (Some t) \<Rightarrow> abs_add n (ID t) | _ \<Rightarrow> (\<lambda>a. a))
          else if act = ''del'' then abs_del n else (\<lambda>a. a)
      | _ \<Rightarrow> (\<lambda>a. a))"

fun entry_peer :: "ranger_entry \<Rightarrow> peer_id" where
  "entry_peer (RTEPtr r) = ID (Target r)"
| "entry_peer (RTEVal r) = ID (Target r)"

definition abs_state :: "('r \<Rightarrow> ranger_entry list) \<Rightarrow> ('m, 'key, 'r) rpc_state \<Rightarrow> abs_routes" where
  "abs_state ents s =
     ((\<lambda>e. (entry_Network e, entry_peer e)) ` set (ents (ByRoute (PeerLookup (fst s)))), link_routes (snd s))"

text \<open>A sequence of calls, with their results.\<close>

fun rpc_run ::
  "'ma host_view \<Rightarrow> netlink \<Rightarrow> 'r ranger \<Rightarrow> (string \<times> string list) list \<Rightarrow> ('m, 'key, 'r) rpc_state
    \<Rightarrow> route_reply res list \<times> ('m, 'key, 'r) rpc_state" where
  "rpc_run H nl R [] s = ([], s)"
| "rpc_run H nl R (c # cs) s =
     (let (r, s1) = rpc_Route H nl R (fst c) (snd c) s; (rs, s2) = rpc_run H nl R cs s1 in (r # rs, s2))"

definition rpc_inv :: "('r \<Rightarrow> bool) \<Rightarrow> ('r \<Rightarrow> ranger_entry list) \<Rightarrow> ('m, 'key, 'r) rpc_state \<Rightarrow> bool" where
  "rpc_inv good ents s \<longleftrightarrow> good (ByRoute (PeerLookup (fst s)))
     \<and> route_table_ok (Peers (fst s)) (ents (ByRoute (PeerLookup (fst s))))"

definition plain_call :: "string \<times> string list \<Rightarrow> bool" where
  "plain_call c \<longleftrightarrow> (\<forall>a n. ParseCIDR (snd c ! 0) = Inr (a, n) \<longrightarrow> plain_net n)"

lemma entry_new [simp]:
  "entry_Network (RTEPtr \<lparr>rte_Net = n, Target = t\<rparr>) = n" "entry_peer (RTEPtr \<lparr>rte_Net = n, Target = t\<rparr>) = ID t"
  by (simp_all add: entry_Network_def Network_def)

lemma add_refines:
  assumes "ranger_spec R good ents" and "rpc_inv good ents s" and "plain_call (''add'', args)"
    and "route_add str nl R args s = (Inr u, s')"
  shows "rpc_inv good ents s' \<and> Peers (fst s') = Peers (fst s)
    \<and> abs_state ents s' = abs_call str (Peers (fst s)) (''add'', args) (abs_state ents s)"
proof -
  obtain cfg dev where s: "s = (cfg, dev)" by force
  have len: "length args = 2" using assms(4) by (auto simp: route_add_def split: if_splits)
  obtain a n where c: "ParseCIDR (args ! 0) = Inr (a, n)"
    using assms(4) len by (cases "ParseCIDR (args ! 0)") (auto simp: route_add_def)
  obtain t where t: "FindPeerByCLIRef str (Peers cfg) (args ! 1) = Inr (Some t)"
    using assms(4) len c s by (auto simp: route_add_def split: sum.splits option.splits)
  obtain err d where d: "Apply (run_option nl) [Route n] dev = (err, d)" by force
  have "err = None" using assms(4) len c s t d by (cases err) (simp_all add: route_add_def del: Apply.simps)
  then have dev': "d = dev\<lparr>link_routes := link_routes dev @ [(n, 3000)]\<rparr>"
    and s': "s' = (set_routes (snd (rg_Insert R (ByRoute (PeerLookup cfg)) (RTEPtr \<lparr>rte_Net = n, Target = t\<rparr>))) cfg, d)"
    using assms(4) len c s t d apply_route by (simp_all add: route_add_def del: Apply.simps)
  have "plain_net n" using assms(3) c by (simp add: plain_call_def)
  note tab = add_table [OF assms(1) _ _ this FindPeerByCLIRef_mem [OF t] refl]
  show ?thesis
    using tab assms(2) c t dev' by (auto simp: rpc_inv_def s s' abs_state_def abs_call_def abs_add_def)
qed

lemma del_refines:
  assumes "ranger_spec R good ents" and "rpc_inv good ents s" and "plain_call (''del'', args)"
    and "route_del nl R args s = (Inr u, s')"
  shows "rpc_inv good ents s' \<and> Peers (fst s') = Peers (fst s)
    \<and> abs_state ents s' = abs_call str (Peers (fst s)) (''del'', args) (abs_state ents s)"
proof -
  obtain cfg dev where s: "s = (cfg, dev)" by force
  have len: "length args = 1" using assms(4) by (auto simp: route_del_def split: if_splits)
  obtain a n where c: "ParseCIDR (args ! 0) = Inr (a, n)"
    using assms(4) len by (cases "ParseCIDR (args ! 0)") (auto simp: route_del_def)
  obtain err d where d: "Apply (run_option nl) [RemoveRoute n] dev = (err, d)" by force
  have e: "err = None" using assms(4) len c s d by (cases err) (simp_all add: route_del_def del: Apply.simps)
  have rm: "fst (rg_Remove R (ByRoute (PeerLookup cfg)) n) = None" "good (snd (rg_Remove R (ByRoute (PeerLookup cfg)) n))"
    "set (ents (snd (rg_Remove R (ByRoute (PeerLookup cfg)) n)))
      = {x \<in> set (ents (ByRoute (PeerLookup cfg))). entry_Network x \<noteq> n}"
    using ranger_remove [OF assms(1)] assms(2,3) c by (auto simp: rpc_inv_def plain_call_def s)
  have dev': "d = dev\<lparr>link_routes := remove1 (n, 3000) (link_routes dev)\<rparr>" using d e apply_remove by simp
  have s': "s' = (set_routes (snd (rg_Remove R (ByRoute (PeerLookup cfg)) n)) cfg, d)"
    using assms(4) len c s d e rm(1)
    by (cases "rg_Remove R (ByRoute (PeerLookup cfg)) n") (simp add: route_del_def del: Apply.simps)
  show ?thesis
    using rm assms(2) c dev' by (auto simp: rpc_inv_def s s' abs_state_def abs_call_def abs_del_def route_table_ok_def)
qed

lemma call_refines:
  assumes "ranger_spec R good ents" and "rpc_inv good ents s" and "plain_call c"
    and "rpc_Route H nl R (fst c) (snd c) s = (r, s')"
  shows "rpc_inv good ents s' \<and> Peers (fst s') = Peers (fst s)
    \<and> abs_state ents s' = (if isl r then abs_state ents s else abs_call (id_String H) (Peers (fst s)) c (abs_state ents s))"
proof (cases r)
  case (Inl f)
  obtain cfg dev where s: "s = (cfg, dev)" by force
  have "\<forall>a n. ParseCIDR (snd c ! 0) = Inr (a, n) \<longrightarrow> fst (rg_Remove R (ByRoute (PeerLookup cfg)) n) = None"
    using ranger_remove [OF assms(1)] assms(2,3) by (auto simp: rpc_inv_def plain_call_def s)
  then have "s' = s" using failed_route_call_changes_nothing assms(4) Inl s by blast
  then show ?thesis using assms(2) Inl by simp
next
  case (Inr rep)
  obtain act args where c: "c = (act, args)" by force
  consider "act = ''add''" | "act = ''del''" | "act = ''show''" "s' = s"
    using assms(4) Inr c by (auto simp: rpc_Route_def split: if_splits)
  then show ?thesis
  proof cases
    case 1
    then have "route_add (id_String H) nl R args s = (Inr (), s')"
      using assms(4) Inr c by (auto simp: rpc_Route_def bind_res_def split: prod.splits sum.splits)
    then show ?thesis using add_refines [OF assms(1,2)] assms(3) Inr c 1 by simp
  next
    case 2
    then have "route_del nl R args s = (Inr (), s')"
      using assms(4) Inr c by (auto simp: rpc_Route_def bind_res_def split: prod.splits sum.splits)
    then show ?thesis using del_refines [OF assms(1,2)] assms(3) Inr c 2 by simp
  next
    case 3
    then show ?thesis using assms(2) Inr c by (simp add: abs_call_def split: sum.split prod.split)
  qed
qed

text \<open>
  C4: The \<open>Route\<close> calls implement an abstract table: after any sequence of calls, whatever they are and
  whether they succeed, the trie and the kernel hold exactly what the successful \<open>add\<close> and \<open>del\<close> calls,
  in their order, make of the abstract table; failed calls leave no trace, and every entry still belongs
  to a configured peer.
\<close>

theorem route_calls_refine:
  assumes "ranger_spec R good ents" and "rpc_inv good ents s" and "\<forall>c \<in> set calls. plain_call c"
    and "rpc_run H nl R calls s = (rs, s')"
  shows "rpc_inv good ents s' \<and> Peers (fst s') = Peers (fst s)
    \<and> abs_state ents s' = fold (abs_call (id_String H) (Peers (fst s)))
        (map fst (filter (\<lambda>(c, r). \<not> isl r) (zip calls rs))) (abs_state ents s)"
  using assms(2-4)
proof (induction calls arbitrary: s rs)
  case (Cons c calls)
  obtain r s1 where r: "rpc_Route H nl R (fst c) (snd c) s = (r, s1)" by (metis surj_pair)
  obtain rs' where rs': "rpc_run H nl R calls s1 = (rs', s')" "rs = r # rs'"
    using Cons.prems(3) r by (auto split: prod.splits)
  have step: "rpc_inv good ents s1" "Peers (fst s1) = Peers (fst s)"
    "abs_state ents s1 = (if isl r then abs_state ents s else abs_call (id_String H) (Peers (fst s)) c (abs_state ents s))"
    using call_refines [OF assms(1) Cons.prems(1) _ r] Cons.prems(2) by auto
  then show ?case using Cons.IH [OF step(1) _ rs'(1)] Cons.prems(2) rs'(2) by simp
qed simp

theorem route_calls_refine_witness:
  "\<exists>rs s'. rpc_run wit_host wit_nl list_ranger [(''add'', [''10.0.0.0/8'', ''@a'']), (''del'', [''x''])] (wit_routes, wit_link)
      = (rs, s') \<and> abs_state (\<lambda>r. r) s' = ({(wit_net8, [7])}, [(wit_net8, 3000)])"
proof -
  let ?add = "(''add'', [''10.0.0.0/8'', ''@a''])" and ?del = "(''del'', [''x''])"
  have net: "ParseCIDR ''10.0.0.0/8'' = Inr ([0, 0, 0, 0, 0, 0, 0, 0, 0, 0, 0xff, 0xff, 10, 0, 0, 0], wit_net8)"
    by code_simp
  have bad: "isl (ParseCIDR ''x'')" by code_simp
  then obtain f where f: "ParseCIDR ''x'' = Inl f" by (metis sum.collapse(1))
  obtain s' where run: "rpc_run wit_host wit_nl list_ranger [?add, ?del] (wit_routes, wit_link) = ([Inr Empty, Inl f], s')"
    using wit_add by (simp add: rpc_Route_def [of _ _ _ "''del''"] route_del_def f)
  have inv: "rpc_inv distinct (\<lambda>r. r) (wit_routes, wit_link)"
    by (simp add: rpc_inv_def wit_routes_def wit_cfg_def route_table_ok_def)
  have plain: "\<forall>c \<in> set [?add, ?del]. plain_call c" by (simp add: plain_call_def net f plain_wit_net8)
  have ref: "FindPeerByCLIRef (id_String wit_host) (Peers wit_routes) ''@a'' = Inr (Some (wit_peer [7] ''a''))"
    by (simp add: FindPeerByCLIRef_def HasPrefix_def TrimPrefix_def wit_routes_def wit_cfg_def wit_peer_def)
  have "abs_state (\<lambda>r. r) (wit_routes, wit_link) = ({}, [])"
    by (simp add: abs_state_def wit_routes_def wit_cfg_def wit_link_def)
  then have "abs_state (\<lambda>r. r) s' = ({(wit_net8, [7])}, [(wit_net8, 3000)])"
    using route_calls_refine [OF list_ranger_spec inv plain run]
    by (simp add: abs_call_def net ref abs_add_def wit_peer_def)
  then show ?thesis using run by blast
qed

end
