(* ===== verification/Gaters.thy ===== *)
theory Gaters
  imports Config
begin

text \<open>
  Connection gating and peer routing of the package \<open>p2p\<close>: \<open>FilterGater\<close> (\<open>filter.go\<close>),
  \<open>MultiGater\<close> (\<open>multigater.go\<close>), \<open>RecursionGater\<close> and \<open>ParallelRouting\<close> (\<open>routing.go\<close>) and the
  relay's access list (\<open>relay.go\<close>).  A value of libp2p's interface \<open>ConnectionGater\<close> is the record of
  its methods.  A gate may panic, through \<open>FindRouteForIP\<close>, so each returns a result.  Parameters: the
  filter list of the multiaddr package (record \<open>filters_ops\<close>), \<open>netlink\<close> and the accessors of
  multiaddrs (record \<open>net_env\<close>).
\<close>

section \<open>The interface\<close>

record ('ma, 'c) ConnectionGater =
  InterceptPeerDial :: "peer_id \<Rightarrow> bool res"
  InterceptAddrDial :: "peer_id \<Rightarrow> 'ma \<Rightarrow> bool res"
  InterceptAccept :: "'ma \<Rightarrow> bool res"
  InterceptSecured :: "bool \<Rightarrow> peer_id \<Rightarrow> 'ma \<Rightarrow> bool res"
  InterceptUpgraded :: "'c \<Rightarrow> (bool \<times> nat) res"

section \<open>FilterGater\<close>

record ('f, 'ma) filters_ops =
  NewFilters :: 'f
  AddDeny :: "IPNet \<Rightarrow> 'f \<Rightarrow> 'f"
  AddrBlocked :: "'f \<Rightarrow> 'ma \<Rightarrow> bool"

text \<open>The documented behaviour of a list of deny filters: an address with an IP in one of the networks.\<close>

definition filters_spec :: "('f, 'ma) filters_ops \<Rightarrow> ('ma \<Rightarrow> IP option) \<Rightarrow> bool" where
  "filters_spec F ip_of \<longleftrightarrow>
     (\<forall>nets addr. AddrBlocked F (fold (AddDeny F) nets (NewFilters F)) addr
        \<longleftrightarrow> (\<exists>ip n. ip_of addr = Some ip \<and> n \<in> set nets \<and> IPNet_Contains n ip))"

definition FilterGater :: "('f, 'ma) filters_ops \<Rightarrow> 'f \<Rightarrow> ('ma, 'c) ConnectionGater" where
  "FilterGater F filters =
     \<lparr>InterceptPeerDial = (\<lambda>p. Inr True),
      InterceptAddrDial = (\<lambda>p addr. Inr (\<not> AddrBlocked F filters addr)),
      InterceptAccept = (\<lambda>remote. Inr (\<not> AddrBlocked F filters remote)),
      InterceptSecured = (\<lambda>d p remote. Inr (\<not> AddrBlocked F filters remote)),
      InterceptUpgraded = (\<lambda>c. Inr (True, 0))\<rparr>"

definition NewFilterGater :: "('f, 'ma) filters_ops \<Rightarrow> IPNet list \<Rightarrow> ('ma, 'c) ConnectionGater" where
  "NewFilterGater F networks = FilterGater F (fold (AddDeny F) networks (NewFilters F))"

section \<open>MultiGater\<close>

text \<open>The loop every method runs: the first gate that refuses decides.\<close>

fun all_allow :: "('g \<Rightarrow> bool res) \<Rightarrow> 'g list \<Rightarrow> bool res" where
  "all_allow ask [] = Inr True"
| "all_allow ask (g # gs) = bind_res (ask g) (\<lambda>ok. if \<not> ok then Inr False else all_allow ask gs)"

fun all_upgrade :: "('g \<Rightarrow> (bool \<times> nat) res) \<Rightarrow> 'g list \<Rightarrow> (bool \<times> nat) res" where
  "all_upgrade ask [] = Inr (True, 0)"
| "all_upgrade ask (g # gs) =
     bind_res (ask g) (\<lambda>(ok, reason). if \<not> ok then Inr (False, reason) else all_upgrade ask gs)"

definition NewMultiGater :: "('ma, 'c) ConnectionGater list \<Rightarrow> ('ma, 'c) ConnectionGater" where
  "NewMultiGater gaters =
     \<lparr>InterceptPeerDial = (\<lambda>p. all_allow (\<lambda>g. InterceptPeerDial g p) gaters),
      InterceptAddrDial = (\<lambda>p addr. all_allow (\<lambda>g. InterceptAddrDial g p addr) gaters),
      InterceptAccept = (\<lambda>remote. all_allow (\<lambda>g. InterceptAccept g remote) gaters),
      InterceptSecured = (\<lambda>d p remote. all_allow (\<lambda>g. InterceptSecured g d p remote) gaters),
      InterceptUpgraded = (\<lambda>c. all_upgrade (\<lambda>g. InterceptUpgraded g c) gaters)\<rparr>"

section \<open>RecursionGater\<close>

text \<open>\<open>net.ParseIP\<close>: the sixteen-byte form, or nil.\<close>

definition ParseIP :: "string \<Rightarrow> IP" where
  "ParseIP s = (case ParseAddr s of
      Some a \<Rightarrow> if Zone a = [] then As16 a else []
    | None \<Rightarrow> [])"

record 'ma net_env =
  ip4_value :: "'ma \<Rightarrow> string option"       \<comment> \<open>\<open>addr.ValueForProtocol(P_IP4)\<close>\<close>
  LinkByName :: "string \<Rightarrow> go_error + int"
  RouteGet :: "IP \<Rightarrow> go_error + int list"    \<comment> \<open>the link indexes of the routes\<close>

definition recursion_AddrDial ::
  "'ma net_env \<Rightarrow> 'r ranger \<Rightarrow> ('m, 'key, 'r) Config \<Rightarrow> int \<Rightarrow> peer_id \<Rightarrow> 'ma \<Rightarrow> bool res" where
  "recursion_AddrDial E R cfg ifindex pid addr =
     (case ip4_value E addr of
        None \<Rightarrow> Inr True
      | Some ip4str \<Rightarrow>
          let ip4 = ParseIP ip4str in
          bind_res (FindRouteForIP R cfg ip4) (\<lambda>found.
            (case found of
               None \<Rightarrow> Inr True
             | Some rte \<Rightarrow>
                 if ID (Target rte) = pid then
                   (case RouteGet E ip4 of
                      Inl e \<Rightarrow> Inr True
                    | Inr routes \<Rightarrow>
                        Inr (\<not> (0 < length routes \<and> routes ! 0 = ifindex)))
                 else Inr True)))"

definition RecursionGater ::
  "'ma net_env \<Rightarrow> 'r ranger \<Rightarrow> ('m, 'key, 'r) Config \<Rightarrow> int \<Rightarrow> ('ma, 'c) ConnectionGater" where
  "RecursionGater E R cfg ifindex =
     \<lparr>InterceptPeerDial = (\<lambda>p. Inr True),
      InterceptAddrDial = recursion_AddrDial E R cfg ifindex,
      InterceptAccept = (\<lambda>remote. Inr True),
      InterceptSecured = (\<lambda>d p remote. Inr True),
      InterceptUpgraded = (\<lambda>c. Inr (True, 0))\<rparr>"

definition NewRecursionGater ::
  "'ma net_env \<Rightarrow> 'r ranger \<Rightarrow> ('m, 'key, 'r) Config \<Rightarrow> ('ma, 'c) ConnectionGater res" where
  "NewRecursionGater E R cfg =
     (case LinkByName E (Interface cfg) of
        Inl e \<Rightarrow> Inl (Panic (ExplicitPanic ''LinkByName''))
      | Inr idx \<Rightarrow> Inr (RecursionGater E R cfg idx))"

section \<open>The contract of a gate\<close>

text \<open>
  What the node relies on: a gate never stops a dial by peer or an upgraded connection, and a
  connection it accepts from an address is one it also lets through once secured.  Such gates
  compose: \<open>MultiGater\<close> keeps the contract and refuses what any of its members refuses.
\<close>

locale gater =
  fixes g :: "('ma, 'c) ConnectionGater"
  assumes peer_dial: "InterceptPeerDial g p = Inr True"
    and upgraded: "InterceptUpgraded g c = Inr (True, 0)"
    and accept_total: "\<exists>b. InterceptAccept g a = Inr b"
    and accept_secured: "InterceptSecured g d p a = InterceptAccept g a"
begin

text \<open>The fate of an incoming connection is decided when it is accepted.\<close>

lemma incoming:
  "\<exists>ok. InterceptAccept g a = Inr ok \<and> InterceptSecured g d p a = Inr ok
     \<and> InterceptUpgraded g c = Inr (True, 0)"
  using accept_total [of a] accept_secured [of d p a] upgraded by auto

end

lemma all_allow_True_iff: "all_allow ask gs = Inr True \<longleftrightarrow> (\<forall>g \<in> set gs. ask g = Inr True)"
proof (induction gs)
  case (Cons g gs)
  then show ?case by (cases "ask g") auto
qed simp

lemma all_allow_total:
  "(\<forall>g \<in> set gs. \<exists>b. ask g = Inr b) \<Longrightarrow> \<exists>b. all_allow ask gs = Inr b"
  by (induction gs) (auto simp: bind_res_def split: sum.splits)

lemma all_allow_False:
  "(\<forall>g \<in> set gs. \<exists>b. ask g = Inr b) \<Longrightarrow>
     all_allow ask gs = Inr False \<longleftrightarrow> (\<exists>g \<in> set gs. ask g = Inr False)"
  by (induction gs) (auto simp: bind_res_def split: sum.splits)

lemma all_allow_cong: "(\<And>g. g \<in> set gs \<Longrightarrow> ask g = ask' g) \<Longrightarrow> all_allow ask gs = all_allow ask' gs"
  by (induction gs) (simp_all cong: if_cong)

lemma all_upgrade_allow: "(\<And>g. g \<in> set gs \<Longrightarrow> ask g = Inr (True, 0)) \<Longrightarrow> all_upgrade ask gs = Inr (True, 0)"
  by (induction gs) auto

interpretation filter_gater: gater "FilterGater F filters" for F :: "('f, 'ma) filters_ops" and filters
  by unfold_locales (simp_all add: FilterGater_def)

interpretation recursion_gater: gater "RecursionGater E R cfg ifindex"
  for E :: "'ma net_env" and R :: "'r ranger" and cfg :: "('m, 'key, 'r) Config" and ifindex
  by unfold_locales (auto simp: RecursionGater_def)

lemma gater_NewMultiGater:
  assumes "\<And>g. g \<in> set gs \<Longrightarrow> gater g"
  shows "gater (NewMultiGater gs)"
proof
  fix p c a d
  show "InterceptPeerDial (NewMultiGater gs) p = Inr True"
    by (auto simp: NewMultiGater_def all_allow_True_iff intro!: gater.peer_dial assms)
  show "InterceptUpgraded (NewMultiGater gs) c = Inr (True, 0)"
    by (auto simp: NewMultiGater_def intro!: all_upgrade_allow gater.upgraded assms)
  show "\<exists>b. InterceptAccept (NewMultiGater gs) a = Inr b"
    by (auto simp: NewMultiGater_def intro!: all_allow_total gater.accept_total assms)
  show "InterceptSecured (NewMultiGater gs) d p a = InterceptAccept (NewMultiGater gs) a"
    by (auto simp: NewMultiGater_def intro!: all_allow_cong gater.accept_secured assms)
qed

interpretation node_gater: gater "NewMultiGater [RecursionGater E R cfg ifindex, NewFilterGater F nets]"
  for E :: "'ma net_env" and R :: "'r ranger" and cfg :: "('m, 'key, 'r) Config" and ifindex
    and F :: "('f, 'ma) filters_ops" and nets
  by (rule gater_NewMultiGater)
    (auto simp: NewFilterGater_def intro: recursion_gater.gater_axioms filter_gater.gater_axioms)

section \<open>ParallelRouting\<close>

text \<open>libp2p's \<open>network.Connectedness\<close> as far as the event handlers tell it apart.\<close>

datatype connectedness = ConnConnected | ConnNotConnected | ConnOther

record 'ma AddrInfo =
  ai_ID :: peer_id
  Addrs :: "'ma list"

text \<open>
  The routings answer in some order, each with an error or with addresses; the order of the list is
  the order in which their goroutines take the mutex.
\<close>

definition ParallelRouting_FindPeer :: "(go_error + 'ma AddrInfo) list \<Rightarrow> peer_id \<Rightarrow> 'ma AddrInfo" where
  "ParallelRouting_FindPeer answers p =
     \<lparr>ai_ID = p,
      Addrs = fold (\<lambda>r acc. case r of Inl e \<Rightarrow> acc | Inr ai \<Rightarrow> acc @ Addrs ai) answers []\<rparr>"

lemma ParallelRouting_Addrs:
  "Addrs (ParallelRouting_FindPeer answers p) = concat [Addrs ai. Inr ai \<leftarrow> answers]"
proof -
  have "fold (\<lambda>r acc. case r of Inl e \<Rightarrow> acc | Inr ai \<Rightarrow> acc @ Addrs ai) answers acc
      = acc @ concat [Addrs ai. Inr ai \<leftarrow> answers]" for acc
    by (induction answers arbitrary: acc) (auto split: sum.splits)
  then show ?thesis by (simp add: ParallelRouting_FindPeer_def)
qed

section \<open>The relay's access list\<close>

record ClosedCircuitRelayFilter =
  allowedPeers :: "Peer list"

definition NewClosedCircuitRelayFilter :: "Peer list \<Rightarrow> ClosedCircuitRelayFilter" where
  "NewClosedCircuitRelayFilter peers = \<lparr>allowedPeers = peers\<rparr>"

definition AllowReserve :: "ClosedCircuitRelayFilter \<Rightarrow> peer_id \<Rightarrow> bool" where
  "AllowReserve ccr p \<longleftrightarrow> FindPeer (allowedPeers ccr) p \<noteq> None"

definition AllowConnect :: "ClosedCircuitRelayFilter \<Rightarrow> peer_id \<Rightarrow> peer_id \<Rightarrow> bool" where
  "AllowConnect ccr src dest \<longleftrightarrow>
     FindPeer (allowedPeers ccr) src \<noteq> None \<or> FindPeer (allowedPeers ccr) dest \<noteq> None"

interpretation relay_acl: peer_directory "\<lambda>ps x. AllowReserve (NewClosedCircuitRelayFilter ps) x"
  by unfold_locales (simp only: AllowReserve_def NewClosedCircuitRelayFilter_def ClosedCircuitRelayFilter.select_convs findpeer.known_iff)

text \<open>A relayed connection is allowed exactly when one of its ends is a peer of the VPN.\<close>

lemma AllowConnect_iff:
  "AllowConnect (NewClosedCircuitRelayFilter ps) src dest \<longleftrightarrow> src \<in> ID ` set ps \<or> dest \<in> ID ` set ps"
  by (simp only: AllowConnect_def NewClosedCircuitRelayFilter_def ClosedCircuitRelayFilter.select_convs findpeer.known_iff)

end
