(* ===== verification/Node.thy ===== *)
theory Node
  imports Svc Gaters Rpc
begin

text \<open>
  \<open>node/node.go\<close> outside the stream layer: \<open>Run\<close> with the routes it installs, the gate it chooses and
  the order of its steps, the loop that dispatches packets read from the TUN device, \<open>New\<close>, \<open>Stop\<close>,
  the event logger and the wait group the services share.  Each step of \<open>Run\<close> that calls code
  outside the repository is a value of \<open>run_step\<close>, and the record \<open>run_env\<close> says which of them fail.
\<close>

section \<open>The struct\<close>

record ('ma, 'key, 'r) Node =
  node_cfg :: "('ma, 'key, 'r) Config option"
  node_lockPath :: string
  node_configPath :: string
  node_interfaceName :: string

definition Node_New :: "string \<Rightarrow> string \<Rightarrow> ('ma, 'key, 'r) Node" where
  "Node_New configPath ifName =
     \<lparr>node_cfg = None, node_lockPath = [], node_configPath = configPath, node_interfaceName = ifName\<rparr>"

section \<open>The gate\<close>

definition parseCIDR :: "string \<Rightarrow> IPNet res" where
  "parseCIDR s = (case ParseCIDR s of
      Inl _ \<Rightarrow> Inl (Panic (ExplicitPanic (''invalid CIDR: '' @ s)))
    | Inr (_, n) \<Rightarrow> Inr n)"

definition private_cidrs :: "string list" where
  "private_cidrs = [''10.0.0.0/8'', ''172.16.0.0/12'', ''192.168.0.0/16'', ''169.254.0.0/16'',
     ''127.0.0.0/8'', ''fe80::/10'', ''::1/128'']"

definition make_gater ::
  "'ma net_env \<Rightarrow> 'r ranger \<Rightarrow> ('f, 'ma) filters_ops \<Rightarrow> ('m, 'key, 'r) Config \<Rightarrow> ('ma, 'c) ConnectionGater res" where
  "make_gater E R F cfg =
     bind_res (NewRecursionGater E R cfg) (\<lambda>recursionGater.
       if FilterPrivateAddresses cfg then
         bind_res (mapM_res parseCIDR private_cidrs) (\<lambda>nets.
           Inr (NewMultiGater [recursionGater, NewFilterGater F nets]))
       else Inr recursionGater)"

section \<open>Routes\<close>

definition peer_routes :: "'r ranger \<Rightarrow> ('m, 'key, 'r) Config \<Rightarrow> IPNet list res" where
  "peer_routes R cfg =
     bind_res (check (CoveredNetworks R (ByRoute (PeerLookup cfg)) AllIPv4)) (\<lambda>allRoutes4.
     bind_res (check (CoveredNetworks R (ByRoute (PeerLookup cfg)) AllIPv6)) (\<lambda>allRoutes6.
       Inr (map entry_Network allRoutes4 @ map entry_Network allRoutes6)))"

text \<open>The route to the services of one node.\<close>

definition svc_route :: "IPNet \<Rightarrow> byte list \<Rightarrow> IPNet" where
  "svc_route netRange netId =
     (let addr = fill (replicate 16 0) 0 (net_IP netRange);
          addr' = fill addr 10 netId;
          (mask1, mask0) = Mask_Size (net_Mask netRange)
      in \<lparr>net_IP = addr', net_Mask = CIDRMask (mask1 + 32) mask0\<rparr>)"

definition svc_routes :: "IPNet \<Rightarrow> Peer list \<Rightarrow> peer_id \<Rightarrow> IPNet list" where
  "svc_routes netRange peers self =
     map (svc_route netRange) (map (\<lambda>p. MkNetID (ID p)) peers @ [MkNetID self])"

section \<open>Run\<close>

datatype run_step =
    CreateTUN string "Option list"
  | LookupRoutes
  | MakeGater bool
  | CreateNode
  | SetPeXHandler
  | Protect peer_id
  | GoDiscover
  | GoMDNS
  | GoPeX
  | GoRouteMetrics
  | SubscribeEvents
  | GoRPC string
  | GoDNS
  | GoMetricsHTTP string
  | MakeServiceNet
  | RegisterService string
  | WriteLock string
  | TunUp
  | ApplyRoutes "Option list"
  | InitActiveStreams
  | GoDispatch

text \<open>The steps that were begun, and the failure that stopped them.\<close>

fun exec_steps :: "(run_step \<times> failure option) list \<Rightarrow> run_step list \<times> failure option" where
  "exec_steps [] = ([], None)"
| "exec_steps ((s, f) # rest) =
     (case f of
        Some e \<Rightarrow> ([s], Some e)
      | None \<Rightarrow> (let (done', r) = exec_steps rest in (s # done', r)))"

record ('ma, 'f) run_env =
  re_tun :: "go_error option"
  re_p2p :: "go_error option"
  re_events :: "go_error option"
  re_lock :: "go_error option"
  re_up :: "go_error option"
  re_apply :: "go_error option"
  re_metricsPort :: "string option"
  re_self :: peer_id
  re_svc_order :: "string list"
  re_lockPath :: "string \<Rightarrow> string \<Rightarrow> string"
  re_IP_String :: "IP \<Rightarrow> string"
  re_components :: "'ma \<Rightarrow> Component list"
  re_net :: "'ma net_env"
  re_filters :: "('f, 'ma) filters_ops"

definition fail :: "go_error option \<Rightarrow> failure option" where
  "fail e = map_option Error e"

definition res_failure :: "'a res \<Rightarrow> failure option" where
  "res_failure r = (case r of Inl f \<Rightarrow> Some f | Inr _ \<Rightarrow> None)"

text \<open>The failure of registering one service.\<close>

definition service_failure :: "('ma \<Rightarrow> Component list) \<Rightarrow> ('ma, 'key, 'r) Config \<Rightarrow> string \<Rightarrow> failure option" where
  "service_failure components cfg name =
     (case Services cfg name of
        None \<Rightarrow> None
      | Some sv \<Rightarrow>
          (case ProxyTo components (svc_Target sv) of
             Inl f \<Rightarrow> Some f
           | Inr (proxy, err) \<Rightarrow> fail err))"

definition register_service ::
  "('ma \<Rightarrow> Component list) \<Rightarrow> ('ma, 'key, 'r) Config \<Rightarrow> string \<Rightarrow> 'ma ServiceNetwork \<Rightarrow> 'ma ServiceNetwork" where
  "register_service components cfg name sn =
     (case Services cfg name of
        None \<Rightarrow> sn
      | Some sv \<Rightarrow>
          (case ProxyTo components (svc_Target sv) of
             Inl f \<Rightarrow> sn
           | Inr (proxy, err) \<Rightarrow> Register cfg name proxy sn))"

text \<open>The routing options \<open>Run\<close> applies once the device is up; only used where both parts succeed.\<close>

definition all_route_opts :: "'r ranger \<Rightarrow> ('ma, 'key, 'r) Config \<Rightarrow> peer_id \<Rightarrow> Option list" where
  "all_route_opts R cfg self =
     (case (peer_routes R cfg, NewServiceNetwork cfg) of
        (Inr nets, Inr sn) \<Rightarrow> map Route (nets @ svc_routes (NetworkRange sn) (Peers cfg) self)
      | _ \<Rightarrow> [])"

text \<open>The steps up to the lock file.\<close>

definition Run_setup ::
  "('ma, 'f) run_env \<Rightarrow> 'r ranger \<Rightarrow> ('ma, 'key, 'r) Config \<Rightarrow> (run_step \<times> failure option) list" where
  "Run_setup env R cfg =
     [(CreateTUN (Interface cfg) [Address (re_IP_String env (cfg_BuiltinAddr4 cfg) @ ''/32''),
         Address (re_IP_String env (cfg_BuiltinAddr6 cfg) @ ''/128''), MTU 1420], fail (re_tun env)),
      (LookupRoutes, res_failure (peer_routes R cfg)),
      (MakeGater (FilterPrivateAddresses cfg),
         res_failure (make_gater (re_net env) R (re_filters env) cfg :: ('ma, unit) ConnectionGater res)),
      (CreateNode, fail (re_p2p env)),
      (SetPeXHandler, None)]
     @ map (\<lambda>p. (Protect (ID p), None)) (Peers cfg)
     @ [(GoDiscover, None)]
     @ (if FilterPrivateAddresses cfg then [] else [(GoMDNS, None)])
     @ [(GoPeX, None), (GoRouteMetrics, None), (SubscribeEvents, fail (re_events env)),
        (GoRPC (rpc_socket (Interface cfg)), None), (GoDNS, None)]
     @ (case re_metricsPort env of None \<Rightarrow> [] | Some port \<Rightarrow> [(GoMetricsHTTP port, None)])
     @ [(MakeServiceNet, res_failure (NewServiceNetwork cfg))]
     @ map (\<lambda>name. (RegisterService name, service_failure (re_components env) cfg name)) (re_svc_order env)
     @ [(WriteLock (re_lockPath env (Path cfg) (Interface cfg)), fail (re_lock env))]"

text \<open>Bringing the device up and starting the dispatch loop.\<close>

definition Run_bringup ::
  "('ma, 'f) run_env \<Rightarrow> 'r ranger \<Rightarrow> ('ma, 'key, 'r) Config \<Rightarrow> (run_step \<times> failure option) list" where
  "Run_bringup env R cfg =
     [(TunUp, fail (map_option (ErrWrapped ''unable to bring up tun device'') (re_up env))),
      (ApplyRoutes (all_route_opts R cfg (re_self env)),
         fail (map_option (ErrWrapped ''unable to apply routing options'') (re_apply env))),
      (InitActiveStreams, None),
      (GoDispatch, None)]"

definition Run_steps ::
  "('ma, 'f) run_env \<Rightarrow> 'r ranger \<Rightarrow> ('ma, 'key, 'r) Config \<Rightarrow> (run_step \<times> failure option) list" where
  "Run_steps env R cfg = Run_setup env R cfg @ Run_bringup env R cfg"

text \<open>
  \<open>Run\<close>: the steps that were begun, and the failure or the configuration and the service network
  the dispatch loop works with.
\<close>

definition Run ::
  "('ma, 'f) run_env \<Rightarrow> ('ma, 'key, 'r) config_env \<Rightarrow> ('ma, 'key, 'r) Node
     \<Rightarrow> run_step list \<times> (('ma, 'key, 'r) Config \<times> 'ma ServiceNetwork) res" where
  "Run env cenv node =
     (case Read cenv (node_configPath node) of
        Inl f \<Rightarrow> ([], Inl f)
      | Inr cfg2 \<Rightarrow>
          let cfg = cfg2\<lparr>Interface := node_interfaceName node\<rparr>;
              (steps, f) = exec_steps (Run_steps env (ranger cenv) cfg)
          in (case f of
                Some e \<Rightarrow> (steps, Inl e)
              | None \<Rightarrow>
                  (steps, bind_res (NewServiceNetwork cfg) (\<lambda>sn.
                     Inr (cfg, fold (register_service (re_components env) cfg) (re_svc_order env) sn)))))"

text \<open>
  The map \<open>activeStreams\<close> is nil until \<open>Run\<close> makes it, and an insertion into a nil map panics.  The
  stream handler is registered when the libp2p node is created.
\<close>

definition activeStreams_after :: "run_step list \<Rightarrow> active_table option" where
  "activeStreams_after steps =
     (if InitActiveStreams \<in> set steps then Some \<lparr>activeStreams = Map.empty\<rparr> else None)"

definition insert_nilable :: "peer_id \<Rightarrow> stream_id \<Rightarrow> active_table option \<Rightarrow> (bool \<times> active_table) res" where
  "insert_nilable pid ss m =
     (case m of None \<Rightarrow> Inl (Panic NilMapWrite) | Some t \<Rightarrow> Inr (insertActiveStream pid ss t))"

section \<open>The dispatch loop\<close>

datatype action =
    Discard
  | SendPacket peer_id "byte list" nat
  | ServiceWrite "byte list" "listen_event list"

definition route_packet ::
  "'r ranger \<Rightarrow> ('ma, 'key, 'r) Config \<Rightarrow> IP \<Rightarrow> byte list \<Rightarrow> nat \<Rightarrow> action res" where
  "route_packet R cfg dstIP packet plen =
     bind_res (FindRouteForIP R cfg dstIP) (\<lambda>route.
       case route of
         None \<Rightarrow> Inr Discard
       | Some rte \<Rightarrow> Inr (SendPacket (ID (Target rte)) packet plen))"

definition packet_port :: "byte list \<Rightarrow> uint16" where
  "packet_port packet = ucast (packet ! 42) * 256 + ucast (packet ! 43)"

text \<open>One round of the loop on a buffer of 1420 bytes of which the first \<open>plen\<close> were read.\<close>

definition dispatch ::
  "'r ranger \<Rightarrow> ('ma, 'key, 'r) Config \<Rightarrow> (byte list \<Rightarrow> uint16 \<Rightarrow> go_error option) \<Rightarrow> byte list \<Rightarrow> nat
     \<Rightarrow> 'ma ServiceNetwork \<Rightarrow> (action \<times> 'ma ServiceNetwork) res" where
  "dispatch R cfg listenTCP packet plen sn =
     (let proto = packet ! 0 AND 0xf0 in
      if proto = 0x40 then
        let dstIP = take 4 (drop 16 packet) in
        if IP_Equal (cfg_BuiltinAddr4 cfg) dstIP then Inr (Discard, sn)
        else bind_res (route_packet R cfg dstIP packet plen) (\<lambda>a. Inr (a, sn))
      else if proto = 0x60 then
        let dstIP = take 16 (drop 24 packet) in
        if IP_Equal (cfg_BuiltinAddr6 cfg) dstIP then Inr (Discard, sn)
        else if IPNet_Contains (NetworkRange sn) dstIP then
          if packet ! 6 = 0x06 then
            bind_res (EnsureListener cfg listenTCP dstIP (packet_port packet) sn)
              (\<lambda>(ok, evs, sn'). Inr (if ok then ServiceWrite packet evs else Discard, sn'))
          else Inr (Discard, sn)
        else bind_res (route_packet R cfg dstIP packet plen) (\<lambda>a. Inr (a, sn))
      else Inr (Discard, sn))"

datatype tun_read = TunClosed | TunError | TunPacket "byte list"

text \<open>The loop: a closed device ends it, an error is skipped, each read has a fresh buffer.\<close>

fun dispatch_loop ::
  "'r ranger \<Rightarrow> ('ma, 'key, 'r) Config \<Rightarrow> (byte list \<Rightarrow> uint16 \<Rightarrow> go_error option) \<Rightarrow> tun_read list
     \<Rightarrow> 'ma ServiceNetwork \<Rightarrow> action list res" where
  "dispatch_loop R cfg listenTCP [] sn = Inr []"
| "dispatch_loop R cfg listenTCP (TunClosed # rs) sn = Inr []"
| "dispatch_loop R cfg listenTCP (TunError # rs) sn = dispatch_loop R cfg listenTCP rs sn"
| "dispatch_loop R cfg listenTCP (TunPacket d # rs) sn =
     bind_res (dispatch R cfg listenTCP (fill (replicate 1420 0) 0 d) (length d) sn) (\<lambda>(a, sn').
     bind_res (dispatch_loop R cfg listenTCP rs sn') (\<lambda>as. Inr (a # as)))"

section \<open>Events, stopping and the wait group\<close>

text \<open>What the event logger logs for one event of a peer: its connections, or that it left.\<close>

definition log_event :: "Peer list \<Rightarrow> (peer_id \<Rightarrow> string list) \<Rightarrow> peer_id \<Rightarrow> connectedness \<Rightarrow> string list" where
  "log_event peers conns p c =
     (case FindPeer peers p of
        None \<Rightarrow> []
      | Some _ \<Rightarrow>
          (case c of
             ConnConnected \<Rightarrow> map (\<lambda>a. ''Connected to '' @ a) (conns p)
           | ConnNotConnected \<Rightarrow> [''Disconnected from '']
           | ConnOther \<Rightarrow> []))"

text \<open>\<open>Stop\<close>: the calls in order, up to the first of the fallible ones that fails.\<close>

datatype stop_step = CloseP2P | RemoveLock string | TunDown | CloseIface | Cancel | Wait

definition Stop ::
  "go_error option \<Rightarrow> go_error option \<Rightarrow> go_error option \<Rightarrow> string \<Rightarrow> stop_step list \<times> go_error option" where
  "Stop close_err remove_err down_err lockPath =
     (case close_err of
        Some e \<Rightarrow> ([CloseP2P], Some e)
      | None \<Rightarrow>
          (case remove_err of
             Some e \<Rightarrow> ([CloseP2P, RemoveLock lockPath], Some e)
           | None \<Rightarrow>
               (case down_err of
                  Some e \<Rightarrow> ([CloseP2P, RemoveLock lockPath, TunDown], Some e)
                | None \<Rightarrow> ([CloseP2P, RemoveLock lockPath, TunDown, CloseIface, Cancel, Wait], None))))"

text \<open>
  The wait group: \<open>Done\<close> panics when the counter would become negative.  \<open>Discover\<close>, \<open>PeXService\<close>,
  \<open>RouteMetricsService\<close>, \<open>RpcServer\<close> and \<open>MagicDnsServer\<close> each add one and call \<open>Done\<close> when they
  end; the goroutine of \<open>eventLogger\<close> calls \<open>Done\<close> without having added anything.
\<close>

definition wg_Add :: "int \<Rightarrow> int \<Rightarrow> int" where
  "wg_Add n wg = wg + n"

definition wg_Done :: "int \<Rightarrow> int res" where
  "wg_Done wg = (if wg - 1 < 0 then Inl (Panic (ExplicitPanic ''sync: negative WaitGroup counter''))
     else Inr (wg - 1))"

datatype service = SDiscover | SPeX | SRouteMetrics | SRpc | SDns | SEventLogger

definition adds_one :: "service \<Rightarrow> bool" where
  "adds_one s \<longleftrightarrow> s \<noteq> SEventLogger"

definition services_started :: "service list \<Rightarrow> int" where
  "services_started ss = fold (\<lambda>s wg. if adds_one s then wg_Add 1 wg else wg) ss 0"

fun services_end :: "service list \<Rightarrow> int \<Rightarrow> int res" where
  "services_end [] wg = Inr wg"
| "services_end (s # ss) wg = bind_res (wg_Done wg) (\<lambda>wg'. services_end ss wg')"

section \<open>Facts\<close>

lemma res_failure_simps [simp]: "res_failure (Inr x) = None" "res_failure (Inl f) = Some f"
  by (simp_all add: res_failure_def)

lemma res_failure_None: "res_failure r = None \<longleftrightarrow> (\<exists>x. r = Inr x)"
  by (cases r) simp_all

definition no_failure :: "(run_step \<times> failure option) list \<Rightarrow> bool" where
  "no_failure l \<longleftrightarrow> list_all (\<lambda>x. snd x = None) l"

lemma no_failure_simps [simp]:
  "no_failure []" "no_failure (x # l) \<longleftrightarrow> snd x = None \<and> no_failure l"
  "no_failure (l @ m) \<longleftrightarrow> no_failure l \<and> no_failure m"
  by (simp_all add: no_failure_def)

lemma no_failure_map: "no_failure (map g xs) \<longleftrightarrow> (\<forall>x \<in> set xs. snd (g x) = None)"
  by (simp add: no_failure_def list_all_iff)

lemma exec_steps_ok: "no_failure l \<Longrightarrow> exec_steps l = (map fst l, None)"
  by (induction l) (auto split: option.splits prod.splits)

lemma exec_steps_None: "exec_steps l = (steps, None) \<Longrightarrow> steps = map fst l \<and> no_failure l"
proof (induction l arbitrary: steps)
  case (Cons x l)
  then show ?case by (cases x) (auto split: option.splits prod.splits)
qed simp

lemma exec_steps_append:
  "exec_steps (xs @ ys) =
     (case snd (exec_steps xs) of
        Some f \<Rightarrow> exec_steps xs
      | None \<Rightarrow> (fst (exec_steps xs) @ fst (exec_steps ys), snd (exec_steps ys)))"
  by (induction xs) (auto split: option.splits prod.splits)

lemma exec_steps_prefix: "\<exists>rest. map fst l = fst (exec_steps l) @ rest"
  by (induction l) (auto split: option.splits prod.splits)

lemma services_end_dones:
  "wg = int (length ss) \<Longrightarrow> services_end ss wg = Inr 0"
  by (induction ss arbitrary: wg) (auto simp: wg_Done_def)

lemma services_end_negative:
  "0 \<le> wg \<Longrightarrow> wg < int (length ss) \<Longrightarrow>
     services_end ss wg = Inl (Panic (ExplicitPanic ''sync: negative WaitGroup counter''))"
  by (induction ss arbitrary: wg) (auto simp: wg_Done_def)

lemma services_started_eq: "services_started ss = int (length (filter adds_one ss))"
proof -
  have "fold (\<lambda>s wg. if adds_one s then wg_Add 1 wg else wg) ss n = n + int (length (filter adds_one ss))" for n
    by (induction ss arbitrary: n) (auto simp: wg_Add_def)
  then show ?thesis by (simp add: services_started_def)
qed

end
