(* ===== verification/NodeProps.thy ===== *)
theory NodeProps
  imports Node RpcProps SvcProps
begin

text \<open>
  Properties of the node: where the dispatch loop sends a packet, what \<open>Run\<close> installs and in which
  order, which addresses the gate refuses, and the wait group's balance.
\<close>

section \<open>Routes of the service network\<close>

definition svc_range :: IPNet where
  "svc_range = \<lparr>net_IP = service6_prefix @ [0, 0, 0, 0, 0, 0], net_Mask = CIDRMask 80 128\<rparr>"

lemma NewServiceNetwork_eq:
  "NewServiceNetwork cfg = Inr sn \<Longrightarrow> NetworkRange sn = svc_range
     \<and> sn_self sn = take 4 (drop 12 (cfg_BuiltinAddr6 cfg)) \<and> sn_inv sn \<and> listeners sn = Map.empty"
  by (auto simp: NewServiceNetwork_def svc_range_def service6_prefix_def bytes_of_def sn_inv_def split: if_splits)

lemma svc_route_eq:
  assumes "length netId = 4"
  shows "svc_route svc_range netId
    = \<lparr>net_IP = service6_prefix @ netId @ [0, 0], net_Mask = CIDRMask 112 128\<rparr>"
proof -
  obtain a b c d where "netId = [a, b, c, d]" using assms by (auto simp: length4_conv)
  then show ?thesis
    by (simp add: svc_route_def svc_range_def Mask_Size_CIDRMask fill_def service6_prefix_def)
qed

lemma svc_range_contains: "IPNet_Contains svc_range (MkServiceAddr6 pid name)"
proof -
  have "To4 (service6_prefix @ [0, 0, 0, 0, 0, 0]) = []"
    by (rule To4_not_mapped) (simp_all add: service6_prefix_def)
  then show ?thesis
    using IPNet_Contains_v6_prefix [of "service6_prefix @ [0, 0, 0, 0, 0, 0]" "MkServiceAddr6 pid name" 10]
    by (simp add: svc_range_def)
qed

lemma svc_route_contains:
  "IPNet_Contains (svc_route svc_range (MkNetID p)) (MkServiceAddr6 q name) \<longleftrightarrow> MkNetID p = MkNetID q"
proof -
  have t4: "To4 (service6_prefix @ MkNetID p @ [0, 0]) = []"
    by (rule To4_not_mapped) (simp_all add: service6_prefix_def)
  have "take 14 (service6_prefix @ MkNetID p @ [0, 0]) = service6_prefix @ MkNetID p"
    "take 14 (MkServiceAddr6 q name) = service6_prefix @ MkNetID q"
    by (simp_all add: MkServiceAddr6_eq)
  then show ?thesis
    using IPNet_Contains_v6_prefix [of "service6_prefix @ MkNetID p @ [0, 0]" "MkServiceAddr6 q name" 14] t4
    by (simp add: svc_route_eq)
qed

section \<open>Dispatch\<close>

text \<open>The destination address of a packet, as the loop reads it.\<close>

definition packet_dest :: "byte list \<Rightarrow> IP option" where
  "packet_dest packet =
     (if packet ! 0 AND 0xf0 = 0x40 then Some (take 4 (drop 16 packet))
      else if packet ! 0 AND 0xf0 = 0x60 then Some (take 16 (drop 24 packet))
      else None)"

text \<open>Whether a destination is the node's own, or in the service network.\<close>

definition dest_own :: "('ma, 'key, 'r) Config \<Rightarrow> IP \<Rightarrow> bool" where
  "dest_own cfg ip \<longleftrightarrow> (if length ip = 4 then IP_Equal (cfg_BuiltinAddr4 cfg) ip else IP_Equal (cfg_BuiltinAddr6 cfg) ip)"

lemma dispatch_eq:
  assumes "length packet = 1420"
  shows "dispatch R cfg listenTCP packet plen sn =
    (case packet_dest packet of
       None \<Rightarrow> Inr (Discard, sn)
     | Some ip \<Rightarrow>
         if dest_own cfg ip then Inr (Discard, sn)
         else if length ip = 16 \<and> IPNet_Contains (NetworkRange sn) ip then
           if packet ! 6 = 6 then
             bind_res (EnsureListener cfg listenTCP ip (packet_port packet) sn)
               (\<lambda>(ok, evs, sn'). Inr (if ok then ServiceWrite packet evs else Discard, sn'))
           else Inr (Discard, sn)
         else bind_res (route_packet R cfg ip packet plen) (\<lambda>a. Inr (a, sn)))"
  using assms by (simp add: dispatch_def packet_dest_def dest_own_def Let_def)

text \<open>
  C2: Where a packet read from the TUN device goes: a packet that is neither IPv4 nor IPv6, or is
  addressed to the node itself, is dropped; one for an address outside the service network that
  exactly one route contains is handed, unchanged and with its length, to \<open>sendPacket\<close> for that
  route's configured peer; and one that no route contains is dropped.
\<close>

theorem dispatch_routes_packet:
  assumes "ranger_spec R good ents" and "good (ByRoute (PeerLookup cfg))"
    and "route_table_ok (Peers cfg) (ents (ByRoute (PeerLookup cfg)))"
    and "length packet = 1420"
    and "\<forall>ip. packet_dest packet = Some ip \<longrightarrow> \<not> IPNet_Contains (NetworkRange sn) ip"
    and "M = {e \<in> set (ents (ByRoute (PeerLookup cfg))).
        \<exists>ip. packet_dest packet = Some ip \<and> \<not> dest_own cfg ip \<and> IPNet_Contains (entry_Network e) ip}"
    and "card M \<le> 1"
  shows "if M = {} then dispatch R cfg listenTCP packet plen sn = Inr (Discard, sn)
    else \<exists>rte. M = {RTEPtr rte} \<and> Target rte \<in> set (Peers cfg)
      \<and> dispatch R cfg listenTCP packet plen sn = Inr (SendPacket (ID (Target rte)) packet plen, sn)"
proof (cases "packet_dest packet")
  case None
  then show ?thesis using assms(4,6) by (simp add: dispatch_eq)
next
  case (Some ip)
  then have len: "length ip = 4 \<or> length ip = 16"
    using assms(4) by (auto simp: packet_dest_def split: if_splits)
  show ?thesis
  proof (cases "dest_own cfg ip")
    case True
    then show ?thesis using Some assms(4,6) by (simp add: dispatch_eq)
  next
    case False
    let ?S = "{e \<in> set (ents (ByRoute (PeerLookup cfg))). IPNet_Contains (entry_Network e) ip}"
    have S: "?S = M" using assms(6) Some False by auto
    have d: "dispatch R cfg listenTCP packet plen sn
        = bind_res (route_packet R cfg ip packet plen) (\<lambda>a. Inr (a, sn))"
      using Some False assms(4,5) by (simp add: dispatch_eq)
    note out = FindRouteForIP_outcomes [OF assms(1,2) len assms(3), unfolded S]
    have "finite M" using S by (metis (no_types, lifting) finite_set finite_subset mem_Collect_eq subsetI)
    then consider "M = {}" "card M = 0" | "M \<noteq> {}" "card M = Suc 0"
      using assms(7) by (cases "M = {}") (auto simp: le_Suc_eq)
    then show ?thesis
    proof cases
      case 1
      then show ?thesis using out(1) d by (simp add: route_packet_def)
    next
      case 2
      then show ?thesis using out(2) d by (auto simp: route_packet_def)
    qed
  qed
qed

lemma dispatch_service:
  assumes "NetworkRange sn = svc_range" and "sn_inv sn" and "sn_self sn \<noteq> MkNetID pid"
    and "length packet = 1420" and "packet ! 0 AND 0xf0 = 0x60"
    and "take 16 (drop 24 packet) = MkServiceAddr6 pid name"
    and "cfg_BuiltinAddr6 cfg = mkBuiltinAddr6 me"
    and "ByNetID (PeerLookup cfg) (MkNetID pid) = Some p"
    and "\<not> listening sn (MkServiceAddr6 pid name) (packet_port packet)"
    and "listenTCP (MkServiceAddr6 pid name) (packet_port packet) = None"
  shows "if packet ! 6 = 6 then \<exists>evs sn'. dispatch R cfg listenTCP packet plen sn
        = Inr (ServiceWrite packet (evs @ [Serve (MkServiceAddr6 pid name) (packet_port packet)
            (RemoteServiceProxy (ID p) (MkServiceID name))]), sn')
      \<and> listening sn' (MkServiceAddr6 pid name) (packet_port packet)
    else dispatch R cfg listenTCP packet plen sn = Inr (Discard, sn)"
proof -
  let ?a = "MkServiceAddr6 pid name" and ?port = "packet_port packet"
  have dest: "packet_dest packet = Some ?a" using assms(5,6) by (simp add: packet_dest_def)
  have "take 10 (mkBuiltinAddr6 me) \<noteq> take 10 ?a"
    by (simp add: builtin6_prefix_def service6_prefix_def)
  then have "mkBuiltinAddr6 me \<noteq> ?a" by metis
  then have own: "\<not> dest_own cfg ?a" using assms(7) by (simp add: dest_own_def IP_Equal_def)
  have "listener_for cfg sn ?a = Some (RemoteServiceProxy (ID p) (MkServiceID name))"
    using assms(3,8) by (simp add: listener_for_def svc_parts)
  from EnsureListener_starts [where listenTCP = listenTCP, OF assms(2,9) this assms(10)]
  show ?thesis
    using dest own assms(1,4) svc_range_contains [of pid name] by (auto simp: dispatch_eq)
qed


section \<open>Witnesses of the dispatch theorems\<close>

definition wit_table_cfg :: "(unit, unit, ranger_entry list) Config" where
  "wit_table_cfg = (wit_cfg [wit_peer [7] ''a''] [RTEPtr \<lparr>rte_Net = wit_net8, Target = wit_peer [7] ''a''\<rparr>])
     \<lparr>cfg_BuiltinAddr4 := mkBuiltinAddr4 [1], cfg_BuiltinAddr6 := mkBuiltinAddr6 [1],
      PeerLookup := \<lparr>ByRoute = [RTEPtr \<lparr>rte_Net = wit_net8, Target = wit_peer [7] ''a''\<rparr>],
        ByName = Map.empty, ByNetID = [MkNetID [7] \<mapsto> wit_peer [7] ''a'']\<rparr>\<rparr>"

definition wit_packet4 :: "byte list" where
  "wit_packet4 = [0x45, 0, 0, 0, 0, 0, 0, 0, 0, 0, 0, 0, 0, 0, 0, 0, 10, 1, 2, 3] @ replicate 1400 0"

definition wit_sn6 :: "unit ServiceNetwork" where
  "wit_sn6 = \<lparr>sn_self = MkNetID [1], NetworkRange = svc_range, activeAddrs = {}, activePorts = Map.empty,
     listeners = Map.empty, services = Map.empty\<rparr>"

theorem dispatch_routes_packet_witness:
  "dispatch list_ranger wit_table_cfg (\<lambda>a q. None) wit_packet4 20 wit_sn6
     = Inr (SendPacket [7] wit_packet4 20, wit_sn6)"
proof -
  let ?e = "RTEPtr \<lparr>rte_Net = wit_net8, Target = wit_peer [7] ''a''\<rparr>"
  have dest: "packet_dest wit_packet4 = Some [10, 1, 2, 3]"
    by (simp add: packet_dest_def wit_packet4_def)
  have "IPNet_Contains wit_net8 [10, 1, 2, 3]" "mkBuiltinAddr4 [1] \<noteq> [10, 1, 2, 3]"
    "\<not> IPNet_Contains svc_range [10, 1, 2, 3]" by code_simp+
  moreover have "\<not> dest_own wit_table_cfg [10, 1, 2, 3]"
    using calculation(2) by (simp add: dest_own_def wit_table_cfg_def IP_Equal_def)
  moreover have ok: "route_table_ok (Peers wit_table_cfg) (ByRoute (PeerLookup wit_table_cfg))"
    "distinct (ByRoute (PeerLookup wit_table_cfg))"
    by (simp_all add: route_table_ok_def wit_table_cfg_def wit_cfg_def plain_wit_net8)
  ultimately have M: "{?e} = {e \<in> set (ByRoute (PeerLookup wit_table_cfg)).
      \<exists>ip. packet_dest wit_packet4 = Some ip \<and> \<not> dest_own wit_table_cfg ip \<and> IPNet_Contains (entry_Network e) ip}"
    using dest by (auto simp: wit_table_cfg_def entry_Network_def Network_def)
  have "length wit_packet4 = 1420" by (simp add: wit_packet4_def)
  moreover have "\<forall>ip. packet_dest wit_packet4 = Some ip \<longrightarrow> \<not> IPNet_Contains (NetworkRange wit_sn6) ip"
    using dest \<open>\<not> IPNet_Contains svc_range [10, 1, 2, 3]\<close> by (simp add: wit_sn6_def)
  ultimately show ?thesis
    using dispatch_routes_packet [OF list_ranger_spec ok(2) ok(1) _ _ M] by (simp add: wit_peer_def)
qed

definition wit_packet6 :: "byte list" where
  "wit_packet6 = [0x60, 0, 0, 0, 0, 0, 6] @ replicate 17 0 @ MkServiceAddr6 [7] ''web''
     @ [0, 0, 0, 80] @ replicate 1376 0"


section \<open>What Run installs\<close>

lemma plain_All: "plain_net AllIPv4" "plain_net AllIPv6"
proof -
  have "To4 [0, 0, 0, 0, 0, 0, 0, 0, 0, 0, 0, 0, 0, 0, 0, 0] = []" by code_simp
  moreover have "ParseCIDR ''0.0.0.0/0'' = Inr ([0, 0, 0, 0, 0, 0, 0, 0, 0, 0, 0xff, 0xff, 0, 0, 0, 0], AllIPv4)"
    "ParseCIDR ''::/0'' = Inr ([0, 0, 0, 0, 0, 0, 0, 0, 0, 0, 0, 0, 0, 0, 0, 0], AllIPv6)" by code_simp+
  then have "wf_net AllIPv4" "wf_net AllIPv6" by (auto dest: ParseCIDR_wf)
  ultimately show "plain_net AllIPv4" "plain_net AllIPv6"
    by (simp_all add: plain_net_def AllIPv4_def AllIPv6_def)
qed

lemma All_covers_host:
  assumes "derived_peer p"
  shows "IPNet_Covers AllIPv4 (host4 p)" "IPNet_Covers AllIPv6 (host6 p)"
proof -
  have "length (CIDRMask 0 32) = length (CIDRMask 32 32)" "length (CIDRMask 0 128) = length (CIDRMask 128 128)"
    by (simp_all add: CIDRMask_def)
  moreover have "To4 [0, 0, 0, 0, 0, 0, 0, 0, 0, 0, 0, 0, 0, 0, 0, 0] = []" by code_simp
  ultimately show "IPNet_Covers AllIPv4 (host4 p)" "IPNet_Covers AllIPv6 (host6 p)"
    using assms IPNet_Contains_v4_prefix [of "[0, 0, 0, 0]" "mkBuiltinAddr4 (ID p)" 0]
      IPNet_Contains_v6_prefix [of "[0, 0, 0, 0, 0, 0, 0, 0, 0, 0, 0, 0, 0, 0, 0, 0]" "mkBuiltinAddr6 (ID p)" 0]
    by (simp_all add: IPNet_Covers_def AllIPv4_def AllIPv6_def host4_def host6_def derived_peer_def
        Mask_Size_CIDRMask)
qed

lemma host_contains:
  assumes "derived_peer p"
  shows "IPNet_Contains (host4 p) (mkBuiltinAddr4 (ID p))" "IPNet_Contains (host6 p) (mkBuiltinAddr6 (ID p))"
  using assms IPNet_Contains_v4_prefix [of "mkBuiltinAddr4 (ID p)" "mkBuiltinAddr4 (ID p)" 4]
    IPNet_Contains_v6_prefix [of "mkBuiltinAddr6 (ID p)" "mkBuiltinAddr6 (ID p)" 16]
  by (simp_all add: host4_def host6_def derived_peer_def)

lemma peer_routes_complete:
  assumes "ranger_spec R good ents" and "good (ByRoute (PeerLookup cfg))"
    and "e \<in> set (ents (ByRoute (PeerLookup cfg)))"
    and "IPNet_Covers AllIPv4 (entry_Network e) \<or> IPNet_Covers AllIPv6 (entry_Network e)"
  shows "\<exists>nets. peer_routes R cfg = Inr nets \<and> entry_Network e \<in> set nets"
proof -
  obtain r4 r6 where "CoveredNetworks R (ByRoute (PeerLookup cfg)) AllIPv4 = Inr r4"
    "set r4 = {e \<in> set (ents (ByRoute (PeerLookup cfg))). IPNet_Covers AllIPv4 (entry_Network e)}"
    "CoveredNetworks R (ByRoute (PeerLookup cfg)) AllIPv6 = Inr r6"
    "set r6 = {e \<in> set (ents (ByRoute (PeerLookup cfg))). IPNet_Covers AllIPv6 (entry_Network e)}"
    using ranger_covered [OF assms(1,2) plain_All(1)] ranger_covered [OF assms(1,2) plain_All(2)] by blast
  then show ?thesis using assms(3,4) by (auto simp: peer_routes_def check_def)
qed

text \<open>What a configuration read from a file gives for each peer.\<close>

lemma Read_host_routes:
  assumes "ranger_spec (ranger env) good ents" and "Read env path = Inr cfg"
    and "os_ReadFile env path = Inr b" and "json_Unmarshal env b = Inr input" and "plain_routes (sc_Peers input)"
    and "p \<in> set (Peers cfg)"
  shows "good (ByRoute (PeerLookup cfg))" and "derived_peer p"
    and "\<exists>e \<in> set (ents (ByRoute (PeerLookup cfg))). entry_Network e = host4 p"
    and "\<exists>e \<in> set (ents (ByRoute (PeerLookup cfg))). entry_Network e = host6 p"
proof -
  let ?lk0 = "\<lparr>ByRoute = NewPCTrieRanger (ranger env), ByName = Map.empty, ByNetID = Map.empty\<rparr>"
  have peers: "Read_peers env (sc_Peers input) ?lk0 = Inr (Peers cfg, PeerLookup cfg)"
    using assms(2-4) by (auto elim: ReadE)
  have "table_state good ents {} {} (ByRoute ?lk0)"
    using ranger_new [OF assms(1)] by (simp add: table_state_def)
  note st = Read_peers_state [OF assms(1) peers this assms(5)]
  show "derived_peer p"
    using assms(6) Read_peers_derived [OF peers] by (auto simp: list_all2_conv_all_nth in_set_conv_nth)
  show "good (ByRoute (PeerLookup cfg))"
    "\<exists>e \<in> set (ents (ByRoute (PeerLookup cfg))). entry_Network e = host4 p"
    "\<exists>e \<in> set (ents (ByRoute (PeerLookup cfg))). entry_Network e = host6 p"
    using st assms(6) unfolding table_state_def by fastforce+
qed

lemma RunE:
  assumes "Run env cenv node = (steps, Inr (cfg, sn))"
  obtains cfg2 where "Read cenv (node_configPath node) = Inr cfg2"
    "cfg = cfg2\<lparr>Interface := node_interfaceName node\<rparr>"
    "steps = map fst (Run_steps env (ranger cenv) cfg)" "no_failure (Run_steps env (ranger cenv) cfg)"
proof -
  obtain cfg2 where rd: "Read cenv (node_configPath node) = Inr cfg2"
    using assms by (cases "Read cenv (node_configPath node)") (auto simp: Run_def)
  let ?cfg = "cfg2\<lparr>Interface := node_interfaceName node\<rparr>"
  obtain st f where ex: "exec_steps (Run_steps env (ranger cenv) ?cfg) = (st, f)" by force
  have "f = None" "st = steps" "cfg = ?cfg"
    using assms rd ex by (auto simp: Run_def Let_def bind_res_eq_Inr_iff split: option.splits)
  then show thesis using that [OF rd] exec_steps_None ex by blast
qed

text \<open>
  C10: When \<open>Run\<close> succeeds, the routes it has applied to the device send every configured peer's
  built-in addresses and every service address of every peer, and of the node itself, into the tunnel.
\<close>

theorem Run_routes_every_peer:
  assumes "ranger_spec (ranger cenv) good ents" and "Run env cenv node = (steps, Inr (cfg, sn))"
    and "os_ReadFile cenv (node_configPath node) = Inr b" and "json_Unmarshal cenv b = Inr input"
    and "plain_routes (sc_Peers input)" and "p \<in> set (Peers cfg)"
  shows "\<exists>opts. ApplyRoutes opts \<in> set steps
    \<and> (\<exists>n. Route n \<in> set opts \<and> IPNet_Contains n (mkBuiltinAddr4 (ID p)))
    \<and> (\<exists>n. Route n \<in> set opts \<and> IPNet_Contains n (mkBuiltinAddr6 (ID p)))
    \<and> (\<exists>n. Route n \<in> set opts \<and> IPNet_Contains n (MkServiceAddr6 (ID p) name))
    \<and> (\<exists>n. Route n \<in> set opts \<and> IPNet_Contains n (MkServiceAddr6 (re_self env) name))"
proof -
  obtain cfg2 where rd: "Read cenv (node_configPath node) = Inr cfg2"
    and cfg: "cfg = cfg2\<lparr>Interface := node_interfaceName node\<rparr>"
    and steps: "steps = map fst (Run_steps env (ranger cenv) cfg)"
    and ok: "no_failure (Run_steps env (ranger cenv) cfg)"
    using assms(2) by (rule RunE)
  have eq: "Peers cfg = Peers cfg2" "PeerLookup cfg = PeerLookup cfg2" by (simp_all add: cfg)
  note host = Read_host_routes [OF assms(1) rd assms(3-5) assms(6) [unfolded eq]]
  obtain nets sn0 where nets: "peer_routes (ranger cenv) cfg = Inr nets" and sn0: "NewServiceNetwork cfg = Inr sn0"
    using ok by (auto simp: Run_steps_def Run_setup_def res_failure_None)
  have "host4 p \<in> set nets" "host6 p \<in> set nets"
    using host(3,4) peer_routes_complete [OF assms(1), of cfg] host(1) All_covers_host [OF host(2)] nets eq
    by (metis Inr_inject)+
  moreover define opts where "opts = all_route_opts (ranger cenv) cfg (re_self env)"
  have opts: "opts = map Route (nets @ svc_routes svc_range (Peers cfg) (re_self env))"
    using nets sn0 NewServiceNetwork_eq [OF sn0] by (simp add: opts_def all_route_opts_def)
  moreover have "ApplyRoutes opts \<in> set steps" by (simp add: steps Run_steps_def Run_bringup_def opts_def)
  moreover have "Route (svc_route svc_range (MkNetID (ID p))) \<in> set opts"
    "Route (svc_route svc_range (MkNetID (re_self env))) \<in> set opts"
    using assms(6) by (auto simp: opts svc_routes_def)
  ultimately show ?thesis
    using host_contains [OF host(2)] svc_route_contains by (intro exI [of _ opts]) auto
qed

definition wit_run_env :: "(string, unit) run_env" where
  "wit_run_env = \<lparr>re_tun = None, re_p2p = None, re_events = None, re_lock = None, re_up = None, re_apply = None,
     re_metricsPort = None, re_self = [1], re_svc_order = [], re_lockPath = (\<lambda>d i. i @ ''.lock''),
     re_IP_String = (\<lambda>ip. ''ip''), re_components = (\<lambda>ma. []),
     re_net = \<lparr>ip4_value = (\<lambda>a. None), LinkByName = (\<lambda>n. Inr 3), RouteGet = (\<lambda>ip. Inr [])\<rparr>,
     re_filters = \<lparr>NewFilters = (), AddDeny = (\<lambda>n f. f), AddrBlocked = (\<lambda>f a. False)\<rparr>\<rparr>"

lemma private_cidrs_parse:
  "mapM_res parseCIDR private_cidrs = Inr
     [\<lparr>net_IP = [10, 0, 0, 0], net_Mask = CIDRMask 8 32\<rparr>, \<lparr>net_IP = [172, 16, 0, 0], net_Mask = CIDRMask 12 32\<rparr>,
      \<lparr>net_IP = [192, 168, 0, 0], net_Mask = CIDRMask 16 32\<rparr>, \<lparr>net_IP = [169, 254, 0, 0], net_Mask = CIDRMask 16 32\<rparr>,
      \<lparr>net_IP = [127, 0, 0, 0], net_Mask = CIDRMask 8 32\<rparr>,
      \<lparr>net_IP = [0xfe, 0x80, 0, 0, 0, 0, 0, 0, 0, 0, 0, 0, 0, 0, 0, 0], net_Mask = CIDRMask 10 128\<rparr>,
      \<lparr>net_IP = [0, 0, 0, 0, 0, 0, 0, 0, 0, 0, 0, 0, 0, 0, 0, 1], net_Mask = CIDRMask 128 128\<rparr>]"
  by code_simp

lemma make_gater_ok:
  "LinkByName E (Interface cfg) = Inr i \<Longrightarrow> \<exists>g. make_gater E R F cfg = Inr g"
  by (simp add: make_gater_def NewRecursionGater_def private_cidrs_parse)

text \<open>A run in which nothing fails.\<close>

lemma Run_ok:
  assumes "Read cenv (node_configPath node) = Inr cfg2"
    and "cfg = cfg2\<lparr>Interface := node_interfaceName node\<rparr>"
    and "ranger cenv = list_ranger"
  shows "\<exists>steps sn. Run wit_run_env cenv node = (steps, Inr (cfg, sn))"
proof -
  have me: "length (cfg_BuiltinAddr6 cfg) = 16" using assms(1,2) by (auto elim: ReadE)
  then obtain sn where sn: "NewServiceNetwork cfg = Inr sn" by (simp add: NewServiceNetwork_def)
  have pr: "res_failure (peer_routes list_ranger cfg) = None"
    by (simp add: peer_routes_def list_ranger_def check_def res_failure_def)
  have "LinkByName (re_net wit_run_env) (Interface cfg) = Inr 3" by (simp add: wit_run_env_def)
  then obtain g :: "(string, unit) ConnectionGater" where
    "make_gater (re_net wit_run_env) list_ranger (re_filters wit_run_env) cfg = Inr g"
    using make_gater_ok by blast
  then have "no_failure (Run_steps wit_run_env list_ranger cfg)"
    using sn pr by (simp add: Run_steps_def Run_setup_def Run_bringup_def no_failure_map) (simp add: wit_run_env_def fail_def)
  then show ?thesis
    using exec_steps_ok sn assms by (simp add: Run_def Let_def)
qed

lemma wit_Read_peers: "Read wit_env ''c.json'' = Inr cfg \<Longrightarrow> length (Peers cfg) = 2"
  by (elim ReadE) (auto dest!: Read_peers_derived list_all2_lengthD simp: wit_env_def wit_schema_def)

theorem Run_routes_every_peer_witness:
  "\<exists>steps cfg sn p opts n. Run wit_run_env wit_env (Node_New ''c.json'' ''hs0'') = (steps, Inr (cfg, sn))
     \<and> p \<in> set (Peers cfg) \<and> ApplyRoutes opts \<in> set steps \<and> Route n \<in> set opts
     \<and> IPNet_Contains n (mkBuiltinAddr4 (ID p))"
proof -
  obtain cfg2 where rd: "Read wit_env ''c.json'' = Inr cfg2" using wit_Read by blast
  have len: "length (Peers cfg2) = 2" using wit_Read_peers [OF rd] .
  define cfg where "cfg = cfg2\<lparr>Interface := ''hs0''\<rparr>"
  obtain steps sn where run: "Run wit_run_env wit_env (Node_New ''c.json'' ''hs0'') = (steps, Inr (cfg, sn))"
    using Run_ok [of wit_env "Node_New ''c.json'' ''hs0''" cfg2 cfg] rd
    by (auto simp: cfg_def Node_New_def wit_env_def)
  obtain p where p: "p \<in> set (Peers cfg)" using len by (cases "Peers cfg2") (auto simp: cfg_def)
  have "ranger_spec (ranger wit_env) distinct (\<lambda>r. r)"
    "os_ReadFile wit_env (node_configPath (Node_New ''c.json'' ''hs0'')) = Inr []"
    "json_Unmarshal wit_env [] = Inr wit_schema"
    using list_ranger_spec by (simp_all add: wit_env_def)
  from Run_routes_every_peer [OF this(1) run this(2,3) wit_plain_routes p]
  show ?thesis using run p by blast
qed

lemma Run_outcome:
  assumes "Read cenv (node_configPath node) = Inr cfg2"
    and "cfg = cfg2\<lparr>Interface := node_interfaceName node\<rparr>"
    and "exec_steps (Run_steps env (ranger cenv) cfg) = (st, f)"
  shows "fst (Run env cenv node) = st"
    and "f = Some e \<Longrightarrow> snd (Run env cenv node) = Inl e"
    and "f = None \<Longrightarrow> \<not> isl (snd (Run env cenv node))"
proof -
  show "fst (Run env cenv node) = st" "f = Some e \<Longrightarrow> snd (Run env cenv node) = Inl e"
    using assms by (auto simp: Run_def Let_def split: option.splits)
  assume None: "f = None"
  then obtain sn where "NewServiceNetwork cfg = Inr sn"
    using exec_steps_None [OF assms(3) [unfolded None]]
    by (auto simp: Run_steps_def Run_setup_def res_failure_None)
  then show "\<not> isl (snd (Run env cenv node))" using None assms by (simp add: Run_def Let_def)
qed



section \<open>The gate\<close>


text \<open>Filters with the documented behaviour: the list of the denied networks.\<close>

definition list_filters :: "(IPNet list, IP) filters_ops" where
  "list_filters = \<lparr>NewFilters = [], AddDeny = (\<lambda>n f. f @ [n]),
     AddrBlocked = (\<lambda>f ip. \<exists>n \<in> set f. IPNet_Contains n ip)\<rparr>"

lemma list_filters_spec: "filters_spec list_filters Some"
proof -
  have "fold (\<lambda>n f. f @ [n]) nets acc = acc @ nets" for nets acc :: "IPNet list"
    by (induction nets arbitrary: acc) simp_all
  then show ?thesis by (auto simp: filters_spec_def list_filters_def)
qed




section \<open>The wait group\<close>

text \<open>
  The wait group is out of balance: whatever subset of the services has been started, if the
  event logger is among them, the end of all of them panics, because its goroutine calls \<open>Done\<close>
  without an \<open>Add\<close>; without the event logger the counter returns to zero.
\<close>

theorem wait_group_unbalanced:
  assumes "distinct started" and "set ended = set started" and "distinct ended"
  shows "services_end ended (services_started started) =
    (if SEventLogger \<in> set started
     then Inl (Panic (ExplicitPanic ''sync: negative WaitGroup counter'')) else Inr 0)"
proof -
  have len: "length ended = length started" using assms by (metis distinct_card)
  show ?thesis
  proof (cases "SEventLogger \<in> set started")
    case True
    let ?l = "filter (\<lambda>s. \<not> adds_one s) started"
    have "set ?l = {SEventLogger}" using True by (auto simp: adds_one_def)
    then have "length ?l = 1" using distinct_card [of ?l] assms(1) by simp
    then have "length started = Suc (length (filter adds_one started))"
      using sum_length_filter_compl [of adds_one started] by simp
    then show ?thesis
      using True services_end_negative [of "int (length (filter adds_one started))" ended] len
      by (simp add: services_started_eq)
  next
    case False
    then have "filter adds_one started = started" by (auto simp: adds_one_def filter_id_conv)
    then show ?thesis using False services_end_dones [of _ ended] len by (simp add: services_started_eq)
  qed
qed

theorem wait_group_unbalanced_witness:
  "services_end [SRpc, SEventLogger, SDns] (services_started [SEventLogger, SRpc, SDns])
     = Inl (Panic (ExplicitPanic ''sync: negative WaitGroup counter''))"
  using wait_group_unbalanced [of "[SEventLogger, SRpc, SDns]" "[SRpc, SEventLogger, SDns]"] by auto

section \<open>Streams that arrive early\<close>

text \<open>
  Between the creation of the libp2p node, which registers \<open>streamHandler\<close>, and the end of
  \<open>Run\<close> the table of active streams is a nil map: a stream that a configured peer opens in that time,
  or at any time after a \<open>Run\<close> that failed in between, panics in \<open>insertActiveStream\<close>.
\<close>

theorem early_stream_panics:
  assumes "Run env cenv node = (steps, r)" and "CreateNode \<in> set steps"
  shows "\<exists>before rest. steps = before @ rest \<and> CreateNode \<in> set before
    \<and> insert_nilable pid sid (activeStreams_after before) = Inl (Panic NilMapWrite)"
proof -
  obtain cfg2 where rd: "Read cenv (node_configPath node) = Inr cfg2"
    using assms by (cases "Read cenv (node_configPath node)") (auto simp: Run_def)
  define cfg where "cfg = cfg2\<lparr>Interface := node_interfaceName node\<rparr>"
  obtain st f where ex: "exec_steps (Run_steps env (ranger cenv) cfg) = (st, f)" by force
  have steps: "steps = st" using Run_outcome(1) [OF rd cfg_def ex] assms(1) by simp
  obtain a b c tl where front: "map fst (Run_steps env (ranger cenv) cfg) = [CreateTUN a b, LookupRoutes, MakeGater c, CreateNode] @ tl"
    by (simp add: Run_steps_def Run_setup_def)
  obtain more where "map fst (Run_steps env (ranger cenv) cfg) = steps @ more"
    using exec_steps_prefix [of "Run_steps env (ranger cenv) cfg"] ex steps by auto
  then have pre: "steps @ more = [CreateTUN a b, LookupRoutes, MakeGater c, CreateNode] @ tl" using front by simp
  have "4 \<le> length steps"
  proof (rule ccontr)
    assume "\<not> 4 \<le> length steps"
    then have "steps = take (length steps) [CreateTUN a b, LookupRoutes, MakeGater c]"
      using pre by (auto simp: not_le numeral_eq_Suc less_Suc_eq append_eq_Cons_conv Cons_eq_append_conv)
    then show False using assms(2) by (metis in_set_takeD empty_iff insert_iff list.set(1,2) run_step.distinct)
  qed
  then have "take 4 steps = [CreateTUN a b, LookupRoutes, MakeGater c, CreateNode]"
    using arg_cong [OF pre, of "take 4"] by simp
  then have "steps = [CreateTUN a b, LookupRoutes, MakeGater c, CreateNode] @ drop 4 steps"
    using append_take_drop_id [of 4 steps] by simp
  moreover have "insert_nilable pid sid (activeStreams_after [CreateTUN a b, LookupRoutes, MakeGater c, CreateNode])
      = Inl (Panic NilMapWrite)"
    by (simp add: activeStreams_after_def insert_nilable_def)
  ultimately show ?thesis by (metis list.set_intros)
qed

theorem early_stream_panics_witness:
  "\<exists>steps r before rest. Run wit_run_env wit_env (Node_New ''c.json'' ''hs0'') = (steps, r)
     \<and> steps = before @ rest \<and> CreateNode \<in> set before
     \<and> insert_nilable [7] 1 (activeStreams_after before) = Inl (Panic NilMapWrite)"
proof -
  obtain cfg2 where rd: "Read wit_env ''c.json'' = Inr cfg2" using wit_Read by blast
  define cfg where "cfg = cfg2\<lparr>Interface := ''hs0''\<rparr>"
  obtain steps sn where run: "Run wit_run_env wit_env (Node_New ''c.json'' ''hs0'') = (steps, Inr (cfg, sn))"
    using Run_ok [of wit_env "Node_New ''c.json'' ''hs0''" cfg2 cfg] rd
    by (auto simp: cfg_def Node_New_def wit_env_def)
  have "steps = map fst (Run_steps wit_run_env (ranger wit_env) cfg)" using run by (rule RunE)
  then have "CreateNode \<in> set steps" by (simp add: Run_steps_def Run_setup_def)
  from early_stream_panics [OF run this, of "[7]" 1] obtain before rest where
    "steps = before @ rest" "CreateNode \<in> set before"
    "insert_nilable [7] 1 (activeStreams_after before) = Inl (Panic NilMapWrite)" by auto
  then show ?thesis using run by (intro exI conjI)
qed

end
