(* ===== verification/Netstack.thy ===== *)
theory Netstack
  imports GoCIDR
begin

text \<open>
  \<open>netstack/tun.go\<close>, first part: the user-space TUN device over gVisor's TCP/IP stack, the conversion
  of addresses, the dial and listen operations, and ping sockets.  gVisor is a parameter: the record
  \<open>stack_ops\<close> for the stack and its endpoint, \<open>gonet_ops\<close> for its sockets.  The zero
  \<open>netip.Addr\<close> is \<open>None\<close>; a \<open>tcpip.Address\<close> is its bytes.
\<close>

section \<open>Addresses\<close>

datatype NetworkProtocolNumber = NoProtocol | ipv4_ProtocolNumber | ipv6_ProtocolNumber

type_synonym Addr = "netip_Addr option"

fun Is4 :: "Addr \<Rightarrow> bool" where
  "Is4 (Some (Addr4 b)) = True"
| "Is4 _ = False"

fun Is6 :: "Addr \<Rightarrow> bool" where
  "Is6 (Some (Addr6 b z)) = True"
| "Is6 _ = False"

fun IsValid :: "Addr \<Rightarrow> bool" where
  "IsValid None = False"
| "IsValid (Some a) = True"

fun AsSlice :: "Addr \<Rightarrow> byte list" where
  "AsSlice None = []"
| "AsSlice (Some (Addr4 b)) = b"
| "AsSlice (Some (Addr6 b z)) = b"

text \<open>\<open>netip.AddrFromSlice\<close>; the zero address for a slice of another length.\<close>

definition AddrFromSlice :: "byte list \<Rightarrow> Addr" where
  "AddrFromSlice b = (if length b = 4 then Some (Addr4 b) else if length b = 16 then Some (Addr6 b []) else None)"

record AddrPort =
  ap_Addr :: Addr
  ap_Port :: uint16

definition zero_AddrPort :: AddrPort where
  "zero_AddrPort = \<lparr>ap_Addr = None, ap_Port = 0\<rparr>"

record FullAddress =
  NIC :: nat
  fa_Addr :: "byte list"
  fa_Port :: uint16

definition convertToFullAddr :: "AddrPort \<Rightarrow> FullAddress \<times> NetworkProtocolNumber" where
  "convertToFullAddr endpoint =
     (let protoNumber = (if Is4 (ap_Addr endpoint) then ipv4_ProtocolNumber else ipv6_ProtocolNumber)
      in (\<lparr>NIC = 1, fa_Addr = AsSlice (ap_Addr endpoint), fa_Port = ap_Port endpoint\<rparr>, protoNumber))"

section \<open>The device\<close>

text \<open>
  gVisor's stack as far as the device uses it.  A \<open>tcpip.Error\<close> is its text.  \<open>ep_Read\<close> takes the next
  outbound packet of the channel endpoint, \<open>view_Read\<close> reads at most so many bytes of a packet.
\<close>

record 's stack_ops =
  stack_New :: "nat \<Rightarrow> 's"
  EnableSACK :: "'s \<Rightarrow> string option \<times> 's"
  CreateNIC :: "'s \<Rightarrow> string option \<times> 's"
  stack_AddProtocolAddress :: "NetworkProtocolNumber \<Rightarrow> byte list \<Rightarrow> 's \<Rightarrow> string option \<times> 's"
  AddRoute :: "NetworkProtocolNumber \<Rightarrow> 's \<Rightarrow> 's"
  InjectInbound :: "NetworkProtocolNumber \<Rightarrow> byte list \<Rightarrow> 's \<Rightarrow> 's"
  ep_Read :: "'s \<Rightarrow> (byte list \<times> 's) option"
  view_Read :: "nat \<Rightarrow> byte list \<Rightarrow> go_error + byte list"
  stack_Close :: "'s \<Rightarrow> 's"

datatype tun_Event = EventUp

text \<open>
  \<open>incomingPacket\<close> is an unbuffered channel: \<open>senders\<close> are the packets of the \<open>WriteNotify\<close> calls that
  are blocked on it, in order; \<open>tun_closed\<close> says that it and \<open>events\<close> are closed.
\<close>

record 's netTun =
  stack :: 's
  events :: "tun_Event list"
  senders :: "byte list list"
  tun_closed :: bool
  mtu :: nat
  dnsServers :: "Addr list"
  hasV4 :: bool
  hasV6 :: bool

fun add_addresses :: "'s stack_ops \<Rightarrow> Addr list \<Rightarrow> 's netTun \<Rightarrow> 's netTun res" where
  "add_addresses S [] dev = Inr dev"
| "add_addresses S (ip # ips) dev =
     (let protoNumber = (if Is4 ip then ipv4_ProtocolNumber else if Is6 ip then ipv6_ProtocolNumber else NoProtocol)
      in case stack_AddProtocolAddress S protoNumber (AsSlice ip) (stack dev) of
           (Some e, s) \<Rightarrow> Inl (Error (ErrWrapped ''AddProtocolAddress'' (ErrExt e)))
         | (None, s) \<Rightarrow>
             add_addresses S ips
               (if Is4 ip then dev\<lparr>stack := s, hasV4 := True\<rparr>
                else if Is6 ip then dev\<lparr>stack := s, hasV6 := True\<rparr> else dev\<lparr>stack := s\<rparr>))"

definition CreateNetTUN :: "'s stack_ops \<Rightarrow> Addr list \<Rightarrow> Addr list \<Rightarrow> nat \<Rightarrow> 's netTun res" where
  "CreateNetTUN S localAddresses servers m =
     (case EnableSACK S (stack_New S m) of
        (Some e, s) \<Rightarrow> Inl (Error (ErrWrapped ''could not enable TCP SACK'' (ErrExt e)))
      | (None, s1) \<Rightarrow>
          (case CreateNIC S s1 of
             (Some e, s) \<Rightarrow> Inl (Error (ErrWrapped ''CreateNIC'' (ErrExt e)))
           | (None, s2) \<Rightarrow>
               bind_res (add_addresses S localAddresses
                   \<lparr>stack = s2, events = [], senders = [], tun_closed = False, mtu = m,
                    dnsServers = servers, hasV4 = False, hasV6 = False\<rparr>) (\<lambda>dev.
                 let s3 = (if hasV4 dev then AddRoute S ipv4_ProtocolNumber (stack dev) else stack dev);
                     s4 = (if hasV6 dev then AddRoute S ipv6_ProtocolNumber s3 else s3)
                 in Inr (dev\<lparr>stack := s4, events := events dev @ [EventUp]\<rparr>))))"

text \<open>
  \<open>Read\<close> takes a packet from a blocked sender; with none it blocks (\<open>None\<close>) until the channel is
  closed.  The results are the number of packets and the buffers and sizes as \<open>Read\<close> leaves them.
\<close>

definition netTun_Read ::
  "'s stack_ops \<Rightarrow> byte list list \<Rightarrow> nat list \<Rightarrow> nat \<Rightarrow> 's netTun
    \<Rightarrow> ((nat \<times> byte list list \<times> nat list) res \<times> 's netTun) option" where
  "netTun_Read S buf sizes offset tun =
     (case senders tun of
        [] \<Rightarrow> if tun_closed tun then Some (Inl (Error ErrClosed), tun) else None
      | view # rest \<Rightarrow>
          Some (if buf = [] then Inl (Panic IndexOutOfRange)
                else if length (buf ! 0) < offset then Inl (Panic SliceBounds)
                else (case view_Read S (length (buf ! 0) - offset) view of
                        Inl e \<Rightarrow> Inl (Error e)
                      | Inr d \<Rightarrow>
                          if sizes = [] then Inl (Panic IndexOutOfRange)
                          else Inr (1, buf[0 := take offset (buf ! 0) @ d @ drop (offset + length d) (buf ! 0)],
                                 sizes[0 := length d])),
                tun\<lparr>senders := rest\<rparr>))"

text \<open>\<open>Write\<close>: the stack is changed for the packets before the one that ends the loop.\<close>

fun write_packets ::
  "'s stack_ops \<Rightarrow> nat \<Rightarrow> byte list list \<Rightarrow> 's \<Rightarrow> unit res \<times> 's" where
  "write_packets S offset [] s = (Inr (), s)"
| "write_packets S offset (b # bs) s =
     (if length b < offset then (Inl (Panic SliceBounds), s)
      else
        let packet = drop offset b in
        if packet = [] then write_packets S offset bs s
        else if drop_bit 4 (packet ! 0) = 4
          then write_packets S offset bs (InjectInbound S ipv4_ProtocolNumber packet s)
        else if drop_bit 4 (packet ! 0) = 6
          then write_packets S offset bs (InjectInbound S ipv6_ProtocolNumber packet s)
        else (Inl (Error ErrAFNoSupport), s))"

definition netTun_Write ::
  "'s stack_ops \<Rightarrow> byte list list \<Rightarrow> nat \<Rightarrow> 's netTun \<Rightarrow> nat res \<times> 's netTun" where
  "netTun_Write S buf offset tun =
     (let (r, s) = write_packets S offset buf (stack tun)
      in (bind_res r (\<lambda>_. Inr (length buf)), tun\<lparr>stack := s\<rparr>))"

text \<open>\<open>WriteNotify\<close> blocks in its send until a \<open>Read\<close> takes the packet; sending after \<open>Close\<close> panics.\<close>

definition WriteNotify :: "'s stack_ops \<Rightarrow> 's netTun \<Rightarrow> 's netTun res" where
  "WriteNotify S tun =
     (case ep_Read S (stack tun) of
        None \<Rightarrow> Inr tun
      | Some (view, s) \<Rightarrow>
          if tun_closed tun then Inl (Panic ClosedChannel)
          else Inr (tun\<lparr>stack := s, senders := senders tun @ [view]\<rparr>))"

text \<open>\<open>Close\<close> panics on its second call; a sender that is blocked when the channel is closed panics.\<close>

definition netTun_Close :: "'s stack_ops \<Rightarrow> 's netTun \<Rightarrow> 's netTun res" where
  "netTun_Close S tun =
     (if tun_closed tun then Inl (Panic ClosedChannel)
      else if senders tun \<noteq> [] then Inl (Panic ClosedChannel)
      else Inr (tun\<lparr>stack := stack_Close S (stack tun), tun_closed := True\<rparr>))"

definition netTun_MTU :: "'s netTun \<Rightarrow> nat" where
  "netTun_MTU tun = mtu tun"

definition BatchSize :: nat where
  "BatchSize = 1"

definition netTun_Name :: string where
  "netTun_Name = ''go''"

definition netTun_Events :: "'s netTun \<Rightarrow> tun_Event list" where
  "netTun_Events tun = events tun"

text \<open>\<open>tun_extra.go\<close>.\<close>

definition AddProtocolAddress ::
  "'s stack_ops \<Rightarrow> NetworkProtocolNumber \<Rightarrow> byte list \<Rightarrow> 's netTun \<Rightarrow> go_error option \<times> 's netTun" where
  "AddProtocolAddress S proto addr tun =
     (case stack_AddProtocolAddress S proto addr (stack tun) of
        (Some e, s) \<Rightarrow> (Some (ErrWrapped ''AddProtocolAddress'' (ErrExt e)), tun\<lparr>stack := s\<rparr>)
      | (None, s) \<Rightarrow> (None, tun\<lparr>stack := s\<rparr>))"

section \<open>Dialling and listening\<close>

text \<open>A context is its deadline, if it has one, in nanoseconds.\<close>

type_synonym Context = "int option"

datatype TransportProtocolNumber = icmp_ProtocolNumber4 | icmp_ProtocolNumber6

record ('s, 'tc, 'tl, 'uc, 'ep) gonet_ops =
  gonet_DialContextTCP :: "Context \<Rightarrow> 's \<Rightarrow> FullAddress \<Rightarrow> NetworkProtocolNumber \<Rightarrow> go_error + 'tc"
  gonet_DialTCP :: "'s \<Rightarrow> FullAddress \<Rightarrow> NetworkProtocolNumber \<Rightarrow> go_error + 'tc"
  gonet_ListenTCP :: "'s \<Rightarrow> FullAddress \<Rightarrow> NetworkProtocolNumber \<Rightarrow> go_error + 'tl"
  gonet_DialUDP :: "'s \<Rightarrow> FullAddress option \<Rightarrow> FullAddress option \<Rightarrow> NetworkProtocolNumber \<Rightarrow> go_error + 'uc"
  NewEndpoint :: "'s \<Rightarrow> TransportProtocolNumber \<Rightarrow> NetworkProtocolNumber \<Rightarrow> string + 'ep"
  ep_Bind :: "FullAddress \<Rightarrow> 'ep \<Rightarrow> string + 'ep"
  ep_Connect :: "FullAddress \<Rightarrow> 'ep \<Rightarrow> string + 'ep"
  ep_Write :: "byte list \<Rightarrow> FullAddress \<Rightarrow> 'ep \<Rightarrow> (nat \<times> string option) \<times> 'ep"
  ep_ReadPacket :: "nat \<Rightarrow> 'ep \<Rightarrow> (string + byte list \<times> byte list) \<times> 'ep"
  ep_Close :: "'ep \<Rightarrow> 'ep"

text \<open>A \<open>*net.TCPAddr\<close> or \<open>*net.UDPAddr\<close>: nil, or an IP slice and a port of type \<open>int\<close>.\<close>

type_synonym SockAddr = "(IP \<times> int) option"

definition addr_port_of :: "SockAddr \<Rightarrow> AddrPort" where
  "addr_port_of a =
     (case a of None \<Rightarrow> zero_AddrPort
      | Some (ip, port) \<Rightarrow> \<lparr>ap_Addr = AddrFromSlice ip, ap_Port = word_of_int port\<rparr>)"

definition DialContextTCPAddrPort ::
  "('s, 'tc, 'tl, 'uc, 'ep) gonet_ops \<Rightarrow> 's netTun \<Rightarrow> Context \<Rightarrow> AddrPort \<Rightarrow> go_error + 'tc" where
  "DialContextTCPAddrPort G net ctx addr =
     (let (fa, pn) = convertToFullAddr addr in gonet_DialContextTCP G ctx (stack net) fa pn)"

definition DialContextTCP ::
  "('s, 'tc, 'tl, 'uc, 'ep) gonet_ops \<Rightarrow> 's netTun \<Rightarrow> Context \<Rightarrow> SockAddr \<Rightarrow> go_error + 'tc" where
  "DialContextTCP G net ctx addr = DialContextTCPAddrPort G net ctx (addr_port_of addr)"

definition DialTCPAddrPort ::
  "('s, 'tc, 'tl, 'uc, 'ep) gonet_ops \<Rightarrow> 's netTun \<Rightarrow> AddrPort \<Rightarrow> go_error + 'tc" where
  "DialTCPAddrPort G net addr = (let (fa, pn) = convertToFullAddr addr in gonet_DialTCP G (stack net) fa pn)"

definition DialTCP :: "('s, 'tc, 'tl, 'uc, 'ep) gonet_ops \<Rightarrow> 's netTun \<Rightarrow> SockAddr \<Rightarrow> go_error + 'tc" where
  "DialTCP G net addr = DialTCPAddrPort G net (addr_port_of addr)"

definition ListenTCPAddrPort ::
  "('s, 'tc, 'tl, 'uc, 'ep) gonet_ops \<Rightarrow> 's netTun \<Rightarrow> AddrPort \<Rightarrow> go_error + 'tl" where
  "ListenTCPAddrPort G net addr = (let (fa, pn) = convertToFullAddr addr in gonet_ListenTCP G (stack net) fa pn)"

definition ListenTCP :: "('s, 'tc, 'tl, 'uc, 'ep) gonet_ops \<Rightarrow> 's netTun \<Rightarrow> SockAddr \<Rightarrow> go_error + 'tl" where
  "ListenTCP G net addr = ListenTCPAddrPort G net (addr_port_of addr)"

definition DialUDPAddrPort ::
  "('s, 'tc, 'tl, 'uc, 'ep) gonet_ops \<Rightarrow> 's netTun \<Rightarrow> AddrPort \<Rightarrow> AddrPort \<Rightarrow> go_error + 'uc" where
  "DialUDPAddrPort G net laddr raddr =
     (let (lfa, pn) = (if IsValid (ap_Addr laddr) \<or> 0 < ap_Port laddr
                       then (let (fa, p) = convertToFullAddr laddr in (Some fa, p)) else (None, NoProtocol));
          (rfa, pn') = (if IsValid (ap_Addr raddr) \<or> 0 < ap_Port raddr
                        then (let (fa, p) = convertToFullAddr raddr in (Some fa, p)) else (None, pn))
      in gonet_DialUDP G (stack net) lfa rfa pn')"

definition ListenUDPAddrPort ::
  "('s, 'tc, 'tl, 'uc, 'ep) gonet_ops \<Rightarrow> 's netTun \<Rightarrow> AddrPort \<Rightarrow> go_error + 'uc" where
  "ListenUDPAddrPort G net laddr = DialUDPAddrPort G net laddr zero_AddrPort"

definition DialUDP ::
  "('s, 'tc, 'tl, 'uc, 'ep) gonet_ops \<Rightarrow> 's netTun \<Rightarrow> SockAddr \<Rightarrow> SockAddr \<Rightarrow> go_error + 'uc" where
  "DialUDP G net laddr raddr = DialUDPAddrPort G net (addr_port_of laddr) (addr_port_of raddr)"

definition ListenUDP :: "('s, 'tc, 'tl, 'uc, 'ep) gonet_ops \<Rightarrow> 's netTun \<Rightarrow> SockAddr \<Rightarrow> go_error + 'uc" where
  "ListenUDP G net laddr = DialUDP G net laddr None"

section \<open>Ping sockets\<close>

text \<open>A \<open>PingAddr\<close> is its address.  The deadline of a \<open>PingConn\<close> is a timer: stopped, or due at a time.\<close>

record 'ep PingConn =
  pc_laddr :: Addr
  pc_raddr :: Addr
  pc_ep :: 'ep
  pc_deadline :: "int option"

definition PingAddr_Network :: "Addr \<Rightarrow> string" where
  "PingAddr_Network ia = (if Is4 ia then ''ping4'' else if Is6 ia then ''ping6'' else ''ping'')"

definition IPv6Unspecified :: Addr where
  "IPv6Unspecified = Some (Addr6 (replicate 16 0) [])"

definition IPv4Unspecified :: Addr where
  "IPv4Unspecified = Some (Addr4 (replicate 4 0))"

definition DialPingAddr ::
  "('s, 'tc, 'tl, 'uc, 'ep) gonet_ops \<Rightarrow> 's netTun \<Rightarrow> Addr \<Rightarrow> Addr \<Rightarrow> go_error + 'ep PingConn" where
  "DialPingAddr G net laddr0 raddr =
     (if \<not> IsValid laddr0 \<and> \<not> IsValid raddr then Inl (ErrText ''ping dial: invalid address'')
      else
        let v6 = (Is6 laddr0 \<or> Is6 raddr);
            bind = IsValid laddr0;
            laddr = (if \<not> bind then (if v6 then IPv6Unspecified else IPv4Unspecified) else laddr0);
            tn = (if v6 then icmp_ProtocolNumber6 else icmp_ProtocolNumber4);
            pn = (if v6 then ipv6_ProtocolNumber else ipv4_ProtocolNumber)
        in case NewEndpoint G (stack net) tn pn of
             Inl e \<Rightarrow> Inl (ErrWrapped ''ping socket: endpoint'' (ErrExt e))
           | Inr ep \<Rightarrow>
               (case (if bind then ep_Bind G (fst (convertToFullAddr \<lparr>ap_Addr = laddr, ap_Port = 0\<rparr>)) ep else Inr ep) of
                  Inl e \<Rightarrow> Inl (ErrWrapped ''ping bind'' (ErrExt e))
                | Inr ep1 \<Rightarrow>
                    if IsValid raddr then
                      (case ep_Connect G (fst (convertToFullAddr \<lparr>ap_Addr = raddr, ap_Port = 0\<rparr>)) ep1 of
                         Inl e \<Rightarrow> Inl (ErrWrapped ''ping connect'' (ErrExt e))
                       | Inr ep2 \<Rightarrow> Inr \<lparr>pc_laddr = laddr, pc_raddr = raddr, pc_ep = ep2, pc_deadline = None\<rparr>)
                    else Inr \<lparr>pc_laddr = laddr, pc_raddr = None, pc_ep = ep1, pc_deadline = None\<rparr>))"

definition ListenPingAddr ::
  "('s, 'tc, 'tl, 'uc, 'ep) gonet_ops \<Rightarrow> 's netTun \<Rightarrow> Addr \<Rightarrow> go_error + 'ep PingConn" where
  "ListenPingAddr G net laddr = DialPingAddr G net laddr None"

text \<open>A \<open>*PingAddr\<close> may be nil.\<close>

definition ping_addr :: "Addr option \<Rightarrow> Addr" where
  "ping_addr a = (case a of None \<Rightarrow> None | Some ia \<Rightarrow> ia)"

definition DialPing ::
  "('s, 'tc, 'tl, 'uc, 'ep) gonet_ops \<Rightarrow> 's netTun \<Rightarrow> Addr option \<Rightarrow> Addr option \<Rightarrow> go_error + 'ep PingConn" where
  "DialPing G net laddr raddr = DialPingAddr G net (ping_addr laddr) (ping_addr raddr)"

definition ListenPing ::
  "('s, 'tc, 'tl, 'uc, 'ep) gonet_ops \<Rightarrow> 's netTun \<Rightarrow> Addr option \<Rightarrow> go_error + 'ep PingConn" where
  "ListenPing G net laddr = ListenPingAddr G net (ping_addr laddr)"

datatype net_Addr = PingAddrPtr Addr | IPAddrPtr IP | OtherAddr

definition PingConn_WriteTo ::
  "('s, 'tc, 'tl, 'uc, 'ep) gonet_ops \<Rightarrow> byte list \<Rightarrow> net_Addr \<Rightarrow> 'ep PingConn
    \<Rightarrow> (nat \<times> go_error option) \<times> 'ep PingConn" where
  "PingConn_WriteTo G p addr pc =
     (case (case addr of PingAddrPtr a \<Rightarrow> Some a | IPAddrPtr ip \<Rightarrow> Some (AddrFromSlice ip) | OtherAddr \<Rightarrow> None) of
        None \<Rightarrow> ((0, Some (ErrText ''ping write: wrong net.Addr type'')), pc)
      | Some na \<Rightarrow>
          if \<not> (Is4 na \<and> Is4 (pc_laddr pc) \<or> Is6 na \<and> Is6 (pc_laddr pc))
          then ((0, Some (ErrText ''ping write: mismatched protocols'')), pc)
          else
            let rfa = fst (convertToFullAddr \<lparr>ap_Addr = na, ap_Port = 0\<rparr>);
                ((n, err), ep) = ep_Write G p rfa (pc_ep pc)
            in ((n, map_option (\<lambda>e. ErrWrapped ''ping write'' (ErrExt e)) err), pc\<lparr>pc_ep := ep\<rparr>))"

definition PingConn_Write ::
  "('s, 'tc, 'tl, 'uc, 'ep) gonet_ops \<Rightarrow> byte list \<Rightarrow> 'ep PingConn \<Rightarrow> (nat \<times> go_error option) \<times> 'ep PingConn" where
  "PingConn_Write G p pc = PingConn_WriteTo G p (PingAddrPtr (pc_raddr pc)) pc"

text \<open>What the \<open>select\<close> of \<open>ReadFrom\<close> took: the expired timer, or the arrival of a packet.\<close>

definition PingConn_ReadFrom ::
  "('s, 'tc, 'tl, 'uc, 'ep) gonet_ops \<Rightarrow> bool \<Rightarrow> nat \<Rightarrow> 'ep PingConn
    \<Rightarrow> (go_error + byte list \<times> Addr) \<times> 'ep PingConn" where
  "PingConn_ReadFrom G expired len pc =
     (if expired then (Inl ErrDeadlineExceeded, pc)
      else (case ep_ReadPacket G len (pc_ep pc) of
              (Inl e, ep) \<Rightarrow> (Inl (ErrWrapped ''ping read'' (ErrExt e)), pc\<lparr>pc_ep := ep\<rparr>)
            | (Inr (d, remote), ep) \<Rightarrow> (Inr (d, AddrFromSlice remote), pc\<lparr>pc_ep := ep\<rparr>)))"

definition PingConn_Read ::
  "('s, 'tc, 'tl, 'uc, 'ep) gonet_ops \<Rightarrow> bool \<Rightarrow> nat \<Rightarrow> 'ep PingConn \<Rightarrow> (go_error + byte list) \<times> 'ep PingConn" where
  "PingConn_Read G expired len pc =
     (let (r, pc') = PingConn_ReadFrom G expired len pc
      in (case r of Inl e \<Rightarrow> Inl e | Inr (d, _) \<Rightarrow> Inr d, pc'))"

definition PingConn_SetReadDeadline :: "int \<Rightarrow> 'ep PingConn \<Rightarrow> 'ep PingConn" where
  "PingConn_SetReadDeadline t pc = pc\<lparr>pc_deadline := Some t\<rparr>"

definition PingConn_SetDeadline :: "int \<Rightarrow> 'ep PingConn \<Rightarrow> 'ep PingConn" where
  "PingConn_SetDeadline t pc = PingConn_SetReadDeadline t pc"

definition PingConn_SetWriteDeadline :: "int \<Rightarrow> go_error option" where
  "PingConn_SetWriteDeadline t = Some (ErrText ''not implemented'')"

definition PingConn_Close ::
  "('s, 'tc, 'tl, 'uc, 'ep) gonet_ops \<Rightarrow> int \<Rightarrow> 'ep PingConn \<Rightarrow> 'ep PingConn" where
  "PingConn_Close G now pc = pc\<lparr>pc_deadline := Some now, pc_ep := ep_Close G (pc_ep pc)\<rparr>"

end
