(* ===== verification/Resolver.thy ===== *)
theory Resolver
  imports Netstack
begin

text \<open>
  \<open>netstack/tun.go\<close>, second part: the stub resolver and \<open>DialContext\<close>.  Parameters: the DNS message
  library (records \<open>dns_parser\<close>, \<open>dns_builder\<close>), the connections it talks over (\<open>conn_ops\<close>), the clock
  and the random query ID (\<open>query_env\<close>, one for each exchange), and the textual form of addresses.  A
  loop over the answers of a message ends only if the parser advances; such loops are
  \<open>partial_function\<close>s, and their termination is proved from the parser's law \<open>parser_advances\<close>.
\<close>

section \<open>Domain names\<close>

abbreviation ord :: "char \<Rightarrow> nat" where
  "ord c \<equiv> of_char c"

definition is_letter :: "char \<Rightarrow> bool" where
  "is_letter c \<longleftrightarrow> ord CHR ''a'' \<le> ord c \<and> ord c \<le> ord CHR ''z'' \<or> ord CHR ''A'' \<le> ord c \<and> ord c \<le> ord CHR ''Z''
     \<or> c = CHR ''_''"

definition is_digit :: "char \<Rightarrow> bool" where
  "is_digit c \<longleftrightarrow> ord CHR ''0'' \<le> ord c \<and> ord c \<le> ord CHR ''9''"

text \<open>The loop of \<open>isDomainName\<close>, with its variables \<open>last\<close>, \<open>nonNumeric\<close> and \<open>partlen\<close>.\<close>

fun isDomainName_loop :: "string \<Rightarrow> char \<Rightarrow> bool \<Rightarrow> nat \<Rightarrow> bool" where
  "isDomainName_loop [] l nonNumeric partlen =
     (if l = CHR ''-'' \<or> 63 < partlen then False else nonNumeric)"
| "isDomainName_loop (c # cs) l nonNumeric partlen =
     (if is_letter c then isDomainName_loop cs c True (partlen + 1)
      else if is_digit c then isDomainName_loop cs c nonNumeric (partlen + 1)
      else if c = CHR ''-'' then
        (if l = CHR ''.'' then False else isDomainName_loop cs c True (partlen + 1))
      else if c = CHR ''.'' then
        (if l = CHR ''.'' \<or> l = CHR ''-'' then False
         else if 63 < partlen \<or> partlen = 0 then False
         else isDomainName_loop cs c nonNumeric 0)
      else False)"

definition isDomainName :: "string \<Rightarrow> bool" where
  "isDomainName s =
     (let l = length s in
      if l = 0 \<or> 254 < l \<or> (l = 254 \<and> s ! (l - 1) \<noteq> CHR ''.'') then False
      else isDomainName_loop s CHR ''.'' False 0)"

section \<open>DNS messages\<close>

record dns_Name =
  Data :: "byte list"
  Length :: byte

record dnsQuestion =
  qn_Name :: dns_Name
  q_Type :: uint16
  q_Class :: uint16

record Header =
  h_ID :: uint16
  h_Response :: bool
  h_Authoritative :: bool
  h_Truncated :: bool
  h_RecursionAvailable :: bool
  h_RCode :: uint16

definition TypeA :: uint16 where "TypeA = 1"
definition TypeAAAA :: uint16 where "TypeAAAA = 28"
definition ClassINET :: uint16 where "ClassINET = 1"
definition RCodeSuccess :: uint16 where "RCodeSuccess = 0"
definition RCodeServerFailure :: uint16 where "RCodeServerFailure = 2"
definition RCodeNameError :: uint16 where "RCodeNameError = 3"

datatype 'a parsed = SectionDone | ParseError | Parsed 'a

record 'p dns_parser =
  p_zero :: 'p
  p_Start :: "byte list \<Rightarrow> (Header \<times> 'p) option"
  p_Question :: "'p \<Rightarrow> (dnsQuestion \<times> 'p) option"
  p_SkipQuestion :: "'p \<Rightarrow> unit parsed \<times> 'p"
  p_AnswerHeader :: "'p \<Rightarrow> uint16 parsed \<times> 'p"
  p_SkipAnswer :: "'p \<Rightarrow> unit parsed \<times> 'p"
  p_AResource :: "'p \<Rightarrow> byte list parsed \<times> 'p"
  p_AAAAResource :: "'p \<Rightarrow> byte list parsed \<times> 'p"

record 'b dns_builder =
  b_NewName :: "string \<Rightarrow> dns_Name option"
  b_StartQuestions :: "uint16 \<Rightarrow> 'b option"
  b_Question :: "dnsQuestion \<Rightarrow> 'b \<Rightarrow> 'b option"
  b_Finish :: "'b \<Rightarrow> byte list \<times> bool"    \<comment> \<open>the message behind two free bytes, and whether it succeeded\<close>

text \<open>\<open>newRequest\<close> with the random \<open>id\<close> of \<open>randU16\<close>: the messages for UDP and, behind its length, for TCP.\<close>

definition randU16 :: "byte list option \<Rightarrow> uint16 res" where
  "randU16 b = (case b of None \<Rightarrow> Inl (Panic (ExplicitPanic ''rand'')) | Some bs \<Rightarrow> Inr (uint16_le bs))"

definition newRequest :: "'b dns_builder \<Rightarrow> uint16 \<Rightarrow> dnsQuestion \<Rightarrow> (uint16 \<times> byte list \<times> byte list) option res" where
  "newRequest B qid q =
     (case b_StartQuestions B qid of
        None \<Rightarrow> Inr None
      | Some b \<Rightarrow>
          (case b_Question B q b of
             None \<Rightarrow> Inr None
           | Some b' \<Rightarrow>
               let (tcpReq, ok) = b_Finish B b' in
               if length tcpReq < 2 then Inl (Panic SliceBounds)
               else
                 let udpReq = drop 2 tcpReq;
                     l = length tcpReq - 2;
                     tcpReq' = tcpReq[0 := of_nat (l div 256), 1 := of_nat l]
                 in Inr (if ok then Some (qid, udpReq, tcpReq') else None)))"

definition fold_case :: "byte \<Rightarrow> byte" where
  "fold_case a = (if 0x41 \<le> a \<and> a \<le> 0x5a then a + 0x20 else a)"

fun equalASCIIName_loop :: "dns_Name \<Rightarrow> dns_Name \<Rightarrow> nat \<Rightarrow> nat \<Rightarrow> bool" where
  "equalASCIIName_loop x y i 0 = True"
| "equalASCIIName_loop x y i (Suc n) =
     (if fold_case (Data x ! i) \<noteq> fold_case (Data y ! i) then False
      else equalASCIIName_loop x y (Suc i) n)"

definition equalASCIIName :: "dns_Name \<Rightarrow> dns_Name \<Rightarrow> bool" where
  "equalASCIIName x y =
     (if Length x \<noteq> Length y then False else equalASCIIName_loop x y 0 (unat (Length x)))"

definition checkResponse :: "uint16 \<Rightarrow> dnsQuestion \<Rightarrow> Header \<Rightarrow> dnsQuestion \<Rightarrow> bool" where
  "checkResponse reqID reqQues respHdr respQues =
     (if \<not> h_Response respHdr then False
      else if reqID \<noteq> h_ID respHdr then False
      else if q_Type reqQues \<noteq> q_Type respQues \<or> q_Class reqQues \<noteq> q_Class respQues
        \<or> \<not> equalASCIIName (qn_Name reqQues) (qn_Name respQues) then False
      else True)"

section \<open>One exchange\<close>

text \<open>
  \<open>dnsPacketRoundTrip\<close> after its write: the datagrams that arrive, and the error of the read that finds
  no more of them before the deadline.  The buffer has 512 bytes.
\<close>

fun packet_loop ::
  "'p dns_parser \<Rightarrow> uint16 \<Rightarrow> dnsQuestion \<Rightarrow> byte list list \<Rightarrow> go_error \<Rightarrow> go_error + ('p \<times> Header)" where
  "packet_loop P qid query [] e = Inl e"
| "packet_loop P qid query (d # ds) e =
     (case p_Start P (take 512 d) of
        None \<Rightarrow> packet_loop P qid query ds e
      | Some (h, p) \<Rightarrow>
          (case p_Question P p of
             None \<Rightarrow> packet_loop P qid query ds e
           | Some (q, p') \<Rightarrow>
               if \<not> checkResponse qid query h q then packet_loop P qid query ds e else Inr (p', h)))"

definition dnsPacketRoundTrip ::
  "'p dns_parser \<Rightarrow> (byte list \<Rightarrow> go_error + (byte list list \<times> go_error)) \<Rightarrow> uint16 \<Rightarrow> dnsQuestion \<Rightarrow> byte list
    \<Rightarrow> go_error + ('p \<times> Header)" where
  "dnsPacketRoundTrip P c qid query b =
     (case c b of Inl e \<Rightarrow> Inl e | Inr (ds, e) \<Rightarrow> packet_loop P qid query ds e)"

text \<open>\<open>io.ReadFull\<close> on a stream that delivers \<open>bs\<close> and then fails with \<open>e\<close>.\<close>

definition ReadFull :: "nat \<Rightarrow> byte list \<times> go_error \<Rightarrow> go_error + (byte list \<times> (byte list \<times> go_error))" where
  "ReadFull n s =
     (case s of (bs, e) \<Rightarrow>
        if n \<le> length bs then Inr (take n bs, (drop n bs, e))
        else Inl (if e = ErrEOF \<and> bs \<noteq> [] then ErrText ''unexpected EOF'' else e))"

definition dnsStreamRoundTrip ::
  "'p dns_parser \<Rightarrow> (byte list \<Rightarrow> go_error + (byte list \<times> go_error)) \<Rightarrow> uint16 \<Rightarrow> dnsQuestion \<Rightarrow> byte list
    \<Rightarrow> go_error + ('p \<times> Header)" where
  "dnsStreamRoundTrip P c qid query b =
     (case c b of
        Inl e \<Rightarrow> Inl e
      | Inr s \<Rightarrow>
          (case ReadFull 2 s of
             Inl e \<Rightarrow> Inl e
           | Inr (len, s') \<Rightarrow>
               let l = unat (len ! 0) * 256 + unat (len ! 1) in
               (case ReadFull l s' of
                  Inl e \<Rightarrow> Inl e
                | Inr (msg, _) \<Rightarrow>
                    (case p_Start P msg of
                       None \<Rightarrow> Inl ErrCannotUnmarshalDNSMessage
                     | Some (h, p) \<Rightarrow>
                         (case p_Question P p of
                            None \<Rightarrow> Inl ErrCannotUnmarshalDNSMessage
                          | Some (q, p') \<Rightarrow>
                              if \<not> checkResponse qid query h q then Inl ErrInvalidDNSResponse
                              else Inr (p', h))))))"

text \<open>What an exchange meets: sockets, connections, its random ID and the clock.\<close>

record ('tc, 'uc) conn_ops =
  udp_SetDeadline :: "'uc \<Rightarrow> int \<Rightarrow> go_error option"
  tcp_SetDeadline :: "'tc \<Rightarrow> int \<Rightarrow> go_error option"
  udp_talk :: "'uc \<Rightarrow> byte list \<Rightarrow> go_error + (byte list list \<times> go_error)"
  tcp_talk :: "'tc \<Rightarrow> byte list \<Rightarrow> go_error + (byte list \<times> go_error)"

record ('s, 'tc, 'tl, 'uc, 'ep) query_env =
  qe_gonet :: "('s, 'tc, 'tl, 'uc, 'ep) gonet_ops"
  qe_conn :: "('tc, 'uc) conn_ops"
  qe_rand :: "byte list option"
  qe_now :: int

definition translate_ctx_err :: "go_error \<Rightarrow> go_error" where
  "translate_ctx_err err = (if err = ErrCtxCanceled then ErrCanceled
     else if err = ErrCtxDeadline then ErrTimeout else err)"

definition WithDeadline :: "Context \<Rightarrow> int \<Rightarrow> Context" where
  "WithDeadline ctx d = (case ctx of None \<Rightarrow> Some d | Some d0 \<Rightarrow> Some (min d0 d))"

text \<open>One round of the loop of \<open>exchange\<close>: dialling, setting the deadline and the round trip.\<close>

definition exchange_round ::
  "'p dns_parser \<Rightarrow> ('s, 'tc, 'tl, 'uc, 'ep) query_env \<Rightarrow> 's netTun \<Rightarrow> Context \<Rightarrow> Addr \<Rightarrow> dnsQuestion
    \<Rightarrow> uint16 \<times> byte list \<times> byte list \<Rightarrow> bool \<Rightarrow> go_error + ('p \<times> Header)" where
  "exchange_round P X tnet ctx server q req useUDP =
     (case req of (qid, udpReq, tcpReq) \<Rightarrow>
        let d = (case ctx of None \<Rightarrow> 0 | Some t \<Rightarrow> t); ap = \<lparr>ap_Addr = server, ap_Port = 53\<rparr> in
        if useUDP then
          (case DialUDPAddrPort (qe_gonet X) tnet zero_AddrPort ap of
             Inl e \<Rightarrow> Inl e
           | Inr c \<Rightarrow>
               (case (if ctx \<noteq> None then udp_SetDeadline (qe_conn X) c d else None) of
                  Some e \<Rightarrow> Inl e
                | None \<Rightarrow> map_sum translate_ctx_err (\<lambda>x. x)
                    (dnsPacketRoundTrip P (udp_talk (qe_conn X) c) qid q udpReq)))
        else
          (case DialContextTCPAddrPort (qe_gonet X) tnet ctx ap of
             Inl e \<Rightarrow> Inl e
           | Inr c \<Rightarrow>
               (case (if ctx \<noteq> None then tcp_SetDeadline (qe_conn X) c d else None) of
                  Some e \<Rightarrow> Inl e
                | None \<Rightarrow> map_sum translate_ctx_err (\<lambda>x. x)
                    (dnsStreamRoundTrip P (tcp_talk (qe_conn X) c) qid q tcpReq))))"

fun exchange_loop ::
  "'p dns_parser \<Rightarrow> ('s, 'tc, 'tl, 'uc, 'ep) query_env \<Rightarrow> 's netTun \<Rightarrow> Context \<Rightarrow> Addr \<Rightarrow> dnsQuestion
    \<Rightarrow> uint16 \<times> byte list \<times> byte list \<Rightarrow> bool list \<Rightarrow> go_error + ('p \<times> Header)" where
  "exchange_loop P X tnet ctx server q req [] = Inl ErrNoAnswerFromDNSServer"
| "exchange_loop P X tnet ctx server q req (useUDP # rest) =
     (case exchange_round P X tnet ctx server q req useUDP of
        Inl e \<Rightarrow> Inl e
      | Inr (p, h) \<Rightarrow>
          let (r, p') = p_SkipQuestion P p in
          if r \<noteq> SectionDone then Inl ErrInvalidDNSResponse
          else if h_Truncated h then exchange_loop P X tnet ctx server q req rest
          else Inr (p', h))"

definition exchange ::
  "'p dns_parser \<Rightarrow> 'b dns_builder \<Rightarrow> ('s, 'tc, 'tl, 'uc, 'ep) query_env \<Rightarrow> 's netTun \<Rightarrow> Context \<Rightarrow> Addr
    \<Rightarrow> dnsQuestion \<Rightarrow> int \<Rightarrow> ('p \<times> Header) res" where
  "exchange P B X tnet ctx server q0 timeout =
     (let q = q0\<lparr>q_Class := ClassINET\<rparr> in
      bind_res (randU16 (qe_rand X)) (\<lambda>qid.
      bind_res (newRequest B qid q) (\<lambda>req.
        (case req of
           None \<Rightarrow> Inl (Error ErrCannotMarshalDNSMessage)
         | Some r \<Rightarrow>
             (case exchange_loop P X tnet (WithDeadline ctx (qe_now X + timeout)) server q r [True, False] of
                Inl e \<Rightarrow> Inl (Error e)
              | Inr ph \<Rightarrow> Inr ph)))))"

section \<open>One name\<close>

definition checkHeader :: "'p dns_parser \<Rightarrow> 'p \<Rightarrow> Header \<Rightarrow> go_error option \<times> 'p" where
  "checkHeader P p h =
     (if h_RCode h = RCodeNameError then (Some ErrNoSuchHost, p)
      else
        let (r, p') = p_AnswerHeader P p in
        if r = ParseError then (Some ErrCannotUnmarshalDNSMessage, p')
        else if h_RCode h = RCodeSuccess \<and> \<not> h_Authoritative h \<and> \<not> h_RecursionAvailable h \<and> r = SectionDone
          then (Some ErrLameReferral, p')
        else if h_RCode h \<noteq> RCodeSuccess \<and> h_RCode h \<noteq> RCodeNameError then
          (if h_RCode h = RCodeServerFailure then (Some ErrServerTemporarilyMisbehaving, p')
           else (Some ErrServerMisbehaving, p'))
        else (None, p'))"

partial_function (option) skipToAnswer ::
  "'p dns_parser \<Rightarrow> uint16 \<Rightarrow> 'p \<Rightarrow> (go_error option \<times> 'p) option" where
  "skipToAnswer P qtype p =
     (case p_AnswerHeader P p of
        (SectionDone, p1) \<Rightarrow> Some (Some ErrNoSuchHost, p1)
      | (ParseError, p1) \<Rightarrow> Some (Some ErrCannotUnmarshalDNSMessage, p1)
      | (Parsed t, p1) \<Rightarrow>
          if t = qtype then Some (None, p1)
          else (case p_SkipAnswer P p1 of
                  (Parsed u, p2) \<Rightarrow> skipToAnswer P qtype p2
                | (SectionDone, p2) \<Rightarrow> Some (Some ErrCannotUnmarshalDNSMessage, p2)
                | (ParseError, p2) \<Rightarrow> Some (Some ErrCannotUnmarshalDNSMessage, p2)))"

text \<open>
  How Go's type tests see an error: does it implement \<open>net.Error\<close> with a true \<open>Timeout\<close>, is it a
  \<open>*net.OpError\<close>; and the textual form of an address.
\<close>

record err_view =
  is_timeout :: "go_error \<Rightarrow> bool"
  is_OpError :: "go_error \<Rightarrow> bool"
  Addr_String :: "netip_Addr \<Rightarrow> string"

definition addr_text :: "err_view \<Rightarrow> Addr \<Rightarrow> string" where
  "addr_text V a = (case a of None \<Rightarrow> ''invalid IP'' | Some x \<Rightarrow> Addr_String V x)"

text \<open>
  The two nested loops of \<open>tryOneName\<close>: the servers twice over, each attempt in its own environment.
  The result is the parser, the server's text and the error.
\<close>

fun try_servers ::
  "'p dns_parser \<Rightarrow> 'b dns_builder \<Rightarrow> err_view \<Rightarrow> (nat \<Rightarrow> ('s, 'tc, 'tl, 'uc, 'ep) query_env) \<Rightarrow> 's netTun
    \<Rightarrow> Context \<Rightarrow> string \<Rightarrow> dnsQuestion \<Rightarrow> nat \<Rightarrow> Addr list \<Rightarrow> go_error option
    \<Rightarrow> ('p \<times> string \<times> go_error option) res option" where
  "try_servers P B V X tnet ctx name q k [] lastErr = Some (Inr (p_zero P, [], lastErr))"
| "try_servers P B V X tnet ctx name q k (server # rest) lastErr =
     (let srv = addr_text V server in
      case exchange P B (X k) tnet ctx server q 5000000000 of
        Inl (Error err) \<Rightarrow>
          try_servers P B V X tnet ctx name q (Suc k) rest
            (Some (DNSError err name srv (is_timeout V err) (is_OpError V err) False))
      | Inl f \<Rightarrow> Some (Inl f)
      | Inr (p, h) \<Rightarrow>
          (case checkHeader P p h of
             (Some err, p1) \<Rightarrow>
               let dnsErr = DNSError err name srv False (err = ErrServerTemporarilyMisbehaving) (err = ErrNoSuchHost) in
               if err = ErrNoSuchHost then Some (Inr (p1, srv, Some dnsErr))
               else try_servers P B V X tnet ctx name q (Suc k) rest (Some dnsErr)
           | (None, p1) \<Rightarrow>
               (case skipToAnswer P (q_Type q) p1 of
                  None \<Rightarrow> None
                | Some (None, p2) \<Rightarrow> Some (Inr (p2, srv, None))
                | Some (Some err, p2) \<Rightarrow>
                    let dnsErr = DNSError err name srv False False (err = ErrNoSuchHost) in
                    if err = ErrNoSuchHost then Some (Inr (p2, srv, Some dnsErr))
                    else try_servers P B V X tnet ctx name q (Suc k) rest (Some dnsErr))))"

definition tryOneName ::
  "'p dns_parser \<Rightarrow> 'b dns_builder \<Rightarrow> err_view \<Rightarrow> (nat \<Rightarrow> ('s, 'tc, 'tl, 'uc, 'ep) query_env) \<Rightarrow> 's netTun
    \<Rightarrow> Context \<Rightarrow> string \<Rightarrow> uint16 \<Rightarrow> ('p \<times> string \<times> go_error option) res option" where
  "tryOneName P B V X tnet ctx name qtype =
     (case b_NewName B name of
        None \<Rightarrow> Some (Inr (p_zero P, [], Some ErrCannotMarshalDNSMessage))
      | Some n \<Rightarrow>
          try_servers P B V X tnet ctx name \<lparr>qn_Name = n, q_Type = qtype, q_Class = ClassINET\<rparr> 0
            (concat (replicate 2 (dnsServers tnet))) None)"

section \<open>LookupContextHost\<close>

record answers =
  addrsV4 :: "netip_Addr list"
  addrsV6 :: "netip_Addr list"
  an_lastErr :: "go_error option"

text \<open>The loop over the answers of one message.\<close>

partial_function (option) answers_loop ::
  "'p dns_parser \<Rightarrow> string \<Rightarrow> string \<Rightarrow> 'p \<Rightarrow> answers \<Rightarrow> answers option" where
  "answers_loop P host server p a =
     (let bad = a\<lparr>an_lastErr := Some (DNSError ErrCannotMarshalDNSMessage host server False False False)\<rparr> in
      case p_AnswerHeader P p of
        (SectionDone, p1) \<Rightarrow> Some a
      | (ParseError, p1) \<Rightarrow> Some bad
      | (Parsed t, p1) \<Rightarrow>
          if t = TypeA then
            (case p_AResource P p1 of
               (Parsed b, p2) \<Rightarrow> answers_loop P host server p2 (a\<lparr>addrsV4 := addrsV4 a @ [Addr4 b]\<rparr>)
             | (SectionDone, p2) \<Rightarrow> Some bad
             | (ParseError, p2) \<Rightarrow> Some bad)
          else if t = TypeAAAA then
            (case p_AAAAResource P p1 of
               (Parsed b, p2) \<Rightarrow> answers_loop P host server p2 (a\<lparr>addrsV6 := addrsV6 a @ [Addr6 b []]\<rparr>)
             | (SectionDone, p2) \<Rightarrow> Some bad
             | (ParseError, p2) \<Rightarrow> Some bad)
          else
            (case p_SkipAnswer P p1 of
               (Parsed u, p2) \<Rightarrow> answers_loop P host server p2 a
             | (SectionDone, p2) \<Rightarrow> Some bad
             | (ParseError, p2) \<Rightarrow> Some bad))"

text \<open>The results of the goroutines, in the order in which they arrive.\<close>

fun collect_lanes ::
  "'p dns_parser \<Rightarrow> string \<Rightarrow> ('p \<times> string \<times> go_error option) list \<Rightarrow> answers \<Rightarrow> answers option" where
  "collect_lanes P host [] a = Some a"
| "collect_lanes P host ((p, server, err) # rest) a =
     (case err of
        Some e \<Rightarrow> collect_lanes P host rest (if an_lastErr a = None then a\<lparr>an_lastErr := Some e\<rparr> else a)
      | None \<Rightarrow>
          (case answers_loop P host server p a of
             None \<Rightarrow> None
           | Some a' \<Rightarrow> collect_lanes P host rest a'))"

definition LastIndexByte :: "string \<Rightarrow> char \<Rightarrow> int" where
  "LastIndexByte s c = int (length s) - 1 - int (length (takeWhile (\<lambda>x. x \<noteq> c) (rev s)))"

definition strip_zone :: "string \<Rightarrow> string" where
  "strip_zone host =
     (let zlen = (if CHR '':'' \<in> set host
                  then (let zidx = LastIndexByte host CHR ''%'' in if zidx \<noteq> -1 then nat zidx else length host)
                  else length host)
      in take zlen host)"

text \<open>
  \<open>X4\<close> and \<open>X6\<close> are what the two goroutines meet, \<open>v6_first\<close> the order in which they finish.  The result
  is \<open>None\<close> when a goroutine never finishes.
\<close>

definition lane_results ::
  "'p dns_parser \<Rightarrow> 'b dns_builder \<Rightarrow> err_view \<Rightarrow> (nat \<Rightarrow> ('s, 'tc, 'tl, 'uc, 'ep) query_env)
    \<Rightarrow> (nat \<Rightarrow> ('s, 'tc, 'tl, 'uc, 'ep) query_env) \<Rightarrow> bool \<Rightarrow> 's netTun \<Rightarrow> Context \<Rightarrow> string
    \<Rightarrow> ('p \<times> string \<times> go_error option) res option list" where
  "lane_results P B V X4 X6 v6_first tnet ctx host =
     (let r4 = (if hasV4 tnet then [tryOneName P B V X4 tnet ctx (host @ ''.'') TypeA] else []);
          r6 = (if hasV6 tnet then [tryOneName P B V X6 tnet ctx (host @ ''.'') TypeAAAA] else [])
      in if v6_first then r6 @ r4 else r4 @ r6)"

fun receive :: "'a res option list \<Rightarrow> 'a list res option" where
  "receive [] = Some (Inr [])"
| "receive (None # rs) = None"
| "receive (Some (Inl f) # rs) = Some (Inl f)"
| "receive (Some (Inr x) # rs) =
     (case receive rs of None \<Rightarrow> None | Some (Inl f) \<Rightarrow> Some (Inl f) | Some (Inr xs) \<Rightarrow> Some (Inr (x # xs)))"

definition LookupContextHost ::
  "'p dns_parser \<Rightarrow> 'b dns_builder \<Rightarrow> err_view \<Rightarrow> (nat \<Rightarrow> ('s, 'tc, 'tl, 'uc, 'ep) query_env)
    \<Rightarrow> (nat \<Rightarrow> ('s, 'tc, 'tl, 'uc, 'ep) query_env) \<Rightarrow> bool \<Rightarrow> 's netTun \<Rightarrow> Context \<Rightarrow> string
    \<Rightarrow> string list res option" where
  "LookupContextHost P B V X4 X6 v6_first tnet ctx host =
     (if host = [] \<or> (\<not> hasV6 tnet \<and> \<not> hasV4 tnet)
      then Some (Inl (Error (DNSError ErrNoSuchHost host [] False False True)))
      else (case ParseAddr (strip_zone host) of
        Some ip \<Rightarrow> Some (Inr [Addr_String V ip])
      | None \<Rightarrow>
          if \<not> isDomainName host then Some (Inl (Error (DNSError ErrNoSuchHost host [] False False True)))
          else
            (case receive (lane_results P B V X4 X6 v6_first tnet ctx host) of
               None \<Rightarrow> None
             | Some (Inl f) \<Rightarrow> Some (Inl f)
             | Some (Inr lanes) \<Rightarrow>
                 (case collect_lanes P host lanes \<lparr>addrsV4 = [], addrsV6 = [], an_lastErr = None\<rparr> of
                    None \<Rightarrow> None
                  | Some a \<Rightarrow>
                      let addrs = (if hasV6 tnet then addrsV6 a @ addrsV4 a else addrsV4 a @ addrsV6 a) in
                      (case (addrs, an_lastErr a) of
                         ([], Some e) \<Rightarrow> Some (Inl (Error e))
                       | _ \<Rightarrow> Some (Inr (map (Addr_String V) addrs)))))))"

definition LookupHost ::
  "'p dns_parser \<Rightarrow> 'b dns_builder \<Rightarrow> err_view \<Rightarrow> (nat \<Rightarrow> ('s, 'tc, 'tl, 'uc, 'ep) query_env)
    \<Rightarrow> (nat \<Rightarrow> ('s, 'tc, 'tl, 'uc, 'ep) query_env) \<Rightarrow> bool \<Rightarrow> 's netTun \<Rightarrow> string \<Rightarrow> string list res option" where
  "LookupHost P B V X4 X6 v6_first tnet host = LookupContextHost P B V X4 X6 v6_first tnet None host"

end
