(* ===== verification/Dialer.thy ===== *)
theory Dialer
  imports Resolver
begin

text \<open>
  \<open>netstack/tun.go\<close>, last part: \<open>partialDeadline\<close>, \<open>DialContext\<close> and \<open>Dial\<close>, with the standard
  library's \<open>net.SplitHostPort\<close> and \<open>strconv.Atoi\<close>.  Times are nanoseconds; \<open>time.Duration\<close> is 64 bits
  wide and \<open>Sub\<close> saturates.
\<close>

section \<open>Deadlines\<close>

definition maxDuration :: int where "maxDuration = 2 ^ 63 - 1"
definition minDuration :: int where "minDuration = - (2 ^ 63)"

definition time_Sub :: "int \<Rightarrow> int \<Rightarrow> int" where
  "time_Sub t u = max minDuration (min maxDuration (t - u))"

definition saneMinimum :: int where "saneMinimum = 2000000000"

text \<open>The zero \<open>time.Time\<close> is \<open>None\<close>.  Go's division truncates and panics on zero.\<close>

definition quot :: "int \<Rightarrow> int \<Rightarrow> int" where
  "quot a b = sgn a * sgn b * (\<bar>a\<bar> div \<bar>b\<bar>)"

definition partialDeadline :: "int \<Rightarrow> int option \<Rightarrow> int \<Rightarrow> int option res" where
  "partialDeadline now deadline addrsRemaining =
     (case deadline of
        None \<Rightarrow> Inr None
      | Some d \<Rightarrow>
          let timeRemaining = time_Sub d now in
          if timeRemaining \<le> 0 then Inl (Error ErrTimeout)
          else if addrsRemaining = 0 then Inl (Panic DivideByZero)
          else
            let timeout = quot timeRemaining addrsRemaining;
                timeout' = (if timeout < saneMinimum
                            then (if timeRemaining < saneMinimum then timeRemaining else saneMinimum)
                            else timeout)
            in Inr (Some (now + timeout')))"

section \<open>Host and port\<close>

definition IndexByte :: "string \<Rightarrow> char \<Rightarrow> nat option" where
  "IndexByte s c = (let i = length (takeWhile (\<lambda>x. x \<noteq> c) s) in if i < length s then Some i else None)"

definition SplitHostPort :: "string \<Rightarrow> (string \<times> string) option" where
  "SplitHostPort hostport =
     (let i = LastIndexByte hostport CHR '':'' in
      if i < 0 then None
      else
        let port = drop (nat i + 1) hostport in
        if hostport ! 0 = CHR ''['' then
          (case IndexByte hostport CHR '']'' of
             None \<Rightarrow> None
           | Some e \<Rightarrow>
               if e + 1 \<noteq> nat i then None
               else if CHR ''['' \<in> set (drop 1 hostport) \<or> CHR '']'' \<in> set (drop (e + 1) hostport) then None
               else Some (take (e - 1) (drop 1 hostport), port))
        else
          let host = take (nat i) hostport in
          if CHR '':'' \<in> set host then None
          else if CHR ''['' \<in> set hostport \<or> CHR '']'' \<in> set hostport then None
          else Some (host, port))"

definition Atoi :: "string \<Rightarrow> int option" where
  "Atoi s =
     (let (neg, ds) = (case s of
            c # cs \<Rightarrow> if c = CHR ''-'' then (True, cs) else if c = CHR ''+'' then (False, cs) else (False, s)
          | [] \<Rightarrow> (False, []))
      in case dtoi ds of
           None \<Rightarrow> None
         | Some n \<Rightarrow>
             if neg then (if 2 ^ 63 < int n then None else Some (- int n))
             else (if 2 ^ 63 \<le> int n then None else Some (int n)))"

section \<open>DialContext\<close>

datatype dial_proto = Tcp | Udp | Ping

text \<open>\<open>protoSplitter.FindStringSubmatch\<close>: the protocol, and the version if one is given.\<close>

definition protoSplitter :: "string \<Rightarrow> (dial_proto \<times> char option) option" where
  "protoSplitter network =
     (let proto = (if HasPrefix network ''tcp'' then Some (Tcp, drop 3 network)
                   else if HasPrefix network ''udp'' then Some (Udp, drop 3 network)
                   else if HasPrefix network ''ping'' then Some (Ping, drop 4 network)
                   else None)
      in case proto of
           None \<Rightarrow> None
         | Some (p, []) \<Rightarrow> Some (p, None)
         | Some (p, [c]) \<Rightarrow> if c = CHR ''4'' \<or> c = CHR ''6'' then Some (p, Some c) else None
         | Some (p, _ # _ # _) \<Rightarrow> None)"

datatype ('tc, 'uc, 'ep) dial_conn = TCPConn 'tc | UDPConn 'uc | PingSock "'ep PingConn"

text \<open>What the dial loop meets at the start of each round: \<open>ctx.Err()\<close>, the clock, the stack's sockets.\<close>

record ('s, 'tc, 'tl, 'uc, 'ep) dial_env =
  de_ctxErr :: "go_error option"
  de_now :: int
  de_gonet :: "('s, 'tc, 'tl, 'uc, 'ep) gonet_ops"

definition dial_one ::
  "('s, 'tc, 'tl, 'uc, 'ep) gonet_ops \<Rightarrow> 's netTun \<Rightarrow> dial_proto \<Rightarrow> Context \<Rightarrow> AddrPort
    \<Rightarrow> go_error + ('tc, 'uc, 'ep) dial_conn" where
  "dial_one G tnet proto dialCtx addr =
     (case proto of
        Tcp \<Rightarrow> map_sum (\<lambda>e. e) TCPConn (DialContextTCPAddrPort G tnet dialCtx addr)
      | Udp \<Rightarrow> map_sum (\<lambda>e. e) UDPConn (DialUDPAddrPort G tnet zero_AddrPort addr)
      | Ping \<Rightarrow> map_sum (\<lambda>e. e) PingSock (DialPingAddr G tnet None (ap_Addr addr)))"

text \<open>The context a round dials with: the caller's, or a child of it that ends at the partial deadline.\<close>

definition dial_ctx :: "int \<Rightarrow> Context \<Rightarrow> int \<Rightarrow> Context res" where
  "dial_ctx now ctx addrsRemaining =
     (case ctx of
        None \<Rightarrow> Inr ctx
      | Some d \<Rightarrow>
          bind_res (partialDeadline now (Some d) addrsRemaining) (\<lambda>pd.
            Inr (case pd of Some t \<Rightarrow> if t < d then WithDeadline ctx t else ctx | None \<Rightarrow> ctx)))"

definition dial_error :: "go_error option \<Rightarrow> go_error" where
  "dial_error firstErr = (case firstErr of None \<Rightarrow> OpError ErrMissingAddress | Some e \<Rightarrow> e)"

fun dial_loop ::
  "(nat \<Rightarrow> ('s, 'tc, 'tl, 'uc, 'ep) dial_env) \<Rightarrow> 's netTun \<Rightarrow> dial_proto \<Rightarrow> Context \<Rightarrow> nat \<Rightarrow> AddrPort list
    \<Rightarrow> go_error option \<Rightarrow> ('tc, 'uc, 'ep) dial_conn res" where
  "dial_loop D tnet proto ctx i [] firstErr = Inl (Error (dial_error firstErr))"
| "dial_loop D tnet proto ctx i (addr # rest) firstErr =
     (case de_ctxErr (D i) of
        Some e \<Rightarrow> Inl (Error (OpError (translate_ctx_err e)))
      | None \<Rightarrow>
          (case dial_ctx (de_now (D i)) ctx (int (length (addr # rest))) of
             Inl (Error e) \<Rightarrow>
               Inl (Error (dial_error (if firstErr = None then Some (OpError e) else firstErr)))
           | Inl f \<Rightarrow> Inl f
           | Inr dialCtx \<Rightarrow>
               (case dial_one (de_gonet (D i)) tnet proto dialCtx addr of
                  Inr c \<Rightarrow> Inr c
                | Inl e \<Rightarrow> dial_loop D tnet proto ctx (Suc i) rest (if firstErr = None then Some e else firstErr))))"

definition accept_addr :: "char option \<Rightarrow> string \<Rightarrow> netip_Addr option" where
  "accept_addr ver s =
     (let acceptV4 = (ver = None \<or> ver = Some CHR ''4'');
          acceptV6 = (ver = None \<or> ver \<noteq> Some CHR ''4'')
      in case ParseAddr s of
           None \<Rightarrow> None
         | Some ip \<Rightarrow> if Is4 (Some ip) \<and> acceptV4 \<or> Is6 (Some ip) \<and> acceptV6 then Some ip else None)"

definition split_target :: "dial_proto \<Rightarrow> string \<Rightarrow> go_error + (string \<times> int)" where
  "split_target proto address =
     (if proto = Ping then Inr (address, 0)
      else (case SplitHostPort address of
              None \<Rightarrow> Inl (OpError (ErrExt ''SplitHostPort''))
            | Some (host, sport) \<Rightarrow>
                (case Atoi sport of
                   None \<Rightarrow> Inl (OpError ErrNumericPort)
                 | Some port \<Rightarrow>
                     if port < 0 \<or> 65535 < port then Inl (OpError ErrNumericPort) else Inr (host, port))))"

text \<open>The first arguments are those of \<open>LookupContextHost\<close>.  A nil context is \<open>None\<close>.\<close>

definition DialContext ::
  "'p dns_parser \<Rightarrow> 'b dns_builder \<Rightarrow> err_view \<Rightarrow> (nat \<Rightarrow> ('s, 'tc, 'tl, 'uc, 'ep) query_env)
    \<Rightarrow> (nat \<Rightarrow> ('s, 'tc, 'tl, 'uc, 'ep) query_env) \<Rightarrow> bool \<Rightarrow> (nat \<Rightarrow> ('s, 'tc, 'tl, 'uc, 'ep) dial_env)
    \<Rightarrow> 's netTun \<Rightarrow> Context option \<Rightarrow> string \<Rightarrow> string \<Rightarrow> ('tc, 'uc, 'ep) dial_conn res option" where
  "DialContext P B V X4 X6 v6_first D tnet ctx0 network address =
     (case ctx0 of
        None \<Rightarrow> Some (Inl (Panic (ExplicitPanic ''nil context'')))
      | Some ctx \<Rightarrow>
          (case protoSplitter network of
             None \<Rightarrow> Some (Inl (Error (OpError (ErrUnknownNetwork network))))
           | Some (proto, ver) \<Rightarrow>
               (case split_target proto address of
                  Inl e \<Rightarrow> Some (Inl (Error e))
                | Inr (host, port) \<Rightarrow>
                    (case LookupContextHost P B V X4 X6 v6_first tnet ctx host of
                       None \<Rightarrow> None
                     | Some (Inl (Error e)) \<Rightarrow> Some (Inl (Error (OpError e)))
                     | Some (Inl f) \<Rightarrow> Some (Inl f)
                     | Some (Inr allAddr) \<Rightarrow>
                         let addrs = map (\<lambda>ip. \<lparr>ap_Addr = Some ip, ap_Port = word_of_int port\<rparr>)
                               (List.map_filter (accept_addr ver) allAddr)
                         in if addrs = [] \<and> allAddr \<noteq> [] then Some (Inl (Error (OpError ErrNoSuitableAddress)))
                            else Some (dial_loop D tnet proto ctx 0 addrs None)))))"

definition Dial ::
  "'p dns_parser \<Rightarrow> 'b dns_builder \<Rightarrow> err_view \<Rightarrow> (nat \<Rightarrow> ('s, 'tc, 'tl, 'uc, 'ep) query_env)
    \<Rightarrow> (nat \<Rightarrow> ('s, 'tc, 'tl, 'uc, 'ep) query_env) \<Rightarrow> bool \<Rightarrow> (nat \<Rightarrow> ('s, 'tc, 'tl, 'uc, 'ep) dial_env)
    \<Rightarrow> 's netTun \<Rightarrow> string \<Rightarrow> string \<Rightarrow> ('tc, 'uc, 'ep) dial_conn res option" where
  "Dial P B V X4 X6 v6_first D tnet network address =
     DialContext P B V X4 X6 v6_first D tnet (Some None) network address"

end
