(* ===== verification/ResolverProps.thy ===== *)
theory ResolverProps
  imports Dialer
begin

text \<open>
  Properties of the resolver and dialler: domain-name syntax against its declarative form, which
  responses an exchange accepts, termination of a look-up, the time a dial gives each address, and
  which address a dial ends up with.
\<close>

section \<open>Domain names\<close>

text \<open>
  The declarative form: at most 253 characters, not counting a final dot; labels of 1 to 63 letters,
  digits, underscores and hyphens that neither begin nor end with a hyphen; and some character that
  is not a digit.
\<close>

definition label_ok :: "string \<Rightarrow> bool" where
  "label_ok w \<longleftrightarrow> w \<noteq> [] \<and> length w \<le> 63 \<and> (\<forall>c \<in> set w. is_letter c \<or> is_digit c \<or> c = CHR ''-'')
     \<and> hd w \<noteq> CHR ''-'' \<and> last w \<noteq> CHR ''-''"

definition labels_ok :: "string list \<Rightarrow> bool" where
  "labels_ok ls \<longleftrightarrow> (\<forall>w \<in> set (butlast ls). label_ok w) \<and> (last ls = [] \<or> label_ok (last ls))"

definition non_numeric :: "char \<Rightarrow> bool" where
  "non_numeric c \<longleftrightarrow> is_letter c \<or> c = CHR ''-''"

definition domain_name :: "string \<Rightarrow> bool" where
  "domain_name s \<longleftrightarrow> s \<noteq> [] \<and> (length s \<le> 253 \<or> length s = 254 \<and> last s = CHR ''.'')
     \<and> labels_ok (Split s CHR ''.'') \<and> (\<exists>c \<in> set s. non_numeric c)"

lemma char_classes:
  "\<not> is_letter CHR ''.''" "\<not> is_digit CHR ''.''" "\<not> is_letter CHR ''-''" "\<not> is_digit CHR ''-''"
  by (simp_all add: is_letter_def is_digit_def)

lemma letter_not_digit: "is_letter c \<Longrightarrow> \<not> is_digit c"
  by (auto simp: is_letter_def is_digit_def)

lemma labels_ok_Cons: "ls \<noteq> [] \<Longrightarrow> labels_ok (w # ls) \<longleftrightarrow> label_ok w \<and> labels_ok ls"
  by (auto simp: labels_ok_def)

text \<open>A first label that begins with a hyphen or contains a forbidden character spoils the name.\<close>

lemma labels_ok_hd: "labels_ok (w # ls) \<Longrightarrow> w = [] \<or> label_ok w"
  by (auto simp: labels_ok_def split: if_splits)

text \<open>What the loop's variables say about the part \<open>cur\<close> of the current label it has read.\<close>

definition reading :: "string \<Rightarrow> char \<Rightarrow> nat \<Rightarrow> bool" where
  "reading cur l n \<longleftrightarrow> n = length cur \<and> l = (if cur = [] then CHR ''.'' else last cur)
     \<and> (\<forall>c \<in> set cur. is_letter c \<or> is_digit c \<or> c = CHR ''-'') \<and> (cur \<noteq> [] \<longrightarrow> hd cur \<noteq> CHR ''-'')"

lemma reading_no_dot: "reading cur l n \<Longrightarrow> CHR ''.'' \<notin> set cur"
  using char_classes by (auto simp: reading_def)

lemma reading_snoc:
  "reading cur l n \<Longrightarrow> is_letter c \<or> is_digit c \<or> c = CHR ''-'' \<and> cur \<noteq> [] \<Longrightarrow> reading (cur @ [c]) c (n + 1)"
  using char_classes by (auto simp: reading_def hd_append)

lemma reading_label: "reading cur l n \<Longrightarrow> label_ok cur \<longleftrightarrow> cur \<noteq> [] \<and> n \<le> 63 \<and> l \<noteq> CHR ''-''"
  by (auto simp: reading_def label_ok_def)

lemma reading_dot: "reading cur l n \<Longrightarrow> l = CHR ''.'' \<longleftrightarrow> cur = []"
  using reading_no_dot [of cur l n] by (auto simp: reading_def dest: last_in_set)

text \<open>A label that is being read and then goes wrong, for good.\<close>

lemma labels_not_ok:
  assumes "reading cur l n"
    and "c = CHR ''-'' \<and> cur = []
      \<or> \<not> is_letter c \<and> \<not> is_digit c \<and> c \<noteq> CHR ''-'' \<and> c \<noteq> CHR ''.''"
  shows "\<not> labels_ok (Split (cur @ c # cs) CHR ''.'')"
proof -
  obtain w ws where split: "Split (c # cs) CHR ''.'' = w # ws" by (metis Split_not_Nil list.exhaust)
  have parts: "Split (cur @ c # cs) CHR ''.'' = (cur @ w) # ws"
    using Split_append_prefix [OF reading_no_dot [OF assms(1)], of "c # cs"] split by (metis list.case(2))
  have "c \<noteq> CHR ''.''" using assms(2) by auto
  then have "w \<noteq> []" "hd w = c" using split by (auto split: list.splits)
  then show ?thesis
    using assms(2) parts labels_ok_hd [of "cur @ w" ws] hd_in_set [of w] by (auto simp: label_ok_def)
qed

lemma isDomainName_loop_iff:
  "reading cur l n \<Longrightarrow> isDomainName_loop cs l nn n \<longleftrightarrow>
     labels_ok (Split (cur @ cs) CHR ''.'') \<and> (nn \<or> (\<exists>c \<in> set cs. non_numeric c))"
proof (induction cs arbitrary: cur l nn n)
  case Nil
  then have "Split cur CHR ''.'' = [cur]" using reading_no_dot Split_no_sep by blast
  then show ?case
    using reading_label [OF Nil] Nil by (auto simp: labels_ok_def reading_def)
next
  case (Cons c cs)
  note nodot = reading_no_dot [OF Cons.prems]
  consider (good) "is_letter c \<or> is_digit c \<or> c = CHR ''-'' \<and> cur \<noteq> []"
    | (hyphen) "c = CHR ''-''" "cur = []" | (dot) "c = CHR ''.''"
    | (bad) "\<not> is_letter c" "\<not> is_digit c" "c \<noteq> CHR ''-''" "c \<noteq> CHR ''.''" by blast
  then show ?case
  proof cases
    case good
    have "isDomainName_loop cs c nn' (n + 1) \<longleftrightarrow>
        labels_ok (Split (cur @ c # cs) CHR ''.'') \<and> (nn' \<or> (\<exists>c \<in> set cs. non_numeric c))" for nn'
      using Cons.IH [OF reading_snoc [OF Cons.prems good]] by simp
    then show ?thesis
      using good letter_not_digit char_classes reading_dot [OF Cons.prems] by (auto simp: non_numeric_def)
  next
    case hyphen
    then show ?thesis
      using labels_not_ok [OF Cons.prems, of c cs] char_classes reading_dot [OF Cons.prems] by simp
  next
    case dot
    have "reading [] CHR ''.'' 0" by (simp add: reading_def)
    note IH = Cons.IH [OF this]
    have "Split (cur @ c # cs) CHR ''.'' = cur # Split cs CHR ''.''"
      using Split_append_sep [OF nodot] dot by simp
    then have "labels_ok (Split (cur @ c # cs) CHR ''.'') \<longleftrightarrow> label_ok cur \<and> labels_ok (Split cs CHR ''.'')"
      by (simp add: labels_ok_Cons)
    moreover have "n = 0 \<longleftrightarrow> cur = []" using Cons.prems by (simp add: reading_def)
    ultimately show ?thesis
      using dot char_classes reading_label [OF Cons.prems] reading_dot [OF Cons.prems] IH
      by (auto simp: non_numeric_def)
  next
    case bad
    then show ?thesis using labels_not_ok [OF Cons.prems, of c cs] by simp
  qed
qed

text \<open>
  C22: \<open>isDomainName\<close>, a single pass with three variables, accepts exactly the names of the declarative
  form.
\<close>

theorem isDomainName_iff: "isDomainName s \<longleftrightarrow> domain_name s"
proof -
  have "reading [] CHR ''.'' 0" by (simp add: reading_def)
  note loop = isDomainName_loop_iff [OF this, of s False]
  have "length s = 254 \<Longrightarrow> s ! 253 = last s" by (subst last_conv_nth) auto
  moreover have "length s \<le> 253 \<or> length s = 254 \<or> 254 < length s" by linarith
  ultimately show ?thesis
    using loop by (elim disjE) (auto simp: isDomainName_def domain_name_def Let_def)
qed

section \<open>Which responses are accepted\<close>

lemma equalASCIIName_loop_iff:
  "i + n \<le> length (Data x) \<Longrightarrow> i + n \<le> length (Data y) \<Longrightarrow>
     equalASCIIName_loop x y i n \<longleftrightarrow>
       map fold_case (take n (drop i (Data x))) = map fold_case (take n (drop i (Data y)))"
proof (induction n arbitrary: i)
  case (Suc n)
  have "drop i (Data x) = Data x ! i # drop (Suc i) (Data x)"
    "drop i (Data y) = Data y ! i # drop (Suc i) (Data y)"
    using Suc.prems by (simp_all add: Cons_nth_drop_Suc)
  then show ?case using Suc.IH [of "Suc i"] Suc.prems by simp
qed simp

definition name_text :: "dns_Name \<Rightarrow> byte list" where
  "name_text x = map fold_case (take (unat (Length x)) (Data x))"

lemma equalASCIIName_iff:
  assumes "length (Data x) = 255" and "length (Data y) = 255"
  shows "equalASCIIName x y \<longleftrightarrow> name_text x = name_text y"
proof -
  have le: "unat (Length z) \<le> 255" for z :: dns_Name
    using unsigned_less [of "Length z", where 'a = nat] by simp
  have len: "length (name_text z) = unat (Length z)" if "length (Data z) = 255" for z :: dns_Name
    using le [of z] that by (simp add: name_text_def)
  show ?thesis
  proof (cases "Length x = Length y")
    case True
    then show ?thesis
      using equalASCIIName_loop_iff [of 0 "unat (Length x)" x y] le [of x] assms
      by (simp add: equalASCIIName_def name_text_def)
  next
    case False
    then have "length (name_text x) \<noteq> length (name_text y)"
      using len assms by (simp add: word_unat_eq_iff)
    then show ?thesis using False by (auto simp: equalASCIIName_def)
  qed
qed

text \<open>The messages that reach the resolver from \<open>server\<close> in answer to a request.\<close>

definition from_server ::
  "('s, 'tc, 'tl, 'uc, 'ep) query_env \<Rightarrow> 's netTun \<Rightarrow> Context \<Rightarrow> Addr \<Rightarrow> byte list \<Rightarrow> byte list \<Rightarrow> byte list \<Rightarrow> bool" where
  "from_server X tnet ctx server udpReq tcpReq msg \<longleftrightarrow>
     (\<exists>c ds e d. DialUDPAddrPort (qe_gonet X) tnet zero_AddrPort \<lparr>ap_Addr = server, ap_Port = 53\<rparr> = Inr c
        \<and> udp_talk (qe_conn X) c udpReq = Inr (ds, e) \<and> d \<in> set ds \<and> msg = take 512 d)
   \<or> (\<exists>c bs e. DialContextTCPAddrPort (qe_gonet X) tnet ctx \<lparr>ap_Addr = server, ap_Port = 53\<rparr> = Inr c
        \<and> tcp_talk (qe_conn X) c tcpReq = Inr (bs, e)
        \<and> msg = take (unat (bs ! 0) * 256 + unat (bs ! 1)) (drop 2 bs))"

lemma packet_loop_sound:
  "packet_loop P qid query ds e = Inr (p', h) \<Longrightarrow>
     \<exists>d \<in> set ds. \<exists>p q. p_Start P (take 512 d) = Some (h, p) \<and> p_Question P p = Some (q, p')
       \<and> checkResponse qid query h q"
  by (induction ds) (auto split: option.splits if_splits prod.splits)

lemma dnsStreamRoundTrip_sound:
  assumes "dnsStreamRoundTrip P c qid query b = Inr (p', h)"
  shows "\<exists>bs e p q. c b = Inr (bs, e)
    \<and> p_Start P (take (unat (bs ! 0) * 256 + unat (bs ! 1)) (drop 2 bs)) = Some (h, p)
    \<and> p_Question P p = Some (q, p') \<and> checkResponse qid query h q"
  using assms
  by (auto simp: dnsStreamRoundTrip_def ReadFull_def Let_def
      split: sum.splits option.splits if_splits prod.splits)

lemma map_sum_Inr_iff: "map_sum f (\<lambda>x. x) r = Inr y \<longleftrightarrow> r = Inr y"
  by (cases r) auto

lemma exchange_round_sound:
  assumes "exchange_round P X tnet ctx server q (qid, udpReq, tcpReq) useUDP = Inr (p', h)"
  shows "\<exists>msg p q'. from_server X tnet ctx server udpReq tcpReq msg \<and> p_Start P msg = Some (h, p)
    \<and> p_Question P p = Some (q', p') \<and> checkResponse qid q h q'"
proof (cases useUDP)
  case True
  then obtain c where c: "DialUDPAddrPort (qe_gonet X) tnet zero_AddrPort \<lparr>ap_Addr = server, ap_Port = 53\<rparr> = Inr c"
    and r: "dnsPacketRoundTrip P (udp_talk (qe_conn X) c) qid q udpReq = Inr (p', h)"
    using assms by (auto simp: exchange_round_def map_sum_Inr_iff split: sum.splits option.splits)
  then obtain ds e where "udp_talk (qe_conn X) c udpReq = Inr (ds, e)" "packet_loop P qid q ds e = Inr (p', h)"
    by (auto simp: dnsPacketRoundTrip_def split: sum.splits)
  then show ?thesis using packet_loop_sound [of P qid q ds e p' h] c by (fastforce simp: from_server_def)
next
  case False
  then obtain c where "DialContextTCPAddrPort (qe_gonet X) tnet ctx \<lparr>ap_Addr = server, ap_Port = 53\<rparr> = Inr c"
    and "dnsStreamRoundTrip P (tcp_talk (qe_conn X) c) qid q tcpReq = Inr (p', h)"
    using assms by (auto simp: exchange_round_def map_sum_Inr_iff split: sum.splits option.splits)
  then show ?thesis using dnsStreamRoundTrip_sound by (fastforce simp: from_server_def)
qed

lemma exchange_loop_sound:
  "exchange_loop P X tnet ctx server q (qid, udpReq, tcpReq) rounds = Inr (p', h) \<Longrightarrow>
     \<exists>msg p q' p1. from_server X tnet ctx server udpReq tcpReq msg \<and> p_Start P msg = Some (h, p)
       \<and> p_Question P p = Some (q', p1) \<and> p_SkipQuestion P p1 = (SectionDone, p') \<and> checkResponse qid q h q'
       \<and> \<not> h_Truncated h"
proof (induction rounds)
  case (Cons u rounds)
  then obtain p1 h1 where r: "exchange_round P X tnet ctx server q (qid, udpReq, tcpReq) u = Inr (p1, h1)"
    by (auto split: sum.splits)
  obtain s p2 where sk: "p_SkipQuestion P p1 = (s, p2)" by fastforce
  show ?case
  proof (cases "h_Truncated h1")
    case True
    then show ?thesis using Cons r sk by (auto split: if_splits)
  next
    case False
    then have "p' = p2" "h = h1" "s = SectionDone" using Cons.prems r sk by (auto split: if_splits)
    then show ?thesis using exchange_round_sound [OF r] sk False by blast
  qed
qed simp

text \<open>
  C19: An exchange only returns a message that came from the server it asked, over its own socket: a
  response with the random ID of the request, with exactly one question, which has the type and
  class asked for and the name asked for up to the case of its letters, and not cut short.
\<close>

theorem exchange_sound:
  assumes "exchange P B X tnet ctx server q timeout = Inr (p, h)"
    and "length (Data (qn_Name q)) = 255"
    and "\<forall>p q' p'. p_Question P p = Some (q', p') \<longrightarrow> length (Data (qn_Name q')) = 255"
  shows "\<exists>bs udpReq tcpReq msg p0 q' p1. qe_rand X = Some bs
    \<and> newRequest B (uint16_le bs) (q\<lparr>q_Class := ClassINET\<rparr>) = Inr (Some (uint16_le bs, udpReq, tcpReq))
    \<and> from_server X tnet (WithDeadline ctx (qe_now X + timeout)) server udpReq tcpReq msg
    \<and> p_Start P msg = Some (h, p0) \<and> p_Question P p0 = Some (q', p1) \<and> p_SkipQuestion P p1 = (SectionDone, p)
    \<and> h_Response h \<and> h_ID h = uint16_le bs \<and> \<not> h_Truncated h
    \<and> q_Type q' = q_Type q \<and> q_Class q' = ClassINET \<and> name_text (qn_Name q') = name_text (qn_Name q)"
proof -
  let ?q = "q\<lparr>q_Class := ClassINET\<rparr>"
  obtain bs req where bs: "qe_rand X = Some bs" and n': "newRequest B (uint16_le bs) ?q = Inr req"
    and l': "(case req of None \<Rightarrow> Inl (Error ErrCannotMarshalDNSMessage)
      | Some r \<Rightarrow> (case exchange_loop P X tnet (WithDeadline ctx (qe_now X + timeout)) server ?q r [True, False] of
          Inl e \<Rightarrow> Inl (Error e) | Inr ph \<Rightarrow> Inr ph)) = Inr (p, h)"
    using assms(1) by (auto simp: exchange_def randU16_def Let_def bind_res_eq_Inr_iff split: option.splits(2))
  then obtain r where n: "newRequest B (uint16_le bs) ?q = Inr (Some r)"
    and l: "exchange_loop P X tnet (WithDeadline ctx (qe_now X + timeout)) server ?q r [True, False] = Inr (p, h)"
    by (cases req) (auto simp del: exchange_loop.simps split: sum.splits)
  obtain udpReq tcpReq where r: "r = (uint16_le bs, udpReq, tcpReq)"
    using n by (auto simp: newRequest_def Let_def split: option.splits if_splits prod.splits)
  obtain msg p0 q' p1 where m: "from_server X tnet (WithDeadline ctx (qe_now X + timeout)) server udpReq tcpReq msg"
    "p_Start P msg = Some (h, p0)" "p_Question P p0 = Some (q', p1)" "p_SkipQuestion P p1 = (SectionDone, p)"
    "checkResponse (uint16_le bs) ?q h q'" "\<not> h_Truncated h"
    using exchange_loop_sound [OF l [unfolded r]] by blast
  then have "name_text (qn_Name q') = name_text (qn_Name q)"
    using equalASCIIName_iff [of "qn_Name q" "qn_Name q'"] assms(2,3)
    by (auto simp: checkResponse_def split: if_splits)
  then show ?thesis using bs n r m by (fastforce simp: checkResponse_def split: if_splits)
qed

section \<open>A look-up ends\<close>

text \<open>
  What the message library promises: looking at the next answer consumes nothing, and taking or
  skipping an answer leaves fewer of them.
\<close>

definition parser_advances :: "'p dns_parser \<Rightarrow> ('p \<Rightarrow> nat) \<Rightarrow> bool" where
  "parser_advances P left \<longleftrightarrow>
     (\<forall>p t p'. p_AnswerHeader P p = (Parsed t, p') \<longrightarrow> left p' \<le> left p)
   \<and> (\<forall>p u p'. p_SkipAnswer P p = (Parsed u, p') \<longrightarrow> left p' < left p)
   \<and> (\<forall>p b p'. p_AResource P p = (Parsed b, p') \<longrightarrow> left p' < left p)
   \<and> (\<forall>p b p'. p_AAAAResource P p = (Parsed b, p') \<longrightarrow> left p' < left p)"

lemma skipToAnswer_returns:
  assumes "parser_advances P left"
  shows "\<exists>r. skipToAnswer P qtype p = Some r"
proof (induction "left p" arbitrary: p rule: less_induct)
  case less
  obtain h p1 where h: "p_AnswerHeader P p = (h, p1)" by fastforce
  obtain s p2 where s: "p_SkipAnswer P p1 = (s, p2)" by fastforce
  have "\<exists>r. skipToAnswer P qtype p2 = Some r" if "h = Parsed t" "s = Parsed u" for t u
    using assms h s that by (intro less) (fastforce simp: parser_advances_def)
  then show ?case by (subst skipToAnswer.simps) (auto simp: h s split: parsed.splits)
qed

lemma answers_loop_returns:
  assumes "parser_advances P left"
  shows "\<exists>r. answers_loop P host server p a = Some r"
proof (induction "left p" arbitrary: p a rule: less_induct)
  case less
  obtain h p1 where h: "p_AnswerHeader P p = (h, p1)" by fastforce
  obtain s p2 where s: "p_SkipAnswer P p1 = (s, p2)" by fastforce
  obtain r4 p4 where r4: "p_AResource P p1 = (r4, p4)" by fastforce
  obtain r6 p6 where r6: "p_AAAAResource P p1 = (r6, p6)" by fastforce
  have le: "left p1 \<le> left p" if "h = Parsed t" for t
    using assms h that by (auto simp: parser_advances_def)
  have "\<exists>r. answers_loop P host server p2 a' = Some r" if "h = Parsed t" "s = Parsed u" for t u a'
    using assms s that le [OF that(1)] by (intro less) (fastforce simp: parser_advances_def)
  moreover have "\<exists>r. answers_loop P host server p4 a' = Some r" if "h = Parsed t" "r4 = Parsed b" for t b a'
    using assms r4 that le [OF that(1)] by (intro less) (fastforce simp: parser_advances_def)
  moreover have "\<exists>r. answers_loop P host server p6 a' = Some r" if "h = Parsed t" "r6 = Parsed b" for t b a'
    using assms r6 that le [OF that(1)] by (intro less) (fastforce simp: parser_advances_def)
  ultimately show ?case
    by (subst answers_loop.simps) (auto simp: h s r4 r6 Let_def split: parsed.splits)
qed

lemma try_servers_returns:
  assumes "parser_advances P left"
  shows "\<exists>r. try_servers P B V X tnet ctx name q k servers lastErr = Some r"
proof (induction servers arbitrary: k lastErr)
  case (Cons server servers)
  obtain e where "exchange P B (X k) tnet ctx server q 5000000000 = e" by blast
  then show ?case
  proof (cases e)
    case (Inl f)
    then show ?thesis using Cons \<open>_ = e\<close> by (cases f) (simp_all add: Let_def)
  next
    case (Inr ph)
    obtain p h where ph: "ph = (p, h)" by fastforce
    obtain c p1 where c: "checkHeader P p h = (c, p1)" by fastforce
    obtain s p2 where s: "skipToAnswer P (q_Type q) p1 = Some (s, p2)"
      using skipToAnswer_returns [OF assms, of "q_Type q" p1] by auto
    show ?thesis
      using Cons \<open>_ = e\<close> Inr by (cases c; cases s) (simp_all add: ph c s Let_def)
  qed
qed simp

lemma tryOneName_returns:
  "parser_advances P left \<Longrightarrow> \<exists>r. tryOneName P B V X tnet ctx name qtype = Some r"
  unfolding tryOneName_def by (cases "b_NewName B name") (simp_all add: try_servers_returns del: try_servers.simps)

lemma collect_lanes_returns:
  "parser_advances P left \<Longrightarrow> \<exists>r. collect_lanes P host lanes a = Some r"
proof (induction lanes arbitrary: a)
  case (Cons l lanes)
  obtain p server err where l: "l = (p, server, err)" by (metis prod_cases3)
  show ?case
    using Cons answers_loop_returns [OF Cons.prems, of host server p a] by (auto simp: l split: option.splits)
qed simp

lemma receive_returns: "(\<forall>r \<in> set rs. \<exists>x. r = Some x) \<Longrightarrow> \<exists>r. receive rs = Some r"
proof (induction rs rule: receive.induct)
  case (4 x rs)
  then obtain r where "receive rs = Some r" by auto
  then show ?case by (cases r) auto
qed auto

text \<open>
  C20: A look-up always returns, whatever the servers send and in whatever order the two queries end:
  the loops over the answers end because every answer taken or skipped leaves fewer, and each server
  is asked at most twice.
\<close>

theorem lookup_terminates:
  assumes "parser_advances P left"
  shows "\<exists>r. LookupContextHost P B V X4 X6 v6_first tnet ctx host = Some r"
proof -
  have "\<exists>r. receive (lane_results P B V X4 X6 v6_first tnet ctx host) = Some r"
    using tryOneName_returns [OF assms] by (intro receive_returns) (auto simp: lane_results_def Let_def split: if_splits)
  then obtain r where r: "receive (lane_results P B V X4 X6 v6_first tnet ctx host) = Some r" ..
  have "\<exists>a. collect_lanes P host lanes a0 = Some a" for lanes a0
    using collect_lanes_returns [OF assms] .
  note lanes = this
  show ?thesis
  proof (cases r)
    case (Inl f)
    then show ?thesis by (simp add: LookupContextHost_def r split: option.split)
  next
    case (Inr ls)
    obtain a where a: "collect_lanes P host ls \<lparr>addrsV4 = [], addrsV6 = [], an_lastErr = None\<rparr> = Some a"
      using lanes by blast
    show ?thesis
      by (simp add: LookupContextHost_def r Inr a Let_def split: option.split list.split)
  qed
qed

section \<open>Look-ups that cannot succeed\<close>

text \<open>A parser that was not started reports an error, not the end of a section.\<close>

definition zero_unusable :: "'p dns_parser \<Rightarrow> bool" where
  "zero_unusable P \<longleftrightarrow> (\<exists>p. p_AnswerHeader P (p_zero P) = (ParseError, p))"

lemma collect_zero_lanes:
  assumes "zero_unusable P" and "\<forall>l \<in> set lanes. fst l = p_zero P"
  shows "\<exists>a'. collect_lanes P host lanes a = Some a' \<and> addrsV4 a' = addrsV4 a \<and> addrsV6 a' = addrsV6 a
    \<and> (lanes \<noteq> [] \<or> an_lastErr a \<noteq> None \<longrightarrow> an_lastErr a' \<noteq> None)"
  using assms(2)
proof (induction lanes arbitrary: a)
  case (Cons l lanes)
  then obtain server err where l: "l = (p_zero P, server, err)" by (cases l) auto
  have "answers_loop P host server (p_zero P) a
      = Some (a\<lparr>an_lastErr := Some (DNSError ErrCannotMarshalDNSMessage host server False False False)\<rparr>)"
    using assms(1) by (subst answers_loop.simps) (auto simp: zero_unusable_def Let_def)
  then show ?case
    using Cons.IH [of "a\<lparr>an_lastErr := Some (DNSError ErrCannotMarshalDNSMessage host server False False False)\<rparr>"]
      Cons.IH [of "if an_lastErr a = None then a\<lparr>an_lastErr := err\<rparr> else a"] Cons.prems l
    by (cases err; cases "an_lastErr a") auto
qed simp

lemma receive_map: "receive (map (\<lambda>x. Some (Inr x)) xs) = Some (Inr xs)"
  by (induction xs) auto

lemma zero_lanes_fail:
  assumes "zero_unusable P" and "hasV4 tnet \<or> hasV6 tnet"
    and "isDomainName host" and "ParseAddr (strip_zone host) = None"
    and r4: "tryOneName P B V X4 tnet ctx (host @ ''.'') TypeA = Some (Inr (p_zero P, s4, e4))"
    and r6: "tryOneName P B V X6 tnet ctx (host @ ''.'') TypeAAAA = Some (Inr (p_zero P, s6, e6))"
  shows "\<exists>e. LookupContextHost P B V X4 X6 v6_first tnet ctx host = Some (Inl (Error e))"
proof -
  have host: "host \<noteq> []" using assms(3) by (auto simp: isDomainName_def)
  obtain lanes where lanes: "lane_results P B V X4 X6 v6_first tnet ctx host = map (\<lambda>x. Some (Inr x)) lanes"
    and zero: "\<forall>l \<in> set lanes. fst l = p_zero P" and ne: "lanes \<noteq> []"
  proof
    let ?l4 = "if hasV4 tnet then [(p_zero P, s4, e4)] else []"
    let ?l6 = "if hasV6 tnet then [(p_zero P, s6, e6)] else []"
    show "lane_results P B V X4 X6 v6_first tnet ctx host
        = map (\<lambda>x. Some (Inr x)) (if v6_first then ?l6 @ ?l4 else ?l4 @ ?l6)"
      by (simp add: lane_results_def Let_def r4 r6)
  qed (use assms(2) in auto)
  obtain a where a: "collect_lanes P host lanes \<lparr>addrsV4 = [], addrsV6 = [], an_lastErr = None\<rparr> = Some a"
    "addrsV4 a = []" "addrsV6 a = []" "an_lastErr a \<noteq> None"
    using collect_zero_lanes [OF assms(1) zero, of host "\<lparr>addrsV4 = [], addrsV6 = [], an_lastErr = None\<rparr>"] ne by auto
  then show ?thesis
    using host assms(2-4) by (auto simp: LookupContextHost_def lanes receive_map Let_def)
qed

text \<open>
  Without DNS servers no name resolves, and the error is about marshalling a message that was never
  made.  The service network's stack is created without DNS servers.
\<close>

lemma tryOneName_no_servers:
  "dnsServers tnet = [] \<Longrightarrow> \<exists>s e. tryOneName P B V X tnet ctx name t = Some (Inr (p_zero P, s, e))"
  by (simp add: tryOneName_def split: option.split)

lemma no_servers_no_lookup:
  assumes "zero_unusable P" and "hasV4 tnet \<or> hasV6 tnet" and "dnsServers tnet = []"
    and "isDomainName host" and "ParseAddr (strip_zone host) = None"
  shows "\<exists>e. LookupContextHost P B V X4 X6 v6_first tnet ctx host = Some (Inl (Error e))"
  using tryOneName_no_servers [OF assms(3), of P B V X4 ctx "host @ ''.''" TypeA]
    tryOneName_no_servers [OF assms(3), of P B V X6 ctx "host @ ''.''" TypeAAAA]
    zero_lanes_fail [OF assms(1,2,4,5), of B V X4 ctx _ _ X6] by blast

lemma try_servers_unmarshalable:
  assumes "\<And>k. qe_rand (X k) \<noteq> None" and "\<And>b. b_Question B (q\<lparr>q_Class := ClassINET\<rparr>) b = None"
  shows "\<exists>e. try_servers P B V X tnet ctx name q k servers lastErr = Some (Inr (p_zero P, [], e))"
proof (induction servers arbitrary: k lastErr)
  case (Cons server servers)
  have "exchange P B (X k) tnet ctx server q t = Inl (Error ErrCannotMarshalDNSMessage)" for t
    using assms by (auto simp: exchange_def newRequest_def randU16_def Let_def split: option.split)
  then show ?case using Cons by simp
qed simp

lemma tryOneName_unmarshalable:
  assumes "\<And>k. qe_rand (X k) \<noteq> None"
    and "\<And>n q b. b_NewName B name = Some n \<Longrightarrow> qn_Name q = n \<Longrightarrow> b_Question B q b = None"
  shows "\<exists>s e. tryOneName P B V X tnet ctx name t = Some (Inr (p_zero P, s, e))"
proof (cases "b_NewName B name")
  case (Some n)
  then have "b_Question B (\<lparr>qn_Name = n, q_Type = t, q_Class = ClassINET\<rparr>\<lparr>q_Class := ClassINET\<rparr>) b = None" for b
    using assms(2) by simp
  from try_servers_unmarshalable [where X = X, OF assms(1) this] show ?thesis
    unfolding tryOneName_def Some option.case by blast
qed (simp add: tryOneName_def)

text \<open>
  C40: A fully qualified name, one that ends with a dot, never resolves although \<open>isDomainName\<close> accepts
  it: the resolver appends another dot, and a name with an empty label cannot be put into a message.
\<close>

theorem fully_qualified_lookup_fails:
  assumes "zero_unusable P" and "hasV4 tnet \<or> hasV6 tnet" and "isDomainName host"
    and "ParseAddr (strip_zone host) = None" and "last host = CHR ''.''"
    and "\<forall>k. qe_rand (X4 k) \<noteq> None \<and> qe_rand (X6 k) \<noteq> None"
    and no_empty_label: "\<forall>pre post n q b. b_NewName B (pre @ ''..'' @ post) = Some n \<longrightarrow> qn_Name q = n \<longrightarrow> b_Question B q b = None"
  shows "\<exists>e. LookupContextHost P B V X4 X6 v6_first tnet ctx host = Some (Inl (Error e))"
proof -
  have "host \<noteq> []" using assms(3) by (auto simp: isDomainName_def)
  then have dots: "host @ ''.'' = butlast host @ ''..'' @ []"
    using assms(5) append_butlast_last_id [of host] by (metis append.assoc append_Cons append_Nil)
  have bad: "b_Question B q b = None" if "b_NewName B (host @ ''.'') = Some n" "qn_Name q = n" for n q b
    using no_empty_label that dots by metis
  then show ?thesis
    using tryOneName_unmarshalable [of X4 B "host @ ''.''" P V tnet ctx TypeA]
      tryOneName_unmarshalable [of X6 B "host @ ''.''" P V tnet ctx TypeAAAA]
      zero_lanes_fail [OF assms(1-4), of B V X4 ctx _ _ X6] assms(6) by blast
qed

section \<open>Deadlines\<close>

lemma quot_pos: "0 \<le> a \<Longrightarrow> 0 < b \<Longrightarrow> quot a b = a div b"
  by (cases "a = 0") (auto simp: quot_def)

text \<open>
  C28: The deadline given to one address of several lies after now and not after the caller's deadline;
  it leaves at least two seconds, or all that is left, and at least the address's even share; the last
  address gets all the time that is left.
\<close>

theorem partialDeadline_bounds:
  assumes "now < d" and "d - now \<le> maxDuration" and "0 < n"
  shows "\<exists>t. partialDeadline now (Some d) n = Inr (Some t) \<and> now < t \<and> t \<le> d
    \<and> (now + saneMinimum \<le> t \<or> t = d) \<and> now + (d - now) div n \<le> t \<and> (n = 1 \<longrightarrow> t = d)"
proof -
  let ?r = "d - now"
  have sub: "time_Sub d now = ?r" using assms(1,2) by (simp add: time_Sub_def minDuration_def)
  have le: "?r div n \<le> ?r" using zdiv_mono2 [of ?r 1 n] assms by simp
  show ?thesis
    using assms le sub by (auto simp: partialDeadline_def Let_def quot_pos saneMinimum_def)
qed

theorem partialDeadline_bounds_witness:
  "\<exists>t. partialDeadline 0 (Some 9000000000) 3 = Inr (Some t) \<and> 0 < t \<and> t \<le> 9000000000
    \<and> (0 + saneMinimum \<le> t \<or> t = 9000000000) \<and> 0 + (9000000000 - 0) div 3 \<le> t \<and> (3 = (1::int) \<longrightarrow> t = 9000000000)"
  using partialDeadline_bounds [of 0 9000000000 3] by (simp add: maxDuration_def)

section \<open>Dialling\<close>

lemma accept_addr_family:
  "accept_addr ver s = Some ip \<Longrightarrow> ParseAddr s = Some ip \<and> (ver = Some CHR ''4'' \<longrightarrow> Is4 (Some ip))
     \<and> (ver = Some CHR ''6'' \<longrightarrow> Is6 (Some ip))"
  by (auto simp: accept_addr_def Let_def split: option.splits if_splits)

definition not_later :: "Context \<Rightarrow> Context \<Rightarrow> bool" where
  "not_later c ctx \<longleftrightarrow> (\<forall>d. ctx = Some d \<longrightarrow> (\<exists>t. c = Some t \<and> t \<le> d))"

lemma dial_ctx_not_later: "dial_ctx now ctx n = Inr dctx \<Longrightarrow> not_later dctx ctx"
  by (auto simp: dial_ctx_def not_later_def WithDeadline_def bind_res_eq_Inr_iff split: option.splits if_splits)

lemma dial_loop_Inr:
  "dial_loop D tnet proto ctx i addrs firstErr = Inr c \<Longrightarrow>
     \<exists>k < length addrs. (\<exists>dctx. not_later dctx ctx \<and> dial_one (de_gonet (D (i + k))) tnet proto dctx (addrs ! k) = Inr c)
       \<and> (\<forall>j < k. \<exists>dctx e. dial_one (de_gonet (D (i + j))) tnet proto dctx (addrs ! j) = Inl e)"
proof (induction addrs arbitrary: i firstErr)
  case (Cons a addrs)
  then obtain dctx where dctx: "dial_ctx (de_now (D i)) ctx (int (length (a # addrs))) = Inr dctx"
    and step: "(case dial_one (de_gonet (D i)) tnet proto dctx a of Inr c \<Rightarrow> Inr c
      | Inl e \<Rightarrow> dial_loop D tnet proto ctx (Suc i) addrs (if firstErr = None then Some e else firstErr)) = Inr c"
    by (simp split: option.splits sum.splits(2) failure.splits)
  show ?case
  proof (cases "dial_one (de_gonet (D i)) tnet proto dctx a")
    case (Inr c')
    then show ?thesis using step dial_ctx_not_later [OF dctx] by (intro exI [of _ 0]) auto
  next
    case (Inl e)
    then have "dial_loop D tnet proto ctx (Suc i) addrs (if firstErr = None then Some e else firstErr) = Inr c"
      using step by simp
    from Cons.IH [OF this] obtain k where k: "k < length addrs"
      "\<exists>dctx. not_later dctx ctx \<and> dial_one (de_gonet (D (Suc i + k))) tnet proto dctx (addrs ! k) = Inr c"
      "\<forall>j < k. \<exists>dctx e. dial_one (de_gonet (D (Suc i + j))) tnet proto dctx (addrs ! j) = Inl e"
      by blast
    then have "\<forall>j < Suc k. \<exists>dctx e. dial_one (de_gonet (D (i + j))) tnet proto dctx ((a # addrs) ! j) = Inl e"
      using Inl by (auto simp: less_Suc_eq_0_disj)
    then show ?thesis using k by (intro exI [of _ "Suc k"]) auto
  qed
qed simp

text \<open>
  C21: A dial that succeeds ends with the first address that could be dialled: the name is looked up,
  the addresses of the family the network allows are tried in the order of the look-up with the port
  that was given, all before the one chosen have failed, and no attempt may take longer than the
  caller's deadline.
\<close>

theorem dial_first_reachable:
  assumes "DialContext P B V X4 X6 v6_first D tnet (Some ctx) network address = Some (Inr c)"
  shows "\<exists>proto ver host port allAddr ips k dctx.
      protoSplitter network = Some (proto, ver) \<and> split_target proto address = Inr (host, port)
    \<and> LookupContextHost P B V X4 X6 v6_first tnet ctx host = Some (Inr allAddr)
    \<and> ips = List.map_filter (accept_addr ver) allAddr \<and> k < length ips
    \<and> (ver = Some CHR ''4'' \<longrightarrow> Is4 (Some (ips ! k))) \<and> (ver = Some CHR ''6'' \<longrightarrow> Is6 (Some (ips ! k)))
    \<and> not_later dctx ctx
    \<and> dial_one (de_gonet (D k)) tnet proto dctx \<lparr>ap_Addr = Some (ips ! k), ap_Port = word_of_int port\<rparr> = Inr c
    \<and> (\<forall>j < k. \<exists>dctx e. dial_one (de_gonet (D j)) tnet proto dctx
         \<lparr>ap_Addr = Some (ips ! j), ap_Port = word_of_int port\<rparr> = Inl e)"
proof -
  obtain proto ver where pv: "protoSplitter network = Some (proto, ver)"
    using assms by (auto simp: DialContext_def split: option.splits)
  obtain host port where hp: "split_target proto address = Inr (host, port)"
    using assms pv by (auto simp: DialContext_def split: sum.splits)
  obtain r where r: "LookupContextHost P B V X4 X6 v6_first tnet ctx host = Some r"
    using assms pv hp by (auto simp: DialContext_def split: option.splits)
  then obtain allAddr where look: "LookupContextHost P B V X4 X6 v6_first tnet ctx host = Some (Inr allAddr)"
    using assms pv hp by (cases r) (auto simp: DialContext_def split: failure.splits)
  define ips where "ips = List.map_filter (accept_addr ver) allAddr"
  have "dial_loop D tnet proto ctx 0 (map (\<lambda>ip. \<lparr>ap_Addr = Some ip, ap_Port = word_of_int port\<rparr>) ips) None = Inr c"
    using assms pv hp look by (auto simp: DialContext_def ips_def Let_def split: if_splits)
  from dial_loop_Inr [OF this] obtain k dctx where k: "k < length ips" "not_later dctx ctx"
    "dial_one (de_gonet (D k)) tnet proto dctx \<lparr>ap_Addr = Some (ips ! k), ap_Port = word_of_int port\<rparr> = Inr c"
    "\<forall>j < k. \<exists>dctx e. dial_one (de_gonet (D j)) tnet proto dctx
         \<lparr>ap_Addr = Some (ips ! j), ap_Port = word_of_int port\<rparr> = Inl e"
    by auto
  have "ips ! k \<in> set ips" using k(1) by simp
  then have "(ver = Some CHR ''4'' \<longrightarrow> Is4 (Some (ips ! k))) \<and> (ver = Some CHR ''6'' \<longrightarrow> Is6 (Some (ips ! k)))"
    unfolding ips_def by (auto simp: List.map_filter_def dest: accept_addr_family)
  then show ?thesis using pv hp look k ips_def by blast
qed

section \<open>Concrete instances\<close>

text \<open>
  A message library with one-name messages, over a stack on which every socket can be opened and the
  server sends the request back as its response.
\<close>

definition wit_name :: dns_Name where
  "wit_name = \<lparr>Data = replicate 255 0, Length = 0\<rparr>"

definition wit_q :: dnsQuestion where
  "wit_q = \<lparr>qn_Name = wit_name, q_Type = TypeA, q_Class = ClassINET\<rparr>"

definition wit_header :: "uint16 \<Rightarrow> Header" where
  "wit_header i = \<lparr>h_ID = i, h_Response = True, h_Authoritative = False, h_Truncated = False,
     h_RecursionAvailable = True, h_RCode = RCodeSuccess\<rparr>"

type_synonym wit_state = "(uint16 \<times> byte list) list option"

fun wit_take :: "wit_state \<Rightarrow> byte list parsed \<times> wit_state" where
  "wit_take (Some ((t, b) # r)) = (Parsed b, Some r)"
| "wit_take p = (ParseError, p)"

fun wit_peek :: "wit_state \<Rightarrow> uint16 parsed \<times> wit_state" where
  "wit_peek None = (ParseError, None)"
| "wit_peek (Some []) = (SectionDone, Some [])"
| "wit_peek (Some ((t, b) # r)) = (Parsed t, Some ((t, b) # r))"

fun wit_skip :: "wit_state \<Rightarrow> unit parsed \<times> wit_state" where
  "wit_skip (Some ((t, b) # r)) = (Parsed (), Some r)"
| "wit_skip p = (ParseError, p)"

definition wit_parser :: "wit_state dns_parser" where
  "wit_parser = \<lparr>p_zero = None,
     p_Start = (\<lambda>m. Some (wit_header (uint16_le m), Some [(TypeA, [10, 0, 0, 1])])),
     p_Question = (\<lambda>p. Some (wit_q, p)), p_SkipQuestion = (\<lambda>p. (SectionDone, p)),
     p_AnswerHeader = wit_peek, p_SkipAnswer = wit_skip, p_AResource = wit_take, p_AAAAResource = wit_take\<rparr>"

definition wit_left :: "wit_state \<Rightarrow> nat" where
  "wit_left p = (case p of None \<Rightarrow> 0 | Some l \<Rightarrow> length l)"

definition wit_builder :: "uint16 dns_builder" where
  "wit_builder = \<lparr>b_NewName = (\<lambda>s. Some wit_name), b_StartQuestions = (\<lambda>i. Some i),
     b_Question = (\<lambda>q b. Some b), b_Finish = (\<lambda>b. ([0, 0] @ put_uint16_le b, True))\<rparr>"

definition wit_gonet :: "(unit, unit, unit, unit, unit) gonet_ops" where
  "wit_gonet = \<lparr>gonet_DialContextTCP = (\<lambda>c s fa pn. if pn = ipv4_ProtocolNumber then Inr () else Inl (ErrExt ''no route'')),
     gonet_DialTCP = (\<lambda>s fa pn. Inr ()), gonet_ListenTCP = (\<lambda>s fa pn. Inr ()),
     gonet_DialUDP = (\<lambda>s l r pn. Inr ()), NewEndpoint = (\<lambda>s t n. Inr ()), ep_Bind = (\<lambda>fa e. Inr ()),
     ep_Connect = (\<lambda>fa e. Inr ()), ep_Write = (\<lambda>p fa e. ((length p, None), ())),
     ep_ReadPacket = (\<lambda>n e. (Inl ''none'', ())), ep_Close = (\<lambda>e. e)\<rparr>"

definition wit_conn :: "(unit, unit) conn_ops" where
  "wit_conn = \<lparr>udp_SetDeadline = (\<lambda>c d. None), tcp_SetDeadline = (\<lambda>c d. None),
     udp_talk = (\<lambda>c b. Inr ([b], ErrEOF)), tcp_talk = (\<lambda>c b. Inr (b, ErrEOF))\<rparr>"

definition res_env :: "(unit, unit, unit, unit, unit) query_env" where
  "res_env = \<lparr>qe_gonet = wit_gonet, qe_conn = wit_conn, qe_rand = Some [7, 1], qe_now = 0\<rparr>"

definition wit_tun :: "unit netTun" where
  "wit_tun = \<lparr>stack = (), events = [], senders = [], tun_closed = False, mtu = 1420,
     dnsServers = [Some (Addr4 [10, 0, 0, 53])], hasV4 = True, hasV6 = True\<rparr>"

definition wit_view :: err_view where
  "wit_view = \<lparr>is_timeout = (\<lambda>e. False), is_OpError = (\<lambda>e. False), Addr_String = (\<lambda>a. ''10.0.0.1'')\<rparr>"

lemma wit_advances: "parser_advances wit_parser wit_left"
proof -
  have "wit_peek p = (Parsed t, p') \<Longrightarrow> wit_left p' \<le> wit_left p"
    "wit_take p = (Parsed b, p') \<Longrightarrow> wit_left p' < wit_left p"
    "wit_skip p = (Parsed u, p') \<Longrightarrow> wit_left p' < wit_left p" for p p' t b u
    by (cases p rule: wit_peek.cases; auto simp: wit_left_def)+
  then show ?thesis by (simp add: parser_advances_def wit_parser_def)
qed

theorem lookup_terminates_witness:
  "\<exists>r. LookupContextHost wit_parser wit_builder wit_view (\<lambda>k. res_env) (\<lambda>k. res_env) True wit_tun None ''a.b'' = Some r"
  by (rule lookup_terminates [OF wit_advances])

lemmas wit_simps = wit_parser_def wit_builder_def res_env_def wit_gonet_def wit_conn_def wit_tun_def wit_q_def
  wit_name_def wit_header_def zero_AddrPort_def

lemma wit_exchange:
  "exchange wit_parser wit_builder res_env wit_tun None (Some (Addr4 [10, 0, 0, 53])) wit_q 5000000000
     = Inr (Some [(TypeA, [10, 0, 0, 1])], wit_header (uint16_le [7, 1]))"
  by (simp add: exchange_def randU16_def newRequest_def exchange_round_def dnsPacketRoundTrip_def
      DialUDPAddrPort_def convertToFullAddr_def checkResponse_def equalASCIIName_def WithDeadline_def wit_simps)

theorem exchange_sound_witness:
  "\<exists>msg p0 q' p1. p_Start wit_parser msg = Some (wit_header (uint16_le [7, 1]), p0)
     \<and> p_Question wit_parser p0 = Some (q', p1) \<and> q_Type q' = q_Type wit_q
     \<and> name_text (qn_Name q') = name_text (qn_Name wit_q)"
proof -
  have "length (Data (qn_Name wit_q)) = 255" by (simp add: wit_q_def wit_name_def)
  moreover have "\<forall>p q' p'. p_Question wit_parser p = Some (q', p') \<longrightarrow> length (Data (qn_Name q')) = 255"
    by (simp add: wit_parser_def wit_q_def wit_name_def)
  ultimately show ?thesis using exchange_sound [OF wit_exchange] by blast
qed

text \<open>A library that cannot marshal a name with an empty label.\<close>

fun dot_dot :: "string \<Rightarrow> bool" where
  "dot_dot (a # b # s) = (a = CHR ''.'' \<and> b = CHR ''.'' \<or> dot_dot (b # s))"
| "dot_dot _ = False"

definition strict_builder :: "uint16 dns_builder" where
  "strict_builder = wit_builder\<lparr>b_NewName := (\<lambda>s. Some (wit_name\<lparr>Length := if dot_dot s then 1 else 0\<rparr>)),
     b_Question := (\<lambda>q b. if Length (qn_Name q) = 1 then None else Some b)\<rparr>"

lemma dot_dot_append: "dot_dot (pre @ ''..'' @ post)"
  by (induction pre rule: dot_dot.induct) auto

theorem fully_qualified_lookup_fails_witness:
  "\<exists>e. LookupContextHost wit_parser strict_builder wit_view (\<lambda>k. res_env) (\<lambda>k. res_env) False wit_tun None ''a.''
     = Some (Inl (Error e))"
proof (rule fully_qualified_lookup_fails)
  show "zero_unusable wit_parser" by (simp add: zero_unusable_def wit_parser_def)
  show "hasV4 wit_tun \<or> hasV6 wit_tun" by (simp add: wit_tun_def)
  show "isDomainName ''a.''" by code_simp
  show "ParseAddr (strip_zone ''a.'') = None" by code_simp
  show "\<forall>pre post n q b. b_NewName strict_builder (pre @ ''..'' @ post) = Some n \<longrightarrow> qn_Name q = n \<longrightarrow>
      b_Question strict_builder q b = None"
    using dot_dot_append by (auto simp: strict_builder_def)
qed (simp_all add: res_env_def)

definition wit_dial :: "nat \<Rightarrow> (unit, unit, unit, unit, unit) dial_env" where
  "wit_dial k = \<lparr>de_ctxErr = None, de_now = 0, de_gonet = wit_gonet\<rparr>"

theorem dial_first_reachable_witness:
  "\<exists>proto ver host port. protoSplitter ''tcp4'' = Some (proto, ver)
     \<and> split_target proto ''10.0.0.1:80'' = Inr (host, port)
     \<and> LookupContextHost wit_parser wit_builder wit_view (\<lambda>k. res_env) (\<lambda>k. res_env) True wit_tun None host
         = Some (Inr [''10.0.0.1''])"
proof -
  have pr: "protoSplitter ''tcp4'' = Some (Tcp, Some CHR ''4'')" by code_simp
  have sp: "split_target Tcp ''10.0.0.1:80'' = Inr (''10.0.0.1'', 80)" by code_simp
  have pa: "ParseAddr ''10.0.0.1'' = Some (Addr4 [10, 0, 0, 1])" by code_simp
  have zo: "strip_zone ''10.0.0.1'' = ''10.0.0.1''" by code_simp
  have look: "LookupContextHost wit_parser wit_builder wit_view (\<lambda>k. res_env) (\<lambda>k. res_env) True wit_tun None ''10.0.0.1''
      = Some (Inr [''10.0.0.1''])"
    by (simp add: LookupContextHost_def zo pa wit_view_def wit_tun_def)
  have "DialContext wit_parser wit_builder wit_view (\<lambda>k. res_env) (\<lambda>k. res_env) True wit_dial wit_tun (Some None)
      ''tcp4'' ''10.0.0.1:80'' = Some (Inr (TCPConn ()))"
    by (simp add: DialContext_def pr sp look List.map_filter_simps accept_addr_def pa dial_ctx_def dial_one_def
        DialContextTCPAddrPort_def convertToFullAddr_def wit_dial_def wit_gonet_def)
  from dial_first_reachable [OF this] show ?thesis using pr sp look by auto
qed

end
