(* ===== verification/Discovery.thy ===== *)
theory Discovery
  imports Gaters
begin

text \<open>
  \<open>p2p/discover.go\<close> and \<open>p2p/metrics.go\<close>: the loop that keeps the node connected to its peers, with its
  back-off; the peers mDNS reports; and the pings that measure latency.  The inputs of a loop are what its
  \<open>select\<close> receives, its effects the calls it makes.  Times are nanoseconds.
\<close>

section \<open>Discover\<close>

definition second :: int where "second = 1000000000"
definition millisecond :: int where "millisecond = 1000000"
definition minute :: int where "minute = 60 * second"

record discover_state =
  dur :: int
  ticker :: int

definition discover_init :: discover_state where
  "discover_init = \<lparr>dur = second, ticker = second\<rparr>"

text \<open>A tick meets the peers' connectedness and the outcome of connecting to those that are not.\<close>

datatype discover_input =
    CtxDone
  | DiscoverNow
  | Tick "peer_id \<Rightarrow> bool" "peer_id \<Rightarrow> bool"

datatype discover_effect = ConnectPeer peer_id | Bootstrap | RefreshRoutingTable

text \<open>The loop over the peers: the connection attempts, and \<open>connectedToAny\<close>.\<close>

fun connect_loop :: "(peer_id \<Rightarrow> bool) \<Rightarrow> (peer_id \<Rightarrow> bool) \<Rightarrow> Peer list \<Rightarrow> bool \<Rightarrow> discover_effect list \<times> bool" where
  "connect_loop connected ok [] connectedToAny = ([], connectedToAny)"
| "connect_loop connected ok (p # ps) connectedToAny =
     (if \<not> connected (ID p) then
        (let (evs, r) = connect_loop connected ok ps (if ok (ID p) then True else connectedToAny)
         in (ConnectPeer (ID p) # evs, r))
      else connect_loop connected ok ps True)"

definition discover_tick ::
  "Peer list \<Rightarrow> (peer_id \<Rightarrow> bool) \<Rightarrow> (peer_id \<Rightarrow> bool) \<Rightarrow> discover_state \<Rightarrow> discover_effect list \<times> discover_state" where
  "discover_tick peers connected ok s =
     (let (evs, connectedToAny) = connect_loop connected ok peers False in
      if \<not> connectedToAny then (evs @ [Bootstrap, RefreshRoutingTable], s\<lparr>dur := 10 * second, ticker := 10 * second\<rparr>)
      else (let d = min (dur s * 2) minute in (evs, s\<lparr>dur := d, ticker := d\<rparr>)))"

fun Discover :: "Peer list \<Rightarrow> discover_input list \<Rightarrow> discover_state \<Rightarrow> discover_effect list \<times> discover_state" where
  "Discover peers [] s = ([], s)"
| "Discover peers (CtxDone # ins) s = ([], s)"
| "Discover peers (DiscoverNow # ins) s = Discover peers ins (s\<lparr>dur := 3 * second, ticker := millisecond\<rparr>)"
| "Discover peers (Tick connected ok # ins) s =
     (let (evs, s') = discover_tick peers connected ok s; (evs', s'') = Discover peers ins s'
      in (evs @ evs', s''))"

section \<open>mDNS\<close>

definition HandlePeerFound :: "Peer list \<Rightarrow> 'ma AddrInfo \<Rightarrow> 'ma AddrInfo option" where
  "HandlePeerFound peers pi = (case FindPeer peers (ai_ID pi) of None \<Rightarrow> None | Some _ \<Rightarrow> Some pi)"

section \<open>RouteMetricsService\<close>

text \<open>Does an event start a goroutine that pings the peer?\<close>

definition metrics_event :: "Peer list \<Rightarrow> peer_id \<Rightarrow> connectedness \<Rightarrow> peer_id option" where
  "metrics_event peers p c =
     (case FindPeer peers p of
        None \<Rightarrow> None
      | Some _ \<Rightarrow> if c = ConnConnected then Some p else None)"

datatype ping_input = PingTimer | PingCtxDone | PingResult "go_error option" int
datatype ping_effect = CancelPing | RecordLatency peer_id int

fun ping_loop :: "peer_id \<Rightarrow> ping_input list \<Rightarrow> ping_effect list" where
  "ping_loop p [] = []"
| "ping_loop p (PingTimer # ins) = CancelPing # ping_loop p ins"
| "ping_loop p (PingCtxDone # ins) = []"
| "ping_loop p (PingResult e rtt # ins) =
     (if e = None then RecordLatency p rtt # ping_loop p ins else ping_loop p ins)"

section \<open>Facts\<close>

interpretation mdns_members: peer_directory "\<lambda>ps x. HandlePeerFound ps \<lparr>ai_ID = x, Addrs = []\<rparr> \<noteq> None"
  by unfold_locales (auto simp: HandlePeerFound_def FindPeer_None_iff split: option.splits dest: FindPeer_SomeD)

definition any_connected :: "(peer_id \<Rightarrow> bool) \<Rightarrow> (peer_id \<Rightarrow> bool) \<Rightarrow> Peer list \<Rightarrow> bool" where
  "any_connected connected ok peers \<longleftrightarrow> (\<exists>p \<in> set peers. connected (ID p) \<or> ok (ID p))"

lemma connect_loop_eq:
  "connect_loop connected ok peers c
     = (map (ConnectPeer \<circ> ID) (filter (\<lambda>p. \<not> connected (ID p)) peers), c \<or> any_connected connected ok peers)"
  by (induction peers arbitrary: c) (auto simp: any_connected_def)

lemma discover_tick_eq:
  "discover_tick peers connected ok s
     = (map (ConnectPeer \<circ> ID) (filter (\<lambda>p. \<not> connected (ID p)) peers)
          @ (if any_connected connected ok peers then [] else [Bootstrap, RefreshRoutingTable]),
        let d = (if any_connected connected ok peers then min (dur s * 2) minute else 10 * second)
        in s\<lparr>dur := d, ticker := d\<rparr>)"
  by (simp add: discover_tick_def connect_loop_eq Let_def)

definition interval_ok :: "discover_state \<Rightarrow> bool" where
  "interval_ok s \<longleftrightarrow> second \<le> dur s \<and> dur s \<le> minute \<and> (ticker s = dur s \<or> ticker s = millisecond)"

lemma interval_ok_init: "interval_ok discover_init"
  by (simp add: interval_ok_def discover_init_def second_def minute_def)

lemma interval_ok_tick: "interval_ok s \<Longrightarrow> interval_ok (snd (discover_tick peers connected ok s))"
  by (simp add: interval_ok_def discover_tick_eq second_def minute_def Let_def)

lemma interval_ok_Discover: "interval_ok s \<Longrightarrow> interval_ok (snd (Discover peers ins s))"
proof (induction peers ins s rule: Discover.induct)
  case (3 peers ins s)
  then show ?case by (simp add: interval_ok_def second_def minute_def)
next
  case (4 peers connected ok ins s)
  then show ?case using interval_ok_tick [OF 4(2), of peers connected ok] by (auto split: prod.splits)
qed simp_all

text \<open>Undisturbed, the interval doubles up to a minute.\<close>

lemma backoff:
  assumes "any_connected connected ok peers" and "interval_ok s"
  shows "dur (snd (Discover peers (replicate n (Tick connected ok)) s)) = min (2 ^ n * dur s) minute"
  using assms(2)
proof (induction n arbitrary: s)
  case 0
  then show ?case by (simp add: interval_ok_def)
next
  case (Suc n)
  have t: "snd (discover_tick peers connected ok s) = s\<lparr>dur := min (dur s * 2) minute, ticker := min (dur s * 2) minute\<rparr>"
    using assms(1) by (simp add: discover_tick_eq Let_def)
  have le: "minute \<le> 2 ^ n * minute"
    using mult_right_mono [of 1 "2 ^ n" minute] by (simp add: minute_def second_def)
  have "min (2 ^ n * min (dur s * 2) minute) minute = min (2 ^ Suc n * dur s) minute"
  proof (cases "dur s * 2 \<le> minute")
    case True
    then show ?thesis by (simp add: min_absorb1 ac_simps)
  next
    case False
    then have "2 ^ n * minute \<le> 2 ^ n * (dur s * 2)" by (intro mult_left_mono) auto
    from order_trans [OF le this] have "minute \<le> 2 ^ Suc n * dur s" by (simp add: ac_simps)
    then show ?thesis using False le by (simp add: min_absorb2)
  qed
  then show ?case
    using Suc.IH [OF interval_ok_tick [OF Suc.prems, of peers connected ok]] t by (simp add: case_prod_beta Let_def)
qed

text \<open>
  C27: Whatever the loop receives, the interval between attempts stays between one second and one minute,
  except for the immediate attempt after a request to rediscover; a tick tries to connect to exactly the
  peers that are not connected, and asks for new bootstrap nodes exactly when no peer is or could be
  connected; as long as some peer is connected the interval doubles up to a minute.
\<close>

theorem discover_schedule:
  fixes peers ins
  defines "s \<equiv> snd (Discover peers ins discover_init)"
  shows "second \<le> dur s \<and> dur s \<le> minute \<and> (ticker s = dur s \<or> ticker s = millisecond)
    \<and> (ConnectPeer p \<in> set (fst (discover_tick peers connected ok s)) \<longleftrightarrow> (\<exists>q \<in> set peers. ID q = p \<and> \<not> connected p))
    \<and> (Bootstrap \<in> set (fst (discover_tick peers connected ok s))
        \<longleftrightarrow> (\<forall>q \<in> set peers. \<not> connected (ID q) \<and> \<not> ok (ID q)))
    \<and> (any_connected connected ok peers
        \<longrightarrow> dur (snd (Discover peers (replicate n (Tick connected ok)) s)) = min (2 ^ n * dur s) minute)"
proof -
  have ok: "interval_ok s" unfolding s_def using interval_ok_Discover [OF interval_ok_init] .
  show ?thesis
    using ok backoff [OF _ ok]
    by (auto simp: interval_ok_def discover_tick_eq any_connected_def image_iff)
qed

theorem discover_schedule_witness:
  "dur (snd (Discover [\<lparr>ID = [1], Name = ''a'', BuiltinAddr4 = [], BuiltinAddr6 = []\<rparr>]
     (replicate 3 (Tick (\<lambda>p. True) (\<lambda>p. True))) discover_init)) = 8 * second"
  using discover_schedule [of "[\<lparr>ID = [1], Name = ''a'', BuiltinAddr4 = [], BuiltinAddr6 = []\<rparr>]" "[]" "[1]"
      "\<lambda>p. True" "\<lambda>p. True" 3]
  by (simp add: any_connected_def discover_init_def second_def minute_def)

lemma pings_recorded:
  "RecordLatency q r \<in> set (ping_loop p ins) \<Longrightarrow> q = p \<and> PingResult None r \<in> set ins"
  by (induction p ins rule: ping_loop.induct) (auto split: if_splits)

end
