(* ===== verification/Pex.thy ===== *)
theory Pex
  imports Gaters
begin

text \<open>
  \<open>p2p/pex.go\<close>: peer exchange.  A node that gets the line \<open>r\<close> from a configured peer answers with a line
  \<open>id|addr\<close> for every address it knows of its other peers.  Parameters: the textual forms of peer IDs and
  multiaddrs (record \<open>pex_text\<close>), the peerstore, and what a stream delivers.
\<close>

section \<open>Lines\<close>

record 'ma pex_text =
  id_text :: "peer_id \<Rightarrow> string"
  id_parse :: "string \<Rightarrow> go_error + peer_id"
  ma_text :: "'ma \<Rightarrow> string"
  ma_New :: "string \<Rightarrow> go_error + 'ma"

abbreviation newline :: char where
  "newline \<equiv> CHR 0x0A"

text \<open>
  \<open>bufio.Reader.ReadString\<close> on a stream that delivers the text and then fails: the line with its
  newline and the rest, or \<open>None\<close> when the failure comes first.
\<close>

fun ReadString :: "string \<Rightarrow> (string \<times> string) option" where
  "ReadString [] = None"
| "ReadString (c # cs) =
     (if c = newline then Some ([c], cs)
      else map_option (\<lambda>(l, r). (c # l, r)) (ReadString cs))"

lemma ReadString_length: "ReadString s = Some (l, r) \<Longrightarrow> length r < length s"
  by (induction s arbitrary: l r) (fastforce split: if_splits)+

lemma ReadString_line: "newline \<notin> set l \<Longrightarrow> ReadString (l @ newline # r) = Some (l @ [newline], r)"
  by (induction l) auto

section \<open>The handler\<close>

datatype pex_event = PexReset | PexWrote string | PexClosed

definition pex_line :: "'ma pex_text \<Rightarrow> peer_id \<Rightarrow> 'ma \<Rightarrow> string" where
  "pex_line T p a = id_text T p @ ''|'' @ ma_text T a @ [newline]"

text \<open>The writes in order; \<open>ok n\<close> says whether the \<open>n\<close>-th succeeds.  The result says whether all did.\<close>

fun pex_write :: "(nat \<Rightarrow> bool) \<Rightarrow> nat \<Rightarrow> string list \<Rightarrow> pex_event list \<times> bool" where
  "pex_write ok n [] = ([], True)"
| "pex_write ok n (l # ls) =
     (if ok n then (let (evs, r) = pex_write ok (Suc n) ls in (PexWrote l # evs, r))
      else ([PexReset], False))"

definition pex_lines ::
  "'ma pex_text \<Rightarrow> Peer list \<Rightarrow> (peer_id \<Rightarrow> 'ma list) \<Rightarrow> peer_id \<Rightarrow> string list" where
  "pex_lines T peers addrs remote =
     concat (map (\<lambda>p. if ID p \<noteq> remote then map (pex_line T (ID p)) (addrs (ID p)) else []) peers)"

definition NewPeXStreamHandler ::
  "'ma pex_text \<Rightarrow> Peer list \<Rightarrow> (peer_id \<Rightarrow> 'ma list) \<Rightarrow> (nat \<Rightarrow> bool) \<Rightarrow> peer_id \<Rightarrow> string \<Rightarrow> pex_event list" where
  "NewPeXStreamHandler T peers addrs ok remote inp =
     (if \<not> list_ex (\<lambda>p. ID p = remote) peers then [PexReset]
      else (case ReadString inp of
              None \<Rightarrow> [PexReset]
            | Some (line, _) \<Rightarrow>
                if TrimSuffix line [newline] = ''r'' then
                  (let (evs, r) = pex_write ok 0 (pex_lines T peers addrs remote)
                   in if r then evs @ [PexClosed] else evs)
                else []))"

section \<open>RequestPeX\<close>

text \<open>The loop that reads the answer of one peer: the text the stream delivers before it fails with \<open>e\<close>.\<close>

function pex_read :: "'ma pex_text \<Rightarrow> go_error \<Rightarrow> string \<Rightarrow> 'ma AddrInfo list \<Rightarrow> 'ma AddrInfo list res" where
  "pex_read T e s addrInfos =
     (case ReadString s of
        None \<Rightarrow> if e = ErrEOF then Inr addrInfos else Inl (Error e)
      | Some (line, rest) \<Rightarrow>
          let splits = Split (TrimSuffix line [newline]) CHR ''|'' in
          if length splits < 2 then Inl (Panic IndexOutOfRange)
          else (case id_parse T (splits ! 0) of
                  Inl e' \<Rightarrow> Inl (Error e')
                | Inr peerId \<Rightarrow>
                    (case ma_New T (splits ! 1) of
                       Inl e' \<Rightarrow> Inl (Error e')
                     | Inr ma \<Rightarrow> pex_read T e rest (addrInfos @ [\<lparr>ai_ID = peerId, Addrs = [ma]\<rparr>]))))"
  by pat_completeness auto
termination
  by (relation "measure (\<lambda>(T, e, s, a). length s)") (auto dest: ReadString_length)

declare pex_read.simps [simp del]

text \<open>
  \<open>open_stream p\<close>: the failure to open a stream to \<open>p\<close>, or what \<open>p\<close> sends in answer to the request and the
  error that ends it.  Every way through the body of the loop returns.
\<close>

fun RequestPeX ::
  "'ma pex_text \<Rightarrow> (peer_id \<Rightarrow> go_error + string \<times> go_error) \<Rightarrow> peer_id list \<Rightarrow> 'ma AddrInfo list res" where
  "RequestPeX T open_stream [] = Inr []"
| "RequestPeX T open_stream (p # ps) =
     (case open_stream p of
        Inl e \<Rightarrow> Inl (Error e)
      | Inr (s, e) \<Rightarrow> pex_read T e s [])"

section \<open>The service and the routing\<close>

text \<open>Whom \<open>PeXService\<close> asks on a change of a peer's connectedness.\<close>

definition pex_ask :: "Peer list \<Rightarrow> peer_id \<Rightarrow> connectedness \<Rightarrow> peer_id list option" where
  "pex_ask peers p c =
     (case FindPeer peers p of
        None \<Rightarrow> None
      | Some _ \<Rightarrow>
          (case c of
             ConnConnected \<Rightarrow> Some [p]
           | ConnNotConnected \<Rightarrow> Some (map ID peers)
           | ConnOther \<Rightarrow> None))"

datatype 'ma pex_effect = AddAddrs peer_id "'ma list" | ConnectTo "'ma AddrInfo"

definition PeXService_event ::
  "'ma pex_text \<Rightarrow> (peer_id \<Rightarrow> go_error + string \<times> go_error) \<Rightarrow> Peer list \<Rightarrow> peer_id \<Rightarrow> connectedness
    \<Rightarrow> 'ma pex_effect list res" where
  "PeXService_event T open_stream peers p c =
     (case pex_ask peers p c of
        None \<Rightarrow> Inr []
      | Some ps \<Rightarrow>
          (case RequestPeX T open_stream ps of
             Inl (Error e) \<Rightarrow> Inr []
           | Inl f \<Rightarrow> Inl f
           | Inr addrInfos \<Rightarrow> Inr (concat (map (\<lambda>ai. [AddAddrs (ai_ID ai) (Addrs ai), ConnectTo ai]) addrInfos))))"

definition PeXRouting_FindPeer ::
  "'ma pex_text \<Rightarrow> (peer_id \<Rightarrow> go_error + string \<times> go_error) \<Rightarrow> Peer list \<Rightarrow> peer_id \<Rightarrow> 'ma AddrInfo res" where
  "PeXRouting_FindPeer T open_stream vpnPeers targetPeer =
     (if \<not> list_ex (\<lambda>p. ID p = targetPeer) vpnPeers then Inl (Error ErrNotFound)
      else bind_res (RequestPeX T open_stream (map ID vpnPeers)) (\<lambda>addrInfos.
        Inr \<lparr>ai_ID = targetPeer, Addrs = concat (map Addrs (filter (\<lambda>ai. ai_ID ai = targetPeer) addrInfos))\<rparr>))"

section \<open>Facts\<close>

text \<open>The loop of the handler, and that of \<open>FindPeer\<close>, decide membership in the peer list.\<close>

interpretation pex_members: peer_directory "\<lambda>ps x. list_ex (\<lambda>p. ID p = x) ps"
  by unfold_locales (auto simp: list_ex_iff)

text \<open>What the textual forms are relied on for: they decode, and do not contain the separators.\<close>

definition pex_text_ok :: "'ma pex_text \<Rightarrow> bool" where
  "pex_text_ok T \<longleftrightarrow> (\<forall>p. id_parse T (id_text T p) = Inr p \<and> CHR ''|'' \<notin> set (id_text T p) \<and> newline \<notin> set (id_text T p))
     \<and> (\<forall>a. ma_New T (ma_text T a) = Inr a \<and> CHR ''|'' \<notin> set (ma_text T a) \<and> newline \<notin> set (ma_text T a))"

lemma pex_read_line:
  assumes "pex_text_ok T"
  shows "pex_read T e (pex_line T p a @ s) acc = pex_read T e s (acc @ [\<lparr>ai_ID = p, Addrs = [a]\<rparr>])"
proof -
  let ?l = "id_text T p @ ''|'' @ ma_text T a"
  have rd: "ReadString (pex_line T p a @ s) = Some (?l @ [newline], s)"
    using assms ReadString_line [of ?l s] by (simp add: pex_line_def pex_text_ok_def)
  have sp: "Split (id_text T p @ CHR ''|'' # ma_text T a) CHR ''|'' = [id_text T p, ma_text T a]"
    using assms Split_append_sep [of "CHR ''|''" "id_text T p" "ma_text T a"]
    by (simp add: pex_text_ok_def Split_no_sep)
  have "TrimSuffix (?l @ [newline]) [newline] = ?l" by (rule TrimSuffix_append)
  then show ?thesis
    using assms by (subst pex_read.simps) (simp add: rd sp pex_text_ok_def Let_def)
qed

lemma pex_read_lines:
  assumes "pex_text_ok T"
  shows "pex_read T ErrEOF (concat (map (\<lambda>(p, a). pex_line T p a) pas)) acc
    = Inr (acc @ map (\<lambda>(p, a). \<lparr>ai_ID = p, Addrs = [a]\<rparr>) pas)"
proof (induction pas arbitrary: acc)
  case Nil
  then show ?case by (subst pex_read.simps) simp
next
  case (Cons pa pas)
  then show ?case by (cases pa) (simp add: pex_read_line [OF assms])
qed

text \<open>The pairs of peer and address a node tells \<open>remote\<close>.\<close>

definition known :: "Peer list \<Rightarrow> (peer_id \<Rightarrow> 'ma list) \<Rightarrow> peer_id \<Rightarrow> (peer_id \<times> 'ma) list" where
  "known peers addrs remote = concat (map (\<lambda>p. map (Pair (ID p)) (addrs (ID p))) (filter (\<lambda>p. ID p \<noteq> remote) peers))"

lemma pex_lines_known: "pex_lines T peers addrs remote = map (\<lambda>(p, a). pex_line T p a) (known peers addrs remote)"
  by (induction peers) (auto simp: pex_lines_def known_def)

lemma pex_write_ok: "(\<forall>n. ok n) \<Longrightarrow> pex_write ok k ls = (map PexWrote ls, True)"
  by (induction ls arbitrary: k) auto

fun sent :: "pex_event list \<Rightarrow> string" where
  "sent [] = []"
| "sent (PexWrote l # evs) = l @ sent evs"
| "sent (_ # evs) = sent evs"

lemma sent_append [simp]: "sent (xs @ ys) = sent xs @ sent ys"
  by (induction xs rule: sent.induct) auto

lemma sent_map [simp]: "sent (map PexWrote ls) = concat ls"
  by (induction ls) auto

lemma sent_map_comp [simp]: "sent (map (PexWrote \<circ> f) xs) = concat (map f xs)"
  by (simp flip: map_map)

section \<open>Exchange between two nodes\<close>


text \<open>A concrete encoding: a byte is that many letters and a stop, an address a number of letters.\<close>

definition unary_text :: "byte list \<Rightarrow> string" where
  "unary_text p = concat (map (\<lambda>b. replicate (unat b) CHR ''x'' @ ''.'') p)"

fun unary_decode :: "nat \<Rightarrow> string \<Rightarrow> byte list" where
  "unary_decode n [] = []"
| "unary_decode n (c # cs) = (if c = CHR ''.'' then of_nat n # unary_decode 0 cs else unary_decode (Suc n) cs)"

lemma unary_roundtrip: "unary_decode 0 (unary_text p) = p"
proof -
  have byte: "unary_decode n (replicate k CHR ''x'' @ CHR ''.'' # s) = of_nat (n + k) # unary_decode 0 s" for n k s
    by (induction k arbitrary: n) auto
  show ?thesis by (induction p) (simp_all add: unary_text_def byte)
qed

definition wit_text :: "nat pex_text" where
  "wit_text = \<lparr>id_text = unary_text, id_parse = (\<lambda>s. Inr (unary_decode 0 s)),
     ma_text = (\<lambda>n. replicate n CHR ''a''), ma_New = (\<lambda>s. Inr (length s))\<rparr>"

lemma wit_text_ok: "pex_text_ok wit_text"
  by (auto simp: pex_text_ok_def wit_text_def unary_roundtrip) (auto simp: unary_text_def split: if_splits)

definition pex_peer :: "peer_id \<Rightarrow> Peer" where
  "pex_peer i = \<lparr>ID = i, Name = ''p'', BuiltinAddr4 = [], BuiltinAddr6 = []\<rparr>"


text \<open>
  Only the first peer of the list is ever asked: \<open>RequestPeX\<close> returns at the end of the first answer, so
  a second peer changes nothing, and when the first cannot be reached no address is found, whoever else
  could have answered.
\<close>

theorem pex_asks_first_only:
  "RequestPeX T open_stream (p # ps) = RequestPeX T open_stream [p]
   \<and> (open_stream p = Inl e \<longrightarrow> vpnPeers = q # rest \<longrightarrow> ID q = p \<longrightarrow> target \<in> ID ` set vpnPeers
        \<longrightarrow> PeXRouting_FindPeer T open_stream vpnPeers target = Inl (Error e))"
  by (auto simp: PeXRouting_FindPeer_def pex_members.known_iff)

end
