(* ===== verification/Libp2pNode.thy ===== *)
theory Libp2pNode
  imports Pex Streams
begin

text \<open>
  \<open>p2p/node.go\<close>, \<open>p2p/addrs.go\<close> and \<open>p2p/addrs_linux.go\<close>: the creation of the libp2p node, the addresses it
  listens on, the peers an IPFS node knows, and the peers that are offered as relays.  Parameters: libp2p,
  the DHT and the HTTP routing client (record \<open>create_env\<close>), the IPFS API and its JSON (\<open>ipfs_api\<close>), the
  network interfaces (\<open>iface_env\<close>).
\<close>

section \<open>Peers from an IPFS node\<close>

datatype json_value = JString string | JOther

text \<open>
  The answer of the API: nothing when the request or reading its body fails, otherwise the body.  \<open>json\<close> is
  \<open>json.Unmarshal\<close> at the two types used: the list under \<open>Peers\<close> as far as it could be decoded.
\<close>

record 'ma ipfs_api =
  api_ip4 :: "'ma \<Rightarrow> string option"
  api_tcp :: "'ma \<Rightarrow> string option"
  PostForm :: "string \<Rightarrow> string option"
  json_objects :: "string \<Rightarrow> (string \<rightharpoonup> json_value) list"
  json_strings :: "string \<Rightarrow> string list"

definition api_body :: "'ma ipfs_api \<Rightarrow> 'ma \<Rightarrow> string \<Rightarrow> string option" where
  "api_body A addr path =
     (case api_ip4 A addr of
        None \<Rightarrow> None
      | Some ip4 \<Rightarrow>
          (case api_tcp A addr of
             None \<Rightarrow> None
           | Some port \<Rightarrow> PostForm A (''http://'' @ ip4 @ '':'' @ port @ path)))"

text \<open>\<open>v[key].(string)\<close>: a missing key gives nil, which is no string either.\<close>

definition string_field :: "(string \<rightharpoonup> json_value) \<Rightarrow> string \<Rightarrow> string res" where
  "string_field v key = (case v key of Some (JString s) \<Rightarrow> Inr s | _ \<Rightarrow> Inl (Panic TypeAssertion))"

definition getExtraPeers :: "'ma ipfs_api \<Rightarrow> 'ma \<Rightarrow> string list res" where
  "getExtraPeers A addr =
     (case api_body A addr ''/api/v0/swarm/peers'' of
        None \<Rightarrow> Inr []
      | Some body \<Rightarrow>
          mapM_res (\<lambda>v. bind_res (string_field v ''Addr'') (\<lambda>a.
                        bind_res (string_field v ''Peer'') (\<lambda>p. Inr (a @ ''/p2p/'' @ p))))
            (json_objects A body))"

definition getExtraBootstrapNodes :: "'ma ipfs_api \<Rightarrow> 'ma \<Rightarrow> string list" where
  "getExtraBootstrapNodes A addr =
     (case api_body A addr ''/api/v0/bootstrap'' of None \<Rightarrow> [] | Some body \<Rightarrow> json_strings A body)"

section \<open>Parsing\<close>

record 'ma addr_parsers =
  parse_ma :: "string \<Rightarrow> go_error + 'ma"
  AddrInfoFromP2pAddr :: "'ma \<Rightarrow> go_error + 'ma AddrInfo"

definition of_go :: "go_error + 'a \<Rightarrow> 'a res" where
  "of_go r = map_sum Error (\<lambda>x. x) r"

definition parsePeerAddrs :: "'ma addr_parsers \<Rightarrow> string list \<Rightarrow> 'ma AddrInfo list res" where
  "parsePeerAddrs Q peers =
     mapM_res (\<lambda>s. bind_res (of_go (parse_ma Q s)) (\<lambda>a. of_go (AddrInfoFromP2pAddr Q a))) peers"

definition addrInfosFromMultiaddrs :: "'ma addr_parsers \<Rightarrow> 'ma list \<Rightarrow> 'ma AddrInfo list res" where
  "addrInfosFromMultiaddrs Q addrs = mapM_res (\<lambda>a. of_go (AddrInfoFromP2pAddr Q a)) addrs"

section \<open>Listen addresses\<close>

text \<open>A link with its type and its addresses, or the failure to list them.\<close>

record iface_link =
  link_Type :: string
  link_Addrs :: "go_error + IP list"

record 'ma iface_env =
  LinkList :: "go_error + iface_link list"
  InterfaceMultiaddrs :: "go_error + 'ma list"
  IsIPLoopback :: "'ma \<Rightarrow> bool"
  ToIP :: "'ma \<Rightarrow> go_error + IP"
  ResolveUnspecifiedAddresses :: "'ma list \<Rightarrow> 'ma list \<Rightarrow> go_error + 'ma list"

definition physicalInterfaceAddrs :: "'ma iface_env \<Rightarrow> go_error + IP list" where
  "physicalInterfaceAddrs F =
     (case LinkList F of
        Inl e \<Rightarrow> Inl e
      | Inr links \<Rightarrow>
          Inr (concat (map (\<lambda>l. if link_Type l \<noteq> ''device'' then []
                               else (case link_Addrs l of Inl e \<Rightarrow> [] | Inr addrs \<Rightarrow> addrs)) links)))"

definition usable_addr :: "'ma iface_env \<Rightarrow> IP list \<Rightarrow> 'ma \<Rightarrow> bool" where
  "usable_addr F physAddrs addr \<longleftrightarrow>
     \<not> IsIPLoopback F addr
     \<and> (case ToIP F addr of Inl e \<Rightarrow> True | Inr ipAddr \<Rightarrow> list_ex (\<lambda>phys. IP_Equal phys ipAddr) physAddrs)"

definition resolveListenAddrs :: "'ma iface_env \<Rightarrow> 'ma list \<Rightarrow> 'ma list" where
  "resolveListenAddrs F addrs =
     (case physicalInterfaceAddrs F of
        Inl e \<Rightarrow> addrs
      | Inr physAddrs \<Rightarrow>
          if physAddrs = [] then addrs
          else (case InterfaceMultiaddrs F of
                  Inl e \<Rightarrow> addrs
                | Inr ifaceAddrs \<Rightarrow>
                    (case ResolveUnspecifiedAddresses F addrs (filter (usable_addr F physAddrs) ifaceAddrs) of
                       Inl e \<Rightarrow> addrs
                     | Inr resolved \<Rightarrow> resolved)))"

section \<open>CreateNode\<close>

text \<open>
  The environment: the two environment variables, opening and decoding the swarm key, libp2p's
  constructor (on the pre-shared key, which may be nil, and the listen addresses), \<open>dht.New\<close> and
  \<open>drclient.New\<close>.
\<close>

record ('ma, 'h, 'd) create_env =
  env_SWARM_KEY :: "string option"
  env_IPFS_API :: "string option"
  os_Open :: "string \<Rightarrow> go_error + string"
  DecodeV1PSK :: "string \<Rightarrow> go_error + byte list"
  libp2p_New :: "byte list option \<Rightarrow> 'ma list \<Rightarrow> go_error + 'h"
  dht_New :: "'h \<Rightarrow> 'ma AddrInfo list \<Rightarrow> go_error + 'd"
  drclient_New :: "go_error option"

datatype routing_kind = PeXRoute | DHTRoute | HTTPRoute

record ('ma, 'h, 'd) created =
  cn_host :: 'h
  cn_psk :: "byte list option"
  cn_peerstore :: "'ma AddrInfo list"
  cn_bootstrap :: "'ma AddrInfo list"
  cn_routing :: "routing_kind list"
  cn_handlers :: "string list"
  cn_dht :: "'d option"

text \<open>\<open>pnet.DecodeV1PSK\<close>'s error is dropped: the key is nil then, and a nil key makes no private network.\<close>

definition swarm_psk :: "('ma, 'h, 'd) create_env \<Rightarrow> byte list option res" where
  "swarm_psk C =
     (case env_SWARM_KEY C of
        None \<Rightarrow> Inr None
      | Some file \<Rightarrow>
          (case os_Open C file of
             Inl e \<Rightarrow> Inl (Error e)
           | Inr content \<Rightarrow> Inr (case DecodeV1PSK C content of Inl e \<Rightarrow> None | Inr key \<Rightarrow> Some key)))"

definition extra_peers :: "'ma addr_parsers \<Rightarrow> 'ma ipfs_api \<Rightarrow> string option \<Rightarrow> 'ma AddrInfo list res" where
  "extra_peers Q A api =
     (case api of
        None \<Rightarrow> Inr []
      | Some s \<Rightarrow>
          (case parse_ma Q s of
             Inl e \<Rightarrow> Inr []
           | Inr addr \<Rightarrow>
               bind_res (getExtraPeers A addr) (\<lambda>strs.
                 (case parsePeerAddrs Q strs of
                    Inl (Error e) \<Rightarrow> Inr []
                  | Inl f \<Rightarrow> Inl f
                  | Inr infos \<Rightarrow> Inr infos))))"

text \<open>The function given to \<open>dht.BootstrapPeersFunc\<close>.\<close>

definition bootstrap_peers ::
  "'ma addr_parsers \<Rightarrow> 'ma ipfs_api \<Rightarrow> string option \<Rightarrow> 'ma AddrInfo list \<Rightarrow> 'ma AddrInfo list" where
  "bootstrap_peers Q A api static =
     (let extra = (case api of
            None \<Rightarrow> []
          | Some s \<Rightarrow> (case parse_ma Q s of Inl e \<Rightarrow> [] | Inr addr \<Rightarrow> getExtraBootstrapNodes A addr))
      in case parsePeerAddrs Q extra of Inl e \<Rightarrow> static | Inr dyn \<Rightarrow> static @ dyn)"

definition CreateNode ::
  "('ma, 'h, 'd) create_env \<Rightarrow> 'ma iface_env \<Rightarrow> 'ma addr_parsers \<Rightarrow> 'ma ipfs_api \<Rightarrow> 'ma list \<Rightarrow> 'ma list
    \<Rightarrow> ('ma, 'h, 'd) created res" where
  "CreateNode C F Q A listenAddreses bootstrapPeers =
     bind_res (swarm_psk C) (\<lambda>psk.
       let resolved = resolveListenAddrs F listenAddreses in
     bind_res (of_go (libp2p_New C psk resolved)) (\<lambda>basicHost.
     bind_res (addrInfosFromMultiaddrs Q bootstrapPeers) (\<lambda>static.
     bind_res (extra_peers Q A (env_IPFS_API C)) (\<lambda>extra.
       let dhtOut = (case dht_New C basicHost static of Inl e \<Rightarrow> None | Inr d \<Rightarrow> Some d) in
       (case drclient_New C of
          Some e \<Rightarrow> Inl (Error e)
        | None \<Rightarrow>
            Inr \<lparr>cn_host = basicHost, cn_psk = psk, cn_peerstore = extra, cn_bootstrap = static,
              cn_routing = [PeXRoute, DHTRoute, HTTPRoute], cn_handlers = Protocols, cn_dht = dhtOut\<rparr>)))))"

section \<open>Relays\<close>

text \<open>One round of the goroutine that offers the connected peers to the relay finder.\<close>

fun relay_feed ::
  "ClosedCircuitRelayFilter \<Rightarrow> nat \<Rightarrow> 'ma list \<Rightarrow> (peer_id \<Rightarrow> 'ma AddrInfo) \<Rightarrow> peer_id list \<Rightarrow> 'ma AddrInfo list res" where
  "relay_feed acl relayCount addrs info [] = Inr []"
| "relay_feed acl relayCount addrs info (p # ps) =
     (if relayCount < 2 then bind_res (relay_feed acl relayCount addrs info ps) (\<lambda>r. Inr (info p # r))
      else if addrs = [] then Inl (Panic IndexOutOfRange)
      else if AllowReserve acl p then bind_res (relay_feed acl relayCount addrs info ps) (\<lambda>r. Inr (info p # r))
      else relay_feed acl relayCount addrs info ps)"

text \<open>The peer source of the relay finder: what its goroutine receives, and what it passes on.\<close>

datatype 'a source_input = SourceValue 'a | SourceClosed | SourceDone

fun peer_source :: "int \<Rightarrow> 'a source_input list \<Rightarrow> 'a list" where
  "peer_source numPeers [] = []"
| "peer_source numPeers (i # ins) =
     (if numPeers = 0 then []
      else (case i of
              SourceValue v \<Rightarrow> v # peer_source (numPeers - 1) ins
            | SourceClosed \<Rightarrow> []
            | SourceDone \<Rightarrow> []))"

section \<open>Properties\<close>

lemma of_go_Inr [simp]: "of_go r = Inr x \<longleftrightarrow> r = Inr x"
  by (cases r) (auto simp: of_go_def)


lemma physical_device:
  assumes "physicalInterfaceAddrs F = Inr phys" and "q \<in> set phys"
  shows "\<exists>l links. LinkList F = Inr links \<and> l \<in> set links \<and> link_Type l = ''device''
    \<and> (\<exists>as. link_Addrs l = Inr as \<and> q \<in> set as)"
proof -
  obtain links where links: "LinkList F = Inr links"
    using assms(1) by (auto simp: physicalInterfaceAddrs_def split: sum.splits)
  have "\<exists>l \<in> set links. link_Type l = ''device'' \<and> (\<exists>as. link_Addrs l = Inr as \<and> q \<in> set as)"
    using assms links by (auto simp: physicalInterfaceAddrs_def split: if_splits) (metis (lifting))
  then show ?thesis using links by blast
qed


text \<open>A relay finder that asks for \<open>n\<close> peers gets at most \<open>n\<close>, and only peers that were offered.\<close>

lemma peer_source_bound:
  "0 \<le> n \<Longrightarrow> int (length (peer_source n ins)) \<le> n \<and> set (peer_source n ins) \<subseteq> {v. SourceValue v \<in> set ins}"
  by (induction n ins rule: peer_source.induct) (auto split: source_input.split)

text \<open>With two relays, only peers of the VPN are offered as further ones.\<close>

lemma relay_feed_vpn_only:
  "relay_feed (NewClosedCircuitRelayFilter peers) k addrs info ps = Inr r \<Longrightarrow> 2 \<le> k \<Longrightarrow>
     set r \<subseteq> info ` {p. FindPeer peers p \<noteq> None}"
  by (induction ps arbitrary: r)
    (auto simp: bind_res_eq_Inr_iff AllowReserve_def NewClosedCircuitRelayFilter_def split: if_splits)

section \<open>A concrete environment\<close>

text \<open>Addresses are IPs; \<open>[0, 0, 0, 0]\<close> is the unspecified one.  There is a physical link and a tunnel.\<close>

definition wit_iface :: "IP iface_env" where
  "wit_iface = \<lparr>LinkList = Inr [\<lparr>link_Type = ''device'', link_Addrs = Inr [[192, 168, 0, 2]]\<rparr>,
       \<lparr>link_Type = ''tuntap'', link_Addrs = Inr [[100, 64, 0, 1]]\<rparr>],
     InterfaceMultiaddrs = Inr [[127, 0, 0, 1], [192, 168, 0, 2], [100, 64, 0, 1]],
     IsIPLoopback = (\<lambda>a. hd a = 127), ToIP = (\<lambda>a. Inr a),
     ResolveUnspecifiedAddresses = (\<lambda>as is. Inr (concat (map (\<lambda>a. if a = [0, 0, 0, 0] then is else [a]) as)))\<rparr>"

lemma wit_resolved: "resolveListenAddrs wit_iface [[0, 0, 0, 0]] = [[192, 168, 0, 2]]"
  by (simp add: resolveListenAddrs_def physicalInterfaceAddrs_def usable_addr_def wit_iface_def)


definition wit_create :: "(IP, unit, unit) create_env" where
  "wit_create = \<lparr>env_SWARM_KEY = Some ''key'', env_IPFS_API = None, os_Open = (\<lambda>f. Inr ''garbage''),
     DecodeV1PSK = (\<lambda>s. Inl (ErrExt ''malformed'')), libp2p_New = (\<lambda>k as. Inr ()),
     dht_New = (\<lambda>h b. Inl (ErrExt ''no dht'')), drclient_New = None\<rparr>"

definition wit_parsers :: "IP addr_parsers" where
  "wit_parsers = \<lparr>parse_ma = (\<lambda>s. Inr []), AddrInfoFromP2pAddr = (\<lambda>a. Inr \<lparr>ai_ID = a, Addrs = [a]\<rparr>)\<rparr>"

definition wit_api :: "IP ipfs_api" where
  "wit_api = \<lparr>api_ip4 = (\<lambda>a. None), api_tcp = (\<lambda>a. None), PostForm = (\<lambda>u. None),
     json_objects = (\<lambda>b. []), json_strings = (\<lambda>b. [])\<rparr>"


end
