(* ===== verification/Cli.thy ===== *)
theory Cli
  imports Rpc Node
begin

text \<open>
  The package \<open>cli\<close>: what each command of the program does with its flags.  A command is the list of
  its effects up to a call of \<open>log.Fatal\<close>.  Parameters: the key and encoding libraries (record
  \<open>key_ops\<close>), the file system and host name (\<open>cli_os\<close>), and the textual forms of networks and IDs.
\<close>

section \<open>Flags\<close>

record GlobalFlags =
  flag_Config :: string
  InterfaceName :: string

definition ifName_of :: "GlobalFlags \<Rightarrow> string" where
  "ifName_of f = (if InterfaceName f = [] then ''hyprspace'' else InterfaceName f)"

definition configPath_of :: "GlobalFlags \<Rightarrow> string" where
  "configPath_of f = (if flag_Config f = [] then ''/etc/hyprspace/'' @ ifName_of f @ ''.json'' else flag_Config f)"

definition checkErr :: "go_error option \<Rightarrow> unit res" where
  "checkErr err = (case err of None \<Rightarrow> Inr () | Some e \<Rightarrow> Inl (Fatal ''error''))"

section \<open>Output\<close>

fun Itoa :: "nat \<Rightarrow> string" where
  "Itoa n = (if n < 10 then [char_of (48 + n)] else Itoa (n div 10) @ [char_of (48 + n mod 10)])"

declare Itoa.simps [simp del]

fun Contains_str :: "string \<Rightarrow> string \<Rightarrow> bool" where
  "Contains_str [] sub = (sub = [])"
| "Contains_str (c # cs) sub = (HasPrefix (c # cs) sub \<or> Contains_str cs sub)"

definition colorMultiaddr :: "string \<Rightarrow> string" where
  "colorMultiaddr s =
     (if HasSuffix s ''/p2p-circuit'' \<or> Contains_str s ''/p2p-circuit/p2p/''
      then CHR 0x1B # ''[90m'' @ s @ CHR 0x1B # ''[0m'' else s)"

definition printListF :: "string list \<Rightarrow> (string \<Rightarrow> string) \<Rightarrow> string list" where
  "printListF strs handler = map (\<lambda>s. ''    '' @ handler s) strs"

text \<open>
  The commands that ask the running daemon: \<open>dial\<close> and \<open>call\<close> are those of \<open>rpc_call\<close>; a failure of
  either ends the process.
\<close>

definition status_lines :: "bool \<Rightarrow> StatusReply \<Rightarrow> string list" where
  "status_lines isTTY status =
     (let maybeColorMultiaddr = (if \<not> isTTY then (\<lambda>s. s) else colorMultiaddr)
      in [''PeerID: '' @ PeerID status, ''Swarm peers: '' @ Itoa (SwarmPeersCurrent status),
          ''Connected VPN nodes: '' @ Itoa (NetPeersCurrent status) @ ''/'' @ Itoa (NetPeersMax status)]
         @ printListF (NetPeerAddrsCurrent status) maybeColorMultiaddr
         @ [''Addresses:''] @ printListF (ListenAddrs status) maybeColorMultiaddr)"

definition StatusRun ::
  "(string \<Rightarrow> go_error + 'c) \<Rightarrow> ('c \<Rightarrow> string \<Rightarrow> go_error + StatusReply) \<Rightarrow> bool \<Rightarrow> GlobalFlags \<Rightarrow> string list res" where
  "StatusRun dial call isTTY flags =
     bind_res (rpc_call dial call (ifName_of flags) ''HyprspaceRPC.Status'') (\<lambda>status. Inr (status_lines isTTY status))"

definition PeersRun ::
  "(string \<Rightarrow> go_error + 'c) \<Rightarrow> ('c \<Rightarrow> string \<Rightarrow> go_error + string list) \<Rightarrow> GlobalFlags \<Rightarrow> string list res" where
  "PeersRun dial call flags = rpc_call dial call (ifName_of flags) ''HyprspaceRPC.Peers''"

definition route_line :: "(IPNet \<Rightarrow> string) \<Rightarrow> (peer_id \<Rightarrow> string) \<Rightarrow> RouteInfo \<Rightarrow> string" where
  "route_line net_text id_str r =
     (let target0 = (if IsRelay r
            then ''/p2p/'' @ id_str (RelayAddr r) @ ''/p2p-circuit/p2p/'' @ id_str (TargetAddr r)
            else ''/p2p/'' @ id_str (TargetAddr r));
          target = (if TargetName r \<noteq> [] then ''@'' @ TargetName r @ '' '' @ target0 else target0);
          connectStatus = (if IsConnected r then '' connected'' else [])
      in net_text (ri_Network r) @ '' via '' @ target @ connectStatus)"

definition RouteRun ::
  "(IPNet \<Rightarrow> string) \<Rightarrow> (peer_id \<Rightarrow> string) \<Rightarrow> (string \<Rightarrow> go_error + 'c)
    \<Rightarrow> (string \<times> string list \<Rightarrow> 'c \<Rightarrow> string \<Rightarrow> go_error + RouteInfo list) \<Rightarrow> GlobalFlags \<Rightarrow> string \<Rightarrow> string list
    \<Rightarrow> string list res" where
  "RouteRun net_text id_str dial call flags action args =
     bind_res (rpc_call dial (call (action, args)) (ifName_of flags) ''HyprspaceRPC.Route'')
       (\<lambda>routes. Inr (map (route_line net_text id_str) routes))"

definition Spinner :: "string list" where
  "Spinner = [''|'', ''/'', ''-'', [CHR 0x5C]]"

text \<open>The frames \<open>SpinnerWait\<close> prints before \<open>done\<close> is signalled.\<close>

definition SpinnerWait :: "nat \<Rightarrow> string \<Rightarrow> string list" where
  "SpinnerWait ticks message = map (\<lambda>frame. ''['' @ Spinner ! (frame mod length Spinner) @ ''] '' @ message) [0..<ticks]"

section \<open>Keys\<close>

record 'key key_ops =
  crypto_GenerateKeyPair :: "go_error + 'key"
  MarshalPrivateKey :: "'key \<Rightarrow> go_error + byte list"
  key_ID :: "'key \<Rightarrow> go_error + peer_id"
  multibase_Encode :: "byte list \<Rightarrow> string"
  key_id_text :: "peer_id \<Rightarrow> string"

definition GenerateKeyPair :: "'key key_ops \<Rightarrow> go_error + (byte list \<times> peer_id)" where
  "GenerateKeyPair K =
     (case crypto_GenerateKeyPair K of
        Inl e \<Rightarrow> Inl e
      | Inr privKey \<Rightarrow>
          (case MarshalPrivateKey K privKey of
             Inl e \<Rightarrow> Inl e
           | Inr keyBytes \<Rightarrow>
               (case key_ID K privKey of Inl e \<Rightarrow> Inl e | Inr peerId \<Rightarrow> Inr (keyBytes, peerId))))"

datatype cli_effect =
    MkdirAll string
  | CreateFile string
  | WriteConfig string "byte list"
  | WriteFile string string nat     \<comment> \<open>path, content, permissions\<close>
  | Stdout string
  | Stderr string

record cli_os =
  json_Marshal :: "schema_Config \<Rightarrow> go_error + byte list"
  mkdir_err :: "go_error option"
  create_err :: "go_error option"
  write_err :: "go_error option"
  close_err :: "go_error option"
  writefile_err :: "string \<Rightarrow> go_error option"
  cli_Hostname :: "go_error + string"
  path_Dir :: "string \<Rightarrow> string"

section \<open>init\<close>

definition default_listen :: "string list" where
  "default_listen = [''/ip4/0.0.0.0/tcp/8001'', ''/ip4/0.0.0.0/udp/8001/quic-v1'',
     ''/ip6/::/tcp/8001'', ''/ip6/::/udp/8001/quic-v1'']"

definition new_config :: "'key key_ops \<Rightarrow> byte list \<Rightarrow> schema_Config" where
  "new_config K keyBytes =
     \<lparr>sc_PrivateKey = multibase_Encode K keyBytes, sc_ListenAddresses = default_listen, sc_Peers = [],
      sc_Services = [], sc_FilterPrivateAddresses = False, sc_Domain = [], sc_BootstrapPeers = []\<rparr>"

text \<open>The entry \<open>init\<close> suggests for the other peers.\<close>

definition peer_entry :: "'key key_ops \<Rightarrow> cli_os \<Rightarrow> string \<Rightarrow> peer_id \<Rightarrow> cli_effect list" where
  "peer_entry K S flagName peerId =
     (let name = (if flagName = [] then (case cli_Hostname S of Inl e \<Rightarrow> [] | Inr h \<Rightarrow> h) else flagName)
      in [Stdout ''Add this entry to your other peers:'', Stdout ''{'']
         @ (if name \<noteq> [] then [Stdout (''  \"name\": \"'' @ name @ ''\",'')] else [])
         @ [Stdout (''  \"id\": \"'' @ key_id_text K peerId @ ''\"''), Stdout ''}''])"

definition InitRun :: "'key key_ops \<Rightarrow> cli_os \<Rightarrow> GlobalFlags \<Rightarrow> string \<Rightarrow> cli_effect list \<times> unit res" where
  "InitRun K S flags flagName =
     (let configPath = configPath_of flags in
      case GenerateKeyPair K of
        Inl e \<Rightarrow> ([], checkErr (Some e))
      | Inr (keyBytes, peerId) \<Rightarrow>
          (case json_Marshal S (new_config K keyBytes) of
             Inl e \<Rightarrow> ([], checkErr (Some e))
           | Inr out \<Rightarrow>
               if mkdir_err S \<noteq> None then ([MkdirAll (path_Dir S configPath)], checkErr (mkdir_err S))
               else if create_err S \<noteq> None
                 then ([MkdirAll (path_Dir S configPath), CreateFile configPath], checkErr (create_err S))
               else
                 let evs = [MkdirAll (path_Dir S configPath), CreateFile configPath, WriteConfig configPath out] in
                 if write_err S \<noteq> None then (evs, checkErr (write_err S))
                 else if close_err S \<noteq> None then (evs, checkErr (close_err S))
                 else (evs @ [Stdout (''Initialized new config at '' @ configPath)] @ peer_entry K S flagName peerId, Inr ())))"

section \<open>keygen\<close>

definition KeygenRun :: "'key key_ops \<Rightarrow> cli_os \<Rightarrow> string \<Rightarrow> string \<Rightarrow> cli_effect list \<times> unit res" where
  "KeygenRun K S privateKeyFile publicKeyFile =
     (if privateKeyFile = [] then ([], Inl (Fatal ''--private-key-file is required''))
      else (case GenerateKeyPair K of
        Inl e \<Rightarrow> ([], checkErr (Some e))
      | Inr (keyBytes, peerId) \<Rightarrow>
          let encoded = multibase_Encode K keyBytes;
              priv = WriteFile privateKeyFile encoded 384;
              id_str = key_id_text K peerId
          in if writefile_err S privateKeyFile \<noteq> None then ([priv], checkErr (writefile_err S privateKeyFile))
             else if publicKeyFile \<noteq> [] then
               (let evs = [priv, Stderr (''Private key written to '' @ privateKeyFile), WriteFile publicKeyFile id_str 420] in
                if writefile_err S publicKeyFile \<noteq> None then (evs, checkErr (writefile_err S publicKeyFile))
                else (evs @ [Stderr (''Public key written to '' @ publicKeyFile)], Inr ()))
             else ([priv, Stderr (''Private key written to '' @ privateKeyFile), Stdout id_str], Inr ())))"

section \<open>up\<close>

datatype signal = Rebootstrap | Exit

datatype up_effect = Rebootstrapped | Stopped "stop_step list"

text \<open>
  The loop over the signals: the effects, and the exit status, \<open>None\<close> while the loop waits.  A second
  exit signal while \<open>Stop\<close> runs ends the process at once; it is not among the signals here.
\<close>

fun up_loop :: "stop_step list \<times> go_error option \<Rightarrow> signal list \<Rightarrow> up_effect list \<times> unit res option" where
  "up_loop stop [] = ([], None)"
| "up_loop stop (Rebootstrap # sigs) = (let (evs, r) = up_loop stop sigs in (Rebootstrapped # evs, r))"
| "up_loop stop (Exit # sigs) = ([Stopped (fst stop)], Some (checkErr (snd stop)))"

definition UpRun ::
  "('ma, 'f) run_env \<Rightarrow> ('ma, 'key, 'r) config_env \<Rightarrow> (string \<Rightarrow> string \<Rightarrow> ('ma, 'key, 'r) Node)
    \<Rightarrow> stop_step list \<times> go_error option \<Rightarrow> GlobalFlags \<Rightarrow> signal list
    \<Rightarrow> run_step list \<times> up_effect list \<times> unit res option" where
  "UpRun env cenv new_node stop flags sigs =
     (let (steps, r) = Run env cenv (new_node (configPath_of flags) (ifName_of flags)) in
      case r of
        Inl (Error e) \<Rightarrow> (steps, [], Some (checkErr (Some e)))
      | Inl f \<Rightarrow> (steps, [], Some (Inl f))
      | Inr _ \<Rightarrow> (let (evs, x) = up_loop stop sigs in (steps, evs, x)))"

section \<open>The configuration init writes\<close>


section \<open>A concrete key and file system\<close>

definition wit_keys :: "unit key_ops" where
  "wit_keys = \<lparr>crypto_GenerateKeyPair = Inr (), MarshalPrivateKey = (\<lambda>k. Inr [9]), key_ID = (\<lambda>k. Inr [1, 2]),
     multibase_Encode = map (\<lambda>b. char_of (unat b)), key_id_text = (\<lambda>p. ''Qm'')\<rparr>"

definition wit_os :: cli_os where
  "wit_os = \<lparr>json_Marshal = (\<lambda>c. if c = new_config wit_keys [9] then Inr [1] else Inl (ErrExt ''json'')),
     mkdir_err = None, create_err = None, write_err = None, close_err = None, writefile_err = (\<lambda>p. None),
     cli_Hostname = Inr ''box'', path_Dir = (\<lambda>p. p)\<rparr>"

definition wit_read :: "(string, unit, ranger_entry list) config_env" where
  "wit_read = \<lparr>os_ReadFile = (\<lambda>_. Inr [1]), json_Unmarshal = (\<lambda>_. Inr (new_config wit_keys [9])),
     multibase_Decode = (\<lambda>s. Inr (bytes_of s)), UnmarshalPrivateKey = (\<lambda>_. Inr ()),
     IDFromPrivateKey = (\<lambda>_. Inr [1, 2]), NewMultiaddr = (\<lambda>s. Inr s),
     peer_Decode = (\<lambda>s. Inr (bytes_of s)), peer_String = (\<lambda>p. ''Qm''),
     unicode_ToLower = (\<lambda>s. s), ranger = list_ranger\<rparr>"

lemma wit_bytes: "bytes_of (map (\<lambda>b. char_of (unat b)) bs) = (bs :: byte list)"
proof -
  have "(of_char (char_of (unat b)) :: byte) = b" for b :: byte
  proof -
    have "(of_char (char_of (unat b)) :: byte) = of_nat (of_char (char_of (unat b)))" by (simp only: of_nat_of_char)
    also have "\<dots> = of_nat (unat b mod 256)" by (simp only: of_char_of)
    also have "\<dots> = b" using unsigned_less [of b, where 'a = nat] by simp
    finally show ?thesis .
  qed
  then show ?thesis by (induction bs) (simp_all add: bytes_of_def)
qed


end
