(* ===== verification/Spec2Isabelle.thy ===== *)
theory Spec2Isabelle
  imports ConfigProps StreamsProps SvcProps DnsProps RpcProps NodeProps ResolverProps Discovery Libp2pNode Cli
begin

text \<open>
  \<^bold>\<open>A verification development for Hyprspace\<close>, a peer-to-peer VPN written in Go.

  \<^bold>\<open>The program.\<close>  A node reads a configuration (\<open>src/config\<close>), derives the addresses of itself, of its
  peers and of their services from peer IDs (\<open>config/idhash.go\<close>), opens a TUN device (\<open>src/tun\<close>), creates a
  libp2p host (\<open>src/p2p\<close>) and then moves IP packets between the device and one stream per peer
  (\<open>node/node.go\<close>).  Packets to a service address do not go to a peer directly: a user-space TCP/IP stack
  (\<open>src/netstack\<close>) terminates them and a proxy copies bytes to the peer that offers the service
  (\<open>src/svc\<close>).  A DNS server (\<open>src/dns\<close>) names peers and services, an RPC server (\<open>src/rpc\<close>) lets the command
  line (\<open>src/cli\<close>) look at the daemon and change its routes.

  \<^bold>\<open>Theories and the code they model.\<close>
  \<^item> \<open>Prelude\<close>, \<open>GoStd\<close>, \<open>GoNet\<close>, \<open>GoCIDR\<close>: failures (errors, panics, process exits) as values, and what the
    program uses of Go's packages \<open>strings\<close>, \<open>encoding/binary\<close>, \<open>net\<close> and \<open>net/netip\<close>, with the address
    parsers written out.
  \<^item> \<open>IdHash\<close>, \<open>Config\<close>, \<open>ConfigProps\<close>: \<open>config/idhash.go\<close> and \<open>config/config.go\<close>, bytes as 8-bit words; the whole
    of \<open>Read\<close>, all look-ups.  The prefix trie is a parameter with the law \<open>ranger_spec\<close>.
  \<^item> \<open>Streams\<close>, \<open>StreamsProps\<close>: \<open>streamHandler\<close>, \<open>sendPacket\<close> and the table of active streams of
    \<open>node/node.go\<close>; the goroutines that share the table are the step relation \<open>node_step\<close>.
  \<^item> \<open>Pipe\<close>, \<open>Svc\<close>, \<open>SvcProps\<close>: \<open>svc/pipe.go\<close>, \<open>wrapper.go\<close>, \<open>proxy.go\<close>, \<open>network.go\<close>, \<open>receiver.go\<close>.  The Go
    interface \<open>streamable\<close> is a locale, interpreted on the two kinds of stream the program pipes; the
    copying goroutines run under an arbitrary schedule.
  \<^item> \<open>Dns\<close>, \<open>DnsProps\<close>: \<open>dns/server.go\<close>, \<open>dns/config.go\<close>.
  \<^item> \<open>Gaters\<close>: \<open>p2p/filter.go\<close>, \<open>multigater.go\<close>, \<open>routing.go\<close>, \<open>relay.go\<close>; the contract of a gate is the locale
    \<open>gater\<close>, interpreted on each gate and on the composition the node uses.
  \<^item> \<open>Pex\<close>, \<open>Discovery\<close>, \<open>Libp2pNode\<close>: \<open>p2p/pex.go\<close>; \<open>p2p/discover.go\<close> and \<open>metrics.go\<close>; \<open>p2p/node.go\<close>, \<open>addrs.go\<close>,
    \<open>addrs_linux.go\<close>.
  \<^item> \<open>Tun\<close>: \<open>tun/options.go\<close>, \<open>tun.go\<close> and the three back ends.  \<open>Rpc\<close>, \<open>RpcProps\<close>: \<open>rpc/server.go\<close>, \<open>client.go\<close>,
    \<open>types.go\<close>.
  \<^item> \<open>Node\<close>, \<open>NodeProps\<close>: \<open>New\<close>, \<open>Run\<close> with its steps and failures, the dispatch loop, \<open>Stop\<close> of \<open>node/node.go\<close>.
  \<^item> \<open>Netstack\<close>, \<open>Resolver\<close>, \<open>Dialer\<close>, \<open>ResolverProps\<close>: \<open>netstack/tun.go\<close> and \<open>tun_extra.go\<close>: the device and its
    sockets over gVisor, the stub resolver, \<open>DialContext\<close>.
  \<^item> \<open>Cli\<close>: the commands of \<open>src/cli\<close>.
  \<^item> This theory: the service network on its TCP/IP stack, and the property that spans \<open>Node\<close>, \<open>Svc\<close> and
    \<open>Netstack\<close>.

  \<^bold>\<open>How state and effects are modelled.\<close>  A struct is a record with the source's field names; a handler is
  a function from its state and from what it meets to its new state and the list of its effects in order; a
  returned error, a panic and \<open>log.Fatal\<close> are the constructors of \<open>failure\<close>.  Integers keep their width
  where it matters: bytes, ports and lengths are words, durations saturate as in Go.  Code outside the
  repository (libp2p, the prefix trie, gVisor, the DNS library, netlink, key and encoding libraries) is a
  record of functions given to the definitions; what is relied on is stated as a named hypothesis
  (\<open>ranger_spec\<close>, \<open>filters_spec\<close>, \<open>pex_text_ok\<close>, \<open>parser_advances\<close>, ...), and each property with such a
  hypothesis has a witness with a concrete instance.

  \<^bold>\<open>What the theorems show.\<close>
  \<^item> Tunnel: packets survive the framing for every division of the stream that keeps headers whole; every
    active stream has a live handler under every interleaving; writes to the device are bounded.
  \<^item> Routing: \<open>Read\<close> builds a table of configured peers only, a packet goes to the peer of the only route that
    contains its destination, and the RPC calls refine an abstract table.
  \<^item> Services: only admitted peers reach a service, both ends of a session agree, copying is faithful and
    ends, and a packet for a service reaches the stack and a proxy for exactly that service.
  \<^item> Naming: the DNS server answers only with addresses of the node and its peers; the resolver accepts only
    matching responses, always returns, and a dial uses the first reachable address in its time.
  \<^item> Start-up and peers: the order of \<open>Run\<close>, the gates, what \<open>CreateNode\<close> sets up, the addresses it listens
    on, peer exchange, the discovery interval, and that \<open>up\<close> can read what \<open>init\<close> wrote.
  \<^item> Failures: the panics and lost errors found while modelling are theorems too (overlapping routes, an
    oversized header, a stream that arrives before \<open>Run\<close> made its table, fully qualified host names, peer
    exchange that asks one peer only).

  \<^bold>\<open>Loops and bounds.\<close>  Loops over finite input are structural or have a measure (\<open>read_body\<close> by what the
  stream still holds, \<open>pex_read\<close> by the rest of the text).  Loops whose end depends on the message library
  (\<open>skipToAnswer\<close>, \<open>answers_loop\<close>) are \<open>partial_function\<close>s with \<open>None\<close> for not returning, and are proved to
  return.  Loops that serve forever are functions of the finite sequence of what their \<open>select\<close> received.
  No fuel is used.  The constants are the program's: buffers of 1420, 1024 and 512 bytes, two rounds of DNS
  servers, at most one minute between discovery attempts.

  \<^bold>\<open>Not modelled.\<close>  The bodies of the external libraries; logging; deadlines of proxied streams beyond passing
  them on; the registration of commands with the flag parser (\<open>cli/root.go\<close>), the one-line \<open>hyprspace.go\<close> and
  the generated package \<open>schema\<close>; \<open>SetupMDNS\<close>, \<open>Rediscover\<close> and \<open>Rebootstrap\<close>, which only call a library or
  send on a channel; wall-clock behaviour such as sleeps.  The memory model is sequential consistency at the
  granularity of the mutexes the program takes.
\<close>

section \<open>Who is a peer\<close>

text \<open>
  The stream handler, the service handler, mDNS, peer exchange and the relay each decide by a loop of
  their own whether an ID is that of a configured peer.  They agree.
\<close>

lemma membership_tests_agree:
  "(FindPeer ps x \<noteq> None) = list_ex (\<lambda>p. ID p = x) ps"
  "AllowReserve (NewClosedCircuitRelayFilter ps) x = list_ex (\<lambda>p. ID p = x) ps"
  "(HandlePeerFound ps \<lparr>ai_ID = x, Addrs = []\<rparr> \<noteq> None) = list_ex (\<lambda>p. ID p = x) ps"
  by (simp_all only: findpeer.known_iff relay_acl.known_iff mdns_members.known_iff pex_members.known_iff)

section \<open>The service network and its TCP/IP stack\<close>

text \<open>
  \<open>NewServiceNetwork\<close> creates the stack with one internal address and without DNS servers.  A listener of
  \<open>EnsureListener\<close> is opened on it after the address was added, unless it was there.
\<close>

definition service_stack :: "'s stack_ops \<Rightarrow> 's netTun res" where
  "service_stack S = CreateNetTUN S [Some (Addr6 ([0xfd, 0] @ bytes_of ''hyprspinternal'') [])] [] 1420"

definition stack_listen ::
  "'s stack_ops \<Rightarrow> ('s, 'tc, 'tl, 'uc, 'ep) gonet_ops \<Rightarrow> 's netTun \<Rightarrow> byte list set \<Rightarrow> byte list \<Rightarrow> uint16
    \<Rightarrow> go_error option" where
  "stack_listen S G tun active addr port =
     (let tun' = (if addr \<in> active then tun else snd (AddProtocolAddress S ipv6_ProtocolNumber addr tun))
      in case ListenTCP G tun' (Some (addr, uint port)) of Inl e \<Rightarrow> Some e | Inr l \<Rightarrow> None)"

lemma service_stack_spec:
  assumes "service_stack S = Inr tun"
  shows "hasV6 tun \<and> \<not> hasV4 tun \<and> dnsServers tun = [] \<and> mtu tun = 1420 \<and> events tun = [EventUp]"
  using assms
  by (auto simp: service_stack_def CreateNetTUN_def bind_res_eq_Inr_iff Let_def split: prod.splits option.splits)

text \<open>The stack has no resolver, whatever message library it uses.\<close>

lemma service_stack_no_lookup:
  assumes "service_stack S = Inr tun" and "zero_unusable P" and "isDomainName host" and "ParseAddr (strip_zone host) = None"
  shows "\<exists>e. LookupContextHost P B V X4 X6 v6_first tun ctx host = Some (Inl (Error e))"
  using no_servers_no_lookup [OF assms(2) _ _ assms(3,4)] service_stack_spec [OF assms(1)] by blast

lemma ListenTCP_v6:
  "length addr = 16 \<Longrightarrow> ListenTCP G tun (Some (addr, uint port))
     = gonet_ListenTCP G (stack tun) \<lparr>NIC = 1, fa_Addr = addr, fa_Port = port\<rparr> ipv6_ProtocolNumber"
  by (simp add: ListenTCP_def ListenTCPAddrPort_def addr_port_of_def AddrFromSlice_def convertToFullAddr_def)

lemma Write_v6:
  assumes "packet \<noteq> []" and "drop_bit 4 (packet ! 0) = 6"
  shows "netTun_Write S [packet] 0 tun
    = (Inr 1, tun\<lparr>stack := InjectInbound S ipv6_ProtocolNumber packet (stack tun)\<rparr>)"
  using assms by (simp add: netTun_Write_def)

lemma version_nibble: "(b :: byte) AND 0xf0 = 0x60 \<Longrightarrow> drop_bit 4 b = 6"
proof -
  assume "b AND 0xf0 = 0x60"
  then have "drop_bit 4 (b AND 0xf0) = 6" by simp
  moreover have "drop_bit 4 (b AND 0xf0) = drop_bit 4 b"
  proof (rule bit_word_eqI)
    fix n
    have "bit b (4 + n) \<Longrightarrow> n = 0 \<or> n = 1 \<or> n = 2 \<or> n = 3"
      using bit_imp_le_length [of b "4 + n"] by auto
    moreover have "n = 0 \<or> n = 1 \<or> n = 2 \<or> n = 3 \<Longrightarrow> bit (0xf0 :: byte) (4 + n)" by (elim disjE) simp_all
    ultimately show "bit (drop_bit 4 (b AND 0xf0)) n = bit (drop_bit 4 b) n"
      by (simp only: bit_drop_bit_eq bit_and_iff comp_def) blast
  qed
  ultimately show ?thesis by simp
qed

text \<open>
  C9: From the TUN device to the service stack: a TCP packet read from the device for the address of a
  service on a configured peer makes the stack listen on exactly that address and port, hands the
  listener to a proxy that asks that peer for that service, and is injected into the stack as an IPv6
  packet, so that the stack's TCP sees it.
\<close>

theorem service_packet_end_to_end:
  assumes "NetworkRange sn = svc_range" and "sn_inv sn" and "sn_self sn \<noteq> MkNetID pid"
    and "length packet = 1420" and "packet ! 0 AND 0xf0 = 0x60" and "packet ! 6 = 6"
    and "take 16 (drop 24 packet) = MkServiceAddr6 pid name"
    and "cfg_BuiltinAddr6 cfg = mkBuiltinAddr6 me"
    and "ByNetID (PeerLookup cfg) (MkNetID pid) = Some p"
    and "\<not> listening sn (MkServiceAddr6 pid name) (packet_port packet)"
    and "\<And>s. gonet_ListenTCP G s \<lparr>NIC = 1, fa_Addr = MkServiceAddr6 pid name, fa_Port = packet_port packet\<rparr>
        ipv6_ProtocolNumber = Inr l"
  shows "\<exists>evs sn'. dispatch R cfg (stack_listen S G tun (activeAddrs sn)) packet plen sn
        = Inr (ServiceWrite packet (evs @ [Serve (MkServiceAddr6 pid name) (packet_port packet)
            (RemoteServiceProxy (ID p) (MkServiceID name))]), sn')
      \<and> listening sn' (MkServiceAddr6 pid name) (packet_port packet)
      \<and> netTun_Write S [packet] 0 tun'
          = (Inr 1, tun'\<lparr>stack := InjectInbound S ipv6_ProtocolNumber packet (stack tun')\<rparr>)"
proof -
  have "length (MkServiceAddr6 pid name) = 16" by (simp add: MkServiceAddr6_eq)
  then have "stack_listen S G tun (activeAddrs sn) (MkServiceAddr6 pid name) (packet_port packet) = None"
    using assms(11) by (simp add: stack_listen_def ListenTCP_v6 Let_def)
  from dispatch_service [where listenTCP = "stack_listen S G tun (activeAddrs sn)", OF assms(1-5,7-10) this, of R plen]
  obtain evs sn' where d: "dispatch R cfg (stack_listen S G tun (activeAddrs sn)) packet plen sn
        = Inr (ServiceWrite packet (evs @ [Serve (MkServiceAddr6 pid name) (packet_port packet)
            (RemoteServiceProxy (ID p) (MkServiceID name))]), sn')"
      "listening sn' (MkServiceAddr6 pid name) (packet_port packet)"
    using assms(6) by auto
  have "packet \<noteq> []" using assms(4) by auto
  from Write_v6 [OF this version_nibble [OF assms(5)], of S tun'] show ?thesis using d by blast
qed

definition wit_stack :: "unit stack_ops" where
  "wit_stack = \<lparr>stack_New = (\<lambda>m. ()), EnableSACK = (\<lambda>s. (None, ())), CreateNIC = (\<lambda>s. (None, ())),
     stack_AddProtocolAddress = (\<lambda>p a s. (None, ())), AddRoute = (\<lambda>p s. ()), InjectInbound = (\<lambda>p b s. ()),
     ep_Read = (\<lambda>s. None), view_Read = (\<lambda>n b. Inr (take n b)), stack_Close = (\<lambda>s. ())\<rparr>"

theorem service_packet_end_to_end_witness:
  "\<exists>evs sn'. dispatch list_ranger wit_table_cfg (stack_listen wit_stack wit_gonet wit_tun (activeAddrs wit_sn6)) wit_packet6 60 wit_sn6
     = Inr (ServiceWrite wit_packet6 (evs @ [Serve (MkServiceAddr6 [7] ''web'') (packet_port wit_packet6)
         (RemoteServiceProxy [7] (MkServiceID ''web''))]), sn')
   \<and> fst (netTun_Write wit_stack [wit_packet6] 0 wit_tun) = Inr 1"
proof -
  have ne: "sn_self wit_sn6 \<noteq> MkNetID [7]" by (simp add: wit_sn6_def) code_simp
  have sn: "NetworkRange wit_sn6 = svc_range" "sn_inv wit_sn6"
    "\<not> listening wit_sn6 (MkServiceAddr6 [7] ''web'') (packet_port wit_packet6)"
    by (simp_all add: wit_sn6_def sn_inv_def listening_def)
  have pk: "length wit_packet6 = 1420" "wit_packet6 ! 0 AND 0xf0 = 0x60" "wit_packet6 ! 6 = 6"
    "take 16 (drop 24 wit_packet6) = MkServiceAddr6 [7] ''web''"
    by (simp_all add: wit_packet6_def)
  have cfg: "cfg_BuiltinAddr6 wit_table_cfg = mkBuiltinAddr6 [1]"
    "ByNetID (PeerLookup wit_table_cfg) (MkNetID [7]) = Some (wit_peer [7] ''a'')"
    by (simp_all add: wit_table_cfg_def)
  have "gonet_ListenTCP wit_gonet s \<lparr>NIC = 1, fa_Addr = MkServiceAddr6 [7] ''web'', fa_Port = packet_port wit_packet6\<rparr>
      ipv6_ProtocolNumber = Inr ()" for s
    by (simp add: wit_gonet_def)
  from service_packet_end_to_end [OF sn(1,2) ne pk cfg sn(3) this,
      of list_ranger wit_stack wit_tun 60 wit_tun] show ?thesis
    by (auto simp: wit_peer_def)
qed

end
